(* ===== verification/Prelude.thy ===== *)
theory Prelude
  imports Complex_Main "HOL-Library.Word" "HOL-Library.Sublist"
begin

text \<open>
  Shared vocabulary of the development: results of fallible Go functions, Go maps,
  64-bit integers, and the fact collections the component theories fill.

  \<^item> A Go function that returns a value and an \<^verbatim>\<open>error\<close> becomes a function into
    \<open>'e + 'a\<close>: \<open>Inl\<close> is the non-nil error, \<open>Inr\<close> the value.
  \<^item> A Go string or byte slice is a \<open>string\<close>, that is a list of bytes (\<open>char\<close>).
  \<^item> A Go map that is only looked up and stored into is a partial function
    \<open>'k \<rightharpoonup> 'v\<close>; a Go map the code counts or ranges over is an association list, whose
    order stands for the (unspecified) iteration order of Go.
  \<^item> An \<^verbatim>\<open>int64\<close> is an \<open>int\<close>; arithmetic that can leave the range goes through \<open>wrap64\<close>.
\<close>

section \<open>Collections of facts\<close>

named_theorems go_eval \<open>equations that evaluate the standard library functions on literals\<close>
named_theorems model_defs \<open>definitions of operations without recursion\<close>
named_theorems keeps_inv \<open>every operation keeps the invariant of its component\<close>

section \<open>Results\<close>

type_synonym bytes = string
type_synonym instant = int
type_synonym duration = int

fun is_ok :: "'e + 'a \<Rightarrow> bool" where
  "is_ok (Inl _) = False"
| "is_ok (Inr _) = True"

lemma is_ok_iff: "is_ok r \<longleftrightarrow> (\<exists>a. r = Inr a)"
  by (cases r) auto

section \<open>Association lists as Go maps\<close>

text \<open>
  \<open>alist_get\<close> is the comma-ok lookup, \<open>alist_put\<close> the assignment \<^verbatim>\<open>m[k] = v\<close>, which keeps the
  position of a present key and adds an absent one; \<open>alist_remove\<close> deletes a key.
\<close>

definition alist_get :: "('k \<times> 'v) list \<Rightarrow> 'k \<Rightarrow> 'v option" where
  "alist_get m k = map_of m k"

fun alist_put :: "('k \<times> 'v) list \<Rightarrow> 'k \<Rightarrow> 'v \<Rightarrow> ('k \<times> 'v) list" where
  "alist_put [] k v = [(k, v)]"
| "alist_put ((k', v') # m) k v =
     (if k' = k then (k, v) # m else (k', v') # alist_put m k v)"

lemma alist_get_put [simp]:
  "alist_get (alist_put m k v) k' = (if k' = k then Some v else alist_get m k')"
  by (induction m k v rule: alist_put.induct) (auto simp: alist_get_def)

lemma alist_get_Nil [simp]: "alist_get [] k = None"
  by (simp add: alist_get_def)

lemma alist_get_Cons [simp]:
  "alist_get ((k, v) # m) k' = (if k' = k then Some v else alist_get m k')"
  by (simp add: alist_get_def)

lemma keys_alist_put: "fst ` set (alist_put m k v) = insert k (fst ` set m)"
  by (induction m k v rule: alist_put.induct) auto

lemma distinct_alist_put:
  "distinct (map fst m) \<Longrightarrow> distinct (map fst (alist_put m k v))"
proof (induction m k v rule: alist_put.induct)
  case (2 k' v' m k v)
  then show ?case
    using keys_alist_put [of m k v] by (auto simp flip: set_map)
qed simp

lemma alist_get_permute:
  assumes "distinct (map fst m)" "distinct (map fst m')" "set m = set m'"
  shows "alist_get m = alist_get m'"
proof -
  from assms have "map_of m = map_of m'"
    by (simp only: map_of_inject_set)
  then show ?thesis by (simp add: alist_get_def fun_eq_iff)
qed

definition alist_remove :: "('k \<times> 'v) list \<Rightarrow> 'k \<Rightarrow> ('k \<times> 'v) list" where
  "alist_remove m k = filter (\<lambda>(k', v). k' \<noteq> k) m"

lemma alist_get_None: "alist_get m k = None \<longleftrightarrow> k \<notin> fst ` set m"
  by (simp add: alist_get_def map_of_eq_None_iff)

lemma alist_get_remove [simp]: "alist_get (alist_remove m k) k' = (if k' = k then None else alist_get m k')"
  by (induction m) (auto simp: alist_remove_def)

lemma keys_alist_remove [simp]: "fst ` set (alist_remove m k) = fst ` set m - {k}"
  by (auto simp: alist_remove_def)

lemma distinct_alist_remove: "distinct (map fst m) \<Longrightarrow> distinct (map fst (alist_remove m k))"
  by (induction m) (auto simp: alist_remove_def)

lemma length_alist_remove: "length (alist_remove m k) \<le> length m"
  by (simp add: alist_remove_def)

lemma length_alist_remove_in:
  assumes "distinct (map fst m)" "k \<in> fst ` set m"
  shows "length (alist_remove m k) = length m - 1"
proof -
  have "length (alist_remove m k) = card (fst ` set m - {k})"
    using distinct_alist_remove [OF assms(1), of k] distinct_card [of "map fst (alist_remove m k)"] by (simp flip: keys_alist_remove)
  also have "\<dots> = length m - 1" using assms distinct_card [of "map fst m"] by simp
  finally show ?thesis .
qed

section \<open>64-bit signed integers\<close>

text \<open>\<open>wrap64\<close> reduces an integer to the value an \<^verbatim>\<open>int64\<close> operation yields for it.\<close>

definition wrap64 :: "int \<Rightarrow> int" where
  "wrap64 x = (x + 2 ^ 63) mod 2 ^ 64 - 2 ^ 63"

definition in_int64 :: "int \<Rightarrow> bool" where
  "in_int64 x \<longleftrightarrow> - (2 ^ 63) \<le> x \<and> x < 2 ^ 63"

lemma wrap64_range: "in_int64 (wrap64 x)"
proof -
  have "0 \<le> (x + 2 ^ 63) mod 2 ^ 64" "(x + 2 ^ 63) mod 2 ^ 64 < (2 ^ 64 :: int)"
    by simp_all
  then show ?thesis by (simp add: wrap64_def in_int64_def)
qed

lemma wrap64_id [simp]: "in_int64 x \<Longrightarrow> wrap64 x = x"
  by (simp add: wrap64_def in_int64_def)

text \<open>The same reduction read off a 64-bit word in two's complement.\<close>

lemma wrap64_sint: "wrap64 x = sint (word_of_int x :: 64 word)"
proof -
  have "sint (word_of_int x :: 64 word) = signed_take_bit 63 x"
    by (simp add: sint_uint unsigned_of_int signed_take_bit_take_bit)
  also have "\<dots> = wrap64 x"
    by (simp add: signed_take_bit_eq_take_bit_shift take_bit_eq_mod wrap64_def)
  finally show ?thesis by simp
qed

section \<open>Lists\<close>

lemma sorted_wrt_less_distinct: "sorted_wrt (<) (xs :: 'a :: linorder list) \<Longrightarrow> distinct xs"
  by (simp add: strict_sorted_iff)

lemma filter_map_of_None: "k \<notin> fst ` set m \<longleftrightarrow> map_of m k = None"
  by (simp add: map_of_eq_None_iff)

end
