(* ===== verification/GoStrings.thy ===== *)
theory GoStrings
  imports Prelude
begin

text \<open>
  The functions of Go's packages \<^verbatim>\<open>strings\<close>, \<^verbatim>\<open>strconv\<close> and \<^verbatim>\<open>encoding/hex\<close> that the services
  call, on byte strings. Go strings are UTF-8; where a function looks at code points the
  model spells out the encodings it has to recognise:
  \<^item> \<open>TrimSpace\<close> removes every code point of \<^verbatim>\<open>unicode.IsSpace\<close>, the one-, two- and three-byte
    encodings included.
  \<^item> \<open>ToUpper\<close> and \<open>ToLower\<close> map the ASCII letters and the four code points beyond ASCII whose
    image is an ASCII letter. The other code points beyond ASCII are left as they are: their
    images are beyond ASCII again, so that no comparison of a result with an ASCII
    constant depends on them, and every use in the services is such a comparison.
\<close>

section \<open>White space\<close>

definition space1 :: "char \<Rightarrow> bool" where
  "space1 c \<longleftrightarrow> c \<in> set [CHR 0x09, CHR 0x0A, CHR 0x0B, CHR 0x0C, CHR 0x0D, CHR 0x20]"

definition space2 :: "char \<Rightarrow> char \<Rightarrow> bool" where
  "space2 c d \<longleftrightarrow> c = CHR 0xC2 \<and> d \<in> set [CHR 0x85, CHR 0xA0]"

definition space3 :: "char \<Rightarrow> char \<Rightarrow> char \<Rightarrow> bool" where
  "space3 c d e \<longleftrightarrow>
     c = CHR 0xE1 \<and> d = CHR 0x9A \<and> e = CHR 0x80
   \<or> c = CHR 0xE2 \<and> d = CHR 0x80 \<and>
       e \<in> set [CHR 0x80, CHR 0x81, CHR 0x82, CHR 0x83, CHR 0x84, CHR 0x85, CHR 0x86, CHR 0x87,
                CHR 0x88, CHR 0x89, CHR 0x8A, CHR 0xA8, CHR 0xA9, CHR 0xAF]
   \<or> c = CHR 0xE2 \<and> d = CHR 0x81 \<and> e = CHR 0x9F
   \<or> c = CHR 0xE3 \<and> d = CHR 0x80 \<and> e = CHR 0x80"

text \<open>The number of bytes of the white space code point a string starts with, or 0.\<close>

fun space_len :: "string \<Rightarrow> nat" where
  "space_len (c # d # e # s) =
     (if space1 c then 1 else if space2 c d then 2 else if space3 c d e then 3 else 0)"
| "space_len [c, d] = (if space1 c then 1 else if space2 c d then 2 else 0)"
| "space_len [c] = (if space1 c then 1 else 0)"
| "space_len [] = 0"

fun space_len_rev :: "string \<Rightarrow> nat" where
  "space_len_rev (c # d # e # s) =
     (if space1 c then 1 else if space2 d c then 2 else if space3 e d c then 3 else 0)"
| "space_len_rev [c, d] = (if space1 c then 1 else if space2 d c then 2 else 0)"
| "space_len_rev [c] = (if space1 c then 1 else 0)"
| "space_len_rev [] = 0"

lemma space_len_le: "space_len s \<le> length s"
  by (induction s rule: space_len.induct) auto

lemma space_len_rev_le: "space_len_rev s \<le> length s"
  by (induction s rule: space_len_rev.induct) auto

text \<open>\<open>trim_front len s\<close> drops the code points that \<open>len\<close> measures at the front of \<open>s\<close>.\<close>

function trim_front :: "(string \<Rightarrow> nat) \<Rightarrow> string \<Rightarrow> string" where
  "trim_front len s =
     (if s = [] \<or> len s = 0 then s else trim_front len (drop (len s) s))"
  by pat_completeness auto
termination
  by (relation "measure (\<lambda>(len, s). length s)") auto

declare trim_front.simps [simp del]

definition TrimSpace :: "string \<Rightarrow> string" where
  "TrimSpace s = rev (trim_front space_len_rev (rev (trim_front space_len s)))"

lemma trim_front_Nil [simp]: "trim_front len [] = []"
  by (simp add: trim_front.simps)

lemma trim_front_stop: "len s = 0 \<Longrightarrow> trim_front len s = s"
  by (simp add: trim_front.simps)

lemma trim_front_step: "len s \<noteq> 0 \<Longrightarrow> trim_front len s = trim_front len (drop (len s) s)"
  by (cases "s = []") (simp_all add: trim_front.simps [of len s])

lemmas trim_front_eval [go_eval] =
  trim_front.simps [of space_len "c # s" for c s]
  trim_front.simps [of space_len_rev "c # s" for c s]

lemmas space_defs [go_eval] = space1_def space2_def space3_def

lemma trim_front_suffix: "suffix (trim_front len s) s"
proof (induction len s rule: trim_front.induct)
  case (1 len s)
  show ?case
  proof (cases "s = [] \<or> len s = 0")
    case False
    with 1 have "suffix (trim_front len (drop (len s) s)) (drop (len s) s)" by blast
    then have "suffix (trim_front len (drop (len s) s)) s"
      using suffix_drop suffix_order.trans by blast
    with False show ?thesis by (simp add: trim_front.simps [of len s])
  qed (simp add: trim_front.simps [of len s])
qed

lemma trim_front_done: "len [] = 0 \<Longrightarrow> len (trim_front len s) = 0"
proof (induction len s rule: trim_front.induct)
  case (1 len s)
  then show ?case
    by (cases "s = [] \<or> len s = 0") (auto simp: trim_front.simps [of len s])
qed

lemma TrimSpace_Nil [simp]: "TrimSpace [] = []"
  by (simp add: TrimSpace_def)

text \<open>Dropping bytes at the end never makes a front that was no white space into one.\<close>

lemma space_len_take: "space_len s = 0 \<Longrightarrow> space_len (take n s) = 0"
  by (induction s rule: space_len.induct)
    (auto simp: take_Cons split: nat.splits if_splits)

lemma TrimSpace_front: "space_len (TrimSpace s) = 0"
proof -
  let ?t = "trim_front space_len s"
  have "suffix (trim_front space_len_rev (rev ?t)) (rev ?t)"
    by (rule trim_front_suffix)
  then have "prefix (TrimSpace s) ?t"
    by (simp add: TrimSpace_def suffix_to_prefix)
  then obtain n where "TrimSpace s = take n ?t"
    by (metis append_eq_conv_conj prefixE)
  moreover have "space_len ?t = 0" by (rule trim_front_done) simp
  ultimately show ?thesis by (simp add: space_len_take)
qed

lemma TrimSpace_back: "space_len_rev (rev (TrimSpace s)) = 0"
  by (simp add: TrimSpace_def trim_front_done)

lemma TrimSpace_fixed:
  "space_len s = 0 \<Longrightarrow> space_len_rev (rev s) = 0 \<Longrightarrow> TrimSpace s = s"
  by (simp add: TrimSpace_def trim_front_stop)

lemma TrimSpace_idem [simp]: "TrimSpace (TrimSpace s) = TrimSpace s"
  by (rule TrimSpace_fixed) (simp_all add: TrimSpace_front TrimSpace_back)

text \<open>A non-empty string of printable ASCII at both ends is its own trim.\<close>

definition graphic :: "char \<Rightarrow> bool" where
  "graphic c \<longleftrightarrow> 0x21 \<le> (of_char c :: nat) \<and> (of_char c :: nat) \<le> 0x7E"

lemma graphic_not_space:
  assumes "graphic c"
  shows "\<not> space1 c" "\<not> space2 c d" "\<not> space2 d c" "\<not> space3 c d e" "\<not> space3 e d c"
  using assms by (auto simp: graphic_def space1_def space2_def space3_def)

lemma space_len_graphic: "graphic c \<Longrightarrow> space_len (c # s) = 0"
  by (cases s rule: remdups_adj.cases) (simp_all add: graphic_not_space)

lemma space_len_rev_graphic: "graphic c \<Longrightarrow> space_len_rev (c # s) = 0"
  by (cases s rule: remdups_adj.cases) (simp_all add: graphic_not_space)

lemma TrimSpace_graphic:
  assumes "graphic (hd s)" "graphic (last s)"
  shows "TrimSpace s = s"
proof (cases s rule: rev_cases)
  case (snoc t c)
  from snoc obtain d u where "s = d # u" by (cases t) auto
  with snoc assms show ?thesis
    by (metis TrimSpace_fixed last_snoc list.sel(1) rev.simps(2) rev_eq_Cons_iff rev_rev_ident
        space_len_graphic space_len_rev_graphic)
qed simp

text \<open>A string that starts with a printable character is not blank.\<close>

lemma space_len_rev_before: "graphic c \<Longrightarrow> space_len_rev (xs @ [c]) \<le> length xs"
  by (induction "xs @ [c]" arbitrary: xs rule: space_len_rev.induct)
    (auto simp: graphic_not_space Cons_eq_append_conv split: if_splits)

lemma trim_front_rev_keeps: "graphic c \<Longrightarrow> \<exists>ys. trim_front space_len_rev (xs @ [c]) = ys @ [c]"
proof (induction "length xs" arbitrary: xs rule: less_induct)
  case less
  show ?case
  proof (cases "space_len_rev (xs @ [c]) = 0")
    case True
    then show ?thesis by (simp add: trim_front_stop)
  next
    case False
    with space_len_rev_before [OF less.prems, of xs] have
      "length (drop (space_len_rev (xs @ [c])) xs) < length xs"
      "drop (space_len_rev (xs @ [c])) (xs @ [c]) = drop (space_len_rev (xs @ [c])) xs @ [c]"
      by auto
    with less show ?thesis by (simp add: trim_front_step [of space_len_rev, OF False])
  qed
qed

lemma TrimSpace_nonempty: "graphic c \<Longrightarrow> TrimSpace (c # s) \<noteq> []"
  using trim_front_rev_keeps [of c "rev s"]
  by (auto simp: TrimSpace_def trim_front_stop space_len_graphic)
section \<open>Case mapping\<close>

definition upper_byte :: "char \<Rightarrow> char" where
  "upper_byte c =
     (if 97 \<le> (of_char c :: nat) \<and> (of_char c :: nat) \<le> 122 then char_of (of_char c - 32 :: nat) else c)"

definition lower_byte :: "char \<Rightarrow> char" where
  "lower_byte c =
     (if 65 \<le> (of_char c :: nat) \<and> (of_char c :: nat) \<le> 90 then char_of (of_char c + 32 :: nat) else c)"

text \<open>The dotless i (C4 B1) and the long s (C5 BF) have ASCII upper case letters.\<close>

fun ToUpper :: "string \<Rightarrow> string" where
  "ToUpper (c # d # s) =
     (if c = CHR 0xC4 \<and> d = CHR 0xB1 then CHR ''I'' # ToUpper s
      else if c = CHR 0xC5 \<and> d = CHR 0xBF then CHR ''S'' # ToUpper s
      else upper_byte c # ToUpper (d # s))"
| "ToUpper [c] = [upper_byte c]"
| "ToUpper [] = []"

text \<open>The dotted I (C4 B0) and the Kelvin sign (E2 84 AA) have ASCII lower case letters.\<close>

fun ToLower :: "string \<Rightarrow> string" where
  "ToLower (c # d # e # s) =
     (if c = CHR 0xC4 \<and> d = CHR 0xB0 then CHR ''i'' # ToLower (e # s)
      else if c = CHR 0xE2 \<and> d = CHR 0x84 \<and> e = CHR 0xAA then CHR ''k'' # ToLower s
      else lower_byte c # ToLower (d # e # s))"
| "ToLower [c, d] =
     (if c = CHR 0xC4 \<and> d = CHR 0xB0 then [CHR ''i''] else [lower_byte c, lower_byte d])"
| "ToLower [c] = [lower_byte c]"
| "ToLower [] = []"

text \<open>
  \<open>EqualFold\<close> compares under simple case folding, which relates the long s and the Kelvin sign
  to the ASCII letters s and k.
\<close>

fun fold_case :: "string \<Rightarrow> string" where
  "fold_case (c # d # e # s) =
     (if c = CHR 0xC5 \<and> d = CHR 0xBF then CHR ''s'' # fold_case (e # s)
      else if c = CHR 0xE2 \<and> d = CHR 0x84 \<and> e = CHR 0xAA then CHR ''k'' # fold_case s
      else lower_byte c # fold_case (d # e # s))"
| "fold_case [c, d] =
     (if c = CHR 0xC5 \<and> d = CHR 0xBF then [CHR ''s''] else [lower_byte c, lower_byte d])"
| "fold_case [c] = [lower_byte c]"
| "fold_case [] = []"

definition EqualFold :: "string \<Rightarrow> string \<Rightarrow> bool" where
  "EqualFold s t \<longleftrightarrow> fold_case s = fold_case t"

lemma upper_byte_idem [simp]: "upper_byte (upper_byte c) = upper_byte c"
  by (cases "97 \<le> (of_char c :: nat) \<and> (of_char c :: nat) \<le> 122") (auto simp: upper_byte_def)

lemma lower_byte_idem [simp]: "lower_byte (lower_byte c) = lower_byte c"
  by (simp add: lower_byte_def)

lemma ToUpper_eq_Nil [simp]: "ToUpper s = [] \<longleftrightarrow> s = []"
  by (induction s rule: ToUpper.induct) auto

lemma ToUpper_ascii:
  "\<forall>c \<in> set s. (of_char c :: nat) < 128 \<Longrightarrow> ToUpper s = map upper_byte s"
  by (induction s rule: ToUpper.induct) auto

lemma ToUpper_fixed:
  "\<forall>c \<in> set s. (of_char c :: nat) < 128 \<and> upper_byte c = c \<Longrightarrow> ToUpper s = s"
  by (simp add: ToUpper_ascii map_idI)

lemmas case_eval [go_eval] = upper_byte_def lower_byte_def EqualFold_def char_of_def bit_Suc_0_iff

section \<open>Prefixes, suffixes, substrings\<close>

definition HasPrefix :: "string \<Rightarrow> string \<Rightarrow> bool" where
  "HasPrefix s p \<longleftrightarrow> prefix p s"

definition HasSuffix :: "string \<Rightarrow> string \<Rightarrow> bool" where
  "HasSuffix s p \<longleftrightarrow> suffix p s"

definition TrimPrefix :: "string \<Rightarrow> string \<Rightarrow> string" where
  "TrimPrefix s p = (if HasPrefix s p then drop (length p) s else s)"

definition TrimSuffix :: "string \<Rightarrow> string \<Rightarrow> string" where
  "TrimSuffix s p = (if HasSuffix s p then take (length s - length p) s else s)"

definition Contains :: "string \<Rightarrow> string \<Rightarrow> bool" where
  "Contains s t \<longleftrightarrow> sublist t s"

text \<open>\<open>TrimRight s c\<close> for a cutset of one character.\<close>

definition TrimRight :: "string \<Rightarrow> char \<Rightarrow> string" where
  "TrimRight s c = rev (dropWhile (\<lambda>x. x = c) (rev s))"

lemma TrimPrefix_append [simp]: "TrimPrefix (p @ s) p = s"
  by (simp add: TrimPrefix_def HasPrefix_def)

lemma TrimSuffix_append [simp]: "TrimSuffix (s @ p) p = s"
  by (simp add: TrimSuffix_def HasSuffix_def suffix_def)

lemma HasPrefix_append [simp]: "HasPrefix (p @ s) p"
  by (simp add: HasPrefix_def)

lemma HasPrefixE: "HasPrefix s p \<Longrightarrow> s = p @ TrimPrefix s p"
  by (auto simp: TrimPrefix_def HasPrefix_def prefix_def)

lemma HasSuffixE: "HasSuffix s p \<Longrightarrow> s = TrimSuffix s p @ p"
  by (auto simp: TrimSuffix_def HasSuffix_def suffix_def)

lemma HasPrefix_code [go_eval]:
  "HasPrefix (c # s) (d # p) \<longleftrightarrow> c = d \<and> HasPrefix s p" "HasPrefix s []"
  "\<not> HasPrefix [] (d # p)"
  by (auto simp: HasPrefix_def)

lemma Contains_code [go_eval]:
  "Contains (c # s) (d # t) \<longleftrightarrow> HasPrefix (c # s) (d # t) \<or> Contains s (d # t)"
  "Contains s []" "\<not> Contains [] (d # t)"
  by (auto simp: Contains_def HasPrefix_def sublist_Cons_right)

lemma HasSuffix_code [go_eval]: "HasSuffix s p \<longleftrightarrow> HasPrefix (rev s) (rev p)"
  by (simp add: HasSuffix_def HasPrefix_def suffix_to_prefix)

lemmas trim_fix_eval [go_eval] = TrimPrefix_def TrimSuffix_def TrimRight_def TrimSpace_def

section \<open>Splitting and joining\<close>

text \<open>\<open>Split s c\<close> for a separator of one character: always at least one field.\<close>

fun Split :: "string \<Rightarrow> char \<Rightarrow> string list" where
  "Split [] c = [[]]"
| "Split (x # s) c =
     (if x = c then [] # Split s c
      else case Split s c of [] \<Rightarrow> [[x]] | f # fs \<Rightarrow> (x # f) # fs)"

fun Join :: "string list \<Rightarrow> string \<Rightarrow> string" where
  "Join [] sep = []"
| "Join [s] sep = s"
| "Join (s # ss) sep = s @ sep @ Join ss sep"

lemma Split_not_Nil [simp]: "Split s c \<noteq> []"
  by (induction s) (auto split: list.splits)

lemma Split_plain: "c \<notin> set s \<Longrightarrow> Split s c = [s]"
  by (induction s) auto

lemma Split_append: "c \<notin> set s \<Longrightarrow> Split (s @ c # t) c = s # Split t c"
  by (induction s) auto

lemma Join_Split: "Join (Split s c) [c] = s"
proof (induction s)
  case (Cons x s)
  show ?case
  proof (cases "Split s c")
    case (Cons f fs)
    with Cons.IH show ?thesis by (cases fs) (auto split: if_splits)
  qed simp
qed simp

section \<open>Numerals\<close>

definition digit_char :: "nat \<Rightarrow> char" where
  "digit_char d = char_of (48 + d)"

fun nat_digits :: "nat \<Rightarrow> string" where
  "nat_digits n =
     (if n < 10 then [digit_char n] else nat_digits (n div 10) @ [digit_char (n mod 10)])"

declare nat_digits.simps [simp del]

definition Itoa :: "int \<Rightarrow> string" where
  "Itoa i = (if i < 0 then CHR ''-'' # nat_digits (nat (- i)) else nat_digits (nat i))"

definition is_digit :: "char \<Rightarrow> bool" where
  "is_digit c \<longleftrightarrow> 48 \<le> (of_char c :: nat) \<and> (of_char c :: nat) \<le> 57"

definition digits_value :: "string \<Rightarrow> nat" where
  "digits_value s = foldl (\<lambda>n c. 10 * n + (of_char c - 48)) 0 s"

text \<open>
  \<open>ParseInt\<close> in base 10: an optional sign, at least one digit, nothing else, and a value in the
  range of \<^verbatim>\<open>int64\<close>; \<^verbatim>\<open>Atoi\<close> accepts the same inputs on the 64-bit platforms.
\<close>

definition ParseInt :: "string \<Rightarrow> int option" where
  "ParseInt s =
     (let neg = (s \<noteq> [] \<and> hd s = CHR ''-'');
          ds = (if s \<noteq> [] \<and> hd s \<in> {CHR ''-'', CHR ''+''} then tl s else s);
          v = (if neg then - int (digits_value ds) else int (digits_value ds))
      in if ds = [] \<or> \<not> list_all is_digit ds \<or> \<not> in_int64 v then None else Some v)"

abbreviation Atoi :: "string \<Rightarrow> int option" where
  "Atoi \<equiv> ParseInt"

lemma is_digit_digit_char: "d < 10 \<Longrightarrow> is_digit (digit_char d)"
  by (simp add: is_digit_def digit_char_def)

lemma digit_char_value: "d < 10 \<Longrightarrow> of_char (digit_char d) - 48 = d"
  by (simp add: digit_char_def)

lemma nat_digits_digits: "list_all is_digit (nat_digits n)"
proof (induction n rule: nat_digits.induct)
  case (1 n)
  then show ?case
    by (cases "n < 10") (simp_all add: nat_digits.simps [of n] is_digit_digit_char)
qed

lemma nat_digits_not_Nil [simp]: "nat_digits n \<noteq> []"
  by (simp add: nat_digits.simps [of n])

lemma digits_value_snoc: "digits_value (s @ [c]) = 10 * digits_value s + (of_char c - 48)"
  by (simp add: digits_value_def)

lemma digits_value_nat_digits [simp]: "digits_value (nat_digits n) = n"
proof (induction n rule: nat_digits.induct)
  case (1 n)
  show ?case
  proof (cases "n < 10")
    case True
    then show ?thesis
      using digits_value_snoc [of "[]" "digit_char n"]
      by (simp add: nat_digits.simps [of n] digit_char_value digits_value_def)
  next
    case False
    with 1 show ?thesis
      by (simp add: nat_digits.simps [of n] digits_value_snoc digit_char_value)
  qed
qed

lemma digit_no_sign: "is_digit c \<Longrightarrow> c \<noteq> CHR ''-'' \<and> c \<noteq> CHR ''+''"
  by (auto simp: is_digit_def)

lemma ParseInt_Itoa: "in_int64 i \<Longrightarrow> ParseInt (Itoa i) = Some i"
proof -
  assume i: "in_int64 i"
  have "hd (nat_digits n) \<noteq> CHR ''-'' \<and> hd (nat_digits n) \<noteq> CHR ''+''" for n
    using nat_digits_digits [of n] digit_no_sign
    by (cases "nat_digits n") auto
  with i show ?thesis
    by (simp add: Itoa_def ParseInt_def Let_def nat_digits_digits)
qed

section \<open>Hexadecimal\<close>

definition hex_char :: "nat \<Rightarrow> char" where
  "hex_char d = ''0123456789abcdef'' ! d"

fun HexEncode :: "bytes \<Rightarrow> string" where
  "HexEncode [] = []"
| "HexEncode (b # bs) =
     hex_char (of_char b div 16) # hex_char (of_char b mod 16) # HexEncode bs"

definition is_hex :: "char \<Rightarrow> bool" where
  "is_hex c \<longleftrightarrow> c \<in> set ''0123456789abcdefABCDEF''"

definition hex_value :: "char \<Rightarrow> nat" where
  "hex_value c =
     (let n = of_char c in if n \<le> 57 then n - 48 else if n \<le> 70 then n - 55 else n - 87)"

text \<open>\<^verbatim>\<open>hex.DecodeString\<close> succeeds on an even number of hexadecimal digits.\<close>

definition HexDecodes :: "string \<Rightarrow> bool" where
  "HexDecodes s \<longleftrightarrow> even (length s) \<and> list_all is_hex s"

text \<open>\<^verbatim>\<open>strconv.ParseUint(s, 16, bits)\<close>.\<close>

definition ParseUint16 :: "string \<Rightarrow> nat \<Rightarrow> nat option" where
  "ParseUint16 s bits =
     (let v = foldl (\<lambda>n c. 16 * n + hex_value c) 0 s
      in if s = [] \<or> \<not> list_all is_hex s \<or> 2 ^ bits \<le> v then None else Some v)"

lemma length_HexEncode [simp]: "length (HexEncode bs) = 2 * length bs"
  by (induction bs) auto

lemma hex_char_is_hex: "d < 16 \<Longrightarrow> is_hex (hex_char d)"
proof -
  assume "d < 16"
  then have "d \<in> set [0..<16]" by simp
  then show ?thesis by (auto simp: is_hex_def hex_char_def upt_rec)
qed

lemma HexEncode_is_hex: "list_all is_hex (HexEncode bs)"
proof (induction bs)
  case (Cons b bs)
  have "of_char b div 16 < (16 :: nat)"
    using nat_of_char_less_256 [of b] by linarith
  with Cons show ?case by (simp add: hex_char_is_hex)
qed simp

lemma HexDecodes_HexEncode: "HexDecodes (HexEncode bs)"
  by (simp add: HexDecodes_def HexEncode_is_hex)

lemmas num_eval [go_eval] =
  digit_char_def nat_digits.simps Itoa_def is_digit_def digits_value_def ParseInt_def in_int64_def

end
