(* ===== verification/GoJson.thy ===== *)
theory GoJson
  imports GoStrings
begin

text \<open>
  Values of Go's type \<^verbatim>\<open>any\<close> as they occur around package \<^verbatim>\<open>encoding/json\<close>, and JSON
  documents.

  \<open>any\<close> has a constructor for each dynamic type the services handle; a \<^verbatim>\<open>float64\<close> is the
  rational number it denotes. A byte slice that is read or written as JSON is modelled by
  what the decoder makes of it (\<open>body\<close>): text that is no JSON value, exactly one value, or a value
  followed by further text. \<^verbatim>\<open>json.Unmarshal\<close> accepts only the second form,
  \<^verbatim>\<open>json.Decoder.Decode\<close> also the third. Strings in documents are valid UTF-8, so that
  encoding and decoding them is the identity; an integer survives it as the \<^verbatim>\<open>float64\<close> of the
  same value, exact up to \<open>2 ^ 53\<close>.
\<close>

section \<open>Dynamic values\<close>

datatype any =
    ANil
  | ABool bool
  | AFloat rat
  | AInt int
  | AStr string
  | AArr "any list"
  | AObj "(string \<times> any) list"

type_synonym object = "(string \<times> any) list"
type_synonym strmap = "(string \<times> string) list"

datatype body = NotJSON | Doc any | DocThen any

text \<open>What decoding an encoded value gives: every number is a \<^verbatim>\<open>float64\<close>.\<close>

fun decoded :: "any \<Rightarrow> any" where
  "decoded (AInt i) = AFloat (of_int i)"
| "decoded (AArr vs) = AArr (map decoded vs)"
| "decoded (AObj m) = AObj (map (\<lambda>(k, v). (k, decoded v)) m)"
| "decoded v = v"

definition Marshal :: "any \<Rightarrow> body" where
  "Marshal v = Doc (decoded v)"

fun Unmarshal :: "body \<Rightarrow> any option" where
  "Unmarshal (Doc v) = Some v"
| "Unmarshal _ = None"

fun Decode :: "body \<Rightarrow> any option" where
  "Decode NotJSON = None"
| "Decode (Doc v) = Some v"
| "Decode (DocThen v) = Some v"

lemma Unmarshal_Marshal [simp]: "Unmarshal (Marshal v) = Some (decoded v)"
  by (simp add: Marshal_def)

section \<open>Type assertions\<close>

text \<open>
  \<open>as_str\<close>, \<open>as_obj\<close>, \<open>as_arr\<close> and \<open>as_bool\<close> are the comma-ok assertions \<^verbatim>\<open>v.(string)\<close> and so on; an
  absent key reads as nil.
\<close>

fun as_str :: "any \<Rightarrow> string option" where
  "as_str (AStr s) = Some s"
| "as_str _ = None"

fun as_obj :: "any \<Rightarrow> object option" where
  "as_obj (AObj m) = Some m"
| "as_obj _ = None"

fun as_arr :: "any \<Rightarrow> any list option" where
  "as_arr (AArr vs) = Some vs"
| "as_arr _ = None"

fun as_bool :: "any \<Rightarrow> bool option" where
  "as_bool (ABool b) = Some b"
| "as_bool _ = None"

definition field :: "object \<Rightarrow> string \<Rightarrow> any" where
  "field m k = (case alist_get m k of None \<Rightarrow> ANil | Some v \<Rightarrow> v)"

text \<open>\<^verbatim>\<open>s, _ := m[k].(string)\<close> and \<^verbatim>\<open>b, _ := m[k].(bool)\<close>.\<close>

definition str_field :: "object \<Rightarrow> string \<Rightarrow> string" where
  "str_field m k = (case as_str (field m k) of None \<Rightarrow> [] | Some s \<Rightarrow> s)"

definition bool_field :: "object \<Rightarrow> string \<Rightarrow> bool" where
  "bool_field m k = (case as_bool (field m k) of None \<Rightarrow> False | Some b \<Rightarrow> b)"

text \<open>
  Decoding into a \<^verbatim>\<open>map[string]any\<close>: an object gives its entries, null leaves the nil map, anything
  else is an error.
\<close>

fun into_map :: "any \<Rightarrow> object option" where
  "into_map (AObj m) = Some m"
| "into_map ANil = Some []"
| "into_map _ = None"

text \<open>
  Decoding into a struct field: the last key that equals the field's name up to case counts; a
  missing key and null leave the zero value.
\<close>

definition struct_field :: "object \<Rightarrow> string \<Rightarrow> any" where
  "struct_field m k =
     (case filter (\<lambda>kv. EqualFold (fst kv) k) m of [] \<Rightarrow> ANil | kvs \<Rightarrow> snd (last kvs))"

fun into_string :: "any \<Rightarrow> string option" where
  "into_string (AStr s) = Some s"
| "into_string ANil = Some []"
| "into_string _ = None"

text \<open>Decoding into a \<^verbatim>\<open>map[string]string\<close>; \<open>None\<close> inside is the nil map.\<close>

fun into_strings :: "object \<Rightarrow> strmap option" where
  "into_strings [] = Some []"
| "into_strings ((k, v) # m) =
     (case (into_string v, into_strings m) of
        (Some s, Some r) \<Rightarrow> Some ((k, s) # r)
      | _ \<Rightarrow> None)"

fun into_strmap :: "any \<Rightarrow> strmap option option" where
  "into_strmap ANil = Some None"
| "into_strmap (AObj m) = map_option Some (into_strings m)"
| "into_strmap _ = None"

definition strmap_any :: "strmap option \<Rightarrow> any" where
  "strmap_any m = (case m of None \<Rightarrow> ANil | Some kvs \<Rightarrow> AObj (map (\<lambda>(k, v). (k, AStr v)) kvs))"

fun into_objmap :: "any \<Rightarrow> object option option" where
  "into_objmap ANil = Some None"
| "into_objmap (AObj m) = Some (Some m)"
| "into_objmap _ = None"

definition objmap_any :: "object option \<Rightarrow> any" where
  "objmap_any m = (case m of None \<Rightarrow> ANil | Some kvs \<Rightarrow> AObj kvs)"

text \<open>Decoding into a \<^verbatim>\<open>[]string\<close> and a \<^verbatim>\<open>map[string]float64\<close>.\<close>

fun into_string_list :: "any list \<Rightarrow> string list option" where
  "into_string_list [] = Some []"
| "into_string_list (v # vs) =
     (case (into_string v, into_string_list vs) of
        (Some s, Some r) \<Rightarrow> Some (s # r)
      | _ \<Rightarrow> None)"

fun into_float :: "any \<Rightarrow> rat option" where
  "into_float (AFloat x) = Some x"
| "into_float ANil = Some 0"
| "into_float _ = None"

fun into_floats :: "object \<Rightarrow> (string \<times> rat) list option" where
  "into_floats [] = Some []"
| "into_floats ((k, v) # m) =
     (case (into_float v, into_floats m) of
        (Some x, Some r) \<Rightarrow> Some ((k, x) # r)
      | _ \<Rightarrow> None)"

section \<open>Numbers\<close>

text \<open>
  The conversion \<^verbatim>\<open>int64(x)\<close> of a \<^verbatim>\<open>float64\<close> truncates toward zero. Out of range the result is
  left to the implementation; the model takes the value the amd64 instruction yields.
\<close>

definition float_to_int64 :: "rat \<Rightarrow> int" where
  "float_to_int64 x =
     (let t = (if 0 \<le> x then \<lfloor>x\<rfloor> else \<lceil>x\<rceil>) in if in_int64 t then t else - (2 ^ 63))"

lemma float_to_int64_of_int [simp]: "in_int64 i \<Longrightarrow> float_to_int64 (of_int i) = i"
  by (simp add: float_to_int64_def)

lemma float_to_int64_numeral [simp]:
  "in_int64 (numeral n) \<Longrightarrow> float_to_int64 (numeral n) = numeral n"
  using float_to_int64_of_int [of "numeral n"] by simp

lemma float_to_int64_range: "in_int64 (float_to_int64 x)"
proof -
  have "in_int64 (- (2 ^ 63))" by (simp add: in_int64_def)
  then show ?thesis by (simp add: float_to_int64_def Let_def)
qed

section \<open>Lemmas\<close>

lemma into_strings_map [simp]: "into_strings (map (\<lambda>(k, v). (k, AStr v)) m) = Some m"
  by (induction m) auto

lemma decoded_strmap_any [simp]: "decoded (strmap_any m) = strmap_any m"
  by (cases m) (auto simp: strmap_any_def)

lemma into_strmap_any [simp]: "into_strmap (strmap_any m) = Some m"
  by (cases m) (auto simp: strmap_any_def)

lemma into_objmap_any [simp]:
  "into_objmap (decoded (objmap_any m)) = Some (map_option (map (\<lambda>(k, v). (k, decoded v))) m)"
  by (cases m) (auto simp: objmap_any_def)

lemma into_string_list_map [simp]: "into_string_list (map AStr ss) = Some ss"
  by (induction ss) auto

lemma into_floats_map [simp]: "into_floats (map (\<lambda>(k, x). (k, AFloat x)) m) = Some m"
  by (induction m) auto

text \<open>A decoded document contains no \<open>AInt\<close>, so decoding what it encodes to gives it back.\<close>

lemma decoded_idem [simp]: "decoded (decoded v) = decoded v"
proof (induction v)
  case (AArr vs)
  then show ?case by (induction vs) auto
next
  case (AObj m)
  then show ?case by (auto simp: fsts.simps snds.simps split: prod.splits)
qed auto

lemma alist_get_decoded:
  "alist_get (map (\<lambda>(k, v). (k, decoded v)) m) k = map_option decoded (alist_get m k)"
  by (induction m) auto

lemma as_str_decoded [simp]: "as_str (decoded v) = as_str v"
  by (cases v) auto

lemma field_decoded: "field (map (\<lambda>(k, v). (k, decoded v)) m) k = decoded (field m k)"
  by (simp add: field_def alist_get_decoded split: option.splits)

lemma str_field_decoded [simp]: "str_field (map (\<lambda>(k, v). (k, decoded v)) m) k = str_field m k"
  by (simp add: str_field_def field_decoded)

lemmas json_eval [go_eval] =
  field_def str_field_def bool_field_def struct_field_def Marshal_def

end
