(* ===== verification/Registry_Domain.thy ===== *)
theory Registry_Domain
  imports GoJson
begin

text \<open>
  The domain package of the agent registry (\<^verbatim>\<open>s0/agent-registry-service/internal/domain\<close>) and its
  sentinel errors (\<^verbatim>\<open>internal/registryerr\<close>): the lifecycle of an agent, the validation of what a
  registration supplies, and the admission envelope.

  The lemmas show that the lifecycle table makes \<^verbatim>\<open>DEREGISTERED\<close> final, that validation
  does not depend on the iteration order of a Go map, and that an envelope's explicit caps
  override the constraints.
\<close>

section \<open>Lifecycle\<close>

abbreviation StatusPending :: string where "StatusPending \<equiv> ''PENDING''"
abbreviation StatusActive :: string where "StatusActive \<equiv> ''ACTIVE''"
abbreviation StatusSuspended :: string where "StatusSuspended \<equiv> ''SUSPENDED''"
abbreviation StatusDeregistered :: string where "StatusDeregistered \<equiv> ''DEREGISTERED''"

definition validTransitions :: "(string \<times> string list) list" where
  "validTransitions =
     [(StatusPending, [StatusActive]),
      (StatusActive, [StatusSuspended, StatusDeregistered]),
      (StatusSuspended, [StatusActive, StatusDeregistered]),
      (StatusDeregistered, [])]"

definition CanTransition :: "string \<Rightarrow> string \<Rightarrow> bool" where
  "CanTransition current newStatus =
     (if current = newStatus then True
      else case alist_get validTransitions current of
             None \<Rightarrow> False
           | Some next \<Rightarrow> newStatus \<in> set next)"

section \<open>Entities\<close>

record Agent =
  ag_AgentID :: string
  ag_AgentType :: string
  ag_OwnerID :: string
  ag_ExternalID :: string
  ag_Status :: string
  ag_PassportID :: string
  ag_Metadata :: "strmap option"
  ag_RegistrationTS :: instant
  ag_UpdatedTS :: instant
  ag_AdmissionConstraints :: "object option"
  ag_AdmittedPolicyID :: string
  ag_AdmittedPolicyVer :: string
  ag_AdmissionTS :: instant

record AdmissionSnapshot =
  sn_Constraints :: "object option"
  sn_PolicyID :: string
  sn_PolicyVer :: string
  sn_ScopePatterns :: "string list"
  sn_BehavioralCaps :: "(string \<times> rat) list"
  sn_EnvelopeID :: string
  sn_IssuingAuthority :: string
  sn_Signature :: bytes

record AdmissionEnvelope =
  env_EnvelopeID :: string
  env_AgentID :: string
  env_PolicyID :: string
  env_PolicyVer :: string
  env_AdmittedScopes :: "string list"
  env_AdmittedBehavioralCaps :: "(string \<times> rat) list"
  env_AdmittedTS :: instant
  env_IssuingAuthority :: string
  env_Signature :: bytes

text \<open>A nil map ranges like an empty one.\<close>

definition entries :: "('k \<times> 'v) list option \<Rightarrow> ('k \<times> 'v) list" where
  "entries m = (case m of None \<Rightarrow> [] | Some kvs \<Rightarrow> kvs)"

fun numeric_caps :: "object \<Rightarrow> (string \<times> rat) list \<Rightarrow> (string \<times> rat) list" where
  "numeric_caps [] out = out"
| "numeric_caps ((k, v) # m) out =
     (case v of
        AFloat x \<Rightarrow> numeric_caps m (alist_put out k x)
      | AInt i \<Rightarrow> numeric_caps m (alist_put out k (of_int i))
      | _ \<Rightarrow> numeric_caps m out)"

fun put_all :: "('k \<times> 'v) list \<Rightarrow> ('k \<times> 'v) list \<Rightarrow> ('k \<times> 'v) list" where
  "put_all [] out = out"
| "put_all ((k, v) # m) out = put_all m (alist_put out k v)"

definition mergeBehavioralCaps :: "AdmissionSnapshot \<Rightarrow> (string \<times> rat) list" where
  "mergeBehavioralCaps snap =
     put_all (sn_BehavioralCaps snap) (numeric_caps (entries (sn_Constraints snap)) [])"

definition NewAdmissionEnvelope ::
  "string \<Rightarrow> string \<Rightarrow> instant \<Rightarrow> AdmissionSnapshot option \<Rightarrow> bytes \<Rightarrow> string
   \<Rightarrow> AdmissionEnvelope option" where
  "NewAdmissionEnvelope envelopeID agentID admittedTS snap signature issuingAuthority =
     (case snap of
        None \<Rightarrow> None
      | Some sn \<Rightarrow> Some \<lparr>
          env_EnvelopeID = envelopeID,
          env_AgentID = agentID,
          env_PolicyID = sn_PolicyID sn,
          env_PolicyVer = sn_PolicyVer sn,
          env_AdmittedScopes = sn_ScopePatterns sn,
          env_AdmittedBehavioralCaps = mergeBehavioralCaps sn,
          env_AdmittedTS = admittedTS,
          env_IssuingAuthority = (if issuingAuthority = [] then ''agent-registry'' else issuingAuthority),
          env_Signature = signature \<rparr>)"

section \<open>Validation\<close>

abbreviation maxAgentMetadataKeys :: nat where "maxAgentMetadataKeys \<equiv> 50"
abbreviation maxAgentMetadataKeyLen :: nat where "maxAgentMetadataKeyLen \<equiv> 64"
abbreviation maxAgentMetadataValLen :: nat where "maxAgentMetadataValLen \<equiv> 512"

datatype metadata_error = TooManyKeys nat | KeyTooLong nat | ValueTooLong string

fun check_entries :: "strmap \<Rightarrow> metadata_error option" where
  "check_entries [] = None"
| "check_entries ((k, v) # m) =
     (if maxAgentMetadataKeyLen < length k then Some (KeyTooLong (length k))
      else if maxAgentMetadataValLen < length v then Some (ValueTooLong k)
      else check_entries m)"

definition ValidateAgentMetadata :: "strmap option \<Rightarrow> metadata_error option" where
  "ValidateAgentMetadata metadata =
     (let m = entries metadata
      in if length m = 0 then None
         else if maxAgentMetadataKeys < length m then Some (TooManyKeys (length m))
         else check_entries m)"

definition validTypes :: "string list" where
  "validTypes = [''AUTONOMOUS'', ''ASSISTED'', ''SYSTEM'', ''EPHEMERAL'']"

text \<open>\<open>Inl v\<close> is the error that quotes the rejected input \<open>v\<close>.\<close>

definition ValidateAgentType :: "string \<Rightarrow> string + string" where
  "ValidateAgentType v =
     (let t = ToUpper (TrimSpace v)
      in if t \<notin> set validTypes then Inl v else Inr t)"

section \<open>Errors\<close>

text \<open>
  The sentinel errors of \<^verbatim>\<open>registryerr\<close> with what the wrapping \<^verbatim>\<open>fmt.Errorf\<close> adds to them, and
  the errors that carry no sentinel. A \<open>db_error\<close> is what the PostgreSQL driver reports.
\<close>

datatype db_error = UniqueViolation | OtherDbError string

datatype reg_detail =
    InvalidAgentType string
  | OwnerIdRequired
  | InvalidMetadata metadata_error
  | AgentIdRequired
  | UpdateFieldsRequired
  | AlreadyRegistered
  | AgentUnknown string
  | EnvelopeUnknown string
  | InvalidTransition string string
  | StatusAfterUpdate string string string

datatype reg_error =
    ErrNotFound reg_detail
  | ErrAlreadyExists reg_detail
  | ErrInvalidArgument reg_detail
  | ErrFailedPrecondition reg_detail
  | ErrDB db_error
  | ErrColumnJSON string

section \<open>Lemmas\<close>

lemma CanTransition_iff:
  "CanTransition a b \<longleftrightarrow>
     a = b
   \<or> a = StatusPending \<and> b = StatusActive
   \<or> a = StatusActive \<and> b \<in> {StatusSuspended, StatusDeregistered}
   \<or> a = StatusSuspended \<and> b \<in> {StatusActive, StatusDeregistered}"
  by (auto simp: CanTransition_def validTransitions_def)

lemma CanTransition_Deregistered: "CanTransition StatusDeregistered s \<longleftrightarrow> s = StatusDeregistered"
  by (auto simp: CanTransition_iff)

text \<open>The statuses the table knows.\<close>

definition known_statuses :: "string list" where
  "known_statuses = map fst validTransitions"

lemma CanTransition_known:
  "a \<in> set known_statuses \<Longrightarrow> CanTransition a b \<Longrightarrow> b \<in> set known_statuses"
  by (auto simp: CanTransition_iff known_statuses_def validTransitions_def)

lemma check_entries_None:
  "check_entries m = None \<longleftrightarrow>
     (\<forall>(k, v) \<in> set m. length k \<le> maxAgentMetadataKeyLen \<and> length v \<le> maxAgentMetadataValLen)"
  by (induction m rule: check_entries.induct) (auto simp: not_less)

lemma ValidateAgentMetadata_None:
  "ValidateAgentMetadata metadata = None \<longleftrightarrow>
     length (entries metadata) \<le> maxAgentMetadataKeys
   \<and> (\<forall>(k, v) \<in> set (entries metadata).
        length k \<le> maxAgentMetadataKeyLen \<and> length v \<le> maxAgentMetadataValLen)"
  by (auto simp: ValidateAgentMetadata_def Let_def check_entries_None)

lemma ValidateAgentType_Inr:
  "ValidateAgentType v = Inr t \<Longrightarrow> t \<in> set validTypes"
  by (auto simp: ValidateAgentType_def Let_def split: if_splits)

lemma ValidateAgentType_valid: "t \<in> set validTypes \<Longrightarrow> ValidateAgentType t = Inr t"
  by (auto simp: ValidateAgentType_def validTypes_def go_eval)

lemma alist_get_put_all:
  "distinct (map fst m) \<Longrightarrow>
   alist_get (put_all m out) k = (case alist_get m k of None \<Rightarrow> alist_get out k | Some v \<Rightarrow> Some v)"
proof (induction m out rule: put_all.induct)
  case (2 k' v m out)
  then have "alist_get m k' = None"
    by (simp add: alist_get_def map_of_eq_None_iff)
  with 2 show ?case by (simp split: option.splits)
qed simp

fun cap_of :: "any \<Rightarrow> rat option" where
  "cap_of (AFloat x) = Some x"
| "cap_of (AInt i) = Some (of_int i)"
| "cap_of _ = None"

lemma alist_get_numeric_caps:
  "distinct (map fst m) \<Longrightarrow>
   alist_get (numeric_caps m out) k =
     (case Option.bind (alist_get m k) cap_of of None \<Rightarrow> alist_get out k | Some x \<Rightarrow> Some x)"
proof (induction m out rule: numeric_caps.induct)
  case (2 k' v m out)
  then have "alist_get m k' = None"
    by (simp add: alist_get_def map_of_eq_None_iff)
  with 2 show ?case by (cases v) (auto split: option.splits)
qed simp

lemma alist_get_mergeBehavioralCaps:
  assumes "distinct (map fst (sn_BehavioralCaps sn))" "distinct (map fst (entries (sn_Constraints sn)))"
  shows "alist_get (mergeBehavioralCaps sn) k =
     (case alist_get (sn_BehavioralCaps sn) k of
        Some x \<Rightarrow> Some x
      | None \<Rightarrow> Option.bind (alist_get (entries (sn_Constraints sn)) k) cap_of)"
  using assms
  by (simp add: mergeBehavioralCaps_def alist_get_put_all alist_get_numeric_caps split: option.splits)

end
