(* ===== verification/GoTime.thy ===== *)
theory GoTime
  imports GoStrings
begin

text \<open>
  The parts of Go's \<^verbatim>\<open>time\<close> and \<^verbatim>\<open>crypto/sha256\<close> packages the services use. A \<^verbatim>\<open>time.Time\<close> in
  UTC is the number of nanoseconds since the Unix epoch, a \<^verbatim>\<open>time.Duration\<close> a number of
  nanoseconds kept in the range of \<^verbatim>\<open>int64\<close>.
\<close>

unbundle bit_operations_syntax

section \<open>Instants and durations\<close>

abbreviation Millisecond :: duration where "Millisecond \<equiv> 1000000"
abbreviation Second :: duration where "Second \<equiv> 1000000000"

text \<open>\<open>scale_duration n unit\<close> is \<^verbatim>\<open>time.Duration(n) * unit\<close>, which wraps around.\<close>

definition scale_duration :: "int \<Rightarrow> duration \<Rightarrow> duration" where
  "scale_duration n unit = wrap64 (n * unit)"

definition Add :: "instant \<Rightarrow> duration \<Rightarrow> instant" where
  "Add t d = t + d"

definition UnixMilli :: "instant \<Rightarrow> int" where
  "UnixMilli t = t div 1000000"

lemma scale_duration_Second:
  "- 9223372036 \<le> n \<Longrightarrow> n \<le> 9223372036 \<Longrightarrow> scale_duration n Second = n * 1000000000"
  by (simp add: scale_duration_def in_int64_def)

section \<open>Formatting\<close>

text \<open>The civil date of a day number (days since 1970-01-01) in the proleptic Gregorian calendar.\<close>

definition civil_date :: "int \<Rightarrow> int \<times> int \<times> int" where
  "civil_date days =
     (let z = days + 719468; era = z div 146097; doe = z mod 146097;
          yoe = (doe - doe div 1460 + doe div 36524 - doe div 146096) div 365;
          doy = doe - (365 * yoe + yoe div 4 - yoe div 100);
          mp = (5 * doy + 2) div 153;
          d = doy - (153 * mp + 2) div 5 + 1;
          m = (if mp < 10 then mp + 3 else mp - 9)
      in (yoe + era * 400 + (if m \<le> 2 then 1 else 0), m, d))"

definition pad_int :: "nat \<Rightarrow> int \<Rightarrow> string" where
  "pad_int w i =
     (let s = nat_digits (nat \<bar>i\<bar>)
      in (if i < 0 then ''-'' else []) @ replicate (w - length s) (CHR ''0'') @ s)"

definition format_seconds :: "instant \<Rightarrow> string" where
  "format_seconds t =
     (let secs = t div 1000000000; (y, m, d) = civil_date (secs div 86400); sod = secs mod 86400
      in pad_int 4 y @ ''-'' @ pad_int 2 m @ ''-'' @ pad_int 2 d @ ''T'' @
         pad_int 2 (sod div 3600) @ '':'' @ pad_int 2 (sod mod 3600 div 60) @ '':'' @
         pad_int 2 (sod mod 60))"

text \<open>\<^verbatim>\<open>time.RFC3339\<close> drops the fraction, \<^verbatim>\<open>time.RFC3339Nano\<close> prints it without trailing zeros.\<close>

definition RFC3339 :: "instant \<Rightarrow> string" where
  "RFC3339 t = format_seconds t @ ''Z''"

definition RFC3339Nano :: "instant \<Rightarrow> string" where
  "RFC3339Nano t =
     (let frac = TrimRight (pad_int 9 (t mod 1000000000)) (CHR ''0'')
      in format_seconds t @ (if frac = [] then [] else ''.'' @ frac) @ ''Z'')"

section \<open>SHA-256\<close>

type_synonym w32 = "32 word"

definition rotr :: "nat \<Rightarrow> w32 \<Rightarrow> w32" where
  "rotr n x = drop_bit n x OR push_bit (32 - n) x"

text \<open>
  The constants as the standard defines them: the first 32 bits of the fractional parts of the cube
  roots of the first 64 primes, and of the square roots of the first eight. \<open>iroot k n b r\<close> adds to \<open>r\<close> the
  bits below \<open>b\<close> of the integer \<open>k\<close>-th root of \<open>n\<close>.
\<close>

fun iroot :: "nat \<Rightarrow> int \<Rightarrow> nat \<Rightarrow> int \<Rightarrow> int" where
  "iroot k n 0 r = r"
| "iroot k n (Suc b) r = (let r' = r + 2 ^ b in iroot k n b (if r' ^ k \<le> n then r' else r))"

definition sha_primes :: "int list" where
  "sha_primes = filter (\<lambda>p. list_all (\<lambda>d. p mod d \<noteq> 0) [2..p - 1]) [2..311]"

definition sha_k :: "w32 list" where
  "sha_k = map (\<lambda>p. of_int (iroot 3 (p * 2 ^ 96) 40 0)) sha_primes"

definition sha_h0 :: "w32 list" where
  "sha_h0 = map (\<lambda>p. of_int (iroot 2 (p * 2 ^ 64) 40 0)) [2, 3, 5, 7, 11, 13, 17, 19]"

text \<open>The message schedule: \<open>n\<close> further words after the sixteen of the block.\<close>

fun sha_schedule :: "nat \<Rightarrow> w32 list \<Rightarrow> w32 list" where
  "sha_schedule 0 ws = ws"
| "sha_schedule (Suc n) ws =
     (let i = length ws; a = ws ! (i - 15); b = ws ! (i - 2);
          s0 = rotr 7 a XOR rotr 18 a XOR drop_bit 3 a;
          s1 = rotr 17 b XOR rotr 19 b XOR drop_bit 10 b
      in sha_schedule n (ws @ [ws ! (i - 16) + s0 + ws ! (i - 7) + s1]))"

fun sha_round :: "w32 list \<Rightarrow> w32 \<times> w32 \<Rightarrow> w32 list" where
  "sha_round [a, b, c, d, e, f, g, h] (k, w) =
     (let s1 = rotr 6 e XOR rotr 11 e XOR rotr 25 e;
          ch = (e AND f) XOR (NOT e AND g);
          t1 = h + s1 + ch + k + w;
          s0 = rotr 2 a XOR rotr 13 a XOR rotr 22 a;
          maj = (a AND b) XOR (a AND c) XOR (b AND c)
      in [t1 + s0 + maj, a, b, c, d + t1, e, f, g])"
| "sha_round st _ = st"

definition sha_block :: "w32 list \<Rightarrow> w32 list \<Rightarrow> w32 list" where
  "sha_block hs ws =
     map2 (+) hs (foldl sha_round hs (zip sha_k (sha_schedule 48 ws)))"

definition byte_word :: "char \<Rightarrow> w32" where
  "byte_word c = word_of_nat (of_char c)"

fun be_words :: "bytes \<Rightarrow> w32 list" where
  "be_words (a # b # c # d # s) =
     (push_bit 24 (byte_word a) OR push_bit 16 (byte_word b) OR push_bit 8 (byte_word c)
        OR byte_word d) # be_words s"
| "be_words _ = []"

fun sha_blocks :: "nat \<Rightarrow> w32 list \<Rightarrow> w32 list \<Rightarrow> w32 list" where
  "sha_blocks 0 hs ws = hs"
| "sha_blocks (Suc n) hs ws = sha_blocks n (sha_block hs (take 16 ws)) (drop 16 ws)"

definition be_bytes :: "nat \<Rightarrow> nat \<Rightarrow> bytes" where
  "be_bytes n v = map (\<lambda>i. char_of (v div 256 ^ (n - 1 - i))) [0..<n]"

definition sha_pad :: "bytes \<Rightarrow> bytes" where
  "sha_pad m =
     m @ [CHR 0x80] @ replicate ((119 - length m mod 64) mod 64) (CHR 0x00)
       @ be_bytes 8 (8 * length m mod 2 ^ 64)"

definition sha256 :: "bytes \<Rightarrow> bytes" where
  "sha256 m =
     (let p = sha_pad m
      in concat (map (\<lambda>w. be_bytes 4 (unat w)) (sha_blocks (length p div 64) sha_h0 (be_words p))))"

lemma length_sha_schedule [simp]: "length (sha_schedule n ws) = n + length ws"
  by (induction n ws rule: sha_schedule.induct) (simp_all add: Let_def)

lemma length_sha_round [simp]: "length (sha_round st kw) = length st"
  by (induction st kw rule: sha_round.induct) (simp_all add: Let_def)

lemma length_foldl_sha_round [simp]: "length (foldl sha_round st kws) = length st"
  by (induction kws arbitrary: st) simp_all

lemma length_sha_blocks [simp]: "length (sha_blocks n hs ws) = length hs"
  by (induction n hs ws rule: sha_blocks.induct) (simp_all add: sha_block_def)

lemma length_be_bytes [simp]: "length (be_bytes n v) = n"
  by (simp add: be_bytes_def)

lemma length_concat_be_bytes: "length (concat (map (\<lambda>w. be_bytes n (f w)) ws)) = n * length ws"
  by (induction ws) simp_all

text \<open>A digest has 32 bytes.\<close>

lemma length_sha256 [simp]: "length (sha256 m) = 32"
  by (simp add: sha256_def Let_def length_concat_be_bytes sha_h0_def)

end
