(* ===== verification/Registry_Repo.thy ===== *)
theory Registry_Repo
  imports Registry_Domain GoTime "HOL-Library.List_Lexorder" "HOL-Library.Char_ord"
begin

text \<open>
  The PostgreSQL repository of the agent registry
  (\<^verbatim>\<open>s0/agent-registry-service/internal/repository/postgres/repository.go\<close>) over the tables of its
  migrations.

  \<^item> The state \<open>db\<close> holds the four tables as lists of rows in the order of insertion. Each SQL
    statement is a function on it that checks the constraints the migrations declare.
  \<^item> What the server does beyond that is an argument: \<open>io k\<close> is an error the \<open>k\<close>-th statement of
    an operation reports (a lost connection, a value the column type refuses), \<open>gen\<close> supplies
    clock readings and generated identifiers. A failing transaction leaves no trace, a failing
    \<^verbatim>\<open>COMMIT\<close> included.
  \<^item> Identifiers are compared as text, which is how canonical UUIDs compare and sort.
  \<^item> A \<^verbatim>\<open>timestamptz\<close> column keeps microseconds.

  The lemmas give the effect of every operation on each branch.
\<close>

section \<open>Tables\<close>

record agent_row =
  ar_agent_id :: string
  ar_agent_type :: string
  ar_owner_id :: string
  ar_external_id :: "string option"
  ar_status :: string
  ar_passport_id :: "string option"
  ar_metadata :: "any option"
  ar_registration_ts :: instant
  ar_updated_ts :: instant
  ar_admission_constraints :: any
  ar_admitted_policy_id :: "string option"
  ar_admitted_policy_ver :: "string option"
  ar_admission_ts :: instant

record history_row =
  hr_history_id :: string
  hr_agent_id :: string
  hr_previous_status :: "string option"
  hr_new_status :: string
  hr_reason :: string
  hr_changed_by :: string
  hr_changed_ts :: instant

record outbox_row =
  ob_outbox_id :: string
  ob_agent_id :: string
  ob_event_type :: string
  ob_payload :: any
  ob_status :: string
  ob_created_ts :: instant
  ob_last_attempt_ts :: "instant option"
  ob_attempt_count :: int

record envelope_row =
  er_envelope_id :: string
  er_agent_id :: string
  er_policy_id :: "string option"
  er_policy_ver :: "string option"
  er_admitted_scopes :: any
  er_admitted_behavioral_caps :: any
  er_admitted_ts :: instant
  er_issuing_authority :: string
  er_signature :: bytes

record db =
  db_agents :: "agent_row list"
  db_history :: "history_row list"
  db_outbox :: "outbox_row list"
  db_envelopes :: "envelope_row list"

record gen =
  g_now :: "nat \<Rightarrow> instant"
  g_uuid :: "nat \<Rightarrow> string"
  g_pg_now :: instant
  g_history_id :: string
  g_outbox_id :: string

type_synonym io = "nat \<Rightarrow> db_error option"

definition pg_ts :: "instant \<Rightarrow> instant" where
  "pg_ts t = t div 1000 * 1000"

section \<open>Statements\<close>

definition stmt :: "io \<Rightarrow> nat \<Rightarrow> (db \<Rightarrow> db_error + db) \<Rightarrow> db \<Rightarrow> db_error + db" where
  "stmt io k f d = (case io k of Some e \<Rightarrow> Inl e | None \<Rightarrow> f d)"

definition find_agent :: "db \<Rightarrow> string \<Rightarrow> agent_row option" where
  "find_agent d agentID = List.find (\<lambda>r. ar_agent_id r = agentID) (db_agents d)"

definition insert_agent :: "agent_row \<Rightarrow> db \<Rightarrow> db_error + db" where
  "insert_agent r d =
     (if find_agent d (ar_agent_id r) \<noteq> None then Inl UniqueViolation
      else if ar_external_id r \<noteq> None \<and>
              list_ex (\<lambda>r'. ar_external_id r' = ar_external_id r \<and> ar_owner_id r' = ar_owner_id r)
                (db_agents d)
        then Inl UniqueViolation
      else if ar_status r \<notin> set known_statuses \<or> ar_agent_type r \<notin> set validTypes
        then Inl (OtherDbError ''check_violation'')
      else Inr (d\<lparr>db_agents := db_agents d @ [r]\<rparr>))"

definition insert_envelope :: "envelope_row \<Rightarrow> db \<Rightarrow> db_error + db" where
  "insert_envelope r d =
     (if list_ex (\<lambda>r'. er_envelope_id r' = er_envelope_id r \<or> er_agent_id r' = er_agent_id r)
           (db_envelopes d)
        then Inl UniqueViolation
      else if find_agent d (er_agent_id r) = None
        then Inl (OtherDbError ''foreign_key_violation'')
      else Inr (d\<lparr>db_envelopes := db_envelopes d @ [r]\<rparr>))"

definition insert_history :: "history_row \<Rightarrow> db \<Rightarrow> db_error + db" where
  "insert_history r d =
     (if find_agent d (hr_agent_id r) = None then Inl (OtherDbError ''foreign_key_violation'')
      else Inr (d\<lparr>db_history := db_history d @ [r]\<rparr>))"

definition insert_outbox :: "outbox_row \<Rightarrow> db \<Rightarrow> db_error + db" where
  "insert_outbox r d =
     (if list_ex (\<lambda>r'. ob_outbox_id r' = ob_outbox_id r) (db_outbox d) then Inl UniqueViolation
      else Inr (d\<lparr>db_outbox := db_outbox d @ [r]\<rparr>))"

definition update_agent_status :: "string \<Rightarrow> instant \<Rightarrow> string \<Rightarrow> db \<Rightarrow> db_error + db" where
  "update_agent_status newStatus ts agentID d =
     (if newStatus \<notin> set known_statuses \<and> find_agent d agentID \<noteq> None
        then Inl (OtherDbError ''check_violation'')
      else Inr (d\<lparr>db_agents :=
        map (\<lambda>r. if ar_agent_id r = agentID
                 then r\<lparr>ar_status := newStatus, ar_updated_ts := pg_ts ts\<rparr> else r)
          (db_agents d)\<rparr>))"

section \<open>Rows and entities\<close>

definition nullable :: "string \<Rightarrow> string option" where
  "nullable s = (if s = [] then None else Some s)"

definition coalesce_str :: "string option \<Rightarrow> string" where
  "coalesce_str v = (case v of None \<Rightarrow> [] | Some s \<Rightarrow> s)"

text \<open>The parameters of the \<^verbatim>\<open>INSERT\<close> into \<^verbatim>\<open>agents\<close>.\<close>

definition agent_params :: "Agent \<Rightarrow> agent_row" where
  "agent_params a = \<lparr>
     ar_agent_id = ag_AgentID a,
     ar_agent_type = ag_AgentType a,
     ar_owner_id = ag_OwnerID a,
     ar_external_id = nullable (ag_ExternalID a),
     ar_status = ag_Status a,
     ar_passport_id = None,
     ar_metadata = Some (decoded (strmap_any (ag_Metadata a))),
     ar_registration_ts = pg_ts (ag_RegistrationTS a),
     ar_updated_ts = pg_ts (ag_UpdatedTS a),
     ar_admission_constraints = decoded (objmap_any (ag_AdmissionConstraints a)),
     ar_admitted_policy_id = nullable (ag_AdmittedPolicyID a),
     ar_admitted_policy_ver = nullable (ag_AdmittedPolicyVer a),
     ar_admission_ts = pg_ts (ag_AdmissionTS a) \<rparr>"

definition envelope_params :: "AdmissionEnvelope \<Rightarrow> envelope_row" where
  "envelope_params e = \<lparr>
     er_envelope_id = env_EnvelopeID e,
     er_agent_id = env_AgentID e,
     er_policy_id = nullable (env_PolicyID e),
     er_policy_ver = nullable (env_PolicyVer e),
     er_admitted_scopes =
       (if env_AdmittedScopes e = [] then ANil else AArr (map AStr (env_AdmittedScopes e))),
     er_admitted_behavioral_caps =
       AObj (map (\<lambda>(k, x). (k, AFloat x)) (env_AdmittedBehavioralCaps e)),
     er_admitted_ts = pg_ts (env_AdmittedTS e),
     er_issuing_authority = env_IssuingAuthority e,
     er_signature = env_Signature e \<rparr>"

text \<open>Scanning a row of \<^verbatim>\<open>agents\<close> and decoding its JSON columns.\<close>

definition scan_agent :: "agent_row \<Rightarrow> reg_error + Agent" where
  "scan_agent r =
     (case (case ar_metadata r of None \<Rightarrow> Some None | Some m \<Rightarrow> into_strmap m) of
        None \<Rightarrow> Inl (ErrColumnJSON (ar_agent_id r))
      | Some meta \<Rightarrow>
          (case into_objmap (ar_admission_constraints r) of
             None \<Rightarrow> Inl (ErrColumnJSON (ar_agent_id r))
           | Some adm \<Rightarrow> Inr \<lparr>
               ag_AgentID = ar_agent_id r,
               ag_AgentType = ar_agent_type r,
               ag_OwnerID = ar_owner_id r,
               ag_ExternalID = coalesce_str (ar_external_id r),
               ag_Status = ar_status r,
               ag_PassportID = coalesce_str (ar_passport_id r),
               ag_Metadata = meta,
               ag_RegistrationTS = ar_registration_ts r,
               ag_UpdatedTS = ar_updated_ts r,
               ag_AdmissionConstraints = adm,
               ag_AdmittedPolicyID = coalesce_str (ar_admitted_policy_id r),
               ag_AdmittedPolicyVer = coalesce_str (ar_admitted_policy_ver r),
               ag_AdmissionTS = ar_admission_ts r \<rparr>))"

definition scan_envelope :: "envelope_row \<Rightarrow> reg_error + AdmissionEnvelope" where
  "scan_envelope r =
     (case (case er_admitted_scopes r of
              ANil \<Rightarrow> Some [] | AArr vs \<Rightarrow> into_string_list vs | _ \<Rightarrow> None) of
        None \<Rightarrow> Inl (ErrColumnJSON ''admitted_scopes'')
      | Some scopes \<Rightarrow>
          (case Option.bind (into_map (er_admitted_behavioral_caps r)) into_floats of
             None \<Rightarrow> Inl (ErrColumnJSON ''admitted_behavioral_caps'')
           | Some caps \<Rightarrow> Inr \<lparr>
               env_EnvelopeID = er_envelope_id r,
               env_AgentID = er_agent_id r,
               env_PolicyID = coalesce_str (er_policy_id r),
               env_PolicyVer = coalesce_str (er_policy_ver r),
               env_AdmittedScopes = scopes,
               env_AdmittedBehavioralCaps = caps,
               env_AdmittedTS = er_admitted_ts r,
               env_IssuingAuthority = er_issuing_authority r,
               env_Signature = er_signature r \<rparr>))"

section \<open>Operations\<close>

text \<open>
  Statement numbers of a registration: 0 \<^verbatim>\<open>BEGIN\<close>, 1 agents, 2 envelope, 3 history, 4 outbox, 5
  \<^verbatim>\<open>COMMIT\<close>. \<open>db_fails\<close> is the return of a driver error after the deferred rollback.
\<close>

definition new_history :: "gen \<Rightarrow> string \<Rightarrow> string option \<Rightarrow> string \<Rightarrow> string \<Rightarrow> string \<Rightarrow> history_row" where
  "new_history g agentID prev new reason changedBy = \<lparr>
     hr_history_id = g_history_id g, hr_agent_id = agentID, hr_previous_status = prev,
     hr_new_status = new, hr_reason = reason, hr_changed_by = changedBy,
     hr_changed_ts = g_pg_now g \<rparr>"

definition new_outbox :: "gen \<Rightarrow> string \<Rightarrow> string \<Rightarrow> any \<Rightarrow> outbox_row" where
  "new_outbox g agentID eventType payload = \<lparr>
     ob_outbox_id = g_outbox_id g, ob_agent_id = agentID, ob_event_type = eventType,
     ob_payload = decoded payload, ob_status = ''PENDING'', ob_created_ts = g_pg_now g,
     ob_last_attempt_ts = None, ob_attempt_count = 0 \<rparr>"

definition history_and_outbox ::
  "io \<Rightarrow> history_row \<Rightarrow> outbox_row \<Rightarrow> db \<Rightarrow> db_error + db" where
  "history_and_outbox io h ob d =
     (case stmt io 3 (insert_history h) d of
        Inl e \<Rightarrow> Inl e
      | Inr d' \<Rightarrow>
          (case stmt io 4 (insert_outbox ob) d' of
             Inl e \<Rightarrow> Inl e
           | Inr d'' \<Rightarrow> stmt io 5 Inr d''))"

definition RegisterAgentWithOutbox ::
  "io \<Rightarrow> gen \<Rightarrow> Agent \<Rightarrow> AdmissionEnvelope option \<Rightarrow> string \<Rightarrow> any \<Rightarrow> db
   \<Rightarrow> (reg_error + Agent) \<times> db" where
  "RegisterAgentWithOutbox io g a envelope eventType payload d =
     (case stmt io 0 Inr d of
        Inl e \<Rightarrow> (Inl (ErrDB e), d)
      | Inr d0 \<Rightarrow>
     (case stmt io 1 (insert_agent (agent_params a)) d0 of
        Inl UniqueViolation \<Rightarrow> (Inl (ErrAlreadyExists AlreadyRegistered), d)
      | Inl e \<Rightarrow> (Inl (ErrDB e), d)
      | Inr d1 \<Rightarrow>
     (case (case envelope of
              None \<Rightarrow> Inr d1
            | Some e \<Rightarrow> stmt io 2 (insert_envelope (envelope_params e)) d1) of
        Inl e \<Rightarrow> (Inl (ErrDB e), d)
      | Inr d2 \<Rightarrow>
     (case history_and_outbox io
             (new_history g (ag_AgentID a) None (ag_Status a) ''initial registration'' ''system'')
             (new_outbox g (ag_AgentID a) eventType payload) d2 of
        Inl e \<Rightarrow> (Inl (ErrDB e), d)
      | Inr d3 \<Rightarrow> (Inr a, d3)))))"

definition GetAgent :: "db_error option \<Rightarrow> string \<Rightarrow> db \<Rightarrow> reg_error + Agent" where
  "GetAgent err agentID d =
     (case err of
        Some e \<Rightarrow> Inl (ErrDB e)
      | None \<Rightarrow>
          (case find_agent d agentID of
             None \<Rightarrow> Inl (ErrNotFound (AgentUnknown agentID))
           | Some r \<Rightarrow> scan_agent r))"

definition GetAdmissionEnvelope ::
  "db_error option \<Rightarrow> string \<Rightarrow> db \<Rightarrow> reg_error + AdmissionEnvelope" where
  "GetAdmissionEnvelope err agentID d =
     (case err of
        Some e \<Rightarrow> Inl (ErrDB e)
      | None \<Rightarrow>
          (case List.find (\<lambda>r. er_agent_id r = agentID) (db_envelopes d) of
             None \<Rightarrow> Inl (ErrNotFound (EnvelopeUnknown agentID))
           | Some r \<Rightarrow> scan_envelope r))"

text \<open>
  The rows a listing selects, in order. \<open>delivered\<close> bounds the rows the connection delivers before it
  breaks (\<open>None\<close>: all): \<^verbatim>\<open>rows.Next\<close> then returns false and the loop ends without an error.
\<close>

definition page_limit :: "int \<Rightarrow> nat" where
  "page_limit limit = nat (if limit \<le> 0 then 50 else if 1000 < limit then 1000 else limit)"

definition selects :: "string \<Rightarrow> string \<Rightarrow> string \<Rightarrow> string \<Rightarrow> agent_row \<Rightarrow> bool" where
  "selects status agentType ownerID token r \<longleftrightarrow>
     (if status \<noteq> [] then ar_status r = status else ar_status r \<noteq> StatusDeregistered)
   \<and> (agentType \<noteq> [] \<longrightarrow> ar_agent_type r = ToUpper agentType)
   \<and> (ownerID \<noteq> [] \<longrightarrow> ar_owner_id r = ownerID)
   \<and> (token \<noteq> [] \<longrightarrow> token < ar_agent_id r)"

fun scan_agents :: "agent_row list \<Rightarrow> reg_error + Agent list" where
  "scan_agents [] = Inr []"
| "scan_agents (r # rs) =
     (case scan_agent r of
        Inl e \<Rightarrow> Inl e
      | Inr a \<Rightarrow> (case scan_agents rs of Inl e \<Rightarrow> Inl e | Inr as \<Rightarrow> Inr (a # as)))"

definition ListAgents ::
  "db_error option \<Rightarrow> nat option \<Rightarrow> string \<Rightarrow> string \<Rightarrow> string \<Rightarrow> int \<Rightarrow> string \<Rightarrow> db
   \<Rightarrow> reg_error + Agent list \<times> string \<times> nat" where
  "ListAgents err delivered status agentType ownerID limit token d =
     (case err of
        Some e \<Rightarrow> Inl (ErrDB e)
      | None \<Rightarrow>
          (let n = page_limit limit;
               rows = take (n + 1) (sort_key ar_agent_id
                        (filter (selects status agentType ownerID token) (db_agents d)));
               seen = (case delivered of None \<Rightarrow> rows | Some k \<Rightarrow> take k rows)
           in case scan_agents seen of
                Inl e \<Rightarrow> Inl e
              | Inr result \<Rightarrow>
                  if n < length result
                  then Inr (take n result, ag_AgentID (result ! n), length (take n result))
                  else Inr (result, [], length result)))"

text \<open>
  Statement numbers of a status update: 0 \<^verbatim>\<open>BEGIN\<close>, 1 select for update, 2 update, 3 history, 4 outbox,
  5 \<^verbatim>\<open>COMMIT\<close>, 6 the read after the commit. \<open>status_tx\<close> is the transaction; \<open>others\<close> is what other
  transactions do to the tables between the commit and the read.
\<close>

definition status_event :: "gen \<Rightarrow> string \<Rightarrow> string \<Rightarrow> string \<Rightarrow> string \<Rightarrow> string \<times> any" where
  "status_event g agentID prev newStatus reason =
     (let eventType = (if newStatus = StatusDeregistered then ''AGENT_DEREGISTERED''
                       else ''AGENT_STATUS_CHANGED'')
      in (eventType, AObj [
           (''event_id'', AStr (g_uuid g 0)), (''event_type'', AStr eventType),
           (''agent_id'', AStr agentID), (''agent_type'', AStr []), (''owner_id'', AStr []),
           (''previous_status'', AStr prev), (''new_status'', AStr newStatus),
           (''reason'', AStr reason), (''emitted_ts'', AInt (UnixMilli (g_now g 1))),
           (''schema_version'', AStr ''1.0.0'')]))"

definition status_tx ::
  "io \<Rightarrow> gen \<Rightarrow> string \<Rightarrow> string \<Rightarrow> string \<Rightarrow> string \<Rightarrow> db \<Rightarrow> (reg_error + string) \<times> db" where
  "status_tx io g agentID newStatus reason changedBy d =
     (case stmt io 0 Inr d of
        Inl e \<Rightarrow> (Inl (ErrDB e), d)
      | Inr d0 \<Rightarrow>
     (case stmt io 1 Inr d0 of
        Inl e \<Rightarrow> (Inl (ErrDB e), d)
      | Inr _ \<Rightarrow>
     (case find_agent d0 agentID of
        None \<Rightarrow> (Inl (ErrNotFound (AgentUnknown agentID)), d)
      | Some r \<Rightarrow>
     (let prev = ar_status r
      in if \<not> CanTransition prev newStatus
         then (Inl (ErrFailedPrecondition (InvalidTransition prev newStatus)), d)
         else if prev = newStatus
         then (case stmt io 5 Inr d0 of Inl e \<Rightarrow> (Inl (ErrDB e), d) | Inr d1 \<Rightarrow> (Inr prev, d1))
         else
           (case stmt io 2 (update_agent_status newStatus (g_now g 0) agentID) d0 of
              Inl e \<Rightarrow> (Inl (ErrDB e), d)
            | Inr d1 \<Rightarrow>
           (case status_event g agentID prev newStatus reason of (eventType, payload) \<Rightarrow>
           (case history_and_outbox io
                   (new_history g agentID (Some prev) newStatus reason changedBy)
                   (new_outbox g agentID eventType payload) d1 of
              Inl e \<Rightarrow> (Inl (ErrDB e), d)
            | Inr d2 \<Rightarrow> (Inr prev, d2))))))))"

definition UpdateAgentStatus ::
  "io \<Rightarrow> gen \<Rightarrow> (db \<Rightarrow> db) \<Rightarrow> string \<Rightarrow> string \<Rightarrow> string \<Rightarrow> string \<Rightarrow> db
   \<Rightarrow> (reg_error + Agent \<times> string) \<times> db" where
  "UpdateAgentStatus io g others agentID newStatus reason changedBy d =
     (case status_tx io g agentID newStatus reason changedBy d of
        (Inl e, d1) \<Rightarrow> (Inl e, d1)
      | (Inr prev, d1) \<Rightarrow>
          (case GetAgent (io 6) agentID (others d1) of
             Inl e \<Rightarrow> (Inl e, others d1)
           | Inr a \<Rightarrow> (Inr (a, prev), others d1)))"

section \<open>Effect of the operations\<close>

lemma stmt_Inr [simp]: "stmt io k f d = Inr d' \<longleftrightarrow> io k = None \<and> f d = Inr d'"
  by (simp add: stmt_def split: option.splits)

lemma stmt_Inl [simp]:
  "stmt io k f d = Inl e \<longleftrightarrow> io k = Some e \<or> io k = None \<and> f d = Inl e"
  by (simp add: stmt_def split: option.splits)

lemma stmt_None [simp]: "io k = None \<Longrightarrow> stmt io k f d = f d"
  by (simp add: stmt_def)

lemma find_agent_Some:
  "find_agent d i = Some r \<Longrightarrow> r \<in> set (db_agents d) \<and> ar_agent_id r = i"
  unfolding find_agent_def find_Some_iff by auto

lemma find_agent_None:
  "find_agent d i = None \<longleftrightarrow> i \<notin> ar_agent_id ` set (db_agents d)"
  unfolding find_agent_def find_None_iff by auto

lemma find_key_iff:
  "distinct (map key rs) \<Longrightarrow> List.find (\<lambda>r. key r = i) rs = Some r \<longleftrightarrow> r \<in> set rs \<and> key r = i"
  by (induction rs) (auto simp: rev_image_eqI)

lemma find_agent_iff:
  "distinct (map ar_agent_id (db_agents d)) \<Longrightarrow>
     find_agent d i = Some r \<longleftrightarrow> r \<in> set (db_agents d) \<and> ar_agent_id r = i"
  by (simp add: find_agent_def find_key_iff)

lemma find_append: "List.find P (xs @ ys) = (case List.find P xs of None \<Rightarrow> List.find P ys | r \<Rightarrow> r)"
  by (induction xs) auto

lemma find_agent_append:
  "find_agent (d\<lparr>db_agents := db_agents d @ [r]\<rparr>) i =
     (case find_agent d i of None \<Rightarrow> if ar_agent_id r = i then Some r else None | q \<Rightarrow> q)"
  by (simp add: find_agent_def find_append split: option.splits)

lemma find_agent_cong: "db_agents d = db_agents d' \<Longrightarrow> find_agent d i = find_agent d' i"
  by (simp add: find_agent_def)

lemma find_agent_other [simp]:
  "find_agent (d\<lparr>db_history := h\<rparr>) i = find_agent d i"
  "find_agent (d\<lparr>db_outbox := ob\<rparr>) i = find_agent d i"
  "find_agent (d\<lparr>db_envelopes := es\<rparr>) i = find_agent d i"
  by (simp_all add: find_agent_def)

lemma insert_agent_Inr:
  assumes "insert_agent r d = Inr d'"
  shows "d' = d\<lparr>db_agents := db_agents d @ [r]\<rparr>" "find_agent d (ar_agent_id r) = None"
    "ar_status r \<in> set known_statuses" "ar_agent_type r \<in> set validTypes"
    "ar_external_id r \<noteq> None \<Longrightarrow> r' \<in> set (db_agents d) \<Longrightarrow> ar_external_id r' = ar_external_id r \<Longrightarrow>
       ar_owner_id r' \<noteq> ar_owner_id r"
  using assms by (auto simp: insert_agent_def list_ex_iff split: if_splits)

lemma insert_envelope_Inr:
  "insert_envelope r d = Inr d' \<Longrightarrow> d' = d\<lparr>db_envelopes := db_envelopes d @ [r]\<rparr>"
  by (auto simp: insert_envelope_def split: if_splits)

lemma history_and_outbox_Inr:
  assumes "history_and_outbox io h ob d = Inr d'"
  shows "d' = d\<lparr>db_history := db_history d @ [h], db_outbox := db_outbox d @ [ob]\<rparr>"
  using assms
  by (auto simp: history_and_outbox_def insert_history_def insert_outbox_def
      split: sum.splits if_splits)

lemma RegisterAgentWithOutbox_rollback:
  "\<not> is_ok (fst (RegisterAgentWithOutbox io g a env et pl d)) \<longrightarrow>
     snd (RegisterAgentWithOutbox io g a env et pl d) = d"
  by (simp add: RegisterAgentWithOutbox_def split: sum.split db_error.split)

lemma status_tx_rollback:
  "\<not> is_ok (fst (status_tx io g i new reason who d)) \<longrightarrow> snd (status_tx io g i new reason who d) = d"
  by (simp add: status_tx_def Let_def case_prod_beta split: sum.split option.split)

text \<open>What a registration that returns has written, and that one that fails has written nothing.\<close>

lemma RegisterAgentWithOutbox_cases:
  obtains (fails) e where "RegisterAgentWithOutbox io g a env et pl d = (Inl e, d)"
  | (registers) "find_agent d (ag_AgentID a) = None"
      "insert_agent (agent_params a) d = Inr (d\<lparr>db_agents := db_agents d @ [agent_params a]\<rparr>)"
      "RegisterAgentWithOutbox io g a env et pl d =
         (Inr a, d\<lparr>db_agents := db_agents d @ [agent_params a],
            db_history := db_history d @
              [new_history g (ag_AgentID a) None (ag_Status a) ''initial registration'' ''system''],
            db_outbox := db_outbox d @ [new_outbox g (ag_AgentID a) et pl],
            db_envelopes := db_envelopes d @
              (case env of None \<Rightarrow> [] | Some e \<Rightarrow> [envelope_params e])\<rparr>)"
proof (cases "fst (RegisterAgentWithOutbox io g a env et pl d)")
  case (Inl e)
  then have "RegisterAgentWithOutbox io g a env et pl d = (Inl e, d)"
    using RegisterAgentWithOutbox_rollback [of io g a env et pl d] by (simp add: prod_eq_iff)
  then show ?thesis by (rule fails)
next
  case (Inr a')
  let ?env = "\<lambda>d1. case env of None \<Rightarrow> Inr d1
    | Some e \<Rightarrow> stmt io 2 (insert_envelope (envelope_params e)) d1"
  let ?h = "new_history g (ag_AgentID a) None (ag_Status a) ''initial registration'' ''system''"
  from Inr obtain d1 d2 d3 where ins: "insert_agent (agent_params a) d = Inr d1"
    and e: "?env d1 = Inr d2"
    and hob: "history_and_outbox io ?h (new_outbox g (ag_AgentID a) et pl) d2 = Inr d3"
    and res: "RegisterAgentWithOutbox io g a env et pl d = (Inr a, d3)"
    by (simp add: RegisterAgentWithOutbox_def split: sum.splits db_error.splits)
  note d1 = insert_agent_Inr [OF ins]
  have "d2 = d1\<lparr>db_envelopes := db_envelopes d1 @
      (case env of None \<Rightarrow> [] | Some e \<Rightarrow> [envelope_params e])\<rparr>"
    using e by (auto dest: insert_envelope_Inr split: option.splits)
  then show ?thesis
    using registers res ins d1(1,2) history_and_outbox_Inr [OF hob] by (simp add: agent_params_def)
qed

lemma status_tx_cases:
  obtains (fails) e where "status_tx io g i new reason who d = (Inl e, d)"
  | (same) r where "find_agent d i = Some r" "ar_status r = new"
      "status_tx io g i new reason who d = (Inr new, d)"
  | (changes) r where "find_agent d i = Some r" "ar_status r \<noteq> new" "CanTransition (ar_status r) new"
      "status_tx io g i new reason who d =
         (Inr (ar_status r), d\<lparr>
            db_agents := map (\<lambda>q. if ar_agent_id q = i
              then q\<lparr>ar_status := new, ar_updated_ts := pg_ts (g_now g 0)\<rparr> else q) (db_agents d),
            db_history := db_history d @ [new_history g i (Some (ar_status r)) new reason who],
            db_outbox := db_outbox d @
              [new_outbox g i (fst (status_event g i (ar_status r) new reason))
                 (snd (status_event g i (ar_status r) new reason))]\<rparr>)"
proof (cases "fst (status_tx io g i new reason who d)")
  case (Inl e)
  then have "status_tx io g i new reason who d = (Inl e, d)"
    using status_tx_rollback [of io g i new reason who d] by (simp add: prod_eq_iff)
  then show ?thesis by (rule fails)
next
  case (Inr prev)
  then obtain r where r: "find_agent d i = Some r" and can: "CanTransition (ar_status r) new"
    by (simp add: status_tx_def Let_def split: sum.splits option.splits if_splits)
  show ?thesis
  proof (cases "ar_status r = new")
    case True
    then show ?thesis using Inr r can
      by (intro same) (auto simp: status_tx_def Let_def split: sum.splits if_splits)
  next
    case False
    let ?ev = "status_event g i (ar_status r) new reason"
    from Inr r can False obtain d1 d2 where
      d1: "update_agent_status new (g_now g 0) i d = Inr d1" and
      d2: "history_and_outbox io (new_history g i (Some (ar_status r)) new reason who)
             (new_outbox g i (fst ?ev) (snd ?ev)) d1 = Inr d2" and
      "status_tx io g i new reason who d = (Inr (ar_status r), d2)"
      by (simp add: status_tx_def Let_def case_prod_beta split: sum.splits if_splits)
    with r can False show ?thesis
      by (intro changes)
        (auto simp: update_agent_status_def split: if_splits dest!: history_and_outbox_Inr)
  qed
qed

end
