(* ===== verification/GoGrpc.thy ===== *)
theory GoGrpc
  imports Prelude
begin

text \<open>
  The status codes of gRPC (\<^verbatim>\<open>google.golang.org/grpc/codes\<close>). A handler returns a response or a status
  with a message, \<open>(code \<times> 'm) + 'a\<close>.
\<close>

datatype code =
    OK | Canceled | Unknown | InvalidArgument | DeadlineExceeded | NotFound | AlreadyExists
  | PermissionDenied | ResourceExhausted | FailedPrecondition | Aborted | OutOfRange
  | Unimplemented | Internal | Unavailable | DataLoss | Unauthenticated

type_synonym ('m, 'a) rpc = "(code \<times> 'm) + 'a"

fun rpc_code :: "('m, 'a) rpc \<Rightarrow> code" where
  "rpc_code (Inl (c, _)) = c"
| "rpc_code (Inr _) = OK"

lemma rpc_code_split:
  "rpc_code r = (case r of Inl e \<Rightarrow> fst e | Inr _ \<Rightarrow> OK)"
  by (cases r) auto

end
