(* ===== verification/Registry_Service.thy ===== *)
theory Registry_Service
  imports Registry_Repo GoGrpc
begin

text \<open>
  The business rules of the agent registry (\<^verbatim>\<open>internal/service/registry.go\<close>), its gRPC adapter
  (\<^verbatim>\<open>internal/grpc/server.go\<close>) and the messages of its contract
  (\<^verbatim>\<open>proto/agent_registry.pb.go\<close>).

  The service takes the clock and the identifiers it generates from \<open>gen\<close>: \<open>g_uuid 0\<close> is the agent,
  \<open>g_uuid 1\<close> a generated envelope, \<open>g_uuid 2\<close> the event of a registration. The handlers are
  prefixed \<open>srv_\<close>. The lemmas give the result of each operation on each branch and relate the
  handler codes to the errors of the service.
\<close>

section \<open>Service\<close>

definition register_payload :: "gen \<Rightarrow> Agent \<Rightarrow> any" where
  "register_payload g a = AObj [
     (''event_id'', AStr (g_uuid g 2)), (''event_type'', AStr ''AGENT_REGISTERED''),
     (''agent_id'', AStr (ag_AgentID a)), (''agent_type'', AStr (ag_AgentType a)),
     (''owner_id'', AStr (ag_OwnerID a)), (''previous_status'', ANil),
     (''new_status'', AStr (ag_Status a)), (''reason'', AStr ''initial registration''),
     (''emitted_ts'', AInt (UnixMilli (g_now g 0))), (''schema_version'', AStr ''1.0.0'')]"

definition new_agent ::
  "gen \<Rightarrow> string \<Rightarrow> string \<Rightarrow> string \<Rightarrow> strmap option \<Rightarrow> AdmissionSnapshot option \<Rightarrow> Agent" where
  "new_agent g validType ownerID externalID metadata admission = \<lparr>
     ag_AgentID = g_uuid g 0, ag_AgentType = validType, ag_OwnerID = ownerID,
     ag_ExternalID = externalID, ag_Status = StatusPending, ag_PassportID = [],
     ag_Metadata = metadata, ag_RegistrationTS = g_now g 0, ag_UpdatedTS = g_now g 0,
     ag_AdmissionConstraints =
       (case admission of
          None \<Rightarrow> Some []
        | Some sn \<Rightarrow> (case sn_Constraints sn of None \<Rightarrow> Some [] | Some c \<Rightarrow> Some c)),
     ag_AdmittedPolicyID = (case admission of None \<Rightarrow> [] | Some sn \<Rightarrow> sn_PolicyID sn),
     ag_AdmittedPolicyVer = (case admission of None \<Rightarrow> [] | Some sn \<Rightarrow> sn_PolicyVer sn),
     ag_AdmissionTS = g_now g 0 \<rparr>"

definition new_envelope ::
  "gen \<Rightarrow> string \<Rightarrow> AdmissionSnapshot option \<Rightarrow> AdmissionEnvelope option" where
  "new_envelope g agentID admission =
     (case admission of
        None \<Rightarrow> None
      | Some sn \<Rightarrow>
          NewAdmissionEnvelope (if sn_EnvelopeID sn = [] then g_uuid g 1 else sn_EnvelopeID sn)
            agentID (g_now g 0) admission (sn_Signature sn) (sn_IssuingAuthority sn))"

definition RegisterWithAdmission ::
  "io \<Rightarrow> gen \<Rightarrow> string \<Rightarrow> string \<Rightarrow> string \<Rightarrow> strmap option \<Rightarrow> AdmissionSnapshot option \<Rightarrow> db
   \<Rightarrow> (reg_error + Agent) \<times> db" where
  "RegisterWithAdmission io g agentType ownerID externalID metadata admission d =
     (case ValidateAgentType agentType of
        Inl v \<Rightarrow> (Inl (ErrInvalidArgument (InvalidAgentType v)), d)
      | Inr validType \<Rightarrow>
        if ownerID = [] then (Inl (ErrInvalidArgument OwnerIdRequired), d)
        else
     (case ValidateAgentMetadata metadata of
        Some e \<Rightarrow> (Inl (ErrInvalidArgument (InvalidMetadata e)), d)
      | None \<Rightarrow>
        (let agent = new_agent g validType ownerID externalID metadata admission;
             env = new_envelope g (ag_AgentID agent) admission
         in RegisterAgentWithOutbox io g agent env ''AGENT_REGISTERED''
              (register_payload g agent) d)))"

definition Register ::
  "io \<Rightarrow> gen \<Rightarrow> string \<Rightarrow> string \<Rightarrow> string \<Rightarrow> strmap option \<Rightarrow> db \<Rightarrow> (reg_error + Agent) \<times> db" where
  "Register io g agentType ownerID externalID metadata d =
     RegisterWithAdmission io g agentType ownerID externalID metadata None d"

definition svc_GetAdmissionEnvelope ::
  "db_error option \<Rightarrow> string \<Rightarrow> db \<Rightarrow> reg_error + AdmissionEnvelope" where
  "svc_GetAdmissionEnvelope err agentID d =
     (if agentID = [] then Inl (ErrInvalidArgument AgentIdRequired)
      else GetAdmissionEnvelope err agentID d)"

definition UpdateStatus ::
  "io \<Rightarrow> gen \<Rightarrow> (db \<Rightarrow> db) \<Rightarrow> string \<Rightarrow> string \<Rightarrow> string \<Rightarrow> string \<Rightarrow> db \<Rightarrow> (reg_error + Agent) \<times> db" where
  "UpdateStatus io g others agentID newStatus0 reason changedBy d =
     (let newStatus = ToUpper (TrimSpace newStatus0)
      in if agentID = [] \<or> newStatus = [] \<or> reason = [] \<or> changedBy = []
         then (Inl (ErrInvalidArgument UpdateFieldsRequired), d)
         else
           (case UpdateAgentStatus io g others agentID newStatus reason changedBy d of
              (Inl e, d') \<Rightarrow> (Inl e, d')
            | (Inr (agent, prev), d') \<Rightarrow>
                if ag_Status agent \<noteq> newStatus
                then (Inl (ErrFailedPrecondition
                        (StatusAfterUpdate (ag_Status agent) newStatus prev)), d')
                else (Inr agent, d')))"

section \<open>Messages of the contract\<close>

record RegisterAgentRequest =
  rr_AgentType :: string
  rr_OwnerId :: string
  rr_ExternalId :: string
  rr_Metadata :: "strmap option"
  rr_AdmissionConstraintsJson :: "body option"
  rr_AdmittedPolicyId :: string
  rr_AdmittedPolicyVer :: string
  rr_AdmittedScopePatterns :: "string list"
  rr_AdmittedBehavioralCaps :: "(string \<times> rat) list"
  rr_IssuingAuthority :: string
  rr_AdmissionSignature :: bytes
  rr_EnvelopeId :: string

record pbAgent =
  pa_AgentId :: string
  pa_AgentType :: string
  pa_OwnerId :: string
  pa_ExternalId :: string
  pa_Status :: string
  pa_PassportId :: string
  pa_RegistrationTs :: int
  pa_UpdatedTs :: int
  pa_Metadata :: "strmap option"
  pa_AdmissionConstraintsJson :: "body option"
  pa_AdmittedPolicyId :: string
  pa_AdmittedPolicyVer :: string
  pa_AdmissionTs :: int

record pbAdmissionEnvelope =
  pe_EnvelopeId :: string
  pe_AgentId :: string
  pe_PolicyId :: string
  pe_PolicyVer :: string
  pe_AdmittedScopes :: "string list"
  pe_AdmittedBehavioralCaps :: "(string \<times> rat) list"
  pe_AdmittedTsMs :: int
  pe_IssuingAuthority :: string
  pe_Signature :: bytes

record ListAgentsRequest =
  lr_Status :: string
  lr_Type :: string
  lr_OwnerId :: string
  lr_PageSize :: "32 word"
  lr_PageToken :: string

record ListAgentsResponse =
  ls_Agents :: "pbAgent list"
  ls_NextPageToken :: string
  ls_TotalCount :: "32 word"

record UpdateAgentStatusRequest =
  ur_AgentId :: string
  ur_NewStatus :: string
  ur_Reason :: string
  ur_UpdatedBy :: string

record CheckAgentResponse =
  cr_AgentId :: string
  cr_Status :: string
  cr_Exists :: bool

section \<open>gRPC adapter\<close>

text \<open>A status message is the text of the error of the service, or a constant of the handler.\<close>

datatype reg_msg = ErrText reg_error | MsgText string

fun mapError :: "reg_error \<Rightarrow> code \<times> reg_msg" where
  "mapError (ErrAlreadyExists x) = (AlreadyExists, ErrText (ErrAlreadyExists x))"
| "mapError (ErrInvalidArgument x) = (InvalidArgument, ErrText (ErrInvalidArgument x))"
| "mapError (ErrNotFound x) = (NotFound, ErrText (ErrNotFound x))"
| "mapError (ErrFailedPrecondition x) = (FailedPrecondition, ErrText (ErrFailedPrecondition x))"
| "mapError _ = (Internal, MsgText ''internal error'')"

definition toProtoAgent :: "Agent \<Rightarrow> pbAgent" where
  "toProtoAgent a = \<lparr>
     pa_AgentId = ag_AgentID a, pa_AgentType = ag_AgentType a, pa_OwnerId = ag_OwnerID a,
     pa_ExternalId = ag_ExternalID a, pa_Status = ag_Status a, pa_PassportId = ag_PassportID a,
     pa_RegistrationTs = UnixMilli (ag_RegistrationTS a),
     pa_UpdatedTs = UnixMilli (ag_UpdatedTS a),
     pa_Metadata = ag_Metadata a,
     pa_AdmissionConstraintsJson =
       (if entries (ag_AdmissionConstraints a) \<noteq> []
        then Some (Marshal (AObj (entries (ag_AdmissionConstraints a)))) else None),
     pa_AdmittedPolicyId = ag_AdmittedPolicyID a, pa_AdmittedPolicyVer = ag_AdmittedPolicyVer a,
     pa_AdmissionTs = UnixMilli (ag_AdmissionTS a) \<rparr>"

definition toProtoAdmissionEnvelope :: "AdmissionEnvelope \<Rightarrow> pbAdmissionEnvelope" where
  "toProtoAdmissionEnvelope e = \<lparr>
     pe_EnvelopeId = env_EnvelopeID e, pe_AgentId = env_AgentID e, pe_PolicyId = env_PolicyID e,
     pe_PolicyVer = env_PolicyVer e, pe_AdmittedScopes = env_AdmittedScopes e,
     pe_AdmittedBehavioralCaps = env_AdmittedBehavioralCaps e,
     pe_AdmittedTsMs = UnixMilli (env_AdmittedTS e),
     pe_IssuingAuthority = env_IssuingAuthority e, pe_Signature = env_Signature e \<rparr>"

definition hasAdmission :: "RegisterAgentRequest \<Rightarrow> bool" where
  "hasAdmission req \<longleftrightarrow>
     rr_AdmissionConstraintsJson req \<noteq> None \<or> rr_AdmittedPolicyId req \<noteq> [] \<or>
     rr_AdmittedPolicyVer req \<noteq> [] \<or> rr_AdmittedScopePatterns req \<noteq> [] \<or>
     rr_AdmittedBehavioralCaps req \<noteq> [] \<or> rr_AdmissionSignature req \<noteq> [] \<or>
     rr_IssuingAuthority req \<noteq> [] \<or> rr_EnvelopeId req \<noteq> []"

text \<open>
  The snapshot of a request. Unmarshalling a JSON object into the prepared empty map fills it,
  \<^verbatim>\<open>null\<close> sets it to nil, and every other document is refused.
\<close>

definition admission_of :: "RegisterAgentRequest \<Rightarrow> AdmissionSnapshot option option" where
  "admission_of req =
     (if \<not> hasAdmission req then Some None
      else
        (case (case rr_AdmissionConstraintsJson req of
                 None \<Rightarrow> Some (Some [])
               | Some b \<Rightarrow> Option.bind (Unmarshal b) into_objmap) of
           None \<Rightarrow> None
         | Some constraints \<Rightarrow> Some (Some \<lparr>
             sn_Constraints = constraints,
             sn_PolicyID = rr_AdmittedPolicyId req,
             sn_PolicyVer = rr_AdmittedPolicyVer req,
             sn_ScopePatterns = rr_AdmittedScopePatterns req,
             sn_BehavioralCaps = rr_AdmittedBehavioralCaps req,
             sn_EnvelopeID = rr_EnvelopeId req,
             sn_IssuingAuthority = rr_IssuingAuthority req,
             sn_Signature = rr_AdmissionSignature req \<rparr>)))"

definition srv_RegisterAgent ::
  "io \<Rightarrow> gen \<Rightarrow> RegisterAgentRequest \<Rightarrow> db \<Rightarrow> (reg_msg, pbAgent) rpc \<times> db" where
  "srv_RegisterAgent io g req d =
     (case admission_of req of
        None \<Rightarrow>
          (Inl (InvalidArgument, MsgText ''admission_constraints_json must be a JSON object''), d)
      | Some admission \<Rightarrow>
          (case RegisterWithAdmission io g (rr_AgentType req) (rr_OwnerId req) (rr_ExternalId req)
                  (rr_Metadata req) admission d of
             (Inl e, d') \<Rightarrow> (Inl (mapError e), d')
           | (Inr agent, d') \<Rightarrow> (Inr (toProtoAgent agent), d')))"

definition srv_GetAgent :: "db_error option \<Rightarrow> string \<Rightarrow> db \<Rightarrow> (reg_msg, pbAgent) rpc" where
  "srv_GetAgent err agentID d =
     (case GetAgent err agentID d of
        Inl e \<Rightarrow> Inl (mapError e)
      | Inr agent \<Rightarrow> Inr (toProtoAgent agent))"

definition srv_GetAdmissionEnvelope ::
  "db_error option \<Rightarrow> string \<Rightarrow> db \<Rightarrow> (reg_msg, pbAdmissionEnvelope) rpc" where
  "srv_GetAdmissionEnvelope err agentID d =
     (case svc_GetAdmissionEnvelope err agentID d of
        Inl e \<Rightarrow> Inl (mapError e)
      | Inr env \<Rightarrow> Inr (toProtoAdmissionEnvelope env))"

definition srv_ListAgents ::
  "db_error option \<Rightarrow> nat option \<Rightarrow> ListAgentsRequest \<Rightarrow> db \<Rightarrow> (reg_msg, ListAgentsResponse) rpc" where
  "srv_ListAgents err delivered req d =
     (case ListAgents err delivered (lr_Status req) (lr_Type req) (lr_OwnerId req)
             (sint (lr_PageSize req)) (lr_PageToken req) d of
        Inl e \<Rightarrow> Inl (mapError e)
      | Inr (agents, nextToken, totalCount) \<Rightarrow> Inr \<lparr>
          ls_Agents = map toProtoAgent agents,
          ls_NextPageToken = nextToken,
          ls_TotalCount = of_nat totalCount \<rparr>)"

definition srv_UpdateAgentStatus ::
  "io \<Rightarrow> gen \<Rightarrow> (db \<Rightarrow> db) \<Rightarrow> UpdateAgentStatusRequest \<Rightarrow> db \<Rightarrow> (reg_msg, pbAgent) rpc \<times> db" where
  "srv_UpdateAgentStatus io g others req d =
     (case UpdateStatus io g others (ur_AgentId req) (ToUpper (ur_NewStatus req))
             (ur_Reason req) (ur_UpdatedBy req) d of
        (Inl e, d') \<Rightarrow> (Inl (mapError e), d')
      | (Inr agent, d') \<Rightarrow> (Inr (toProtoAgent agent), d'))"

definition srv_CheckAgent ::
  "db_error option \<Rightarrow> string \<Rightarrow> db \<Rightarrow> (reg_msg, CheckAgentResponse) rpc" where
  "srv_CheckAgent err agentID d =
     (case GetAgent err agentID d of
        Inl (ErrNotFound _) \<Rightarrow> Inr \<lparr>cr_AgentId = agentID, cr_Status = [], cr_Exists = False\<rparr>
      | Inl e \<Rightarrow> Inl (mapError e)
      | Inr agent \<Rightarrow>
          Inr \<lparr>cr_AgentId = ag_AgentID agent, cr_Status = ag_Status agent, cr_Exists = True\<rparr>)"

section \<open>Lemmas\<close>

lemma new_agent_sel [simp]:
  "ag_AgentID (new_agent g ty ow ext meta adm) = g_uuid g 0"
  "ag_AgentType (new_agent g ty ow ext meta adm) = ty"
  "ag_OwnerID (new_agent g ty ow ext meta adm) = ow"
  "ag_ExternalID (new_agent g ty ow ext meta adm) = ext"
  "ag_Status (new_agent g ty ow ext meta adm) = StatusPending"
  "ag_PassportID (new_agent g ty ow ext meta adm) = []"
  "ag_Metadata (new_agent g ty ow ext meta adm) = meta"
  by (simp_all add: new_agent_def)

end
