(* ===== verification/Registry_Outbox.thy ===== *)
theory Registry_Outbox
  imports Registry_Repo
begin

text \<open>
  The outbox processor of the agent registry (\<^verbatim>\<open>internal/outbox/processor.go\<close>): one batch selects the
  oldest hundred pending rows and writes each to Kafka, and the row records the outcome.

  The broker and the server are arguments: \<open>emit k\<close> is whether the write of the \<open>k\<close>-th row of the batch
  succeeds, \<open>exec k\<close> whether its \<^verbatim>\<open>UPDATE\<close> does (the code drops that error). A batch also returns the
  messages the broker accepted, which is what a consumer can see.

  The lemmas show that a row that left \<^verbatim>\<open>PENDING\<close> never changes, that \<^verbatim>\<open>DELIVERED\<close> implies an
  accepted message, that attempts are bounded, and the closed form of the backoff.
\<close>

section \<open>Processor\<close>

record batch_env =
  be_query :: "db_error option"
  be_rows :: "nat option"
  be_rows_err :: "db_error option"
  be_emit :: "nat \<Rightarrow> bool"
  be_exec :: "nat \<Rightarrow> bool"
  be_pg_now :: instant

definition update_outbox :: "string \<Rightarrow> (outbox_row \<Rightarrow> outbox_row) \<Rightarrow> db \<Rightarrow> db" where
  "update_outbox outboxID f d =
     d\<lparr>db_outbox := map (\<lambda>r. if ob_outbox_id r = outboxID then f r else r) (db_outbox d)\<rparr>"

definition process_row ::
  "int \<Rightarrow> bool \<Rightarrow> bool \<Rightarrow> instant \<Rightarrow> outbox_row \<Rightarrow> db \<Rightarrow> (string \<times> any) list \<times> db" where
  "process_row maxAttempts emit exec pg_now row d =
     (if emit
      then ([(ob_agent_id row, ob_payload row)],
            if exec
            then update_outbox (ob_outbox_id row)
                   (\<lambda>r. r\<lparr>ob_status := ''DELIVERED'', ob_last_attempt_ts := Some pg_now,
                          ob_attempt_count := ob_attempt_count r + 1\<rparr>) d
            else d)
      else
        (let newAttempts = ob_attempt_count row + 1;
             newStatus = (if maxAttempts \<le> newAttempts then ''FAILED'' else ''PENDING'')
         in ([],
             if exec
             then update_outbox (ob_outbox_id row)
                    (\<lambda>r. r\<lparr>ob_status := newStatus, ob_last_attempt_ts := Some pg_now,
                           ob_attempt_count := newAttempts\<rparr>) d
             else d)))"

fun process_rows ::
  "int \<Rightarrow> batch_env \<Rightarrow> nat \<Rightarrow> outbox_row list \<Rightarrow> db \<Rightarrow> (string \<times> any) list \<times> db" where
  "process_rows maxAttempts be k [] d = ([], d)"
| "process_rows maxAttempts be k (row # rows) d =
     (let (sent, d') = process_row maxAttempts (be_emit be k) (be_exec be k) (be_pg_now be) row d;
          (sent', d'') = process_rows maxAttempts be (Suc k) rows d'
      in (sent @ sent', d''))"

definition pending_rows :: "db \<Rightarrow> outbox_row list" where
  "pending_rows d =
     take 100 (sort_key ob_created_ts (filter (\<lambda>r. ob_status r = ''PENDING'') (db_outbox d)))"

definition processBatch ::
  "int \<Rightarrow> batch_env \<Rightarrow> db \<Rightarrow> db_error option \<times> (string \<times> any) list \<times> db" where
  "processBatch maxAttempts be d =
     (case be_query be of
        Some e \<Rightarrow> (Some e, [], d)
      | None \<Rightarrow>
          (let rows = (case be_rows be of
                         None \<Rightarrow> pending_rows d
                       | Some n \<Rightarrow> take n (pending_rows d));
               (sent, d') = process_rows maxAttempts be 0 rows d
           in (be_rows_err be, sent, d')))"

text \<open>\<^verbatim>\<open>Run\<close>: the events of the select loop up to the cancellation of the context.\<close>

datatype run_event = Tick batch_env | CtxDone

fun Run :: "int \<Rightarrow> run_event list \<Rightarrow> db \<Rightarrow> (string \<times> any) list \<times> db" where
  "Run maxAttempts [] d = ([], d)"
| "Run maxAttempts (CtxDone # evs) d = ([], d)"
| "Run maxAttempts (Tick be # evs) d =
     (let (_, sent, d') = processBatch maxAttempts be d;
          (sent', d'') = Run maxAttempts evs d'
      in (sent @ sent', d''))"

fun backoff_loop :: "nat \<Rightarrow> duration \<Rightarrow> duration" where
  "backoff_loop 0 x = x"
| "backoff_loop (Suc n) x =
     (let y = wrap64 (x * 2) in if 30 * Second < y then 30 * Second else backoff_loop n y)"

definition Backoff :: "int \<Rightarrow> duration" where
  "Backoff attempt =
     (if attempt \<le> 0 then 0 else backoff_loop (nat (attempt - 1)) (100 * Millisecond))"

section \<open>What a batch does to a row\<close>

abbreviation pending :: "outbox_row \<Rightarrow> bool" where
  "pending r \<equiv> ob_status r = ''PENDING''"

abbreviation outbox_ids :: "db \<Rightarrow> string list" where
  "outbox_ids d \<equiv> map ob_outbox_id (db_outbox d)"

definition row_after :: "int \<Rightarrow> bool \<Rightarrow> bool \<Rightarrow> instant \<Rightarrow> outbox_row \<Rightarrow> outbox_row" where
  "row_after maxAttempts emit exec pg_now r =
     (if \<not> exec then r
      else r\<lparr>ob_status := (if emit then ''DELIVERED''
                         else if maxAttempts \<le> ob_attempt_count r + 1 then ''FAILED'' else ''PENDING''),
             ob_last_attempt_ts := Some pg_now, ob_attempt_count := ob_attempt_count r + 1\<rparr>)"

fun outcome :: "int \<Rightarrow> batch_env \<Rightarrow> nat \<Rightarrow> outbox_row list \<Rightarrow> outbox_row \<Rightarrow> outbox_row" where
  "outcome maxAttempts be k [] r = r"
| "outcome maxAttempts be k (row # rows) r =
     (if ob_outbox_id r = ob_outbox_id row
      then row_after maxAttempts (be_emit be k) (be_exec be k) (be_pg_now be) r
      else outcome maxAttempts be (Suc k) rows r)"

fun sent_of :: "batch_env \<Rightarrow> nat \<Rightarrow> outbox_row list \<Rightarrow> (string \<times> any) list" where
  "sent_of be k [] = []"
| "sent_of be k (row # rows) =
     (if be_emit be k then [(ob_agent_id row, ob_payload row)] else []) @ sent_of be (Suc k) rows"

lemma row_after_id [simp]: "ob_outbox_id (row_after m e x t r) = ob_outbox_id r"
  by (simp add: row_after_def)

lemma outcome_other: "ob_outbox_id r \<notin> ob_outbox_id ` set rows \<Longrightarrow> outcome m be k rows r = r"
  by (induction m be k rows r rule: outcome.induct) auto

lemma outcome_id [simp]: "ob_outbox_id (outcome m be k rows r) = ob_outbox_id r"
  by (induction m be k rows r rule: outcome.induct) auto

lemma process_row_outbox:
  assumes "\<And>r. r \<in> set (db_outbox d) \<Longrightarrow> ob_outbox_id r = ob_outbox_id row \<Longrightarrow> r = row"
  shows "process_row m e x t row d =
    (if e then [(ob_agent_id row, ob_payload row)] else [],
     d\<lparr>db_outbox := map (\<lambda>r. if ob_outbox_id r = ob_outbox_id row then row_after m e x t r else r) (db_outbox d)\<rparr>)"
proof -
  have eq: "map (\<lambda>r. if ob_outbox_id r = ob_outbox_id row then f r else r) (db_outbox d) =
      map (\<lambda>r. if ob_outbox_id r = ob_outbox_id row then h r else r) (db_outbox d)"
    if "f row = h row" for f h
    using assms that by (intro map_cong) auto
  show ?thesis
  proof (cases "x \<and> \<not> e")
    case True
    then have "process_row m e x t row d = ([], update_outbox (ob_outbox_id row) (\<lambda>r.
        r\<lparr>ob_status := (if m \<le> ob_attempt_count row + 1 then ''FAILED'' else ''PENDING''),
          ob_last_attempt_ts := Some t, ob_attempt_count := ob_attempt_count row + 1\<rparr>) d)"
      by (simp add: process_row_def Let_def)
    also have "\<dots> = ([], update_outbox (ob_outbox_id row) (row_after m e x t) d)"
      unfolding update_outbox_def by (subst eq [where h = "row_after m e x t"])
        (use True in \<open>simp_all add: row_after_def\<close>)
    finally show ?thesis using True by (simp add: update_outbox_def)
  next
    case False
    have "db_outbox d = map (\<lambda>r. if ob_outbox_id r = ob_outbox_id row then r else r) (db_outbox d)"
      by (simp add: map_idI)
    then show ?thesis using False
      by (cases x) (auto simp: process_row_def update_outbox_def row_after_def cong: if_cong)
  qed
qed

lemma process_rows_outbox:
  assumes "distinct (map ob_outbox_id rows)"
    "\<And>r row. r \<in> set (db_outbox d) \<Longrightarrow> row \<in> set rows \<Longrightarrow> ob_outbox_id r = ob_outbox_id row \<Longrightarrow> r = row"
  shows "process_rows m be k rows d =
    (sent_of be k rows, d\<lparr>db_outbox := map (outcome m be k rows) (db_outbox d)\<rparr>)"
  using assms
proof (induction rows arbitrary: k d)
  case (Cons row rows)
  let ?g = "\<lambda>r. if ob_outbox_id r = ob_outbox_id row
    then row_after m (be_emit be k) (be_exec be k) (be_pg_now be) r else r"
  let ?d = "d\<lparr>db_outbox := map ?g (db_outbox d)\<rparr>"
  have inj: "r = q" if "r \<in> set (db_outbox ?d)" "q \<in> set rows" "ob_outbox_id r = ob_outbox_id q" for r q
    using that Cons.prems by (auto split: if_splits)
  have "process_rows m be (Suc k) rows ?d =
      (sent_of be (Suc k) rows, ?d\<lparr>db_outbox := map (outcome m be (Suc k) rows) (db_outbox ?d)\<rparr>)"
    by (rule Cons.IH [OF _ inj]) (use Cons.prems(1) in simp)
  moreover have "outcome m be (Suc k) rows (?g r) = outcome m be k (row # rows) r" for r
    using Cons.prems(1) by (auto simp: outcome_other)
  ultimately show ?case using Cons.prems(2) by (simp add: process_row_outbox)
qed (simp add: map_idI)

lemma pending_rows_distinct:
  assumes "distinct (outbox_ids d)"
  shows "distinct (map ob_outbox_id (take n (pending_rows d)))"
proof -
  have "inj_on ob_outbox_id (set (db_outbox d))" "distinct (db_outbox d)"
    using assms by (simp_all add: distinct_map)
  moreover have "set (take n (pending_rows d)) \<subseteq> set (db_outbox d)"
    by (auto simp: pending_rows_def dest!: in_set_takeD)
  ultimately show ?thesis
    by (simp add: distinct_map pending_rows_def inj_on_subset)
qed

text \<open>The rows a batch reads.\<close>

definition batch_rows :: "batch_env \<Rightarrow> db \<Rightarrow> outbox_row list" where
  "batch_rows be d =
     (if be_query be \<noteq> None then []
      else case be_rows be of None \<Rightarrow> pending_rows d | Some n \<Rightarrow> take n (pending_rows d))"

lemma batch_rows_pending: "r \<in> set (batch_rows be d) \<Longrightarrow> pending r \<and> r \<in> set (db_outbox d)"
  by (auto simp: batch_rows_def pending_rows_def split: if_splits option.splits dest!: in_set_takeD)

lemma batch_rows_distinct:
  "distinct (outbox_ids d) \<Longrightarrow> distinct (map ob_outbox_id (batch_rows be d))"
  using pending_rows_distinct [of d "length (pending_rows d)"] pending_rows_distinct [of d]
  by (auto simp: batch_rows_def split: option.split)

lemma processBatch_outbox:
  assumes "distinct (outbox_ids d)"
  shows "snd (processBatch m be d) =
    (sent_of be 0 (batch_rows be d), d\<lparr>db_outbox := map (outcome m be 0 (batch_rows be d)) (db_outbox d)\<rparr>)"
proof -
  have "r = q" if "r \<in> set (db_outbox d)" "q \<in> set (batch_rows be d)" "ob_outbox_id r = ob_outbox_id q" for r q
    using assms that batch_rows_pending by (auto simp: distinct_map inj_on_def)
  then have "process_rows m be 0 (batch_rows be d) d =
      (sent_of be 0 (batch_rows be d), d\<lparr>db_outbox := map (outcome m be 0 (batch_rows be d)) (db_outbox d)\<rparr>)"
    by (rule process_rows_outbox [OF batch_rows_distinct [OF assms]])
  then show ?thesis
    by (auto simp: processBatch_def batch_rows_def case_prod_beta Let_def map_idI split: option.splits)
qed

lemma outbox_ids_batch: "distinct (outbox_ids d) \<Longrightarrow> outbox_ids (snd (snd (processBatch m be d))) = outbox_ids d"
  by (simp add: processBatch_outbox comp_def)

lemma sent_of_iff:
  "msg \<in> set (sent_of be k rows) \<longleftrightarrow>
     (\<exists>i<length rows. be_emit be (k + i) \<and> msg = (ob_agent_id (rows ! i), ob_payload (rows ! i)))"
proof (induction be k rows rule: sent_of.induct)
  case (2 be k row rows)
  then show ?case by (auto simp: less_Suc_eq_0_disj)
qed simp

lemma outcome_nth:
  "distinct (map ob_outbox_id rows) \<Longrightarrow> i < length rows \<Longrightarrow>
   outcome m be k rows (rows ! i) = row_after m (be_emit be (k + i)) (be_exec be (k + i)) (be_pg_now be) (rows ! i)"
proof (induction rows arbitrary: i k)
  case (Cons row rows)
  show ?case
  proof (cases i)
    case (Suc j)
    then have "ob_outbox_id (rows ! j) \<noteq> ob_outbox_id row"
      using Cons.prems nth_mem [of j rows] by (metis distinct.simps(2) image_eqI length_Cons
          list.set_map list.simps(9) not_less_eq)
    then show ?thesis using Suc Cons.IH [of j "Suc k"] Cons.prems by simp
  qed simp
qed simp

section \<open>Runs of the processor\<close>

lemma Run_Tick:
  "Run m (Tick be # evs) d =
     (fst (snd (processBatch m be d)) @ fst (Run m evs (snd (snd (processBatch m be d)))),
      snd (Run m evs (snd (snd (processBatch m be d)))))"
  by (simp add: case_prod_beta Let_def)

lemma Run_step:
  "distinct (outbox_ids d) \<Longrightarrow>
   Run m (Tick be # evs) d =
     (let d' = d\<lparr>db_outbox := map (outcome m be 0 (batch_rows be d)) (db_outbox d)\<rparr>
      in (sent_of be 0 (batch_rows be d) @ fst (Run m evs d'), snd (Run m evs d')))"
  by (simp add: Run_Tick processBatch_outbox Let_def del: Run.simps)

text \<open>The state of a row within a batch: untouched, or one of the batch with the outcome of its attempt.\<close>

lemma outcome_cases:
  assumes "distinct (outbox_ids d)" "r \<in> set (db_outbox d)"
  obtains (other) "outcome m be 0 (batch_rows be d) r = r" "r \<notin> set (batch_rows be d)"
  | (attempted) i where "i < length (batch_rows be d)" "r = batch_rows be d ! i" "pending r"
      "outcome m be 0 (batch_rows be d) r = row_after m (be_emit be i) (be_exec be i) (be_pg_now be) r"
proof (cases "r \<in> set (batch_rows be d)")
  case True
  then obtain i where "i < length (batch_rows be d)" "r = batch_rows be d ! i"
    by (auto simp: in_set_conv_nth)
  then show ?thesis
    using attempted outcome_nth [OF batch_rows_distinct [OF assms(1)], of i be m be 0] batch_rows_pending [OF True]
    by auto
next
  case False
  have "inj_on ob_outbox_id (set (db_outbox d))" using assms(1) by (simp add: distinct_map)
  then have "q = r" if "q \<in> set (batch_rows be d)" "ob_outbox_id r = ob_outbox_id q" for q
    using that assms(2) batch_rows_pending [OF that(1)] by (simp add: inj_on_def)
  then have "ob_outbox_id r \<notin> ob_outbox_id ` set (batch_rows be d)" using False by blast
  then show ?thesis using other False outcome_other by blast
qed

text \<open>
  C24: Once a row is delivered or failed the processor never touches it again, whatever the broker and
  the database do; and a row can only become delivered by a run in which the broker accepted its
  message under the agent's key.
\<close>

theorem outbox_final_and_delivered_was_sent:
  assumes "distinct (outbox_ids d)" "r \<in> set (db_outbox d)"
  shows "(\<not> pending r \<longrightarrow> r \<in> set (db_outbox (snd (Run m evs d))))
    \<and> (pending r \<longrightarrow> (\<exists>r' \<in> set (db_outbox (snd (Run m evs d))). ob_outbox_id r' = ob_outbox_id r
         \<and> (ob_status r' = ''DELIVERED'' \<longrightarrow> (ob_agent_id r, ob_payload r) \<in> set (fst (Run m evs d)))))"
  using assms
proof (induction evs arbitrary: d r)
  case (Cons ev evs)
  show ?case
  proof (cases ev)
    case (Tick be)
    let ?d = "d\<lparr>db_outbox := map (outcome m be 0 (batch_rows be d)) (db_outbox d)\<rparr>"
    have run: "Run m (ev # evs) d =
        (sent_of be 0 (batch_rows be d) @ fst (Run m evs ?d), snd (Run m evs ?d))"
      using Run_step [OF Cons.prems(1)] Tick by (simp add: Let_def del: Run.simps)
    have "distinct (outbox_ids ?d)" using Cons.prems(1) by (simp add: comp_def)
    note IH = Cons.IH [OF this]
    show ?thesis
    proof (rule outcome_cases [OF Cons.prems, of m be], goal_cases other attempted)
      case other
      then have "r \<in> set (db_outbox ?d)" using Cons.prems(2) by (force simp: image_iff)
      then show ?thesis using IH [of r] unfolding run by auto
    next
      case (attempted i)
      let ?r = "row_after m (be_emit be i) (be_exec be i) (be_pg_now be) r"
      have r: "?r \<in> set (db_outbox ?d)" using Cons.prems(2) attempted(4) by (force simp: image_iff)
      have same: "ob_agent_id ?r = ob_agent_id r" "ob_payload ?r = ob_payload r"
        by (simp_all add: row_after_def)
      have "ob_status ?r = ''DELIVERED'' \<longrightarrow> (ob_agent_id r, ob_payload r) \<in> set (sent_of be 0 (batch_rows be d))"
        using attempted(1-3) by (auto simp: sent_of_iff row_after_def split: if_splits)
      then show ?thesis using IH [OF r] attempted(3) same unfolding run
        by (cases "pending ?r") (auto intro: bexI [of _ ?r])
    qed
  qed (use Cons.prems in auto)
qed auto

definition ex_message :: "string \<Rightarrow> string \<Rightarrow> instant \<Rightarrow> outbox_row" where
  "ex_message i st t = \<lparr>ob_outbox_id = i, ob_agent_id = ''agent'' @ i, ob_event_type = ''AGENT_REGISTERED'',
     ob_payload = AObj [], ob_status = st, ob_created_ts = t, ob_last_attempt_ts = None, ob_attempt_count = 0\<rparr>"

definition ex_outbox :: db where
  "ex_outbox = \<lparr>db_agents = [], db_history = [],
     db_outbox = [ex_message ''m1'' ''PENDING'' 5, ex_message ''m2'' ''PENDING'' 3, ex_message ''m3'' ''FAILED'' 4],
     db_envelopes = []\<rparr>"

definition healthy :: batch_env where
  "healthy = \<lparr>be_query = None, be_rows = None, be_rows_err = None, be_emit = (\<lambda>k. True),
     be_exec = (\<lambda>k. True), be_pg_now = 9\<rparr>"

theorem outbox_final_and_delivered_was_sent_witness:
  "ex_message ''m3'' ''FAILED'' 4 \<in> set (db_outbox (snd (Run 3 [Tick healthy, Tick healthy] ex_outbox)))"
proof -
  have "distinct (outbox_ids ex_outbox)" "ex_message ''m3'' ''FAILED'' 4 \<in> set (db_outbox ex_outbox)"
    "\<not> pending (ex_message ''m3'' ''FAILED'' 4)"
    by code_simp+
  with outbox_final_and_delivered_was_sent show ?thesis by blast
qed

section \<open>Attempts\<close>

definition attempts_ok :: "int \<Rightarrow> db \<Rightarrow> bool" where
  "attempts_ok m d \<longleftrightarrow> list_all (\<lambda>r. 0 \<le> ob_attempt_count r \<and> ob_attempt_count r \<le> max m 1 \<and>
     (pending r \<longrightarrow> ob_attempt_count r < max m 1)) (db_outbox d)"

lemma row_after_attempts:
  "pending r \<Longrightarrow> 0 \<le> ob_attempt_count r \<Longrightarrow> ob_attempt_count r < max m 1 \<Longrightarrow>
   let r' = row_after m e x t r in 0 \<le> ob_attempt_count r' \<and> ob_attempt_count r' \<le> max m 1 \<and>
     (pending r' \<longrightarrow> ob_attempt_count r' < max m 1)"
  by (auto simp: row_after_def Let_def)

lemma processBatch_attempts [keeps_inv]:
  assumes "distinct (outbox_ids d)" "attempts_ok m d"
  shows "attempts_ok m (snd (snd (processBatch m be d)))"
proof -
  have "let r' = outcome m be 0 (batch_rows be d) r in 0 \<le> ob_attempt_count r' \<and>
      ob_attempt_count r' \<le> max m 1 \<and> (pending r' \<longrightarrow> ob_attempt_count r' < max m 1)"
    if r: "r \<in> set (db_outbox d)" for r
    by (rule outcome_cases [OF assms(1) r, of m be])
      (use assms(2) r row_after_attempts in \<open>auto simp: attempts_ok_def list_all_iff\<close>)
  then show ?thesis
    by (simp add: processBatch_outbox [OF assms(1)] attempts_ok_def list_all_iff Let_def)
qed

text \<open>
  The processor attempts a message at most the configured number of times (at least once): no
  run, with any failures, leaves a row with more attempts, and a pending row always has one left.
\<close>

theorem outbox_attempts_bounded:
  assumes "distinct (outbox_ids d)" "attempts_ok m d"
  shows "attempts_ok m (snd (Run m evs d))"
  using assms
proof (induction evs arbitrary: d)
  case (Cons ev evs)
  then show ?case
    by (cases ev) (simp_all add: Run_Tick keeps_inv outbox_ids_batch del: Run.simps(3))
qed simp

theorem outbox_attempts_bounded_witness:
  "attempts_ok 3 (snd (Run 3 (replicate 4 (Tick (healthy\<lparr>be_emit := (\<lambda>k. False)\<rparr>))) ex_outbox))
   \<and> map ob_status (db_outbox (snd (Run 3 (replicate 4 (Tick (healthy\<lparr>be_emit := (\<lambda>k. False)\<rparr>))) ex_outbox)))
     = [''FAILED'', ''FAILED'', ''FAILED'']"
proof
  have "distinct (outbox_ids ex_outbox)" "attempts_ok 3 ex_outbox" by code_simp+
  then show "attempts_ok 3 (snd (Run 3 (replicate 4 (Tick (healthy\<lparr>be_emit := (\<lambda>k. False)\<rparr>))) ex_outbox))"
    by (rule outbox_attempts_bounded)
qed code_simp

section \<open>Progress\<close>

definition works :: "batch_env \<Rightarrow> bool" where
  "works be \<longleftrightarrow> be_query be = None \<and> be_rows be = None \<and> be_emit be = (\<lambda>k. True) \<and> be_exec be = (\<lambda>k. True)"

lemma outcome_works:
  assumes "works be" "distinct (outbox_ids d)" "r \<in> set (db_outbox d)"
  shows "pending (outcome m be 0 (batch_rows be d) r) \<longleftrightarrow> pending r \<and> r \<notin> set (pending_rows d)"
proof -
  have "batch_rows be d = pending_rows d" using assms(1) by (simp add: works_def batch_rows_def)
  then show ?thesis
    by (auto intro: outcome_cases [OF assms(2,3), of m be])
      (rule outcome_cases [OF assms(2,3), of m be]; use assms(1) in \<open>auto simp: works_def row_after_def\<close>)+
qed

lemma length_filter_notin:
  assumes "distinct xs" "distinct ys" "set ys \<subseteq> set xs"
  shows "length (filter (\<lambda>x. x \<notin> set ys) xs) = length xs - length ys"
proof -
  have "set (filter (\<lambda>x. x \<in> set ys) xs) = set ys" using assms(3) by auto
  then have "length (filter (\<lambda>x. x \<in> set ys) xs) = length ys"
    using assms(1,2) by (metis distinct_card distinct_filter)
  then show ?thesis using sum_length_filter_compl [of "\<lambda>x. x \<in> set ys" xs] by simp
qed

lemma batch_works:
  assumes "works be" "distinct (outbox_ids d)"
  shows "length (filter pending (db_outbox (snd (snd (processBatch m be d))))) =
      length (filter pending (db_outbox d)) - 100"
proof -
  let ?F = "filter pending (db_outbox d)"
  have dist: "distinct ?F" using assms(2) by (simp add: distinct_map)
  have rows: "distinct (pending_rows d)" "set (pending_rows d) \<subseteq> set ?F"
    "length (pending_rows d) = min (length ?F) 100"
    using dist by (auto simp: pending_rows_def dest!: in_set_takeD)
  have "filter (\<lambda>r. pending (outcome m be 0 (batch_rows be d) r)) (db_outbox d) =
      filter (\<lambda>r. pending r \<and> r \<notin> set (pending_rows d)) (db_outbox d)"
    using outcome_works [OF assms] by (intro filter_cong) auto
  also have "\<dots> = filter (\<lambda>r. r \<notin> set (pending_rows d)) ?F" by simp
  finally show ?thesis
    using length_filter_notin [OF dist rows(1,2)] rows(3)
    by (simp add: processBatch_outbox [OF assms(2)] filter_map comp_def)
qed

text \<open>
  C31: When the broker and the database work, the outbox drains: after as many ticks as there are
  hundreds of pending rows, none is pending.
\<close>

theorem outbox_drains:
  assumes "distinct (outbox_ids d)" "list_all works bes"
    "length (filter pending (db_outbox d)) \<le> 100 * length bes"
  shows "filter pending (db_outbox (snd (Run m (map Tick bes) d))) = []"
  using assms
proof (induction bes arbitrary: d)
  case (Cons be bes)
  then have "length (filter pending (db_outbox (snd (snd (processBatch m be d))))) \<le> 100 * length bes"
    by (simp add: batch_works)
  then show ?case
    using Cons by (simp add: Run_Tick outbox_ids_batch del: Run.simps(3))
qed simp

theorem outbox_drains_witness:
  "filter pending (db_outbox (snd (Run 3 (map Tick [healthy]) ex_outbox))) = []
   \<and> map fst (fst (Run 3 [Tick healthy] ex_outbox)) = [''agentm2'', ''agentm1'']"
proof
  have "distinct (outbox_ids ex_outbox)" "length (filter pending (db_outbox ex_outbox)) \<le> 100 * length [healthy]"
    by code_simp+
  moreover have "list_all works [healthy]" by (simp add: works_def healthy_def)
  ultimately show "filter pending (db_outbox (snd (Run 3 (map Tick [healthy]) ex_outbox))) = []"
    by (intro outbox_drains)
qed code_simp

section \<open>Backoff\<close>

lemma backoff_loop_closed:
  assumes "0 < x" "x \<le> 30 * Second"
  shows "backoff_loop n x = min (x * 2 ^ n) (30 * Second)"
  using assms
proof (induction n arbitrary: x)
  case (Suc n)
  have y: "wrap64 (x * 2) = x * 2"
    using Suc.prems by (simp add: in_int64_def)
  show ?case
  proof (cases "30 * Second < x * 2")
    case True
    have "x * 1 \<le> x * 2 ^ n" by (rule mult_left_mono) (use Suc.prems in simp_all)
    with True have "30 * Second \<le> x * (2 * 2 ^ n)"
      using mult.left_commute [of x 2 "2 ^ n"] by linarith
    with True show ?thesis by (simp add: y Let_def min_absorb2)
  next
    case False
    then show ?thesis using Suc.IH [of "x * 2"] Suc.prems by (simp add: y Let_def mult.assoc)
  qed
qed simp

text \<open>
  The backoff is exponential with base 100 ms and capped at 30 s: attempt \<open>n + 1\<close> waits the lesser of
  100 ms times \<open>2 ^ n\<close> and 30 s, with no overflow for any attempt number, and nothing waits for
  attempt 0 or less.
\<close>

theorem Backoff_closed_form:
  "Backoff (int n + 1) = min (100 * Millisecond * 2 ^ n) (30 * Second) \<and> Backoff (- int n) = 0"
  by (simp add: Backoff_def backoff_loop_closed)

end
