(* ===== verification/Registry_Run.thy ===== *)
theory Registry_Run
  imports Registry_Service Registry_Outbox
begin

text \<open>
  Runs of the agent registry: every interleaving of its handlers and of its outbox processor over the
  shared tables, and what holds of the tables along them.

  \<open>reg_write\<close> is the specification of a committed write; \<open>reg_reaches\<close> is built from the handlers
  themselves, and each of its steps is shown to write nothing or one such write. The properties of
  the tables are then proved for \<open>reg_write\<close> only.
\<close>

section \<open>Specification of a write\<close>

definition event_of :: "string option \<Rightarrow> string \<Rightarrow> string" where
  "event_of prev new =
     (if prev = None then ''AGENT_REGISTERED''
      else if new = StatusDeregistered then ''AGENT_DEREGISTERED'' else ''AGENT_STATUS_CHANGED'')"

text \<open>An outbox row announces a row of the status history.\<close>

definition announces :: "outbox_row \<Rightarrow> history_row \<Rightarrow> bool" where
  "announces ob h \<longleftrightarrow>
     ob_agent_id ob = hr_agent_id h
   \<and> ob_event_type ob = event_of (hr_previous_status h) (hr_new_status h)
   \<and> (\<exists>m. ob_payload ob = AObj m
        \<and> field m ''agent_id'' = AStr (hr_agent_id h)
        \<and> field m ''event_type'' = AStr (ob_event_type ob)
        \<and> field m ''previous_status'' =
            (case hr_previous_status h of None \<Rightarrow> ANil | Some p \<Rightarrow> AStr p)
        \<and> field m ''new_status'' = AStr (hr_new_status h))"

text \<open>The columns of an agent no operation changes.\<close>

definition agent_identity :: "agent_row \<Rightarrow> agent_row" where
  "agent_identity r = r\<lparr>ar_status := [], ar_updated_ts := 0\<rparr>"

text \<open>The columns of an outbox row the processor does not change.\<close>

definition message_of :: "outbox_row \<Rightarrow> outbox_row" where
  "message_of ob = ob\<lparr>ob_status := [], ob_last_attempt_ts := None, ob_attempt_count := 0\<rparr>"

inductive reg_write :: "db \<Rightarrow> db \<Rightarrow> bool" where
  registers: "insert_agent r d = Inr (d\<lparr>db_agents := db_agents d @ [r]\<rparr>) \<Longrightarrow>
     ar_status r = StatusPending \<Longrightarrow>
     hr_agent_id h = ar_agent_id r \<Longrightarrow> hr_previous_status h = None \<Longrightarrow>
     hr_new_status h = StatusPending \<Longrightarrow> announces ob h \<Longrightarrow>
     reg_write d (d\<lparr>db_agents := db_agents d @ [r], db_history := db_history d @ [h],
       db_outbox := db_outbox d @ [ob], db_envelopes := db_envelopes d @ es\<rparr>)"
| changes: "find_agent d i = Some r \<Longrightarrow> ar_status r \<noteq> new \<Longrightarrow> CanTransition (ar_status r) new \<Longrightarrow>
     hr_agent_id h = i \<Longrightarrow> hr_previous_status h = Some (ar_status r) \<Longrightarrow> hr_new_status h = new \<Longrightarrow>
     announces ob h \<Longrightarrow>
     reg_write d (d\<lparr>
       db_agents := map (\<lambda>q. if ar_agent_id q = i
         then q\<lparr>ar_status := new, ar_updated_ts := ts\<rparr> else q) (db_agents d),
       db_history := db_history d @ [h], db_outbox := db_outbox d @ [ob]\<rparr>)"
| delivers: "map message_of obs = map message_of (db_outbox d) \<Longrightarrow>
     reg_write d (d\<lparr>db_outbox := obs\<rparr>)"

section \<open>Runs\<close>

text \<open>
  A status update releases its locks at the commit; \<open>others\<close>, the writes of other callers before it reads
  the agent back, is any run from there.
\<close>

inductive reg_reaches :: "db \<Rightarrow> db \<Rightarrow> bool" where
  start: "reg_reaches d d"
| RegisterAgent:
    "reg_reaches d d1 \<Longrightarrow> reg_reaches d (snd (srv_RegisterAgent io g req d1))"
| UpdateAgentStatus:
    "reg_reaches d d1 \<Longrightarrow>
     d2 = snd (status_tx io g (ur_AgentId req) (ToUpper (TrimSpace (ToUpper (ur_NewStatus req))))
       (ur_Reason req) (ur_UpdatedBy req) d1) \<Longrightarrow>
     reg_reaches d2 (others d2) \<Longrightarrow>
     reg_reaches d (snd (srv_UpdateAgentStatus io g others req d1))"
| outbox_row:
    "reg_reaches d d1 \<Longrightarrow> reg_reaches d (snd (process_row maxAttempts emit exec pg_now row d1))"

section \<open>The handlers refine the specification\<close>

lemma event_announces:
  "announces (new_outbox g i (fst (status_event g i p n reason)) (snd (status_event g i p n reason)))
     (new_history g i (Some p) n reason who)"
  by (auto simp: announces_def new_outbox_def new_history_def status_event_def event_of_def
      field_def Let_def)

lemma register_announces:
  "ag_Status a = StatusPending \<Longrightarrow>
   announces (new_outbox g (ag_AgentID a) ''AGENT_REGISTERED'' (register_payload g a))
     (new_history g (ag_AgentID a) None (ag_Status a) reason who)"
  by (auto simp: announces_def new_outbox_def new_history_def register_payload_def event_of_def field_def)

lemma RegisterAgentWithOutbox_write:
  assumes "ag_Status a = StatusPending"
  shows "reg_write\<^sup>=\<^sup>= d
    (snd (RegisterAgentWithOutbox io g a env ''AGENT_REGISTERED'' (register_payload g a) d))"
proof (cases rule: RegisterAgentWithOutbox_cases
    [of io g a env "''AGENT_REGISTERED''" "register_payload g a" d])
  case (fails e)
  then show ?thesis by simp
next
  case registers
  have "reg_write d (snd (RegisterAgentWithOutbox io g a env ''AGENT_REGISTERED''
    (register_payload g a) d))"
    unfolding registers(3) snd_conv
    by (rule reg_write.registers [OF registers(2)])
      (use assms register_announces [OF assms] in \<open>auto simp: agent_params_def new_history_def\<close>)
  then show ?thesis by simp
qed

lemma RegisterWithAdmission_write:
  "reg_write\<^sup>=\<^sup>= d (snd (RegisterWithAdmission io g ty ow ext meta adm d))"
  unfolding RegisterWithAdmission_def Let_def
  using RegisterAgentWithOutbox_write [OF new_agent_sel(5)] by (simp split: sum.split option.split)

lemma srv_RegisterAgent_write: "reg_write\<^sup>=\<^sup>= d (snd (srv_RegisterAgent io g req d))"
proof (cases "admission_of req")
  case (Some adm)
  then show ?thesis
    using RegisterWithAdmission_write [of d io g "rr_AgentType req" "rr_OwnerId req"
        "rr_ExternalId req" "rr_Metadata req" adm]
    by (auto simp: srv_RegisterAgent_def split: prod.splits sum.splits)
qed (simp add: srv_RegisterAgent_def)

lemma status_tx_write: "reg_write\<^sup>=\<^sup>= d (snd (status_tx io g i new reason who d))"
proof (cases rule: status_tx_cases [of io g i new reason who d])
  case (changes r)
  have "reg_write d (snd (status_tx io g i new reason who d))"
    unfolding changes(4) snd_conv
    by (rule reg_write.changes [OF changes(1-3)])
      (use event_announces in \<open>auto simp: new_history_def\<close>)
  then show ?thesis by simp
qed auto

lemma srv_UpdateAgentStatus_state:
  "snd (srv_UpdateAgentStatus io g others req d) \<in>
     (let d2 = snd (status_tx io g (ur_AgentId req) (ToUpper (TrimSpace (ToUpper (ur_NewStatus req))))
        (ur_Reason req) (ur_UpdatedBy req) d)
      in {d, d2, others d2})"
  by (auto simp: srv_UpdateAgentStatus_def UpdateStatus_def UpdateAgentStatus_def Let_def
      split: prod.split sum.split)

lemma message_of_update [simp]:
  "message_of (ob\<lparr>ob_status := s, ob_last_attempt_ts := t, ob_attempt_count := n\<rparr>) = message_of ob"
  by (simp add: message_of_def)

lemma process_row_write:
  "reg_write\<^sup>=\<^sup>= d (snd (process_row maxAttempts emit exec pg_now row d))"
  by (auto simp: process_row_def update_outbox_def Let_def intro!: reg_write.delivers)

lemma reg_reaches_writes: "reg_reaches d d' \<Longrightarrow> reg_write\<^sup>*\<^sup>* d d'"
proof (induction rule: reg_reaches.induct)
  case (RegisterAgent d d1 io g req)
  then show ?case
    using srv_RegisterAgent_write [of d1 io g req] by (auto intro: rtranclp.rtrancl_into_rtrancl)
next
  case (UpdateAgentStatus d d1 d2 io g req others)
  have "reg_write\<^sup>=\<^sup>= d1 d2"
    unfolding UpdateAgentStatus.hyps(2) by (rule status_tx_write)
  then have d2: "reg_write\<^sup>*\<^sup>* d d2"
    using UpdateAgentStatus.IH(1) by (auto intro: rtranclp.rtrancl_into_rtrancl)
  moreover have "reg_write\<^sup>*\<^sup>* d (others d2)"
    using d2 UpdateAgentStatus.IH(2) by simp
  ultimately show ?case
    using UpdateAgentStatus.IH(1) srv_UpdateAgentStatus_state [of io g others req d1]
    unfolding UpdateAgentStatus.hyps(2) [symmetric] Let_def by auto
next
  case (outbox_row d d1 maxAttempts emit exec pg_now row)
  then show ?case
    using process_row_write [of d1 maxAttempts emit exec pg_now row]
    by (auto intro: rtranclp.rtrancl_into_rtrancl)
qed simp

section \<open>Invariant of the tables\<close>

definition empty_db :: db where
  "empty_db = \<lparr>db_agents = [], db_history = [], db_outbox = [], db_envelopes = []\<rparr>"

definition history_of :: "db \<Rightarrow> string \<Rightarrow> history_row list" where
  "history_of d i = filter (\<lambda>h. hr_agent_id h = i) (db_history d)"

text \<open>
  Replaying a history: each row must start where the last one ended and make a real, permitted
  transition; the first must be the registration. \<open>None\<close> is a broken history.
\<close>

fun replay :: "string option \<Rightarrow> history_row list \<Rightarrow> string option option" where
  "replay cur [] = Some cur"
| "replay cur (h # hs) =
     (if hr_previous_status h = cur \<and>
         (case cur of
            None \<Rightarrow> hr_new_status h = StatusPending
          | Some p \<Rightarrow> p \<noteq> hr_new_status h \<and> CanTransition p (hr_new_status h))
      then replay (Some (hr_new_status h)) hs else None)"

definition agents_ok :: "agent_row list \<Rightarrow> bool" where
  "agents_ok rs \<longleftrightarrow>
     distinct (map ar_agent_id rs)
   \<and> list_all (\<lambda>r. ar_status r \<in> set known_statuses \<and> ar_agent_type r \<in> set validTypes) rs
   \<and> distinct (map (\<lambda>r. (ar_external_id r, ar_owner_id r)) (filter (\<lambda>r. ar_external_id r \<noteq> None) rs))"

definition history_ok :: "db \<Rightarrow> string \<Rightarrow> bool" where
  "history_ok d i \<longleftrightarrow> replay None (history_of d i) = Some (map_option ar_status (find_agent d i))"

definition reg_inv :: "db \<Rightarrow> bool" where
  "reg_inv d \<longleftrightarrow>
     agents_ok (db_agents d) \<and> (\<forall>i. history_ok d i) \<and> list_all2 announces (db_outbox d) (db_history d)"

lemma replay_append:
  "replay cur (hs @ hs') = (case replay cur hs of None \<Rightarrow> None | Some c \<Rightarrow> replay c hs')"
  by (induction cur hs rule: replay.induct) auto

lemma find_map: "List.find P (map f xs) = map_option f (List.find (P \<circ> f) xs)"
  by (induction xs) auto

lemma find_agent_map:
  "(\<And>r. ar_agent_id (f r) = ar_agent_id r) \<Longrightarrow>
   find_agent (d\<lparr>db_agents := map f (db_agents d)\<rparr>) i = map_option f (find_agent d i)"
  by (simp add: find_agent_def find_map comp_def)

lemma announces_message_of: "message_of ob = message_of ob' \<Longrightarrow> announces ob h \<longleftrightarrow> announces ob' h"
  by (cases ob, cases ob') (simp add: message_of_def announces_def)

lemma list_all2_announces_message:
  "map message_of obs = map message_of obs' \<Longrightarrow> list_all2 announces obs hs \<longleftrightarrow> list_all2 announces obs' hs"
proof (induction obs arbitrary: obs' hs)
  case (Cons ob obs)
  then obtain ob' rest where "obs' = ob' # rest" "message_of ob = message_of ob'"
    "map message_of obs = map message_of rest"
    by (auto simp: Cons_eq_map_conv)
  with Cons.IH show ?case
    by (cases hs) (auto simp: announces_message_of [of ob ob'])
qed simp

lemma reg_inv_empty: "reg_inv empty_db"
  by (simp add: reg_inv_def agents_ok_def history_ok_def empty_db_def history_of_def find_agent_def)

lemma agents_ok_insert:
  assumes "insert_agent r d = Inr d'" "agents_ok (db_agents d)"
  shows "agents_ok (db_agents d @ [r])"
proof -
  note r = insert_agent_Inr [OF assms(1)]
  from r(5) have "(ar_external_id r, ar_owner_id r) \<notin>
    (\<lambda>r. (ar_external_id r, ar_owner_id r)) ` {q \<in> set (db_agents d). ar_external_id q \<noteq> None}"
    if "ar_external_id r \<noteq> None"
    using that by force
  then show ?thesis using r(2-4) assms(2) by (auto simp: agents_ok_def find_agent_None)
qed

lemma agents_ok_update:
  assumes "new \<in> set known_statuses" "agents_ok rs"
  shows "agents_ok (map (\<lambda>q. if ar_agent_id q = i
    then q\<lparr>ar_status := new, ar_updated_ts := ts\<rparr> else q) rs)" (is "agents_ok (map ?f rs)")
proof -
  have "map ar_agent_id (map ?f rs) = map ar_agent_id rs"
    by (induction rs) auto
  moreover have "map (\<lambda>r. (ar_external_id r, ar_owner_id r))
      (filter (\<lambda>r. ar_external_id r \<noteq> None) (map ?f rs)) =
    map (\<lambda>r. (ar_external_id r, ar_owner_id r)) (filter (\<lambda>r. ar_external_id r \<noteq> None) rs)"
    by (induction rs) auto
  moreover have "list_all (\<lambda>r. ar_status r \<in> set known_statuses \<and> ar_agent_type r \<in> set validTypes)
      (map ?f rs)"
    using assms by (auto simp: agents_ok_def list_all_iff)
  ultimately show ?thesis using assms unfolding agents_ok_def by presburger
qed

lemma reg_write_inv [keeps_inv]: "reg_write d d' \<Longrightarrow> reg_inv d \<Longrightarrow> reg_inv d'"
proof (induction rule: reg_write.induct)
  case (registers r d h ob es)
  note r = insert_agent_Inr [OF registers(1)]
  have "history_ok (d\<lparr>db_agents := db_agents d @ [r], db_history := db_history d @ [h]\<rparr>) i" for i
  proof -
    have "history_ok d i" using registers.prems by (simp add: reg_inv_def)
    then show ?thesis using registers(2-5) r(2)
      by (auto simp: history_ok_def history_of_def replay_append find_agent_append split: option.split)
  qed
  then show ?case
    using registers(6) registers.prems agents_ok_insert [OF registers(1)]
    by (simp add: reg_inv_def history_ok_def history_of_def list_all2_appendI)
next
  case (changes d i r new h ob ts)
  let ?f = "\<lambda>q. if ar_agent_id q = i then q\<lparr>ar_status := new, ar_updated_ts := ts\<rparr> else q"
  have known: "new \<in> set known_statuses"
    using changes(1,3) changes.prems find_agent_Some CanTransition_known
    by (fastforce simp: reg_inv_def agents_ok_def list_all_iff)
  have "history_ok (d\<lparr>db_agents := map ?f (db_agents d), db_history := db_history d @ [h]\<rparr>) j" for j
  proof -
    have "history_ok d j" using changes.prems by (simp add: reg_inv_def)
    moreover have "ar_agent_id q = j" if "find_agent d j = Some q" for q
      using find_agent_Some [OF that] by simp
    ultimately show ?thesis using changes(1-6)
      by (auto simp: history_ok_def history_of_def replay_append find_agent_map [of ?f]
          split: option.split)
  qed
  then show ?case
    using changes(7) changes.prems agents_ok_update [OF known]
    by (simp add: reg_inv_def history_ok_def history_of_def list_all2_appendI)
next
  case (delivers obs d)
  then show ?case
    using list_all2_announces_message [OF delivers(1)]
    by (simp add: reg_inv_def history_ok_def history_of_def)
qed

lemma reg_writes_inv: "reg_write\<^sup>*\<^sup>* d d' \<Longrightarrow> reg_inv d \<Longrightarrow> reg_inv d'"
  by (induction rule: rtranclp_induct) (auto intro: keeps_inv)

section \<open>What runs never undo\<close>

lemma reg_write_keeps:
  assumes "reg_write d d'"
  shows "prefix (db_history d) (db_history d')" "prefix (db_envelopes d) (db_envelopes d')"
    "prefix (map message_of (db_outbox d)) (map message_of (db_outbox d'))"
  using assms by (induction rule: reg_write.induct) auto

lemma reg_write_agent:
  assumes "reg_write d d'" "find_agent d i = Some r"
  shows "\<exists>r'. find_agent d' i = Some r' \<and> agent_identity r' = agent_identity r
    \<and> (ar_status r = StatusDeregistered \<longrightarrow> ar_status r' = StatusDeregistered)"
  using assms
proof (induction rule: reg_write.induct)
  case (registers q d h ob es)
  then show ?case by (simp add: find_agent_append)
next
  case (changes d j q new h ob ts)
  have "ar_agent_id r = i" using changes.prems find_agent_Some by blast
  then show ?case using changes
    by (auto simp: find_agent_map agent_identity_def CanTransition_Deregistered)
qed simp

lemma reg_writes_agent:
  assumes "reg_write\<^sup>*\<^sup>* d d'" "find_agent d i = Some r"
  shows "\<exists>r'. find_agent d' i = Some r' \<and> agent_identity r' = agent_identity r
    \<and> (ar_status r = StatusDeregistered \<longrightarrow> ar_status r' = StatusDeregistered)"
  using assms
proof (induction rule: rtranclp_induct)
  case (step d1 d2)
  then obtain r1 where "find_agent d1 i = Some r1" "agent_identity r1 = agent_identity r"
    "ar_status r = StatusDeregistered \<longrightarrow> ar_status r1 = StatusDeregistered" by blast
  with reg_write_agent [OF step(2)] show ?case by metis
qed simp

lemma reg_writes_keep:
  assumes "reg_write\<^sup>*\<^sup>* d d'"
  shows "prefix (db_history d) (db_history d')" "prefix (db_envelopes d) (db_envelopes d')"
    "prefix (map message_of (db_outbox d)) (map message_of (db_outbox d'))"
  using assms
  by (induction rule: rtranclp_induct) (auto dest: reg_write_keeps prefix_order.trans)

end
