(* ===== verification/Registry_Correct.thy ===== *)
theory Registry_Correct
  imports Registry_Run
begin

text \<open>
  The correctness properties of the agent registry: its tables along every run, the outcome of its
  handlers, the listing and the outbox.
\<close>

section \<open>A concrete registry\<close>

text \<open>
  The instances the properties are applied to: nothing fails, generated identifiers and clock
  readings are fixed.
\<close>

definition no_failures :: io where
  "no_failures k = None"

definition ex_gen :: "string \<Rightarrow> gen" where
  "ex_gen p = \<lparr>g_now = (\<lambda>k. 1700000000123456789), g_uuid = (\<lambda>k. p @ Itoa (int k)),
     g_pg_now = 1700000000123456000, g_history_id = p @ ''h'', g_outbox_id = p @ ''o''\<rparr>"

definition ex_register :: RegisterAgentRequest where
  "ex_register = \<lparr>
     rr_AgentType = ''assisted'', rr_OwnerId = ''owner'', rr_ExternalId = ''ext'',
     rr_Metadata = Some [(''team'', ''a'')],
     rr_AdmissionConstraintsJson = Some (Doc (AObj [(''max'', AFloat 3)])),
     rr_AdmittedPolicyId = ''pol'', rr_AdmittedPolicyVer = ''1'',
     rr_AdmittedScopePatterns = [''repo:*''], rr_AdmittedBehavioralCaps = [(''max'', 2)],
     rr_IssuingAuthority = [], rr_AdmissionSignature = ''sig'', rr_EnvelopeId = []\<rparr>"

definition ex_update :: "string \<Rightarrow> UpdateAgentStatusRequest" where
  "ex_update s = \<lparr>ur_AgentId = ''a0'', ur_NewStatus = s, ur_Reason = ''review'', ur_UpdatedBy = ''ops''\<rparr>"

definition ex_db1 :: db where
  "ex_db1 = snd (srv_RegisterAgent no_failures (ex_gen ''a'') ex_register empty_db)"

definition ex_db2 :: db where
  "ex_db2 = snd (srv_UpdateAgentStatus no_failures (ex_gen ''b'') (\<lambda>x. x) (ex_update ''active'') ex_db1)"

lemma ex_db1_reached: "reg_reaches empty_db ex_db1"
  unfolding ex_db1_def by (intro reg_reaches.intros)

definition ex_db3 :: db where
  "ex_db3 = snd (srv_UpdateAgentStatus no_failures (ex_gen ''c'') (\<lambda>x. x) (ex_update ''DEREGISTERED'') ex_db2)"

lemma reg_reaches_update:
  "reg_reaches d d1 \<Longrightarrow> reg_reaches d (snd (srv_UpdateAgentStatus io g (\<lambda>x. x) req d1))"
  by (rule reg_reaches.UpdateAgentStatus [where others = "\<lambda>x. x", OF _ refl reg_reaches.start])

lemma ex_db2_reached: "reg_reaches empty_db ex_db2"
  unfolding ex_db2_def by (intro reg_reaches_update ex_db1_reached)

section \<open>The tables along every run\<close>

text \<open>
  C1: Along every interleaving of registrations, status updates (each with the writes of other
  callers between its commit and its read) and outbox deliveries from the empty tables: agents are
  unique by identifier and by external identifier and owner, replaying an agent's history gives its
  current status through permitted transitions only, and the outbox announces the rows of the
  history one by one, in order.
\<close>

theorem registry_tables_consistent:
  assumes "reg_reaches empty_db d"
  shows "agents_ok (db_agents d)
    \<and> (\<forall>i. replay None (history_of d i) = Some (map_option ar_status (find_agent d i)))
    \<and> list_all2 announces (db_outbox d) (db_history d)"
  using reg_writes_inv [OF reg_reaches_writes [OF assms] reg_inv_empty]
  by (simp add: reg_inv_def history_ok_def)

theorem registry_tables_consistent_witness:
  "replay None (history_of ex_db2 ''a0'') = Some (Some StatusActive)
   \<and> map ar_status (db_agents ex_db2) = [StatusActive] \<and> length (db_outbox ex_db2) = 2
   \<and> list_all2 announces (db_outbox ex_db2) (db_history ex_db2)"
proof -
  have "map_option ar_status (find_agent ex_db2 ''a0'') = Some StatusActive"
    "map ar_status (db_agents ex_db2) = [StatusActive]" "length (db_outbox ex_db2) = 2"
    by code_simp+
  with registry_tables_consistent [OF ex_db2_reached] show ?thesis by simp
qed

text \<open>
  C2: No run removes an agent or changes its identity, ever revives a deregistered agent, or alters
  what the history, the envelopes and the messages of the outbox already record.
\<close>

theorem registry_runs_append_only:
  assumes "reg_reaches d d'" "find_agent d i = Some r"
  shows "\<exists>r'. find_agent d' i = Some r' \<and> agent_identity r' = agent_identity r
    \<and> (ar_status r = StatusDeregistered \<longrightarrow> ar_status r' = StatusDeregistered)
    \<and> prefix (db_history d) (db_history d') \<and> prefix (db_envelopes d) (db_envelopes d')
    \<and> prefix (map message_of (db_outbox d)) (map message_of (db_outbox d'))"
  using reg_writes_agent [OF reg_reaches_writes [OF assms(1)] assms(2)]
    reg_writes_keep [OF reg_reaches_writes [OF assms(1)]] by blast

theorem registry_runs_append_only_witness:
  "\<exists>r'. find_agent (snd (srv_UpdateAgentStatus no_failures (ex_gen ''d'') (\<lambda>x. x) (ex_update ''ACTIVE'') ex_db3))
     ''a0'' = Some r' \<and> ar_status r' = StatusDeregistered"
proof -
  have "find_agent ex_db3 ''a0'' \<noteq> None" "map_option ar_status (find_agent ex_db3 ''a0'') = Some StatusDeregistered"
    by code_simp+
  then obtain r where "find_agent ex_db3 ''a0'' = Some r" "ar_status r = StatusDeregistered" by auto
  with registry_runs_append_only [OF reg_reaches_update [OF reg_reaches.start]] show ?thesis by blast
qed

section \<open>Registration\<close>

text \<open>What a read returns of a stored agent: microsecond timestamps and decoded constraints.\<close>

definition stored_agent :: "Agent \<Rightarrow> Agent" where
  "stored_agent a = a\<lparr>ag_PassportID := [],
     ag_RegistrationTS := pg_ts (ag_RegistrationTS a), ag_UpdatedTS := pg_ts (ag_UpdatedTS a),
     ag_AdmissionConstraints :=
       map_option (map (\<lambda>(k, v). (k, decoded v))) (ag_AdmissionConstraints a),
     ag_AdmissionTS := pg_ts (ag_AdmissionTS a)\<rparr>"

lemma coalesce_nullable [simp]: "coalesce_str (nullable s) = s"
  by (simp add: coalesce_str_def nullable_def)

lemma coalesce_None [simp]: "coalesce_str None = []"
  by (simp add: coalesce_str_def)

lemma agent_params_id [simp]: "ar_agent_id (agent_params a) = ag_AgentID a"
  by (simp add: agent_params_def)

lemma scan_agent_params: "scan_agent (agent_params a) = Inr (stored_agent a)"
  by (simp add: scan_agent_def agent_params_def stored_agent_def)

lemma UnixMilli_pg_ts [simp]: "UnixMilli (pg_ts t) = UnixMilli t"
  by (simp add: UnixMilli_def pg_ts_def)

lemma toProtoAgent_stored:
  "ag_PassportID a = [] \<Longrightarrow> toProtoAgent (stored_agent a) = toProtoAgent a"
  by (cases "ag_AdmissionConstraints a")
    (auto simp: toProtoAgent_def stored_agent_def entries_def Marshal_def)

lemma GetAgent_after_register:
  assumes "RegisterAgentWithOutbox io g a env et pl d = (Inr a', d')"
  shows "GetAgent None (ag_AgentID a) d' = Inr (stored_agent a)"
  using assms
  by (cases rule: RegisterAgentWithOutbox_cases [of io g a env et pl d])
    (auto simp: GetAgent_def find_agent_append scan_agent_params)


lemma scan_envelope_params: "scan_envelope (envelope_params e) = Inr (e\<lparr>env_AdmittedTS := pg_ts (env_AdmittedTS e)\<rparr>)"
  by (simp add: scan_envelope_def envelope_params_def)

lemma toProtoAdmissionEnvelope_stored:
  "toProtoAdmissionEnvelope (e\<lparr>env_AdmittedTS := pg_ts t\<rparr>) = toProtoAdmissionEnvelope (e\<lparr>env_AdmittedTS := t\<rparr>)"
  by (simp add: toProtoAdmissionEnvelope_def)

lemma GetAdmissionEnvelope_after_register:
  assumes "RegisterAgentWithOutbox io g a (Some e) et pl d = (Inr a', d')"
  shows "GetAdmissionEnvelope None (env_AgentID e) d' = Inr (e\<lparr>env_AdmittedTS := pg_ts (env_AdmittedTS e)\<rparr>)"
proof -
  obtain d1 d2 where "insert_agent (agent_params a) d = Inr d1"
    "insert_envelope (envelope_params e) d1 = Inr d2"
    "history_and_outbox io
       (new_history g (ag_AgentID a) None (ag_Status a) ''initial registration'' ''system'')
       (new_outbox g (ag_AgentID a) et pl) d2 = Inr d'"
    using assms by (auto simp: RegisterAgentWithOutbox_def split: sum.splits db_error.splits)
  moreover have "er_agent_id (envelope_params e) = env_AgentID e" by (simp add: envelope_params_def)
  ultimately have "List.find (\<lambda>r. er_agent_id r = env_AgentID e) (db_envelopes d') = Some (envelope_params e)"
    by (auto simp: insert_envelope_def find_append find_None_iff list_ex_iff
        dest!: history_and_outbox_Inr split: if_splits option.splits)
      (fastforce simp: find_Some_iff)
  then show ?thesis by (simp add: GetAdmissionEnvelope_def scan_envelope_params)
qed

text \<open>A registration that succeeds, in terms of the transaction it ran.\<close>

lemma RegisterWithAdmission_Inr:
  assumes "RegisterWithAdmission io g ty ow ext meta adm d = (Inr a, d')"
  obtains ty' where "ValidateAgentType ty = Inr ty'" "ow \<noteq> []" "ValidateAgentMetadata meta = None"
    "a = new_agent g ty' ow ext meta adm"
    "RegisterAgentWithOutbox io g a (new_envelope g (ag_AgentID a) adm) ''AGENT_REGISTERED''
       (register_payload g a) d = (Inr a, d')"
proof -
  have ret: "a' = b" if "RegisterAgentWithOutbox io g b env et pl d = (Inr a', d')" for a' b env et pl
    using that by (cases rule: RegisterAgentWithOutbox_cases [of io g b env et pl d]) auto
  show thesis
    using assms that
    by (simp add: RegisterWithAdmission_def Let_def split: sum.splits if_splits option.splits)
      (metis ret)
qed

lemma srv_RegisterAgent_Inr:
  assumes "srv_RegisterAgent io g req d = (Inr pb, d')"
  obtains adm a where "admission_of req = Some adm" "pb = toProtoAgent a"
    "RegisterAgentWithOutbox io g a (new_envelope g (ag_AgentID a) adm) ''AGENT_REGISTERED'' (register_payload g a) d = (Inr a, d')"
    "ag_AgentID a = g_uuid g 0" "ag_Status a = StatusPending" "ag_PassportID a = []" "pa_AgentId pb = g_uuid g 0"
proof -
  obtain adm a where adm: "admission_of req = Some adm" "pb = toProtoAgent a"
    "RegisterWithAdmission io g (rr_AgentType req) (rr_OwnerId req) (rr_ExternalId req) (rr_Metadata req) adm d = (Inr a, d')"
    using assms by (auto simp: srv_RegisterAgent_def split: option.splits sum.splits prod.splits)
  from adm(3) show thesis
    by (rule RegisterWithAdmission_Inr) (rule that [OF adm(1,2)], simp_all add: adm(2) toProtoAgent_def)
qed

lemma envelope_after_registration:
  assumes "srv_RegisterAgent io g req d = (Inr pb, d')" "g_uuid g 0 \<noteq> []" "hasAdmission req"
  shows "\<exists>e sn. srv_GetAdmissionEnvelope None (pa_AgentId pb) d' = Inr e
        \<and> admission_of req = Some (Some sn)
        \<and> pe_AdmittedScopes e = rr_AdmittedScopePatterns req
        \<and> pe_AdmittedBehavioralCaps e = mergeBehavioralCaps sn
        \<and> pe_PolicyId e = rr_AdmittedPolicyId req \<and> pe_Signature e = rr_AdmissionSignature req
        \<and> pe_AgentId e = pa_AgentId pb"
proof -
  from assms(1) obtain adm a where adm: "admission_of req = Some adm" and
    tx: "RegisterAgentWithOutbox io g a (new_envelope g (ag_AgentID a) adm) ''AGENT_REGISTERED'' (register_payload g a) d = (Inr a, d')"
    and sel: "ag_AgentID a = g_uuid g 0" "pa_AgentId pb = g_uuid g 0"
    by (rule srv_RegisterAgent_Inr)
  from adm assms(3) obtain sn where sn: "adm = Some sn" "sn_ScopePatterns sn = rr_AdmittedScopePatterns req"
    "sn_PolicyID sn = rr_AdmittedPolicyId req" "sn_Signature sn = rr_AdmissionSignature req"
    by (auto simp: admission_of_def split: option.splits)
  then obtain e where e: "new_envelope g (ag_AgentID a) adm = Some e" "env_AgentID e = g_uuid g 0"
    "env_AdmittedScopes e = rr_AdmittedScopePatterns req" "env_Signature e = rr_AdmissionSignature req"
    "env_PolicyID e = rr_AdmittedPolicyId req" "env_AdmittedBehavioralCaps e = mergeBehavioralCaps sn"
    by (auto simp: new_envelope_def NewAdmissionEnvelope_def sel)
  from GetAdmissionEnvelope_after_register [OF tx [unfolded e(1)]] e sn adm assms(2) sel show ?thesis
    by (auto simp: srv_GetAdmissionEnvelope_def svc_GetAdmissionEnvelope_def toProtoAdmissionEnvelope_def)
qed

text \<open>An envelope, once there, is what the registry answers for good.\<close>

lemma envelope_stays:
  assumes "reg_reaches d d'" "srv_GetAdmissionEnvelope None i d = Inr e"
  shows "srv_GetAdmissionEnvelope None i d' = Inr e"
proof -
  obtain ext where "db_envelopes d' = db_envelopes d @ ext"
    using reg_writes_keep [OF reg_reaches_writes [OF assms(1)]] by (auto simp: prefix_def)
  moreover obtain r where "List.find (\<lambda>r. er_agent_id r = i) (db_envelopes d) = Some r"
    using assms(2) by (auto simp: srv_GetAdmissionEnvelope_def svc_GetAdmissionEnvelope_def GetAdmissionEnvelope_def
        split: sum.splits if_splits option.splits)
  ultimately show ?thesis
    using assms(2) by (simp add: srv_GetAdmissionEnvelope_def svc_GetAdmissionEnvelope_def GetAdmissionEnvelope_def find_append split: if_splits)
qed



text \<open>Identifiers a registration generates that no row uses yet.\<close>

definition fresh_ids :: "gen \<Rightarrow> RegisterAgentRequest \<Rightarrow> db \<Rightarrow> bool" where
  "fresh_ids g req d \<longleftrightarrow>
     find_agent d (g_uuid g 0) = None
   \<and> list_all (\<lambda>r. er_agent_id r \<noteq> g_uuid g 0 \<and>
       er_envelope_id r \<noteq> (if rr_EnvelopeId req = [] then g_uuid g 1 else rr_EnvelopeId req)) (db_envelopes d)
   \<and> list_all (\<lambda>r. ob_outbox_id r \<noteq> g_outbox_id g) (db_outbox d)"

definition external_taken :: "RegisterAgentRequest \<Rightarrow> db \<Rightarrow> bool" where
  "external_taken req d \<longleftrightarrow> rr_ExternalId req \<noteq> [] \<and>
     list_ex (\<lambda>r. ar_external_id r = Some (rr_ExternalId req) \<and> ar_owner_id r = rr_OwnerId req) (db_agents d)"

lemma RegisterAgentWithOutbox_outcome:
  assumes "\<And>k. io k = None" "find_agent d (ag_AgentID a) = None"
    "ag_Status a \<in> set known_statuses" "ag_AgentType a \<in> set validTypes"
    "\<And>e. env = Some e \<Longrightarrow> env_AgentID e = ag_AgentID a \<and> list_all (\<lambda>r. er_agent_id r \<noteq> env_AgentID e \<and>
       er_envelope_id r \<noteq> env_EnvelopeID e) (db_envelopes d)"
    "list_all (\<lambda>r. ob_outbox_id r \<noteq> g_outbox_id g) (db_outbox d)"
  shows "fst (RegisterAgentWithOutbox io g a env et pl d) =
    (if ag_ExternalID a \<noteq> [] \<and> list_ex (\<lambda>r. ar_external_id r = Some (ag_ExternalID a) \<and>
          ar_owner_id r = ag_OwnerID a) (db_agents d)
     then Inl (ErrAlreadyExists AlreadyRegistered) else Inr a)"
  using assms
  by (auto simp: RegisterAgentWithOutbox_def insert_agent_def history_and_outbox_def insert_history_def
      insert_outbox_def insert_envelope_def agent_params_def new_history_def new_outbox_def
      envelope_params_def find_agent_append nullable_def list_ex_iff list_all_iff
      split: option.split)

lemma validTypes_iff: "ToUpper (TrimSpace v) \<in> set validTypes \<longleftrightarrow> is_ok (ValidateAgentType v)"
  by (simp add: ValidateAgentType_def Let_def)

lemma admission_of_envelope:
  assumes "admission_of req = Some adm" "new_envelope g i adm = Some e"
  shows "env_AgentID e = i"
    "env_EnvelopeID e = (if rr_EnvelopeId req = [] then g_uuid g 1 else rr_EnvelopeId req)"
  using assms
  by (auto simp: admission_of_def new_envelope_def NewAdmissionEnvelope_def split: option.splits if_splits)



section \<open>Status updates\<close>

lemma scan_agent_update:
  "scan_agent r = Inr a \<Longrightarrow>
   scan_agent (r\<lparr>ar_status := s, ar_updated_ts := t\<rparr>) = Inr (a\<lparr>ag_Status := s, ag_UpdatedTS := t\<rparr>)"
  by (auto simp: scan_agent_def split: option.splits)

lemma scan_agent_status: "scan_agent r = Inr a \<Longrightarrow> ag_Status a = ar_status r \<and> ag_AgentID a = ar_agent_id r"
  by (auto simp: scan_agent_def split: option.splits)

text \<open>The requested status as the service normalises it, and whether a required field is blank.\<close>

definition requested_status :: "UpdateAgentStatusRequest \<Rightarrow> string" where
  "requested_status req = ToUpper (TrimSpace (ToUpper (ur_NewStatus req)))"

definition update_incomplete :: "UpdateAgentStatusRequest \<Rightarrow> bool" where
  "update_incomplete req \<longleftrightarrow>
     ur_AgentId req = [] \<or> requested_status req = [] \<or> ur_Reason req = [] \<or> ur_UpdatedBy req = []"

lemma status_tx_outcome:
  assumes "\<And>k. io k = None" "list_all (\<lambda>r. ob_outbox_id r \<noteq> g_outbox_id g) (db_outbox d)"
  shows "fst (status_tx io g i new reason who d) =
    (case find_agent d i of
       None \<Rightarrow> Inl (ErrNotFound (AgentUnknown i))
     | Some r \<Rightarrow> if CanTransition (ar_status r) new then Inr (ar_status r)
                else Inl (ErrFailedPrecondition (InvalidTransition (ar_status r) new)))"
proof -
  have "new \<in> set known_statuses" if "CanTransition p new" "p \<noteq> new" for p
    using that by (auto simp: CanTransition_iff known_statuses_def validTransitions_def)
  then show ?thesis
    using assms
    by (auto simp: status_tx_def update_agent_status_def history_and_outbox_def insert_history_def
        insert_outbox_def new_history_def new_outbox_def Let_def case_prod_beta find_agent_map
        list_ex_iff list_all_iff split: option.split)
qed

lemma status_tx_read:
  assumes "status_tx io g i new reason who d = (Inr prev, d')"
    "\<And>r. find_agent d i = Some r \<Longrightarrow> is_ok (scan_agent r)"
  shows "\<exists>a. GetAgent None i d' = Inr a \<and> ag_Status a = new \<and> ag_AgentID a = i"
proof (cases rule: status_tx_cases [of io g i new reason who d])
  case (same r)
  then show ?thesis using assms find_agent_Some [OF same(1)]
    by (auto simp: GetAgent_def is_ok_iff dest: scan_agent_status)
next
  case (changes r)
  then obtain a where "scan_agent r = Inr a" "ar_agent_id r = i"
    using assms(2) [OF changes(1)] find_agent_Some [OF changes(1)] by (auto simp: is_ok_iff)
  then show ?thesis using assms(1) changes scan_agent_update [OF \<open>scan_agent r = Inr a\<close>] scan_agent_status
    by (auto simp: GetAgent_def find_agent_map)
qed (use assms in simp)



text \<open>
  The answer of a status update is read after the commit, so it can report a failed precondition
  although its own change is in the history: an update to \<^verbatim>\<open>ACTIVE\<close> that another caller suspends
  before the read answers so.
\<close>

theorem committed_update_reported_as_failed:
  "\<exists>io g others req d. reg_reaches d (others (snd (srv_UpdateAgentStatus io g (\<lambda>x. x) req d)))
     \<and> rpc_code (fst (srv_UpdateAgentStatus io g others req d)) = FailedPrecondition
     \<and> map hr_new_status (db_history (snd (srv_UpdateAgentStatus io g others req d))) =
         map hr_new_status (db_history d) @ [requested_status req, StatusSuspended]"
proof (intro exI conjI)
  let ?others = "\<lambda>x. snd (srv_UpdateAgentStatus no_failures (ex_gen ''c'') (\<lambda>x. x) (ex_update ''SUSPENDED'') x)"
  show "reg_reaches ex_db1 (?others (snd (srv_UpdateAgentStatus no_failures (ex_gen ''b'') (\<lambda>x. x) (ex_update ''ACTIVE'') ex_db1)))"
    by (intro reg_reaches_update reg_reaches.start)
  show "rpc_code (fst (srv_UpdateAgentStatus no_failures (ex_gen ''b'') ?others (ex_update ''ACTIVE'') ex_db1)) = FailedPrecondition"
    by code_simp
  show "map hr_new_status (db_history (snd (srv_UpdateAgentStatus no_failures (ex_gen ''b'') ?others (ex_update ''ACTIVE'') ex_db1))) =
    map hr_new_status (db_history ex_db1) @ [requested_status (ex_update ''ACTIVE''), StatusSuspended]"
    by code_simp
qed

end
