(* ===== verification/Registry_Listing.thy ===== *)
theory Registry_Listing
  imports Registry_Correct
begin

text \<open>
  The listing of the agent registry: what one page holds, and what a client that follows the page
  tokens sees.
\<close>

section \<open>One page\<close>

definition matching :: "string \<Rightarrow> string \<Rightarrow> string \<Rightarrow> string \<Rightarrow> db \<Rightarrow> agent_row list" where
  "matching status agentType ownerID token d =
     sort_key ar_agent_id (filter (selects status agentType ownerID token) (db_agents d))"

definition decodable :: "db \<Rightarrow> bool" where
  "decodable d \<longleftrightarrow> list_all (\<lambda>r. is_ok (scan_agent r)) (db_agents d)"

lemma scan_agents_Inr:
  "list_all (\<lambda>r. is_ok (scan_agent r)) rs \<Longrightarrow>
   \<exists>as. scan_agents rs = Inr as \<and> map ag_AgentID as = map ar_agent_id rs"
  by (induction rs) (auto simp: is_ok_iff dest: scan_agent_status)

lemma decodable_matching:
  "decodable d \<Longrightarrow> list_all (\<lambda>r. is_ok (scan_agent r)) (take n (matching st ty ow tok d))"
  by (auto simp: decodable_def matching_def list_all_iff dest: in_set_takeD)

lemma ListAgents_page:
  assumes "decodable d"
  obtains page where
    "ListAgents None delivered st ty ow limit tok d =
       (let rows = take (case delivered of None \<Rightarrow> Suc (page_limit limit) | Some k \<Rightarrow> min k (Suc (page_limit limit)))
              (map ar_agent_id (matching st ty ow tok d))
        in Inr (page, if page_limit limit < length rows then rows ! page_limit limit else [], length page))"
    "map ag_AgentID page = take (case delivered of None \<Rightarrow> page_limit limit | Some k \<Rightarrow> min k (page_limit limit))
       (map ar_agent_id (matching st ty ow tok d))"
proof -
  let ?n = "page_limit limit"
  let ?k = "case delivered of None \<Rightarrow> Suc ?n | Some k \<Rightarrow> min k (Suc ?n)"
  obtain as where as: "scan_agents (take ?k (matching st ty ow tok d)) = Inr as"
    "map ag_AgentID as = map ar_agent_id (take ?k (matching st ty ow tok d))"
    using scan_agents_Inr [OF decodable_matching [OF assms]] by blast
  have seen: "(case delivered of None \<Rightarrow> take (Suc ?n) (matching st ty ow tok d)
      | Some k \<Rightarrow> take k (take (Suc ?n) (matching st ty ow tok d))) = take ?k (matching st ty ow tok d)"
    by (simp split: option.split)
  have len: "length as = length (take ?k (matching st ty ow tok d))"
    using as(2) by (metis length_map)
  have nth: "ag_AgentID (as ! ?n) = ar_agent_id (take ?k (matching st ty ow tok d) ! ?n)" if "?n < length as"
    using that as(2) len by (metis nth_map)
  have "ListAgents None delivered st ty ow limit tok d =
     (let rows = take ?k (map ar_agent_id (matching st ty ow tok d))
      in Inr (take ?n as, if ?n < length rows then rows ! ?n else [], length (take ?n as)))"
  proof (cases "?n < length as")
    case True
    then show ?thesis using seen as(1) len nth
      by (simp add: ListAgents_def Let_def matching_def [symmetric] take_map)
  next
    case False
    then show ?thesis using seen as(1) len
      by (simp add: ListAgents_def Let_def matching_def [symmetric] take_map del: min_less_iff_conj)
  qed
  moreover have "map ag_AgentID (take ?n as) = take (case delivered of None \<Rightarrow> ?n | Some k \<Rightarrow> min k ?n)
       (map ar_agent_id (matching st ty ow tok d))"
    using as(2) by (auto simp: take_map [symmetric] min_def split: option.splits)
  ultimately show thesis using that by blast
qed

section \<open>Following the tokens\<close>

text \<open>The identifiers a client collects that asks for the next page until the token is empty.\<close>

fun traverse :: "nat \<Rightarrow> string \<Rightarrow> string \<Rightarrow> string \<Rightarrow> int \<Rightarrow> string \<Rightarrow> db \<Rightarrow> string list" where
  "traverse 0 st ty ow limit tok d = []"
| "traverse (Suc n) st ty ow limit tok d =
     (case ListAgents None None st ty ow limit tok d of
        Inl _ \<Rightarrow> []
      | Inr (page, next, _) \<Rightarrow>
          map ag_AgentID page @ (if next = [] then [] else traverse n st ty ow limit next d))"

text \<open>A list without its elements at the positions \<open>n\<close>, \<open>2n + 1\<close>, \<open>3n + 2\<close> and so on.\<close>

fun skip_each :: "nat \<Rightarrow> nat \<Rightarrow> 'a list \<Rightarrow> 'a list" where
  "skip_each n 0 xs = []"
| "skip_each n (Suc k) xs =
     take n xs @ (if length xs \<le> n then [] else skip_each n k (drop (Suc n) xs))"

lemma sorted_matching: "sorted (map ar_agent_id (matching st ty ow tok d))"
  by (simp add: matching_def)

lemma filter_greater_sorted:
  fixes xs :: "'a list" and f :: "'a \<Rightarrow> string"
  assumes "sorted (map f xs)" "distinct (map f xs)" "n < length xs"
  shows "filter (\<lambda>x. f (xs ! n) < f x) xs = drop (Suc n) xs"
proof -
  have "sorted_wrt (<) (map f xs)" using assms(1,2) by (simp add: strict_sorted_iff)
  then have lt: "f (xs ! i) < f (xs ! j)" if "i < j" "j < length xs" for i j
    using sorted_wrt_nth_less [of "(<)" "map f xs" i j] that by simp
  have "\<not> f (xs ! n) < f (xs ! i)" if "i \<le> n" for i
    using lt [of i n] that assms(3) by (cases "i = n") auto
  then have "filter (\<lambda>x. f (xs ! n) < f x) (take (Suc n) xs) = []"
    by (auto simp: filter_empty_conv in_set_conv_nth)
  moreover have "filter (\<lambda>x. f (xs ! n) < f x) (drop (Suc n) xs) = drop (Suc n) xs"
    using lt by (auto simp: filter_id_conv in_set_conv_nth)
  ultimately show ?thesis by (metis append_Nil append_take_drop_id filter_append)
qed

lemma matching_next:
  assumes "distinct (map ar_agent_id (db_agents d))" "n < length (matching st ty ow tok d)"
    "ar_agent_id (matching st ty ow tok d ! n) \<noteq> []"
  shows "matching st ty ow (ar_agent_id (matching st ty ow tok d ! n)) d =
    drop (Suc n) (matching st ty ow tok d)"
proof -
  let ?m = "matching st ty ow tok d"
  define x where "x = ar_agent_id (?m ! n)"
  have "?m ! n \<in> set ?m" using assms(2) by simp
  then have gt: "selects st ty ow x = (\<lambda>r. selects st ty ow tok r \<and> x < ar_agent_id r)"
    using assms(3) by (intro ext) (auto simp: matching_def selects_def x_def)
  have "distinct (map ar_agent_id ?m)"
    using assms(1) by (simp add: matching_def distinct_map inj_on_def)
  then have "filter (\<lambda>r. x < ar_agent_id r) ?m = drop (Suc n) ?m"
    unfolding x_def using filter_greater_sorted [OF sorted_matching _ assms(2)] by simp
  moreover have "matching st ty ow x d = filter (\<lambda>r. x < ar_agent_id r) ?m"
    unfolding matching_def filter_sort gt by simp
  ultimately show ?thesis by (simp add: x_def)
qed

text \<open>
  A client that follows the page tokens to the end does not see every agent: the token is the
  first agent left out of a page and the next page starts after it, so one agent in every limit + 1
  of those that match, in the order of their identifiers, is on no page.
\<close>

theorem list_skips_one_agent_per_page:
  assumes "decodable d" "distinct (map ar_agent_id (db_agents d))" "list_all (\<lambda>r. ar_agent_id r \<noteq> []) (db_agents d)"
  shows "traverse fuel st ty ow limit tok d =
    skip_each (page_limit limit) fuel (map ar_agent_id (matching st ty ow tok d))"
proof (induction fuel arbitrary: tok)
  case (Suc fuel)
  let ?n = "page_limit limit" and ?m = "matching st ty ow tok d"
  obtain page where page: "ListAgents None None st ty ow limit tok d =
      (let rows = take (Suc ?n) (map ar_agent_id ?m)
       in Inr (page, if ?n < length rows then rows ! ?n else [], length page))"
    "map ag_AgentID page = take ?n (map ar_agent_id ?m)"
    using ListAgents_page [OF assms(1), of None st ty ow limit tok] by auto
  show ?case
  proof (cases "?n < length ?m")
    case True
    then have "?m ! ?n \<in> set (db_agents d)"
      using nth_mem [OF True] by (auto simp: matching_def)
    then have "ar_agent_id (?m ! ?n) \<noteq> []" using assms(3) by (simp add: list_all_iff)
    then show ?thesis using True page Suc.IH matching_next [OF assms(2) True]
      by (simp add: Let_def drop_map)
  next
    case False
    then show ?thesis using page by (simp add: Let_def)
  qed
qed simp

definition ex_row :: "string \<Rightarrow> agent_row" where
  "ex_row i = agent_params ((new_agent (ex_gen i) ''SYSTEM'' ''owner'' [] None None)\<lparr>ag_AgentID := i\<rparr>)"

definition ex_three :: db where
  "ex_three = empty_db\<lparr>db_agents := [ex_row ''b'', ex_row ''a'', ex_row ''c'']\<rparr>"

theorem list_skips_one_agent_per_page_witness:
  "traverse 5 [] [] [] 1 [] ex_three = [''a'', ''c'']"
proof -
  have ok: "decodable ex_three" "distinct (map ar_agent_id (db_agents ex_three))"
    "list_all (\<lambda>r. ar_agent_id r \<noteq> []) (db_agents ex_three)"
    and kept: "skip_each (page_limit 1) 5 (map ar_agent_id (matching [] [] [] [] ex_three)) = [''a'', ''c'']"
    by code_simp+
  show ?thesis unfolding list_skips_one_agent_per_page [OF ok] by (rule kept)
qed

lemma ListAgents_broken:
  assumes "decodable d" "k \<le> page_limit limit"
  shows "\<exists>page. ListAgents None (Some k) st ty ow limit tok d = Inr (page, [], length page)
    \<and> map ag_AgentID page = take k (map ar_agent_id (matching st ty ow tok d))"
proof -
  obtain page where page: "ListAgents None (Some k) st ty ow limit tok d =
      (let rows = take k (map ar_agent_id (matching st ty ow tok d))
       in Inr (page, if page_limit limit < length rows then rows ! page_limit limit else [], length page))"
    "map ag_AgentID page = take k (map ar_agent_id (matching st ty ow tok d))"
    by (rule ListAgents_page [OF assms(1), of "Some k" st ty ow limit tok])
      (use assms(2) in \<open>simp add: min_absorb1\<close>)
  moreover have "\<not> page_limit limit < length (take k (map ar_agent_id (matching st ty ow tok d)))"
    using assms(2) by simp
  ultimately show ?thesis using assms(2) by (simp add: Let_def)
qed

text \<open>
  One page holds the first agents that match, by identifier, at most the limit and never more
  than 1000, and the token is empty when nothing more matches. When the connection breaks
  after \<open>k\<close> rows within the limit the page holds those \<open>k\<close>, the token is empty and no error is
  reported, so a broken read looks like a complete listing.
\<close>

theorem list_page_contents:
  assumes "decodable d" "k \<le> page_limit limit"
  shows "(\<exists>page next. ListAgents None None st ty ow limit tok d = Inr (page, next, length page)
      \<and> map ag_AgentID page = take (page_limit limit) (map ar_agent_id (matching st ty ow tok d))
      \<and> length page \<le> 1000
      \<and> (length (matching st ty ow tok d) \<le> page_limit limit \<longrightarrow> next = []))
    \<and> (\<exists>page. ListAgents None (Some k) st ty ow limit tok d = Inr (page, [], length page)
      \<and> map ag_AgentID page = take k (map ar_agent_id (matching st ty ow tok d)))"
proof
  have lim: "page_limit limit \<le> 1000" by (auto simp: page_limit_def)
  obtain page where page: "ListAgents None None st ty ow limit tok d =
      (let rows = take (Suc (page_limit limit)) (map ar_agent_id (matching st ty ow tok d))
       in Inr (page, if page_limit limit < length rows then rows ! page_limit limit else [], length page))"
    "map ag_AgentID page = take (page_limit limit) (map ar_agent_id (matching st ty ow tok d))"
    using ListAgents_page [OF assms(1), of None st ty ow limit tok] by auto
  moreover have "length page \<le> 1000"
    using lim arg_cong [OF page(2), of length] by simp
  ultimately show "\<exists>page next. ListAgents None None st ty ow limit tok d = Inr (page, next, length page)
      \<and> map ag_AgentID page = take (page_limit limit) (map ar_agent_id (matching st ty ow tok d))
      \<and> length page \<le> 1000
      \<and> (length (matching st ty ow tok d) \<le> page_limit limit \<longrightarrow> next = [])"
    by (simp add: Let_def)
qed (rule ListAgents_broken [OF assms])

theorem list_page_contents_witness:
  "\<exists>page. ListAgents None (Some 1) [] [] [] 0 [] ex_three = Inr (page, [], length page)
     \<and> map ag_AgentID page = [''a'']"
proof -
  have ok: "decodable ex_three" "1 \<le> page_limit 0"
    and first: "take 1 (map ar_agent_id (matching [] [] [] [] ex_three)) = [''a'']"
    by code_simp+
  show ?thesis
    using list_page_contents [OF ok, of "[]" "[]" "[]" "[]"] unfolding first by (rule conjunct2)
qed

end
