(* ===== verification/Registry_Config.thy ===== *)
theory Registry_Config
  imports GoStrings GoJson
begin

text \<open>
  Configuration and probes of the agent registry (\<^verbatim>\<open>internal/config/config.go\<close>,
  \<^verbatim>\<open>internal/health/http.go\<close>). The environment is a function from variable names to values, the
  empty string for an unset one, as \<^verbatim>\<open>os.Getenv\<close> returns it.
\<close>

type_synonym environ = "string \<Rightarrow> string"

record Config =
  cf_DBConnectionString :: string
  cf_KafkaBootstrapServers :: string
  cf_KafkaSASLUsername :: string
  cf_KafkaSASLPassword :: string
  cf_RedisConnectionString :: string
  cf_GRPCPort :: int
  cf_MetricsPort :: int
  cf_HealthPort :: int
  cf_KafkaTopicLifecycle :: string
  cf_OutboxPollIntervalMS :: int
  cf_OutboxMaxAttempts :: int

datatype config_error =
    InvalidInt string string
  | Required string

definition getStr :: "environ \<Rightarrow> string \<Rightarrow> string \<Rightarrow> string" where
  "getStr env key fallback = (let v = env key in if v = [] then fallback else v)"

definition getInt :: "environ \<Rightarrow> string \<Rightarrow> int \<Rightarrow> config_error + int" where
  "getInt env key fallback =
     (let v = env key
      in if v = [] then Inr fallback
         else case Atoi v of None \<Rightarrow> Inl (InvalidInt key v) | Some n \<Rightarrow> Inr n)"

definition Load :: "environ \<Rightarrow> config_error + Config" where
  "Load env =
     (case getInt env ''ARE_GRPC_PORT'' 9090 of Inl e \<Rightarrow> Inl e | Inr grpcPort \<Rightarrow>
     (case getInt env ''ARE_METRICS_PORT'' 8081 of Inl e \<Rightarrow> Inl e | Inr metricsPort \<Rightarrow>
     (case getInt env ''ARE_HEALTH_PORT'' 8080 of Inl e \<Rightarrow> Inl e | Inr healthPort \<Rightarrow>
     (case getInt env ''ARE_OUTBOX_POLL_INTERVAL_MS'' 500 of Inl e \<Rightarrow> Inl e | Inr outboxPollMS \<Rightarrow>
     (case getInt env ''ARE_OUTBOX_MAX_ATTEMPTS'' 10 of Inl e \<Rightarrow> Inl e | Inr outboxMaxAttempts \<Rightarrow>
      (let cfg = \<lparr>
             cf_DBConnectionString = env ''ARE_DB_CONNECTION_STRING'',
             cf_KafkaBootstrapServers = env ''ARE_KAFKA_BOOTSTRAP_SERVERS'',
             cf_KafkaSASLUsername = env ''ARE_KAFKA_SASL_USERNAME'',
             cf_KafkaSASLPassword = env ''ARE_KAFKA_SASL_PASSWORD'',
             cf_RedisConnectionString = env ''ARE_REDIS_CONNECTION_STRING'',
             cf_GRPCPort = grpcPort, cf_MetricsPort = metricsPort, cf_HealthPort = healthPort,
             cf_KafkaTopicLifecycle = getStr env ''ARE_KAFKA_TOPIC_LIFECYCLE'' ''are.agents.lifecycle'',
             cf_OutboxPollIntervalMS = outboxPollMS,
             cf_OutboxMaxAttempts = outboxMaxAttempts \<rparr>
       in if cf_DBConnectionString cfg = [] then Inl (Required ''ARE_DB_CONNECTION_STRING'')
          else if cf_KafkaBootstrapServers cfg = [] then Inl (Required ''ARE_KAFKA_BOOTSTRAP_SERVERS'')
          else if cf_KafkaSASLUsername cfg = [] \<or> cf_KafkaSASLPassword cfg = []
            then Inl (Required ''ARE_KAFKA_SASL_USERNAME and ARE_KAFKA_SASL_PASSWORD'')
          else Inr cfg))))))"

text \<open>The probes: status code and body. \<open>ready\<close> is the optional \<^verbatim>\<open>Ready\<close> callback.\<close>

definition healthz :: "nat \<times> any" where
  "healthz = (200, AObj [(''status'', AStr ''ok'')])"

definition readyz :: "(unit \<Rightarrow> bool) option \<Rightarrow> nat \<times> any" where
  "readyz ready =
     (case ready of
        Some f \<Rightarrow> if \<not> f () then (503, AObj [(''status'', AStr ''not_ready'')])
                  else (200, AObj [(''status'', AStr ''ready'')])
      | None \<Rightarrow> (200, AObj [(''status'', AStr ''ready'')]))"

lemma getInt_Itoa: "env key = Itoa n \<Longrightarrow> in_int64 n \<Longrightarrow> getInt env key fallback = Inr n"
  using ParseInt_Itoa [of n] by (cases "Itoa n = []") (auto simp: getInt_def Let_def ParseInt_def)

end
