(* ===== verification/Errgroup.thy ===== *)
theory Errgroup
  imports Prelude
begin

text \<open>
  Groups of tasks as the processes of the registry and of the passport engine use them (\<^verbatim>\<open>errgroup.WithContext\<close>): the tasks
  that still run, the task whose error came first, whether the context of the group is cancelled, and whether the
  process was asked to stop. What a process adds is a field of its own record.
\<close>

record 't task_group =
  tg_running :: "'t set"
  tg_error :: "'t option"
  tg_done :: bool
  tg_signalled :: bool

text \<open>A task returns; an error cancels the context of the group, and the first one is kept.\<close>

definition task_returns :: "'t \<Rightarrow> bool \<Rightarrow> ('t, 'a) task_group_scheme \<Rightarrow> ('t, 'a) task_group_scheme" where
  "task_returns t failed g = g\<lparr>tg_running := tg_running g - {t},
     tg_error := (if failed \<and> tg_error g = None then Some t else tg_error g),
     tg_done := (tg_done g \<or> failed)\<rparr>"

text \<open>The signal cancels the context the group's context is made from.\<close>

definition stop_signal :: "('t, 'a) task_group_scheme \<Rightarrow> ('t, 'a) task_group_scheme" where
  "stop_signal g = g\<lparr>tg_signalled := True, tg_done := True\<rparr>"

text \<open>Waiting for the group ends when every task has returned, with the first error if there was one.\<close>

definition group_exit :: "('t, 'a) task_group_scheme \<Rightarrow> 't option option" where
  "group_exit g = (if tg_running g \<noteq> {} then None else Some (tg_error g))"

lemma task_returns_sel [simp]:
  "tg_running (task_returns t f g) = tg_running g - {t}" "tg_signalled (task_returns t f g) = tg_signalled g"
  "tg_done (task_returns t f g) \<longleftrightarrow> tg_done g \<or> f"
  "tg_error (task_returns t f g) = (if f \<and> tg_error g = None then Some t else tg_error g)"
  "task_group.more (task_returns t f g) = task_group.more g"
  by (simp_all add: task_returns_def)

lemma stop_signal_sel [simp]:
  "tg_running (stop_signal g) = tg_running g" "tg_error (stop_signal g) = tg_error g" "tg_done (stop_signal g)"
  "tg_signalled (stop_signal g)" "task_group.more (stop_signal g) = task_group.more g"
  by (simp_all add: stop_signal_def)

lemma group_exit_running: "t \<in> tg_running g \<Longrightarrow> group_exit g = None"
  by (auto simp: group_exit_def)

end
