(* ===== verification/Registry_Process.thy ===== *)
theory Registry_Process
  imports Registry_Correct Registry_Config Errgroup
begin

text \<open>
  The process of the agent registry (\<^verbatim>\<open>s0/agent-registry-service/cmd/are-agent-registry/main.go\<close>): its start, and how its
  four tasks live and end. The tasks are the delivery of the outbox, the gRPC server, and the listeners of
  metrics and health; they run in one \<^verbatim>\<open>errgroup\<close>.
\<close>

section \<open>Start\<close>

text \<open>What one attempt to connect meets: the pool cannot be made, its ping fails, or it is connected.\<close>

datatype connect_outcome = NewError string | PingError string | Connected

datatype connect_error = ContextDone | LastError "connect_outcome option"

text \<open>\<open>attempt i\<close> is the outcome of attempt \<open>i\<close>, and \<open>cancelled i\<close> whether the wait after it ends by cancellation.\<close>

fun connect_loop :: "(nat \<Rightarrow> connect_outcome) \<Rightarrow> (nat \<Rightarrow> bool) \<Rightarrow> nat list \<Rightarrow> connect_outcome option \<Rightarrow> connect_error + nat" where
  "connect_loop attempt cancelled [] lastErr = Inl (LastError lastErr)"
| "connect_loop attempt cancelled (i # is) lastErr =
     (case attempt i of
        Connected \<Rightarrow> Inr i
      | err \<Rightarrow> if cancelled i then Inl ContextDone else connect_loop attempt cancelled is (Some err))"

definition connectWithRetry :: "(nat \<Rightarrow> connect_outcome) \<Rightarrow> (nat \<Rightarrow> bool) \<Rightarrow> nat \<Rightarrow> connect_error + nat" where
  "connectWithRetry attempt cancelled attempts = connect_loop attempt cancelled [0..<attempts] None"

text \<open>The migrations are one statement; \<open>exec\<close> is how the database answers it.\<close>

definition runMigrations :: "(string \<Rightarrow> string option) \<Rightarrow> string option" where
  "runMigrations exec = exec ''SELECT 1''"

record Producer =
  kp_brokers :: "string list"
  kp_topic :: string
  kp_require_all :: bool
  kp_batch_timeout :: duration

definition NewProducer :: "string list \<Rightarrow> string \<Rightarrow> Producer" where
  "NewProducer brokers topic = \<lparr>kp_brokers = brokers, kp_topic = topic, kp_require_all = True, kp_batch_timeout = 10 * Millisecond\<rparr>"

text \<open>A message is a key, a value and a time; \<open>send\<close> is the writer of the Kafka library.\<close>

definition Producer_Write :: "(Producer \<Rightarrow> string \<times> bytes \<times> instant \<Rightarrow> string option) \<Rightarrow> Producer \<Rightarrow> instant \<Rightarrow> string \<Rightarrow> bytes \<Rightarrow> string option" where
  "Producer_Write send p now key value = send p (key, value, now)"

datatype reg_start_error =
    RegConfig config_error | RegPostgres connect_error | RegMigration string | RegListen | RegTickerPanic

record registry_setup =
  rg_config :: Config
  rg_producer :: Producer
  rg_poll :: duration
  rg_max_attempts :: int
  rg_grpc_addr :: string

text \<open>A ticker of no positive period panics, so such a poll interval ends the process right after it has started to listen.\<close>

definition registry_main :: "environ \<Rightarrow> (nat \<Rightarrow> connect_outcome) \<Rightarrow> (nat \<Rightarrow> bool) \<Rightarrow> (string \<Rightarrow> string option) \<Rightarrow> (string \<Rightarrow> bool) \<Rightarrow>
    reg_start_error + registry_setup" where
  "registry_main env attempt cancelled exec listen =
     (case Load env of
        Inl err \<Rightarrow> Inl (RegConfig err)
      | Inr cfg \<Rightarrow>
          (case connectWithRetry attempt cancelled 3 of
             Inl err \<Rightarrow> Inl (RegPostgres err)
           | Inr pool \<Rightarrow>
               (case runMigrations exec of
                  Some err \<Rightarrow> Inl (RegMigration err)
                | None \<Rightarrow>
                    (let brokers = Split (cf_KafkaBootstrapServers cfg) (CHR '','');
                         addr = CHR '':'' # Itoa (cf_GRPCPort cfg);
                         poll = scale_duration (cf_OutboxPollIntervalMS cfg) Millisecond
                     in if \<not> listen addr then Inl RegListen
                        else if poll \<le> 0 then Inl RegTickerPanic
                        else Inr \<lparr>rg_config = cfg, rg_producer = NewProducer brokers (cf_KafkaTopicLifecycle cfg),
                          rg_poll = poll, rg_max_attempts = cf_OutboxMaxAttempts cfg, rg_grpc_addr = addr\<rparr>))))"

lemma connect_loop_ok:
  "connect_loop attempt cancelled is l = Inr i \<Longrightarrow> i \<in> set is \<and> attempt i = Connected"
  by (induction "is" arbitrary: l) (auto split: connect_outcome.splits if_splits)

lemma registry_main_connected:
  assumes "registry_main env attempt cancelled exec listen = Inr s"
  shows "\<exists>i < 3. attempt i = Connected"
  using assms connect_loop_ok [of attempt cancelled "[0..<3]" None]
  by (auto simp: registry_main_def connectWithRetry_def split: sum.splits)

section \<open>Life and end of the tasks\<close>

datatype reg_task = OutboxTask | GrpcTask | MetricsTask | HealthTask

text \<open>Beside its tasks the process has whether it calls itself ready, and the database.\<close>

record registry_process = "reg_task task_group" +
  po_ready :: bool
  po_db :: db

definition started_process :: "db \<Rightarrow> registry_process" where
  "started_process d = \<lparr>tg_running = {OutboxTask, GrpcTask, MetricsTask, HealthTask}, tg_error = None, tg_done = False,
     tg_signalled = False, po_ready = True, po_db = d\<rparr>"

definition registry_stop :: "registry_process \<Rightarrow> registry_process" where
  "registry_stop p = (stop_signal p)\<lparr>po_ready := False\<rparr>"

text \<open>
  While the gRPC server runs it answers requests; while the delivery runs it may process a batch, and it ends when the context of
  the group is cancelled. A server fails, or ends because the process was asked to stop
  (the order in which the shutdown stops them is left open).
\<close>

inductive process_step :: "int \<Rightarrow> registry_process \<Rightarrow> registry_process \<Rightarrow> bool" for maxAttempts where
  registered: "GrpcTask \<in> tg_running p \<Longrightarrow>
    process_step maxAttempts p (p\<lparr>po_db := snd (srv_RegisterAgent io g req (po_db p))\<rparr>)"
| updated: "GrpcTask \<in> tg_running p \<Longrightarrow>
    process_step maxAttempts p (p\<lparr>po_db := snd (srv_UpdateAgentStatus io g id ureq (po_db p))\<rparr>)"
| batch: "OutboxTask \<in> tg_running p \<Longrightarrow>
    process_step maxAttempts p (p\<lparr>po_db := snd (snd (processBatch maxAttempts be (po_db p)))\<rparr>)"
| delivery_ends: "OutboxTask \<in> tg_running p \<Longrightarrow> tg_done p \<Longrightarrow>
    process_step maxAttempts p (task_returns OutboxTask False p)"
| server_fails: "t \<in> tg_running p \<Longrightarrow> t \<noteq> OutboxTask \<Longrightarrow> process_step maxAttempts p (task_returns t True p)"
| signalled: "process_step maxAttempts p (registry_stop p)"
| server_stops: "t \<in> tg_running p \<Longrightarrow> t \<noteq> OutboxTask \<Longrightarrow> tg_signalled p \<Longrightarrow>
    process_step maxAttempts p (task_returns t False p)"

section \<open>A listener that fails\<close>

lemma registry_process_sel [simp]:
  "po_ready (task_returns t f p) = po_ready p" "po_db (task_returns t f p) = po_db p"
  "po_ready (stop_signal p) = po_ready p" "po_db (stop_signal p) = po_db p"
  for p :: registry_process
  by (simp_all add: task_returns_def stop_signal_def)

definition adds_pending :: "db \<Rightarrow> db \<Rightarrow> bool" where
  "adds_pending d d' \<longleftrightarrow> (\<exists>obs. db_outbox d' = db_outbox d @ obs \<and> (\<forall>ob \<in> set obs. pending ob \<and> ob_attempt_count ob = 0))"

lemma adds_pending_refl [simp]: "adds_pending d d"
  by (simp add: adds_pending_def)

lemma adds_pending_trans: "adds_pending d d' \<Longrightarrow> adds_pending d' d'' \<Longrightarrow> adds_pending d d''"
  unfolding adds_pending_def by fastforce

lemma RegisterAgentWithOutbox_adds: "adds_pending d (snd (RegisterAgentWithOutbox io g a env et pl d))"
proof (cases rule: RegisterAgentWithOutbox_cases [of io g a env et pl d])
  case registers
  then show ?thesis by (simp add: adds_pending_def new_outbox_def)
qed simp

lemma srv_RegisterAgent_adds: "adds_pending d (snd (srv_RegisterAgent io g req d))"
proof (cases "admission_of req")
  case (Some adm)
  have "adds_pending d (snd (RegisterWithAdmission io g ty ow ext meta adm d))" for ty ow ext meta
    unfolding RegisterWithAdmission_def Let_def using RegisterAgentWithOutbox_adds by (simp split: sum.split option.split)
  then show ?thesis using Some
    by (auto simp: srv_RegisterAgent_def split: prod.splits sum.splits) (metis snd_conv)+
qed (simp add: srv_RegisterAgent_def)

lemma srv_UpdateAgentStatus_adds: "adds_pending d (snd (srv_UpdateAgentStatus io g id req d))"
proof -
  have "adds_pending d (snd (status_tx io g i new reason who d))" for i new reason who
    by (cases rule: status_tx_cases [of io g i new reason who d]) (auto simp: adds_pending_def new_outbox_def)
  then show ?thesis using srv_UpdateAgentStatus_state [of io g id req d] by (auto simp: Let_def)
qed

lemma process_inv:
  "(process_step m)\<^sup>*\<^sup>* (started_process d) p \<Longrightarrow>
   (\<not> tg_signalled p \<longrightarrow> po_ready p) \<and> (tg_done p \<longrightarrow> tg_signalled p \<or> tg_error p \<noteq> None) \<and>
   (OutboxTask \<notin> tg_running p \<longrightarrow> tg_done p)"
  by (induction rule: rtranclp_induct)
    (auto elim!: process_step.cases simp: started_process_def registry_stop_def split: if_splits)

lemma no_delivery_after_end:
  "(process_step m)\<^sup>*\<^sup>* p p' \<Longrightarrow> OutboxTask \<notin> tg_running p \<Longrightarrow> OutboxTask \<notin> tg_running p' \<and> adds_pending (po_db p) (po_db p')"
proof (induction rule: rtranclp_induct)
  case (step p' p'')
  then have "OutboxTask \<notin> tg_running p''" "adds_pending (po_db p') (po_db p'')"
    by (auto elim!: process_step.cases
        simp: registry_stop_def srv_RegisterAgent_adds srv_UpdateAgentStatus_adds)
  then show ?case using step adds_pending_trans by blast
qed simp

text \<open>
  A failing metrics or health listener silently stops the delivery of events. When the delivery has ended although the process
  was not asked to stop, a listener has failed. From then on, however the process continues, no event is delivered:
  every row stays as it is and the rows of new registrations and updates stay pending; and while the
  gRPC server serves, the process neither exits nor, until it is asked to stop, stops calling itself ready.
\<close>

theorem listener_failure_stops_delivery:
  assumes "(process_step m)\<^sup>*\<^sup>* (started_process d) p" "OutboxTask \<notin> tg_running p" "\<not> tg_signalled p"
    and "(process_step m)\<^sup>*\<^sup>* p p'"
  shows "tg_error p \<noteq> None \<and> adds_pending (po_db p) (po_db p') \<and> (\<not> tg_signalled p' \<longrightarrow> po_ready p') \<and>
    (GrpcTask \<in> tg_running p' \<longrightarrow> group_exit p' = None)"
proof -
  have "(process_step m)\<^sup>*\<^sup>* (started_process d) p'" using assms(1,4) by (rule rtranclp_trans)
  then show ?thesis
    using process_inv [OF assms(1)] process_inv [of m d p'] no_delivery_after_end [OF assms(4,2)] assms(2,3)
    by (auto simp: group_exit_def)
qed

theorem listener_failure_stops_delivery_witness:
  "\<exists>p. (process_step 10)\<^sup>*\<^sup>* (started_process empty_db) p \<and> GrpcTask \<in> tg_running p \<and> group_exit p = None \<and>
     po_ready p \<and> adds_pending empty_db (po_db p) \<and> db_outbox (po_db p) \<noteq> []"
proof -
  define p1 where "p1 = task_returns OutboxTask False (task_returns MetricsTask True (started_process empty_db))"
  define p2 where "p2 = p1\<lparr>po_db := ex_db1\<rparr>"
  have "process_step 10 (started_process empty_db) (task_returns MetricsTask True (started_process empty_db))"
    by (rule process_step.server_fails) (simp_all add: started_process_def)
  moreover have "process_step 10 (task_returns MetricsTask True (started_process empty_db)) p1"
    unfolding p1_def by (rule process_step.delivery_ends) (simp_all add: started_process_def task_returns_def)
  ultimately have run: "(process_step 10)\<^sup>*\<^sup>* (started_process empty_db) p1" by simp
  have "process_step 10 p1 (p1\<lparr>po_db := snd (srv_RegisterAgent no_failures (ex_gen ''a'') ex_register (po_db p1))\<rparr>)"
    by (rule process_step.registered) (simp add: p1_def started_process_def task_returns_def)
  then have step: "(process_step 10)\<^sup>*\<^sup>* p1 p2" by (simp add: p2_def ex_db1_def p1_def task_returns_def started_process_def)
  have p1: "OutboxTask \<notin> tg_running p1" "\<not> tg_signalled p1" "po_db p1 = empty_db"
    by (simp_all add: p1_def task_returns_def started_process_def)
  have p2: "GrpcTask \<in> tg_running p2" "\<not> tg_signalled p2" "po_db p2 = ex_db1"
    by (simp_all add: p2_def p1_def task_returns_def started_process_def)
  have "db_outbox ex_db1 \<noteq> []" by code_simp
  with listener_failure_stops_delivery [OF run p1(1,2) step] p1 p2 rtranclp_trans [OF run step] show ?thesis by auto
qed

end
