(* ===== verification/Passport_Service.thy ===== *)
theory Passport_Service
  imports GoTime GoJson
begin

text \<open>
  The passport issuance engine: \<^verbatim>\<open>s0/passport-issuance-engine/internal/domain/passport.go\<close> and
  \<^verbatim>\<open>internal/service/service.go\<close>.

  \<^item> The state is the two maps of the service and the calls it made to the outbox and to the
    ledger, whose results the code drops.
  \<^item> The registry, the credential store and the bundle registry are other services: \<open>deps\<close> is how they
    answer during one call, \<open>None\<close> for an error.
  \<^item> \<open>call\<close> holds what one call reads from the clock and the generated identifier.

  Each operation holds the mutex over all of its accesses to the maps, so a run is a sequence of
  operations.
\<close>

section \<open>Domain\<close>

abbreviation PStatusActive :: string where "PStatusActive \<equiv> ''ACTIVE''"
abbreviation PStatusExpired :: string where "PStatusExpired \<equiv> ''EXPIRED''"
abbreviation PStatusRevoked :: string where "PStatusRevoked \<equiv> ''REVOKED''"
abbreviation TypeProvisional :: string where "TypeProvisional \<equiv> ''PROVISIONAL''"
abbreviation TypeStandard :: string where "TypeStandard \<equiv> ''STANDARD''"

record Scope =
  sc_ScopeID :: string
  sc_ActionClass :: string
  sc_ResourcePattern :: string
  sc_ContextConstraints :: "strmap option"
  sc_IsEscalation :: bool
  sc_GrantedTS :: instant
  sc_ExpiresTS :: instant

record Passport =
  pp_PassportID :: string
  pp_AgentID :: string
  pp_PassportType :: string
  pp_ScopeSet :: "Scope list"
  pp_Status :: string
  pp_IssuedBy :: string
  pp_CredentialID :: string
  pp_PublicKeyPEM :: string
  pp_Signature :: bytes
  pp_Reason :: string
  pp_IssuedTS :: instant
  pp_ExpiresTS :: instant
  pp_RevokedTS :: "instant option"
  pp_RevocationReason :: string
  pp_SupersededBy :: string
  pp_PolicyIDAtIssuance :: string
  pp_PolicyVerAtIssuance :: string

text \<open>
  The zero value of \<^verbatim>\<open>domain.Passport\<close>, which a map lookup returns for an absent key. The zero
  \<^verbatim>\<open>time.Time\<close> is the start of the year 1.
\<close>

definition zero_time :: instant where
  "zero_time = - 62135596800 * Second"

definition zero_passport :: Passport where
  "zero_passport = \<lparr>
     pp_PassportID = [], pp_AgentID = [], pp_PassportType = [], pp_ScopeSet = [], pp_Status = [],
     pp_IssuedBy = [], pp_CredentialID = [], pp_PublicKeyPEM = [], pp_Signature = [], pp_Reason = [],
     pp_IssuedTS = zero_time, pp_ExpiresTS = zero_time, pp_RevokedTS = None,
     pp_RevocationReason = [], pp_SupersededBy = [], pp_PolicyIDAtIssuance = [],
     pp_PolicyVerAtIssuance = [] \<rparr>"

section \<open>Service\<close>

datatype issue_detail =
    MissingField | TtlTooLow | TtlTooHighProvisional | TtlTooHighStandard | ActionNotAllowed

datatype pass_error =
    PErrNotFound
  | PErrAlreadyExists string
  | PErrInvalidArgument issue_detail
  | PErrFailedPrecondition
  | PErrUnavailable

abbreviation AgentPending :: string where "AgentPending \<equiv> ''PENDING''"
abbreviation AgentActive :: string where "AgentActive \<equiv> ''ACTIVE''"
abbreviation AgentSuspended :: string where "AgentSuspended \<equiv> ''SUSPENDED''"
abbreviation AgentDeregistered :: string where "AgentDeregistered \<equiv> ''DEREGISTERED''"

record deps =
  dp_GetAgentStatus :: "string \<Rightarrow> string option"
  dp_Sign :: "bytes \<Rightarrow> (string \<times> string \<times> bytes) option"
  dp_Verify :: "string \<Rightarrow> bytes \<Rightarrow> bytes \<Rightarrow> bool option"
  dp_policyBundles :: "(string \<times> string) option option"
  dp_ledger :: bool

record call =
  ca_now0 :: instant
  ca_now :: instant
  ca_uuid :: string

record IssueInput =
  ii_AgentID :: string
  ii_PassportType :: string
  ii_Scopes :: "Scope list"
  ii_TTLSeconds :: int
  ii_IssuedBy :: string
  ii_ForceReissue :: bool
  ii_Reason :: string
  ii_PolicyIDAtIssuance :: string
  ii_PolicyVerAtIssuance :: string

text \<open>An event: its type, agent, passport and reason.\<close>

type_synonym lifecycle = "string \<times> string \<times> string \<times> string"

record pass_state =
  ps_passports :: "string \<rightharpoonup> Passport"
  ps_activeByAgent :: "string \<rightharpoonup> string"
  ps_outbox :: "lifecycle list"
  ps_ledger :: "lifecycle list"

definition new_service :: pass_state where
  "new_service = \<lparr>ps_passports = Map.empty, ps_activeByAgent = Map.empty, ps_outbox = [], ps_ledger = []\<rparr>"

definition provisionalAllowedActionType :: "string \<Rightarrow> bool" where
  "provisionalAllowedActionType a \<longleftrightarrow> a \<in> set [''READ'', ''NOTIFY'', ''QUERY'']"

definition canonicalPayload ::
  "string \<Rightarrow> string \<Rightarrow> Scope list \<Rightarrow> instant \<Rightarrow> instant \<Rightarrow> bytes" where
  "canonicalPayload agentID pType scopes issued expires =
     HexEncode (sha256
       (agentID @ pType
        @ concat (map (\<lambda>s. sc_ScopeID s @ sc_ActionClass s @ sc_ResourcePattern s) scopes)
        @ RFC3339Nano issued @ RFC3339Nano expires))"

definition Enqueue :: "string \<Rightarrow> string \<Rightarrow> string \<Rightarrow> string \<Rightarrow> pass_state \<Rightarrow> pass_state" where
  "Enqueue eventType agentID passportID reason s =
     s\<lparr>ps_outbox := ps_outbox s @ [(eventType, agentID, passportID, reason)]\<rparr>"

definition WritePassportLifecycle ::
  "deps \<Rightarrow> string \<Rightarrow> string \<Rightarrow> string \<Rightarrow> string \<Rightarrow> pass_state \<Rightarrow> pass_state" where
  "WritePassportLifecycle deps agentID passportID eventType reason s =
     (if dp_ledger deps
      then s\<lparr>ps_ledger := ps_ledger s @ [(eventType, agentID, passportID, reason)]\<rparr> else s)"

text \<open>The checks of an issuance before the mutex is taken.\<close>

definition issue_checks :: "deps \<Rightarrow> IssueInput \<Rightarrow> pass_error option" where
  "issue_checks deps input =
     (if ii_AgentID input = [] \<or> ii_IssuedBy input = [] \<or> ii_Reason input = [] \<or> length (ii_Scopes input) = 0
        then Some (PErrInvalidArgument MissingField)
      else if ii_TTLSeconds input < 300 then Some (PErrInvalidArgument TtlTooLow)
      else if ii_PassportType input = TypeProvisional \<and> 86400 < ii_TTLSeconds input
        then Some (PErrInvalidArgument TtlTooHighProvisional)
      else if ii_PassportType input = TypeStandard \<and> 2592000 < ii_TTLSeconds input
        then Some (PErrInvalidArgument TtlTooHighStandard)
      else
        (case dp_GetAgentStatus deps (ii_AgentID input) of
           None \<Rightarrow> Some PErrUnavailable
         | Some status \<Rightarrow>
             if status = AgentDeregistered \<or> status = AgentSuspended then Some PErrFailedPrecondition
             else if status \<noteq> AgentActive \<and> status \<noteq> AgentPending then Some PErrFailedPrecondition
             else if ii_PassportType input = TypeProvisional \<and>
                 list_ex (\<lambda>scope. \<not> provisionalAllowedActionType (sc_ActionClass scope)) (ii_Scopes input)
               then Some (PErrInvalidArgument ActionNotAllowed)
             else None))"

text \<open>The revocation of the current passport on a forced reissue.\<close>

definition revoke_current :: "call \<Rightarrow> string \<Rightarrow> pass_state \<Rightarrow> pass_state" where
  "revoke_current c currentID s =
     (let p = (case ps_passports s currentID of None \<Rightarrow> zero_passport | Some p \<Rightarrow> p);
          p' = p\<lparr>pp_Status := PStatusRevoked, pp_RevokedTS := Some (ca_now0 c),
                 pp_RevocationReason := ''superseded_by_force_reissue''\<rparr>
      in Enqueue ''PASSPORT_REVOKED'' (pp_AgentID p') (pp_PassportID p') (pp_RevocationReason p')
           (s\<lparr>ps_passports := (ps_passports s)(currentID \<mapsto> p')\<rparr>))"

text \<open>The policy recorded at issuance: the caller's, or the active bundle when the caller names none.\<close>

definition policy_at_issuance :: "deps \<Rightarrow> IssueInput \<Rightarrow> (string \<times> string) option" where
  "policy_at_issuance deps input =
     (if ii_PolicyIDAtIssuance input = [] \<and> ii_PolicyVerAtIssuance input = []
      then (case dp_policyBundles deps of
              None \<Rightarrow> Some (ii_PolicyIDAtIssuance input, ii_PolicyVerAtIssuance input)
            | Some bundle \<Rightarrow> bundle)
      else Some (ii_PolicyIDAtIssuance input, ii_PolicyVerAtIssuance input))"

text \<open>Signing and storing the new passport.\<close>

definition issue_new :: "deps \<Rightarrow> call \<Rightarrow> IssueInput \<Rightarrow> pass_state \<Rightarrow> (pass_error + Passport) \<times> pass_state" where
  "issue_new deps c input s =
     (let passportID = ca_uuid c; now = ca_now c;
          expires = Add now (scale_duration (ii_TTLSeconds input) Second);
          payload = canonicalPayload (ii_AgentID input) (ii_PassportType input) (ii_Scopes input) now expires
      in case dp_Sign deps payload of
           None \<Rightarrow> (Inl PErrUnavailable, s)
         | Some (credentialID, publicKey, signature) \<Rightarrow>
             (case policy_at_issuance deps input of
                None \<Rightarrow> (Inl PErrUnavailable, s)
              | Some (policyID, policyVer) \<Rightarrow>
                  (let passport = \<lparr>
                     pp_PassportID = passportID, pp_AgentID = ii_AgentID input,
                     pp_PassportType = ii_PassportType input, pp_ScopeSet = ii_Scopes input,
                     pp_Status = PStatusActive, pp_IssuedBy = ii_IssuedBy input,
                     pp_CredentialID = credentialID, pp_PublicKeyPEM = publicKey,
                     pp_Signature = signature, pp_Reason = ii_Reason input, pp_IssuedTS = now,
                     pp_ExpiresTS = expires, pp_RevokedTS = None, pp_RevocationReason = [],
                     pp_SupersededBy = [], pp_PolicyIDAtIssuance = policyID,
                     pp_PolicyVerAtIssuance = policyVer \<rparr>
                   in (Inr passport,
                       WritePassportLifecycle deps (ii_AgentID input) passportID ''PASSPORT_ISSUED'' (ii_Reason input)
                         (Enqueue ''PASSPORT_ISSUED'' (ii_AgentID input) passportID (ii_Reason input)
                           (s\<lparr>ps_passports := (ps_passports s)(passportID \<mapsto> passport),
                              ps_activeByAgent := (ps_activeByAgent s)(ii_AgentID input \<mapsto> passportID)\<rparr>))))))"

definition IssuePassport ::
  "deps \<Rightarrow> call \<Rightarrow> IssueInput \<Rightarrow> pass_state \<Rightarrow> (pass_error + Passport) \<times> pass_state" where
  "IssuePassport deps c input s =
     (case issue_checks deps input of
        Some e \<Rightarrow> (Inl e, s)
      | None \<Rightarrow>
          (case ps_activeByAgent s (ii_AgentID input) of
             None \<Rightarrow> issue_new deps c input s
           | Some currentID \<Rightarrow>
               if \<not> ii_ForceReissue input then (Inl (PErrAlreadyExists currentID), s)
               else issue_new deps c input (revoke_current c currentID s)))"

definition GetPassport :: "string \<Rightarrow> pass_state \<Rightarrow> pass_error + Passport" where
  "GetPassport passportID s =
     (case ps_passports s passportID of None \<Rightarrow> Inl PErrNotFound | Some p \<Rightarrow> Inr p)"

definition GetAgentPassport :: "string \<Rightarrow> pass_state \<Rightarrow> pass_error + Passport" where
  "GetAgentPassport agentID s =
     (case ps_activeByAgent s agentID of
        None \<Rightarrow> Inl PErrNotFound
      | Some i \<Rightarrow> Inr (case ps_passports s i of None \<Rightarrow> zero_passport | Some p \<Rightarrow> p))"

text \<open>The result is the verdict, the status, the failure reason and the error.\<close>

definition VerifyPassport ::
  "deps \<Rightarrow> instant \<Rightarrow> string \<Rightarrow> bytes \<Rightarrow> bytes \<Rightarrow> pass_state
   \<Rightarrow> bool \<times> string \<times> string \<times> pass_error option" where
  "VerifyPassport deps now passportID payload signature s =
     (case GetPassport passportID s of
        Inl e \<Rightarrow> (False, [], [], Some e)
      | Inr p \<Rightarrow>
          if pp_Status p = PStatusRevoked then (False, pp_Status p, ''revoked'', None)
          else if pp_Status p = PStatusExpired \<or> pp_ExpiresTS p < now
            then (False, PStatusExpired, ''expired'', None)
          else
            (case dp_Verify deps (pp_PublicKeyPEM p) payload signature of
               None \<Rightarrow> (False, pp_Status p, ''verify_error'', Some PErrUnavailable)
             | Some ok \<Rightarrow>
                 if \<not> ok then (False, pp_Status p, ''signature_invalid'', None)
                 else (True, pp_Status p, [], None)))"

definition RevokePassport ::
  "deps \<Rightarrow> call \<Rightarrow> string \<Rightarrow> string \<Rightarrow> string \<Rightarrow> pass_state \<Rightarrow> (pass_error + Passport) \<times> pass_state" where
  "RevokePassport deps c passportID reason revokedBy s =
     (if passportID = [] \<or> reason = [] \<or> revokedBy = [] then (Inl (PErrInvalidArgument MissingField), s)
      else
        (case ps_passports s passportID of
           None \<Rightarrow> (Inl PErrNotFound, s)
         | Some p \<Rightarrow>
             if pp_Status p = PStatusRevoked then (Inr p, s)
             else
               (let p' = p\<lparr>pp_Status := PStatusRevoked, pp_RevokedTS := Some (ca_now c),
                           pp_RevocationReason := reason\<rparr>;
                    active = (if ps_activeByAgent s (pp_AgentID p') = Some passportID
                              then (ps_activeByAgent s)(pp_AgentID p' := None)
                              else ps_activeByAgent s)
                in (Inr p',
                    WritePassportLifecycle deps (pp_AgentID p') passportID ''PASSPORT_REVOKED'' reason
                      (Enqueue ''PASSPORT_REVOKED'' (pp_AgentID p') passportID reason
                        (s\<lparr>ps_passports := (ps_passports s)(passportID \<mapsto> p'),
                           ps_activeByAgent := active\<rparr>))))))"

section \<open>Local dependencies\<close>

text \<open>
  The dependencies of \<^verbatim>\<open>internal/local/wiring.go\<close>: every agent is active, a signature is the payload
  behind a fixed prefix, the bundle is fixed, and the ledger is present (and counts failures, of
  which it has none).
\<close>

definition stub_Sign :: "bytes \<Rightarrow> (string \<times> string \<times> bytes) option" where
  "stub_Sign payload = Some (''cred-local'', ''pub-local'', ''sig:'' @ payload)"

definition stub_Verify :: "string \<Rightarrow> bytes \<Rightarrow> bytes \<Rightarrow> bool option" where
  "stub_Verify key payload signature = Some (''sig:'' @ payload = signature)"

definition NewInMemoryService :: deps where
  "NewInMemoryService = \<lparr>
     dp_GetAgentStatus = (\<lambda>agentID. Some AgentActive),
     dp_Sign = stub_Sign, dp_Verify = stub_Verify,
     dp_policyBundles = Some (Some (''local-bundle'', ''1.0.0'')), dp_ledger = True\<rparr>"

end
