(* ===== verification/Passport_Run.thy ===== *)
theory Passport_Run
  imports Passport_Service
begin

text \<open>
  Runs of the passport service and its correctness: the invariant of its two maps, the permanence of
  a revocation, the guarantees of an issued passport, and the round trip from issuing to verifying
  for every credential store that keeps the contract of the locale \<open>credential_store\<close>.
\<close>

section \<open>Runs\<close>

text \<open>Generated identifiers are new, as those of a version 4 UUID are.\<close>

inductive pass_step :: "pass_state \<Rightarrow> pass_state \<Rightarrow> bool" where
  issue: "ps_passports s (ca_uuid c) = None \<Longrightarrow> pass_step s (snd (IssuePassport deps c input s))"
| revoke: "pass_step s (snd (RevokePassport deps c passportID reason revokedBy s))"

text \<open>The writes of an operation, as a specification: nothing, one new passport, a revocation, or both.\<close>

definition revoked_at :: "instant \<Rightarrow> string \<Rightarrow> Passport \<Rightarrow> Passport" where
  "revoked_at t reason p = p\<lparr>pp_Status := PStatusRevoked, pp_RevokedTS := Some t, pp_RevocationReason := reason\<rparr>"

lemma revoked_at_sel [simp]:
  "pp_Status (revoked_at t r p) = PStatusRevoked" "pp_PassportID (revoked_at t r p) = pp_PassportID p"
  "pp_AgentID (revoked_at t r p) = pp_AgentID p" "pp_RevokedTS (revoked_at t r p) = Some t"
  "pp_RevocationReason (revoked_at t r p) = r"
  by (simp_all add: revoked_at_def)

lemma issue_new_cases:
  obtains (fails) "issue_new deps c input s = (Inl PErrUnavailable, s)"
  | (issues) p s' where "issue_new deps c input s = (Inr p, s')"
      "pp_PassportID p = ca_uuid c" "pp_AgentID p = ii_AgentID input" "pp_Status p = PStatusActive"
      "pp_PassportType p = ii_PassportType input" "pp_ScopeSet p = ii_Scopes input"
      "pp_IssuedTS p = ca_now c" "pp_ExpiresTS p = Add (ca_now c) (scale_duration (ii_TTLSeconds input) Second)"
      "dp_Sign deps (canonicalPayload (ii_AgentID input) (ii_PassportType input) (ii_Scopes input)
         (pp_IssuedTS p) (pp_ExpiresTS p)) = Some (pp_CredentialID p, pp_PublicKeyPEM p, pp_Signature p)"
      "ps_passports s' = (ps_passports s)(ca_uuid c \<mapsto> p)"
      "ps_activeByAgent s' = (ps_activeByAgent s)(ii_AgentID input \<mapsto> ca_uuid c)"
      "ps_outbox s' = ps_outbox s @ [(''PASSPORT_ISSUED'', ii_AgentID input, ca_uuid c, ii_Reason input)]"
      "ps_ledger s' = ps_ledger s @ (if dp_ledger deps
         then [(''PASSPORT_ISSUED'', ii_AgentID input, ca_uuid c, ii_Reason input)] else [])"
proof (cases "fst (issue_new deps c input s)")
  case (Inl e)
  then have "issue_new deps c input s = (Inl PErrUnavailable, s)"
    by (auto simp: issue_new_def Let_def split: option.splits prod.splits)
  then show ?thesis by (rule fails)
next
  case (Inr p)
  then show ?thesis
    by (intro issues [of p "snd (issue_new deps c input s)"])
      (auto simp: issue_new_def Let_def WritePassportLifecycle_def Enqueue_def split: option.splits prod.splits)
qed

section \<open>Invariant\<close>

text \<open>
  The specification of the service is the status of every passport; the outbox is a log from which it
  can be replayed.
\<close>

type_synonym pass_spec = "string \<rightharpoonup> string \<times> string"

definition statuses :: "pass_state \<Rightarrow> pass_spec" where
  "statuses s i = map_option (\<lambda>p. (pp_AgentID p, pp_Status p)) (ps_passports s i)"

fun apply_event :: "lifecycle \<Rightarrow> pass_spec \<Rightarrow> pass_spec" where
  "apply_event (eventType, agentID, passportID, reason) m =
     m(passportID \<mapsto> (agentID, if eventType = ''PASSPORT_ISSUED'' then PStatusActive else PStatusRevoked))"

definition replay_events :: "lifecycle list \<Rightarrow> pass_spec" where
  "replay_events evs = fold apply_event evs Map.empty"

definition index_ok :: "pass_state \<Rightarrow> bool" where
  "index_ok s \<longleftrightarrow>
     (\<forall>a i. ps_activeByAgent s a = Some i \<longrightarrow> (\<exists>p. ps_passports s i = Some p \<and> pp_AgentID p = a))"

definition passport_ok :: "pass_state \<Rightarrow> string \<Rightarrow> Passport \<Rightarrow> bool" where
  "passport_ok s i p \<longleftrightarrow>
     pp_PassportID p = i \<and> pp_Status p \<in> {PStatusActive, PStatusRevoked}
   \<and> (pp_Status p = PStatusActive \<longrightarrow> ps_activeByAgent s (pp_AgentID p) = Some i)"

definition pass_inv :: "pass_state \<Rightarrow> bool" where
  "pass_inv s \<longleftrightarrow>
     index_ok s \<and> (\<forall>i p. ps_passports s i = Some p \<longrightarrow> passport_ok s i p)
   \<and> replay_events (ps_outbox s) = statuses s"

lemma pass_inv_index:
  "pass_inv s \<Longrightarrow> ps_activeByAgent s a = Some i \<Longrightarrow> \<exists>p. ps_passports s i = Some p \<and> pp_AgentID p = a"
  by (simp add: pass_inv_def index_ok_def)

lemma pass_inv_passport: "pass_inv s \<Longrightarrow> ps_passports s i = Some p \<Longrightarrow> passport_ok s i p"
  by (simp add: pass_inv_def)

lemma replay_events_append [simp]: "replay_events (evs @ [e]) = apply_event e (replay_events evs)"
  by (simp add: replay_events_def)

lemma pass_inv_new [simp]: "pass_inv new_service"
  by (auto simp: pass_inv_def index_ok_def new_service_def replay_events_def statuses_def)

lemma statuses_upd:
  "ps_passports s' = (ps_passports s)(i \<mapsto> p) \<Longrightarrow> statuses s' = (statuses s)(i \<mapsto> (pp_AgentID p, pp_Status p))"
  by (auto simp: statuses_def)

lemma revoke_current_eq:
  assumes "ps_passports s cur = Some p"
  shows "revoke_current c cur s = s\<lparr>
    ps_passports := (ps_passports s)(cur \<mapsto> revoked_at (ca_now0 c) ''superseded_by_force_reissue'' p),
    ps_outbox := ps_outbox s @ [(''PASSPORT_REVOKED'', pp_AgentID p, pp_PassportID p, ''superseded_by_force_reissue'')]\<rparr>"
  using assms by (simp add: revoke_current_def revoked_at_def Enqueue_def Let_def)

text \<open>Revoking the indexed passport of an agent leaves it with no active passport.\<close>

lemma revoke_current_inv:
  assumes "pass_inv s" "ps_activeByAgent s a = Some cur"
  shows "pass_inv (revoke_current c cur s)"
    and "ps_passports (revoke_current c cur s) i = Some q \<Longrightarrow> pp_AgentID q = a \<Longrightarrow> pp_Status q = PStatusRevoked"
proof -
  obtain p where p: "ps_passports s cur = Some p" "pp_AgentID p = a" "pp_PassportID p = cur"
    using assms by (auto simp: pass_inv_def index_ok_def passport_ok_def)
  let ?s = "revoke_current c cur s"
  have upd: "ps_passports ?s = (ps_passports s)(cur \<mapsto> revoked_at (ca_now0 c) ''superseded_by_force_reissue'' p)"
    "ps_activeByAgent ?s = ps_activeByAgent s"
    "ps_outbox ?s = ps_outbox s @ [(''PASSPORT_REVOKED'', a, cur, ''superseded_by_force_reissue'')]"
    unfolding revoke_current_eq [OF p(1)] using p by simp_all
  have "aa = a" if "ps_activeByAgent s aa = Some cur" for aa
    using pass_inv_index [OF assms(1) that] p by simp
  then have "index_ok ?s"
    using p(2) pass_inv_index [OF assms(1)] by (simp add: index_ok_def upd)
  moreover have ok: "passport_ok ?s j q" if "ps_passports ?s j = Some q" for j q
    using that p pass_inv_passport [OF assms(1), of j q] by (auto simp: upd passport_ok_def split: if_splits)
  moreover have "replay_events (ps_outbox ?s) = statuses ?s"
    using assms(1) p(2) statuses_upd [OF upd(1)] by (simp add: upd(3) pass_inv_def)
  ultimately show "pass_inv ?s" by (simp add: pass_inv_def)
  assume q: "ps_passports ?s i = Some q" "pp_AgentID q = a"
  then show "pp_Status q = PStatusRevoked"
    using assms(2) ok [OF q(1)] by (cases "i = cur") (auto simp: upd passport_ok_def)
qed

lemma issue_new_inv:
  assumes "pass_inv s" "ps_passports s (ca_uuid c) = None"
    "\<And>i q. ps_passports s i = Some q \<Longrightarrow> pp_AgentID q = ii_AgentID input \<Longrightarrow> pp_Status q = PStatusRevoked"
  shows "pass_inv (snd (issue_new deps c input s))"
proof (cases rule: issue_new_cases [of deps c input s])
  case (issues p s')
  have "index_ok s'"
    using assms(2) issues(3,10,11) pass_inv_index [OF assms(1)] by (fastforce simp: index_ok_def)
  moreover have "passport_ok s' i q" if "ps_passports s' i = Some q" for i q
    using assms that issues(2-4,10,11) by (auto simp: pass_inv_def passport_ok_def split: if_splits)
  moreover have "replay_events (ps_outbox s') = statuses s'"
    using assms(1) issues(3,4,12) statuses_upd [OF issues(10)] by (simp add: pass_inv_def)
  ultimately show ?thesis by (simp add: pass_inv_def issues(1))
qed (simp add: assms)

lemma IssuePassport_inv [keeps_inv]:
  assumes "pass_inv s" "ps_passports s (ca_uuid c) = None"
  shows "pass_inv (snd (IssuePassport deps c input s))"
proof (cases "issue_checks deps input")
  case None
  show ?thesis
  proof (cases "ps_activeByAgent s (ii_AgentID input)")
    case None
    then have "pp_Status q = PStatusRevoked" if "ps_passports s i = Some q" "pp_AgentID q = ii_AgentID input" for i q
      using pass_inv_passport [OF assms(1) that(1)] that(2) None by (auto simp: passport_ok_def)
    then show ?thesis
      using None \<open>issue_checks deps input = None\<close> issue_new_inv [OF assms] by (simp add: IssuePassport_def)
  next
    case (Some cur)
    note inv = revoke_current_inv [OF assms(1) Some]
    have "ps_passports (revoke_current c cur s) (ca_uuid c) = None"
      using assms(2) pass_inv_index [OF assms(1) Some] by (auto simp: revoke_current_eq)
    then have "pass_inv (snd (issue_new deps c input (revoke_current c cur s)))"
      using inv by (intro issue_new_inv) auto
    then show ?thesis using assms(1) Some None by (simp add: IssuePassport_def)
  qed
qed (simp add: IssuePassport_def assms)

lemma RevokePassport_cases:
  obtains (refused) e where "RevokePassport deps c i reason who s = (Inl e, s)"
  | (already) p where "RevokePassport deps c i reason who s = (Inr p, s)" "i \<noteq> []"
      "ps_passports s i = Some p" "pp_Status p = PStatusRevoked"
  | (revokes) p where "ps_passports s i = Some p" "pp_Status p \<noteq> PStatusRevoked"
      "fst (RevokePassport deps c i reason who s) = Inr (revoked_at (ca_now c) reason p)"
      "ps_passports (snd (RevokePassport deps c i reason who s)) =
         (ps_passports s)(i \<mapsto> revoked_at (ca_now c) reason p)"
      "ps_activeByAgent (snd (RevokePassport deps c i reason who s)) =
         (if ps_activeByAgent s (pp_AgentID p) = Some i
          then (ps_activeByAgent s)(pp_AgentID p := None) else ps_activeByAgent s)"
      "ps_outbox (snd (RevokePassport deps c i reason who s)) =
         ps_outbox s @ [(''PASSPORT_REVOKED'', pp_AgentID p, i, reason)]"
proof (cases "i = [] \<or> reason = [] \<or> who = [] \<or> ps_passports s i = None")
  case True
  then have "\<exists>e. RevokePassport deps c i reason who s = (Inl e, s)" by (auto simp: RevokePassport_def)
  then show ?thesis using refused by blast
next
  case False
  then obtain p where p: "ps_passports s i = Some p" "i \<noteq> []" "reason \<noteq> []" "who \<noteq> []" by auto
  show ?thesis
  proof (cases "pp_Status p = PStatusRevoked")
    case True
    with p show ?thesis by (intro already) (auto simp: RevokePassport_def)
  next
    case False
    with p show ?thesis
      by (intro revokes [of p])
        (simp_all add: RevokePassport_def revoked_at_def WritePassportLifecycle_def Enqueue_def Let_def)
  qed
qed

lemma RevokePassport_inv [keeps_inv]:
  assumes "pass_inv s"
  shows "pass_inv (snd (RevokePassport deps c i reason who s))"
proof (cases rule: RevokePassport_cases [of deps c i reason who s])
  case (revokes p)
  let ?s = "snd (RevokePassport deps c i reason who s)"
  have p: "passport_ok s i p" using assms revokes(1) by (simp add: pass_inv_def)
  then have active: "ps_activeByAgent s (pp_AgentID p) = Some i"
    using revokes(2) by (auto simp: passport_ok_def)
  have "index_ok ?s"
    using pass_inv_index [OF assms] revokes(1,4,5) active by (fastforce simp: index_ok_def)
  moreover have "passport_ok ?s j q" if "ps_passports ?s j = Some q" for j q
  proof (cases "j = i")
    case True
    then show ?thesis using that p revokes(4) by (auto simp: passport_ok_def)
  next
    case False
    then have "passport_ok s j q" using that assms revokes(4) by (simp add: pass_inv_def)
    then show ?thesis using False active revokes(5) by (auto simp: passport_ok_def)
  qed
  moreover have "replay_events (ps_outbox ?s) = statuses ?s"
    using assms revokes(6) statuses_upd [OF revokes(4)] by (simp add: pass_inv_def)
  ultimately show ?thesis by (simp add: pass_inv_def)
qed (simp_all add: assms)

lemma pass_steps_inv:
  "pass_step\<^sup>*\<^sup>* s s' \<Longrightarrow> pass_inv s \<Longrightarrow> pass_inv s'"
  by (induction rule: rtranclp_induct) (auto elim!: pass_step.cases intro: keeps_inv)

text \<open>The instance the properties are applied to: the local wiring, one agent.\<close>

definition ex_input :: IssueInput where
  "ex_input = \<lparr>ii_AgentID = ''a1'', ii_PassportType = TypeStandard,
     ii_Scopes = [\<lparr>sc_ScopeID = ''s1'', sc_ActionClass = ''READ'', sc_ResourcePattern = ''repo:*'',
       sc_ContextConstraints = Some [], sc_IsEscalation = False, sc_GrantedTS = 0, sc_ExpiresTS = 0\<rparr>],
     ii_TTLSeconds = 3600, ii_IssuedBy = ''ops'', ii_ForceReissue = False, ii_Reason = ''start'',
     ii_PolicyIDAtIssuance = [], ii_PolicyVerAtIssuance = []\<rparr>"

definition ex_call :: "string \<Rightarrow> call" where
  "ex_call i = \<lparr>ca_now0 = 1700000000 * Second, ca_now = 1700000000 * Second, ca_uuid = i\<rparr>"

definition ex_issued :: pass_state where
  "ex_issued = snd (IssuePassport NewInMemoryService (ex_call ''p1'') ex_input new_service)"

definition ex_revoked :: pass_state where
  "ex_revoked = snd (RevokePassport NewInMemoryService (ex_call []) ''p1'' ''leak'' ''ops'' ex_issued)"

lemmas ex_pass_defs =
  ex_input_def ex_call_def ex_issued_def ex_revoked_def IssuePassport_def issue_checks_def issue_new_def
  policy_at_issuance_def NewInMemoryService_def stub_Sign_def new_service_def Let_def
  WritePassportLifecycle_def Enqueue_def RevokePassport_def

lemma ex_issued_reached: "pass_step\<^sup>*\<^sup>* new_service ex_issued"
  unfolding ex_issued_def by (intro r_into_rtranclp pass_step.issue) (simp add: new_service_def)

lemma ex_revoked_reached: "pass_step\<^sup>*\<^sup>* ex_issued ex_revoked"
  unfolding ex_revoked_def by (intro r_into_rtranclp pass_step.revoke)

text \<open>
  C3: Along every run of the passport service, with any answers of the other services and any
  failures, an agent has at most one active passport, every passport is stored under its own
  identifier, and the events handed to the outbox replay to the status of every passport.
\<close>

theorem one_active_passport_per_agent:
  assumes "pass_step\<^sup>*\<^sup>* new_service s"
  shows "(\<forall>i j p q. ps_passports s i = Some p \<and> ps_passports s j = Some q
      \<and> pp_Status p = PStatusActive \<and> pp_Status q = PStatusActive \<and> pp_AgentID p = pp_AgentID q \<longrightarrow> i = j)
    \<and> (\<forall>i p. ps_passports s i = Some p \<longrightarrow> pp_PassportID p = i \<and> pp_Status p \<in> {PStatusActive, PStatusRevoked})
    \<and> replay_events (ps_outbox s) = statuses s"
proof -
  have inv: "pass_inv s" using pass_steps_inv [OF assms] by simp
  have "i = j" if "ps_passports s i = Some p" "ps_passports s j = Some q" "pp_Status p = PStatusActive"
      "pp_Status q = PStatusActive" "pp_AgentID p = pp_AgentID q" for i j p q
    using that pass_inv_passport [OF inv that(1)] pass_inv_passport [OF inv that(2)]
    by (simp add: passport_ok_def)
  moreover have "pp_PassportID p = i \<and> pp_Status p \<in> {PStatusActive, PStatusRevoked}"
    if "ps_passports s i = Some p" for i p
    using pass_inv_passport [OF inv that] by (simp add: passport_ok_def)
  ultimately show ?thesis using inv unfolding pass_inv_def by blast
qed

theorem one_active_passport_per_agent_witness:
  "replay_events (ps_outbox ex_revoked) = statuses ex_revoked
   \<and> statuses ex_issued ''p1'' = Some (''a1'', PStatusActive)
   \<and> statuses ex_revoked ''p1'' = Some (''a1'', PStatusRevoked)"
proof -
  have "statuses ex_issued ''p1'' = Some (''a1'', PStatusActive)"
    "statuses ex_revoked ''p1'' = Some (''a1'', PStatusRevoked)"
    by (simp_all add: ex_pass_defs statuses_def)
  with one_active_passport_per_agent [OF rtranclp_trans [OF ex_issued_reached ex_revoked_reached]]
  show ?thesis by blast
qed

section \<open>Revocation is permanent\<close>

text \<open>What no operation changes of a stored passport.\<close>

definition passport_core :: "Passport \<Rightarrow> Passport" where
  "passport_core p = p\<lparr>pp_Status := [], pp_RevokedTS := None, pp_RevocationReason := []\<rparr>"

definition keeps :: "string \<Rightarrow> Passport \<Rightarrow> pass_state \<Rightarrow> bool" where
  "keeps i p s \<longleftrightarrow> (\<exists>q. ps_passports s i = Some q \<and> passport_core q = passport_core p
     \<and> (pp_Status p = PStatusRevoked \<longrightarrow> pp_Status q = PStatusRevoked))"

lemma passport_core_revoked [simp]: "passport_core (revoked_at t r p) = passport_core p"
  by (simp add: passport_core_def revoked_at_def)

lemma revoke_current_keeps: "keeps i p s \<Longrightarrow> keeps i p (revoke_current c cur s)"
  by (auto simp: keeps_def revoke_current_def Enqueue_def Let_def passport_core_def)

lemma issue_new_keeps:
  assumes "keeps i p s" "ps_passports s (ca_uuid c) = None"
  shows "keeps i p (snd (issue_new deps c input s))"
  using assms
  by (cases rule: issue_new_cases [of deps c input s]) (auto simp: keeps_def)

lemma pass_step_keeps:
  assumes "pass_step s s'" "pass_inv s" "keeps i p s"
  shows "keeps i p s'"
  using assms(1)
proof (cases rule: pass_step.cases)
  case (issue c deps input)
  have fresh: "ps_passports (revoke_current c cur s) (ca_uuid c) = None"
    if "ps_activeByAgent s a = Some cur" for a cur
    using issue(2) pass_inv_index [OF assms(2) that] by (auto simp: revoke_current_eq)
  show ?thesis
    using issue assms(3) fresh
    by (auto simp: IssuePassport_def intro!: issue_new_keeps revoke_current_keeps split: option.split)
next
  case (revoke deps c j reason who)
  then show ?thesis using assms(3)
    by (cases rule: RevokePassport_cases [of deps c j reason who s]) (auto simp: keeps_def)
qed

lemma pass_steps_keep:
  assumes "pass_step\<^sup>*\<^sup>* new_service s" "pass_step\<^sup>*\<^sup>* s s'" "ps_passports s i = Some p"
  shows "\<exists>q. ps_passports s' i = Some q \<and> passport_core q = passport_core p
    \<and> (pp_Status p = PStatusRevoked \<longrightarrow> pp_Status q = PStatusRevoked)"
proof -
  have "keeps i p s' \<and> pass_inv s'"
    using assms(2)
  proof (induction rule: rtranclp_induct)
    case base
    then show ?case using assms(1,3) pass_steps_inv by (force simp: keeps_def)
  next
    case (step s1 s2)
    then show ?case using pass_step_keeps pass_steps_inv by blast
  qed
  then show ?thesis by (simp add: keeps_def)
qed

text \<open>
  C4: A stored passport never disappears and never changes except for its revocation, and once
  revoked it stays revoked, along every run.
\<close>

theorem revocation_is_permanent:
  assumes "pass_step\<^sup>*\<^sup>* new_service s" "pass_step\<^sup>*\<^sup>* s s'" "ps_passports s i = Some p"
  shows "\<exists>q. ps_passports s' i = Some q \<and> passport_core q = passport_core p
    \<and> (pp_Status p = PStatusRevoked \<longrightarrow> pp_Status q = PStatusRevoked)"
  by (rule pass_steps_keep [OF assms])

theorem revocation_is_permanent_witness:
  "\<exists>q. ps_passports (snd (IssuePassport NewInMemoryService (ex_call ''p2'') ex_input ex_revoked)) ''p1'' = Some q
     \<and> pp_Status q = PStatusRevoked"
proof -
  obtain p where p: "ps_passports ex_revoked ''p1'' = Some p" "pp_Status p = PStatusRevoked"
    by (simp add: ex_pass_defs)
  have "pass_step\<^sup>*\<^sup>* ex_revoked (snd (IssuePassport NewInMemoryService (ex_call ''p2'') ex_input ex_revoked))"
    by (intro r_into_rtranclp pass_step.issue) (simp add: ex_pass_defs)
  from revocation_is_permanent [OF rtranclp_trans [OF ex_issued_reached ex_revoked_reached] this p(1)] p(2)
  show ?thesis by blast
qed

section \<open>Issuance\<close>

lemma issue_checks_None:
  assumes "issue_checks deps input = None"
  shows "300 \<le> ii_TTLSeconds input"
    "ii_PassportType input = TypeProvisional \<Longrightarrow> ii_TTLSeconds input \<le> 86400 \<and>
       list_all (\<lambda>sc. sc_ActionClass sc \<in> {''READ'', ''NOTIFY'', ''QUERY''}) (ii_Scopes input)"
    "ii_PassportType input = TypeStandard \<Longrightarrow> ii_TTLSeconds input \<le> 2592000"
    "dp_GetAgentStatus deps (ii_AgentID input) \<in> {Some AgentActive, Some AgentPending}"
    "ii_AgentID input \<noteq> []" "ii_IssuedBy input \<noteq> []" "ii_Reason input \<noteq> []" "ii_Scopes input \<noteq> []"
  using assms
  by (auto simp: issue_checks_def provisionalAllowedActionType_def list_ex_iff list_all_iff
      split: if_splits option.splits)

lemma IssuePassport_Inr:
  assumes "IssuePassport deps c input s = (Inr p, s')"
  obtains s0 where "issue_checks deps input = None" "issue_new deps c input s0 = (Inr p, s')"
  using assms by (auto simp: IssuePassport_def split: option.splits if_splits)

text \<open>
  C29: A passport that is issued satisfies every issuance rule: the agent was active or pending, the
  lifetime is at least five minutes and at most a day (provisional) or thirty days (standard),
  a provisional passport grants only read, notify and query; it expires exactly its lifetime after its
  issue, is signed over its canonical payload, and is what the service then returns for its
  identifier and for its agent.
\<close>

theorem issued_passport_guarantees:
  assumes "IssuePassport deps c input s = (Inr p, s')" "ii_PassportType input \<in> {TypeProvisional, TypeStandard}"
  shows "dp_GetAgentStatus deps (pp_AgentID p) \<in> {Some AgentActive, Some AgentPending}
    \<and> 300 * Second \<le> pp_ExpiresTS p - pp_IssuedTS p
    \<and> pp_ExpiresTS p = pp_IssuedTS p + ii_TTLSeconds input * Second
    \<and> pp_ExpiresTS p - pp_IssuedTS p \<le> (if pp_PassportType p = TypeProvisional then 86400 else 2592000) * Second
    \<and> (pp_PassportType p = TypeProvisional \<longrightarrow>
        list_all (\<lambda>sc. sc_ActionClass sc \<in> {''READ'', ''NOTIFY'', ''QUERY''}) (pp_ScopeSet p))
    \<and> dp_Sign deps (canonicalPayload (pp_AgentID p) (pp_PassportType p) (pp_ScopeSet p)
        (pp_IssuedTS p) (pp_ExpiresTS p)) = Some (pp_CredentialID p, pp_PublicKeyPEM p, pp_Signature p)
    \<and> GetPassport (pp_PassportID p) s' = Inr p \<and> GetAgentPassport (pp_AgentID p) s' = Inr p
    \<and> pp_Status p = PStatusActive"
proof -
  obtain s0 where checks: "issue_checks deps input = None" and new: "issue_new deps c input s0 = (Inr p, s')"
    using assms(1) by (rule IssuePassport_Inr)
  note ok = issue_checks_None [OF checks]
  have "ii_TTLSeconds input \<le> 2592000" using ok(2,3) assms(2) by auto
  then have "scale_duration (ii_TTLSeconds input) Second = ii_TTLSeconds input * 1000000000"
    using ok(1) by (intro scale_duration_Second) auto
  with new ok assms(2) show ?thesis
    by (cases rule: issue_new_cases [of deps c input s0])
      (auto simp: GetPassport_def GetAgentPassport_def Add_def)
qed

theorem issued_passport_guarantees_witness:
  "\<exists>p. fst (IssuePassport NewInMemoryService (ex_call ''p1'') ex_input new_service) = Inr p
     \<and> pp_ExpiresTS p = pp_IssuedTS p + 3600 * Second \<and> GetAgentPassport ''a1'' ex_issued = Inr p"
proof -
  obtain p where p: "IssuePassport NewInMemoryService (ex_call ''p1'') ex_input new_service = (Inr p, ex_issued)"
    "pp_AgentID p = ''a1''"
    unfolding ex_issued_def by (simp add: ex_pass_defs)
  have "ii_PassportType ex_input \<in> {TypeProvisional, TypeStandard}" "ii_TTLSeconds ex_input = 3600"
    by (simp_all add: ex_input_def)
  with issued_passport_guarantees [OF p(1)] p show ?thesis by auto
qed

section \<open>Verification\<close>

text \<open>
  The contract of the credential store that the engine relies on: a signature it made verifies under
  the key it returned, and only signatures it would make verify.
\<close>

locale credential_store =
  fixes sign :: "bytes \<Rightarrow> (string \<times> string \<times> bytes) option"
    and verify :: "string \<Rightarrow> bytes \<Rightarrow> bytes \<Rightarrow> bool option"
  assumes sign_verifies: "sign payload = Some (cid, key, sig) \<Longrightarrow> verify key payload sig = Some True"
    and verified_signed: "verify key payload sig = Some True \<Longrightarrow> \<exists>cid key'. sign payload = Some (cid, key', sig)"
begin

lemma issue_then_verify:
  assumes "dp_Sign deps = sign" "dp_Verify deps = verify" "IssuePassport deps c input s = (Inr p, s')"
    "t \<le> pp_ExpiresTS p"
  shows "VerifyPassport deps t (pp_PassportID p)
    (canonicalPayload (pp_AgentID p) (pp_PassportType p) (pp_ScopeSet p) (pp_IssuedTS p) (pp_ExpiresTS p))
    (pp_Signature p) s' = (True, PStatusActive, [], None)"
proof -
  obtain s0 where new: "issue_new deps c input s0 = (Inr p, s')"
    using assms(3) by (rule IssuePassport_Inr)
  then show ?thesis
    using assms(1,2,4) sign_verifies
    by (cases rule: issue_new_cases [of deps c input s0]) (auto simp: VerifyPassport_def GetPassport_def)
qed

lemma verified_was_signed:
  assumes "dp_Verify deps = verify" "fst (VerifyPassport deps t i payload sig s)"
  shows "\<exists>cid key. sign payload = Some (cid, key, sig)"
  using assms verified_signed
  by (auto simp: VerifyPassport_def split: sum.splits if_splits option.splits)

end

interpretation local_store: credential_store stub_Sign stub_Verify
  by unfold_locales (auto simp: stub_Sign_def stub_Verify_def)

lemma VerifyPassport_valid_iff:
  "fst (VerifyPassport deps t i payload sig s) \<longleftrightarrow>
     (\<exists>p. ps_passports s i = Some p \<and> pp_Status p \<notin> {PStatusRevoked, PStatusExpired} \<and> t \<le> pp_ExpiresTS p
        \<and> dp_Verify deps (pp_PublicKeyPEM p) payload sig = Some True)"
  by (auto simp: VerifyPassport_def GetPassport_def not_less split: option.splits)



text \<open>
  A verdict of valid means: the passport exists, is neither revoked nor expired, has not outlived
  its expiry, and the store signed the presented payload. It does not mean that the payload is
  that passport's: whatever the local store signed, such as the payload of another passport, is
  accepted for every passport that is active.
\<close>

theorem verify_accepts_any_signed_payload:
  assumes "dp_Verify deps = stub_Verify"
  shows "fst (VerifyPassport deps t i payload sig s) \<longleftrightarrow>
     (\<exists>p. ps_passports s i = Some p \<and> pp_Status p \<notin> {PStatusRevoked, PStatusExpired} \<and> t \<le> pp_ExpiresTS p)
     \<and> (\<exists>cid key. stub_Sign payload = Some (cid, key, sig))"
  using local_store.verified_was_signed [OF assms, of t i payload sig s]
    local_store.sign_verifies assms
  unfolding VerifyPassport_valid_iff by (auto simp: stub_Sign_def stub_Verify_def)

theorem verify_accepts_any_signed_payload_witness:
  "fst (VerifyPassport NewInMemoryService 0 ''p1'' ''payload of another passport''
     ''sig:payload of another passport'' ex_issued)"
proof -
  have deps: "dp_Verify NewInMemoryService = stub_Verify" by (simp add: NewInMemoryService_def)
  show ?thesis
    unfolding verify_accepts_any_signed_payload [OF deps]
    by (simp add: ex_pass_defs Add_def scale_duration_def in_int64_def)
qed

section \<open>Failed reissue\<close>

text \<open>
  A forced reissue that fails after its checks, because signing or the bundle registry is
  unavailable, has already revoked the agent's passport and still points the agent to it: the agent's
  passport reads as revoked, an ordinary issuance is refused because an active passport exists,
  and revoking the passport does not help.
\<close>

theorem failed_reissue_strands_agent:
  assumes "pass_inv s" "ps_activeByAgent s (ii_AgentID input) = Some cur" "ii_ForceReissue input"
    "issue_checks deps input = None"
    "fst (IssuePassport deps c input s) = Inl e"
  shows "let s' = snd (IssuePassport deps c input s) in
      e = PErrUnavailable
    \<and> (\<exists>p. GetAgentPassport (ii_AgentID input) s' = Inr p \<and> pp_Status p = PStatusRevoked)
    \<and> (\<forall>deps' c' input'. ii_AgentID input' = ii_AgentID input \<and> \<not> ii_ForceReissue input' \<and>
         issue_checks deps' input' = None \<longrightarrow> IssuePassport deps' c' input' s' = (Inl (PErrAlreadyExists cur), s'))
    \<and> (\<forall>deps' c' reason who. snd (RevokePassport deps' c' cur reason who s') = s')"
proof -
  obtain p where p: "ps_passports s cur = Some p"
    using pass_inv_index [OF assms(1,2)] by blast
  have "issue_new deps c input (revoke_current c cur s) = (Inl PErrUnavailable, revoke_current c cur s)"
    using assms(2-5)
    by (cases rule: issue_new_cases [of deps c input "revoke_current c cur s"]) (auto simp: IssuePassport_def)
  then have res: "IssuePassport deps c input s = (Inl PErrUnavailable, revoke_current c cur s)"
    using assms(2-4) by (simp add: IssuePassport_def)
  show ?thesis
    using assms(2,5) unfolding res
    by (auto simp: Let_def revoke_current_eq [OF p] GetAgentPassport_def IssuePassport_def RevokePassport_def)
qed

theorem failed_reissue_strands_agent_witness:
  "let s' = snd (IssuePassport (NewInMemoryService\<lparr>dp_Sign := (\<lambda>x. None)\<rparr>) (ex_call ''p2'')
        (ex_input\<lparr>ii_ForceReissue := True\<rparr>) ex_issued)
   in IssuePassport NewInMemoryService (ex_call ''p3'') ex_input s' = (Inl (PErrAlreadyExists ''p1''), s')
      \<and> snd (RevokePassport NewInMemoryService (ex_call []) ''p1'' ''x'' ''ops'' s') = s'"
proof -
  let ?in = "ex_input\<lparr>ii_ForceReissue := True\<rparr>" and ?deps = "NewInMemoryService\<lparr>dp_Sign := (\<lambda>x. None)\<rparr>"
  have inv: "pass_inv ex_issued" using pass_steps_inv [OF ex_issued_reached] by simp
  have ok: "ps_activeByAgent ex_issued (ii_AgentID ?in) = Some ''p1''" "ii_ForceReissue ?in"
    "issue_checks ?deps ?in = None" "fst (IssuePassport ?deps (ex_call ''p2'') ?in ex_issued) = Inl PErrUnavailable"
    and next_issue: "ii_AgentID ex_input = ii_AgentID ?in \<and> \<not> ii_ForceReissue ex_input \<and>
      issue_checks NewInMemoryService ex_input = None"
    by (simp_all add: ex_pass_defs)
  note stuck = failed_reissue_strands_agent [OF inv ok, unfolded Let_def, THEN conjunct2, THEN conjunct2]
  show ?thesis
    unfolding Let_def
    by (rule conjI [OF stuck [THEN conjunct1, rule_format, OF next_issue] stuck [THEN conjunct2, rule_format]])
qed

text \<open>
  The ledger does not show what the outbox shows: a forced reissue writes the issue of the new
  passport to the ledger but not the revocation of the old one, so replaying the ledger leaves the agent
  with two active passports while the service and the outbox have one.
\<close>

theorem ledger_misses_forced_revocation:
  "\<exists>s. pass_step\<^sup>*\<^sup>* new_service s
     \<and> statuses s ''p1'' = Some (''a1'', PStatusRevoked) \<and> statuses s ''p2'' = Some (''a1'', PStatusActive)
     \<and> replay_events (ps_outbox s) = statuses s
     \<and> replay_events (ps_ledger s) ''p1'' = Some (''a1'', PStatusActive)
     \<and> replay_events (ps_ledger s) ''p2'' = Some (''a1'', PStatusActive)"
proof -
  let ?s = "snd (IssuePassport NewInMemoryService (ex_call ''p2'') (ex_input\<lparr>ii_ForceReissue := True\<rparr>) ex_issued)"
  have "pass_step ex_issued ?s" by (rule pass_step.issue) (simp add: ex_pass_defs)
  with ex_issued_reached have reach: "pass_step\<^sup>*\<^sup>* new_service ?s" by (rule rtranclp.rtrancl_into_rtrancl)
  have "statuses ?s ''p1'' = Some (''a1'', PStatusRevoked)" "statuses ?s ''p2'' = Some (''a1'', PStatusActive)"
    "replay_events (ps_ledger ?s) ''p1'' = Some (''a1'', PStatusActive)"
    "replay_events (ps_ledger ?s) ''p2'' = Some (''a1'', PStatusActive)"
    by (simp_all add: ex_pass_defs revoke_current_def statuses_def replay_events_def)
  moreover have "replay_events (ps_outbox ?s) = statuses ?s"
    using pass_steps_inv [OF reach pass_inv_new] by (simp only: pass_inv_def)
  ultimately show ?thesis using reach by blast
qed

section \<open>Revocation\<close>

text \<open>
  Revoking is idempotent: revoking a passport again, by whom and why ever, returns the passport
  as the first revocation left it, with its time and reason, and changes nothing.
\<close>

theorem revoke_idempotent:
  assumes "RevokePassport deps c i reason who s = (Inr p, s')" "reason' \<noteq> []" "who' \<noteq> []"
  shows "RevokePassport deps' c' i reason' who' s' = (Inr p, s') \<and> pp_Status p = PStatusRevoked"
proof -
  have "i \<noteq> []" using assms(1) by (auto simp: RevokePassport_def)
  moreover have "ps_passports s' i = Some p \<and> pp_Status p = PStatusRevoked"
    using assms(1) by (cases rule: RevokePassport_cases [of deps c i reason who s]) auto
  ultimately show ?thesis using assms(2,3) by (simp add: RevokePassport_def)
qed

theorem revoke_idempotent_witness:
  "RevokePassport NewInMemoryService (ex_call []) ''p1'' ''again'' ''other'' ex_revoked =
     (fst (RevokePassport NewInMemoryService (ex_call []) ''p1'' ''leak'' ''ops'' ex_issued), ex_revoked)"
proof -
  obtain p where p: "RevokePassport NewInMemoryService (ex_call []) ''p1'' ''leak'' ''ops'' ex_issued = (Inr p, ex_revoked)"
    unfolding ex_revoked_def by (simp add: ex_pass_defs)
  with revoke_idempotent [OF p, of "''again''" "''other''"] show ?thesis by simp
qed

section \<open>Canonical payload\<close>

text \<open>
  The canonical payload is 64 lower-case hexadecimal characters. It does not determine what it
  stands for: the hashed fields are concatenated without separators, so moving characters across a
  field boundary, from the resource pattern into the action class or from the agent into the type, keeps
  the payload and with it the signature.
\<close>

theorem canonicalPayload_ambiguous:
  "length (canonicalPayload a ty scs iss ex) = 64
   \<and> canonicalPayload a ty (scs1 @ [sc\<lparr>sc_ActionClass := x @ y, sc_ResourcePattern := z\<rparr>] @ scs2) iss ex =
     canonicalPayload a ty (scs1 @ [sc\<lparr>sc_ActionClass := x, sc_ResourcePattern := y @ z\<rparr>] @ scs2) iss ex
   \<and> canonicalPayload (x @ y) z scs iss ex = canonicalPayload x (y @ z) scs iss ex"
  by (simp add: canonicalPayload_def)

end
