(* ===== verification/Passport_Grpc.thy ===== *)
theory Passport_Grpc
  imports Passport_Run GoGrpc Registry_Config
begin

text \<open>
  The gRPC adapter of the passport issuance engine (\<^verbatim>\<open>internal/grpc/server.go\<close>), the messages of its
  contract (\<^verbatim>\<open>proto/passport_issuance.pb.go\<close>) and its configuration (\<^verbatim>\<open>internal/config/config.go\<close>).

  A handler returns the labels it counts its outcome under, its answer and the new state. Nil
  messages inside a repeated field are \<open>None\<close>. \<open>ids k\<close> is the identifier generated for the \<open>k\<close>-th requested
  scope and \<open>now\<close> the clock at the start of the handler.
\<close>

section \<open>Messages\<close>

record ScopeRequest =
  sr_ActionClass :: string
  sr_ResourcePattern :: string
  sr_ContextConstraints :: "strmap option"
  sr_ScopeTtlSeconds :: int

record IssuePassportRequest =
  ir_AgentId :: string
  ir_PassportType :: string
  ir_RequestedScopes :: "ScopeRequest option list"
  ir_TtlSeconds :: int
  ir_IssuedBy :: string
  ir_ForceReissue :: bool
  ir_Reason :: string

record PassportScope =
  px_ScopeId :: string
  px_ActionClass :: string
  px_ResourcePattern :: string
  px_ContextConstraints :: "strmap option"
  px_GrantedTs :: int
  px_ExpiresTs :: int
  px_IsEscalation :: bool

record pbPassport =
  pb_PassportId :: string
  pb_AgentId :: string
  pb_PassportType :: string
  pb_ScopeSet :: "PassportScope list"
  pb_Status :: string
  pb_IssuedBy :: string
  pb_CredentialId :: string
  pb_PublicKeyPem :: string
  pb_Signature :: bytes
  pb_IssuedTs :: int
  pb_ExpiresTs :: int
  pb_RevokedTs :: int
  pb_RevocationReason :: string
  pb_SupersededBy :: string
  pb_PolicyIdAtIssuance :: string
  pb_PolicyVerAtIssuance :: string

record VerifyPassportRequest =
  vq_PassportId :: string
  vq_Signature :: bytes
  vq_Payload :: bytes

record VerifyPassportResponse =
  vp_Valid :: bool
  vp_PassportId :: string
  vp_Status :: string
  vp_ExpiresTs :: int
  vp_FailureReason :: string
  vp_ActiveScopes :: "PassportScope list"

record RevokePassportRequest =
  rq_PassportId :: string
  rq_Reason :: string
  rq_RevokedBy :: string

record RevokePassportResponse =
  rp_PassportId :: string
  rp_Status :: string
  rp_RevokedTs :: int

section \<open>Conversions\<close>

datatype pass_msg = PErrText pass_error | PMsgText string

fun mapErr :: "pass_error \<Rightarrow> code \<times> pass_msg" where
  "mapErr (PErrInvalidArgument x) = (InvalidArgument, PErrText (PErrInvalidArgument x))"
| "mapErr PErrNotFound = (NotFound, PErrText PErrNotFound)"
| "mapErr (PErrAlreadyExists i) = (AlreadyExists, PErrText (PErrAlreadyExists i))"
| "mapErr PErrFailedPrecondition = (FailedPrecondition, PErrText PErrFailedPrecondition)"
| "mapErr PErrUnavailable = (Unavailable, PErrText PErrUnavailable)"

definition parsePassportType :: "string \<Rightarrow> string + string" where
  "parsePassportType raw =
     (let t = ToUpper (TrimSpace raw)
      in if t = [] \<or> t = TypeStandard then Inr TypeStandard
         else if t = TypeProvisional then Inr TypeProvisional
         else Inl ''invalid passport_type'')"

definition scopeFromProto :: "string \<Rightarrow> ScopeRequest \<Rightarrow> int \<Rightarrow> instant \<Rightarrow> Scope" where
  "scopeFromProto i sr passportTTL now =
     (let ttl0 = sr_ScopeTtlSeconds sr;
          ttl1 = (if ttl0 \<le> 0 then passportTTL else ttl0);
          ttl = (if ttl1 \<le> 0 then 3600 else ttl1);
          ctx = (case sr_ContextConstraints sr of None \<Rightarrow> Some [] | Some m \<Rightarrow> Some m)
      in \<lparr>sc_ScopeID = i, sc_ActionClass = sr_ActionClass sr, sc_ResourcePattern = sr_ResourcePattern sr,
          sc_ContextConstraints = ctx, sc_IsEscalation = False, sc_GrantedTS = now,
          sc_ExpiresTS = Add now (scale_duration ttl Second)\<rparr>)"

fun scopes_from_proto ::
  "(nat \<Rightarrow> string) \<Rightarrow> nat \<Rightarrow> int \<Rightarrow> instant \<Rightarrow> ScopeRequest option list \<Rightarrow> Scope list" where
  "scopes_from_proto ids k ttl now [] = []"
| "scopes_from_proto ids k ttl now (None # srs) = scopes_from_proto ids (Suc k) ttl now srs"
| "scopes_from_proto ids k ttl now (Some sr # srs) =
     scopeFromProto (ids k) sr ttl now # scopes_from_proto ids (Suc k) ttl now srs"

definition scopesToProto :: "Scope list \<Rightarrow> PassportScope list" where
  "scopesToProto scopes = map (\<lambda>s. \<lparr>
     px_ScopeId = sc_ScopeID s, px_ActionClass = sc_ActionClass s,
     px_ResourcePattern = sc_ResourcePattern s,
     px_ContextConstraints = (case sc_ContextConstraints s of None \<Rightarrow> Some [] | Some m \<Rightarrow> Some m),
     px_GrantedTs = UnixMilli (sc_GrantedTS s), px_ExpiresTs = UnixMilli (sc_ExpiresTS s),
     px_IsEscalation = sc_IsEscalation s\<rparr>) scopes"

definition passportToProto :: "Passport \<Rightarrow> pbPassport" where
  "passportToProto p = \<lparr>
     pb_PassportId = pp_PassportID p, pb_AgentId = pp_AgentID p, pb_PassportType = pp_PassportType p,
     pb_ScopeSet = scopesToProto (pp_ScopeSet p), pb_Status = pp_Status p, pb_IssuedBy = pp_IssuedBy p,
     pb_CredentialId = pp_CredentialID p, pb_PublicKeyPem = pp_PublicKeyPEM p,
     pb_Signature = pp_Signature p, pb_IssuedTs = UnixMilli (pp_IssuedTS p),
     pb_ExpiresTs = UnixMilli (pp_ExpiresTS p),
     pb_RevokedTs = (case pp_RevokedTS p of None \<Rightarrow> 0 | Some t \<Rightarrow> UnixMilli t),
     pb_RevocationReason = pp_RevocationReason p, pb_SupersededBy = pp_SupersededBy p,
     pb_PolicyIdAtIssuance = pp_PolicyIDAtIssuance p, pb_PolicyVerAtIssuance = pp_PolicyVerAtIssuance p\<rparr>"

section \<open>Handlers\<close>

definition rpc_IssuePassport ::
  "deps \<Rightarrow> call \<Rightarrow> instant \<Rightarrow> (nat \<Rightarrow> string) \<Rightarrow> IssuePassportRequest \<Rightarrow> pass_state
   \<Rightarrow> string \<times> (pass_msg, pbPassport) rpc \<times> pass_state" where
  "rpc_IssuePassport deps c now ids req s =
     (case parsePassportType (ir_PassportType req) of
        Inl e \<Rightarrow> (''error'', Inl (InvalidArgument, PMsgText e), s)
      | Inr pType \<Rightarrow>
        if length (ir_RequestedScopes req) = 0
        then (''error'', Inl (InvalidArgument, PMsgText ''requested_scopes required''), s)
        else
          (let scopes = scopes_from_proto ids 0 (ir_TtlSeconds req) now (ir_RequestedScopes req)
           in if length scopes = 0
              then (''error'', Inl (InvalidArgument, PMsgText ''no valid scopes''), s)
              else
                (case IssuePassport deps c \<lparr>ii_AgentID = ir_AgentId req, ii_PassportType = pType,
                        ii_Scopes = scopes, ii_TTLSeconds = ir_TtlSeconds req,
                        ii_IssuedBy = ir_IssuedBy req, ii_ForceReissue = ir_ForceReissue req,
                        ii_Reason = ir_Reason req, ii_PolicyIDAtIssuance = [],
                        ii_PolicyVerAtIssuance = []\<rparr> s of
                   (Inl e, s') \<Rightarrow> (''error'', Inl (mapErr e), s')
                 | (Inr p, s') \<Rightarrow> (''success'', Inr (passportToProto p), s'))))"

definition rpc_GetPassport :: "string \<Rightarrow> pass_state \<Rightarrow> (pass_msg, pbPassport) rpc" where
  "rpc_GetPassport passportID s =
     (if passportID = [] then Inl (InvalidArgument, PMsgText ''passport_id required'')
      else case GetPassport passportID s of
             Inl e \<Rightarrow> Inl (mapErr e) | Inr p \<Rightarrow> Inr (passportToProto p))"

definition rpc_GetAgentPassport :: "string \<Rightarrow> pass_state \<Rightarrow> (pass_msg, pbPassport) rpc" where
  "rpc_GetAgentPassport agentID s =
     (if agentID = [] then Inl (InvalidArgument, PMsgText ''agent_id required'')
      else case GetAgentPassport agentID s of
             Inl e \<Rightarrow> Inl (mapErr e) | Inr p \<Rightarrow> Inr (passportToProto p))"

text \<open>
  The labels of a verification are its result and its reason. The handler reads the passport again after the
  verdict; \<open>s'\<close> is the state at that moment.
\<close>

definition rpc_VerifyPassport ::
  "deps \<Rightarrow> instant \<Rightarrow> VerifyPassportRequest \<Rightarrow> pass_state \<Rightarrow> pass_state
   \<Rightarrow> (string \<times> string) \<times> (pass_msg, VerifyPassportResponse) rpc" where
  "rpc_VerifyPassport deps now req s s' =
     (if vq_PassportId req = []
      then ((''error'', ''invalid_argument''), Inl (InvalidArgument, PMsgText ''passport_id required''))
      else
        (case VerifyPassport deps now (vq_PassportId req) (vq_Payload req) (vq_Signature req) s of
           (_, _, _, Some PErrNotFound) \<Rightarrow>
             ((''invalid'', ''not_found''), Inr \<lparr>
                vp_Valid = False, vp_PassportId = vq_PassportId req, vp_Status = [], vp_ExpiresTs = 0,
                vp_FailureReason = ''not_found'', vp_ActiveScopes = []\<rparr>)
         | (_, _, _, Some e) \<Rightarrow> ((''error'', ''dependency_error''), Inl (mapErr e))
         | (ok, st, failureReason, None) \<Rightarrow>
             (let metricReason = (if failureReason = [] then ''ok'' else failureReason);
                  resp = \<lparr>vp_Valid = ok, vp_PassportId = vq_PassportId req, vp_Status = st,
                          vp_ExpiresTs = 0, vp_FailureReason = failureReason, vp_ActiveScopes = []\<rparr>
              in if \<not> ok then ((''invalid'', metricReason), Inr resp)
                 else
                   ((''valid'', metricReason), Inr
                     (case GetPassport (vq_PassportId req) s' of
                        Inl _ \<Rightarrow> resp
                      | Inr p \<Rightarrow> resp\<lparr>vp_ExpiresTs := UnixMilli (pp_ExpiresTS p),
                                      vp_ActiveScopes := scopesToProto (pp_ScopeSet p)\<rparr>)))))"

definition rpc_RevokePassport ::
  "deps \<Rightarrow> call \<Rightarrow> RevokePassportRequest \<Rightarrow> pass_state
   \<Rightarrow> string \<times> (pass_msg, RevokePassportResponse) rpc \<times> pass_state" where
  "rpc_RevokePassport deps c req s =
     (if rq_PassportId req = [] \<or> rq_Reason req = [] \<or> rq_RevokedBy req = []
      then (''error'', Inl (InvalidArgument, PMsgText ''passport_id, reason, revoked_by required''), s)
      else
        (case RevokePassport deps c (rq_PassportId req) (rq_Reason req) (rq_RevokedBy req) s of
           (Inl e, s') \<Rightarrow> (''error'', Inl (mapErr e), s')
         | (Inr p, s') \<Rightarrow> (''success'', Inr \<lparr>
              rp_PassportId = pp_PassportID p, rp_Status = pp_Status p,
              rp_RevokedTs = (case pp_RevokedTS p of None \<Rightarrow> 0 | Some t \<Rightarrow> UnixMilli t)\<rparr>, s')))"

section \<open>Configuration\<close>

record passConfig =
  pc_GRPCPort :: int
  pc_HealthPort :: int
  pc_MetricsPort :: int

definition getenvInt :: "environ \<Rightarrow> string \<Rightarrow> int \<Rightarrow> int" where
  "getenvInt env key dflt =
     (let v = env key
      in if v = [] then dflt else case Atoi v of None \<Rightarrow> dflt | Some n \<Rightarrow> n)"

definition passport_Load :: "environ \<Rightarrow> string + passConfig" where
  "passport_Load env =
     (let c = \<lparr>pc_GRPCPort = getenvInt env ''ARE_PASSPORT_GRPC_PORT'' 9094,
               pc_HealthPort = getenvInt env ''ARE_PASSPORT_HEALTH_PORT'' 8080,
               pc_MetricsPort = getenvInt env ''ARE_PASSPORT_METRICS_PORT'' 8085\<rparr>
      in if pc_GRPCPort c \<le> 0 \<or> pc_HealthPort c \<le> 0 \<or> pc_MetricsPort c \<le> 0
         then Inl ''invalid listen ports'' else Inr c)"

section \<open>Lemmas\<close>

lemma parsePassportType_Inr: "parsePassportType raw = Inr t \<Longrightarrow> t \<in> {TypeProvisional, TypeStandard}"
  by (auto simp: parsePassportType_def Let_def split: if_splits)

text \<open>
  The lifetime of a scope is not bounded by that of its passport and not by the clock's range: up to
  9223372036 seconds a scope expires its own lifetime after the grant, however long the passport
  lives; one second more and the expiry lies before the grant.
\<close>

theorem scope_expiry_unbounded:
  "(0 < sr_ScopeTtlSeconds sr \<and> sr_ScopeTtlSeconds sr \<le> 9223372036 \<longrightarrow>
      sc_ExpiresTS (scopeFromProto i sr ttl now) = now + sr_ScopeTtlSeconds sr * Second)
   \<and> sc_ExpiresTS (scopeFromProto i (sr\<lparr>sr_ScopeTtlSeconds := 9223372037\<rparr>) ttl now) < now"
  by (auto simp: scopeFromProto_def Let_def Add_def scale_duration_Second)
    (simp add: scale_duration_def wrap64_def)

theorem scope_expiry_unbounded_witness:
  "sc_ExpiresTS (scopeFromProto ''s'' \<lparr>sr_ActionClass = ''READ'', sr_ResourcePattern = ''*'',
     sr_ContextConstraints = None, sr_ScopeTtlSeconds = 86400\<rparr> 300 0) = 86400 * Second"
  using scope_expiry_unbounded [of "\<lparr>sr_ActionClass = ''READ'', sr_ResourcePattern = ''*'',
     sr_ContextConstraints = None, sr_ScopeTtlSeconds = 86400\<rparr>" "''s''" 300 0] by simp

end
