(* ===== verification/GoBase64.thy ===== *)
theory GoBase64
  imports GoStrings
begin

text \<open>
  Base64 as Go's \<^verbatim>\<open>encoding/base64\<close> decodes it (\<^verbatim>\<open>StdEncoding.DecodeString\<close>), and that it undoes the encoding.
\<close>

text \<open>\<^verbatim>\<open>base64.StdEncoding\<close>: line ends are skipped, padding is required.\<close>

definition b64_alphabet :: string where
  "b64_alphabet = ''ABCDEFGHIJKLMNOPQRSTUVWXYZabcdefghijklmnopqrstuvwxyz0123456789+/''"

fun index_of :: "char \<Rightarrow> string \<Rightarrow> nat option" where
  "index_of c [] = None"
| "index_of c (d # ds) = (if c = d then Some 0 else map_option Suc (index_of c ds))"

definition b64_digit :: "char \<Rightarrow> nat option" where
  "b64_digit c = index_of c b64_alphabet"

definition byte_at :: "nat \<Rightarrow> nat \<Rightarrow> char" where
  "byte_at n k = char_of (n div 256 ^ k mod 256)"

definition quantum :: "char \<Rightarrow> char \<Rightarrow> char \<Rightarrow> char \<Rightarrow> nat option" where
  "quantum a b c d =
     (case (b64_digit a, b64_digit b, b64_digit c, b64_digit d) of
        (Some w, Some x, Some y, Some z) \<Rightarrow> Some (w * 262144 + x * 4096 + y * 64 + z)
      | _ \<Rightarrow> None)"

fun decode_quanta :: "string \<Rightarrow> bytes option" where
  "decode_quanta [] = Some []"
| "decode_quanta (a # b # c # d # rest) =
     (if d = CHR ''='' then
        (if rest \<noteq> [] then None
         else if c = CHR ''='' then map_option (\<lambda>n. [byte_at n 2]) (quantum a b CHR ''A'' CHR ''A'')
         else map_option (\<lambda>n. [byte_at n 2, byte_at n 1]) (quantum a b c CHR ''A''))
      else
        (case (quantum a b c d, decode_quanta rest) of
           (Some n, Some bs) \<Rightarrow> Some (byte_at n 2 # byte_at n 1 # byte_at n 0 # bs)
         | _ \<Rightarrow> None))"
| "decode_quanta _ = None"

definition DecodeString :: "string \<Rightarrow> bytes option" where
  "DecodeString s = decode_quanta (filter (\<lambda>c. c \<noteq> CHR 0x0D \<and> c \<noteq> CHR 0x0A) s)"

section \<open>Encoding, and the way back\<close>

definition b64_char :: "nat \<Rightarrow> char" where
  "b64_char k = b64_alphabet ! k"

definition b64_group :: "nat \<Rightarrow> string" where
  "b64_group n = map (\<lambda>k. b64_char (n div 64 ^ k mod 64)) [3, 2, 1, 0]"

fun base64_encode :: "bytes \<Rightarrow> string" where
  "base64_encode [] = []"
| "base64_encode [x] = take 2 (b64_group (of_char x * 65536)) @ ''==''"
| "base64_encode [x, y] = take 3 (b64_group (of_char x * 65536 + of_char y * 256)) @ ''=''"
| "base64_encode (x # y # z # rest) =
     b64_group (of_char x * 65536 + of_char y * 256 + of_char z) @ base64_encode rest"

lemma b64_char_table: "list_all (\<lambda>k. b64_digit (b64_char k) = Some k \<and> b64_char k \<notin> set [CHR ''='', CHR 0x0D, CHR 0x0A]) [0..<64]"
  by code_simp

lemma b64_char_digit: "k < 64 \<Longrightarrow> b64_digit (b64_char k) = Some k"
  and b64_char_plain: "k < 64 \<Longrightarrow> b64_char k \<noteq> CHR ''='' \<and> b64_char k \<noteq> CHR 0x0D \<and> b64_char k \<noteq> CHR 0x0A"
  using b64_char_table by (auto simp: list_all_iff)


lemma quantum_chars:
  assumes "n < 16777216"
  shows "quantum (b64_char (n div 262144 mod 64)) (b64_char (n div 4096 mod 64)) (b64_char (n div 64 mod 64)) (b64_char (n mod 64)) = Some n"
proof -
  define m k l where "m = n div 64" and "k = m div 64" and "l = k div 64"
  have "n = 64 * m + n mod 64" "m = 64 * k + m mod 64" "k = 64 * l + k mod 64" by (simp_all add: m_def k_def l_def)
  moreover have "n div 4096 = k" "n div 262144 = l" by (simp_all add: m_def k_def l_def flip: div_mult2_eq)
  moreover have "l < 64" using assms by (simp add: \<open>n div 262144 = l\<close> [symmetric] div_less_iff_less_mult)
  ultimately have "l * 262144 + k mod 64 * 4096 + m mod 64 * 64 + n mod 64 = n" by linarith
  with \<open>l < 64\<close> \<open>n div 4096 = k\<close> \<open>n div 262144 = l\<close> show ?thesis
    by (simp add: quantum_def b64_char_digit m_def [symmetric])
qed

lemma digit_A: "CHR ''A'' = b64_char 0"
  by code_simp

lemma base256:
  assumes "z < (256 :: nat)"
  shows "(w * 256 + z) div 256 = w" "(w * 256 + z) mod 256 = z"
  using assms by simp_all

lemma bytes_of_sum:
  assumes "x < 256" "y < 256" "z < 256"
  shows "(x * 65536 + y * 256 + z) div 65536 mod 256 = x" "(x * 65536 + y * 256 + z) div 256 mod 256 = y"
    "(x * 65536 + y * 256 + z) mod 256 = (z :: nat)" "x * 65536 + y * 256 + z < 16777216"
proof -
  have sum: "x * 65536 + y * 256 + z = (x * 256 + y) * 256 + z" by simp
  have low: "(x * 65536 + y * 256 + z) div 256 = x * 256 + y" "(x * 65536 + y * 256 + z) mod 256 = z"
    unfolding sum by (fact base256 [OF assms(3)])+
  moreover have "(x * 65536 + y * 256 + z) div (256 * 256) = (x * 65536 + y * 256 + z) div 256 div 256"
    by (rule div_mult2_eq)
  ultimately have "(x * 65536 + y * 256 + z) div 65536 = x" using base256(1) [OF assms(2), of x] by simp
  then show "(x * 65536 + y * 256 + z) div 65536 mod 256 = x" using assms(1) by simp
  show "(x * 65536 + y * 256 + z) div 256 mod 256 = y" using low base256(2) [OF assms(2), of x] by simp
  show "(x * 65536 + y * 256 + z) mod 256 = z" by (fact low(2))
  show "x * 65536 + y * 256 + z < 16777216" using assms by linarith
qed

lemma byte_at_sum:
  fixes x y z :: char
  defines "n \<equiv> of_char x * 65536 + of_char y * 256 + of_char z"
  shows "byte_at n 2 = x" "byte_at n 1 = y" "byte_at n 0 = z" "n < 16777216"
  using bytes_of_sum [of "of_char x" "of_char y" "of_char z"] by (simp_all add: n_def byte_at_def)

lemma decode_encode: "decode_quanta (base64_encode bs) = Some bs"
proof (induction bs rule: base64_encode.induct)
  case (2 x)
  let ?n = "of_char x * 65536 :: nat"
  have "?n < 16777216" "byte_at ?n 2 = x" using byte_at_sum [of x "CHR 0x00" "CHR 0x00"] by simp_all
  moreover have "?n div 64 mod 64 = 0" "?n mod 64 = 0" by (simp_all add: mod_eq_0_iff_dvd div_mult_swap)
  ultimately show ?case using quantum_chars [of ?n] by (simp add: b64_group_def digit_A)
next
  case (3 x y)
  let ?n = "of_char x * 65536 + of_char y * 256 :: nat"
  have "?n < 16777216" "byte_at ?n 2 = x" "byte_at ?n 1 = y" using byte_at_sum [of x y "CHR 0x00"] by simp_all
  moreover have "?n mod 64 = 0" by (simp add: mod_eq_0_iff_dvd)
  ultimately show ?case using quantum_chars [of ?n] b64_char_plain [of "?n div 64 mod 64"] by (simp add: b64_group_def digit_A)
next
  case (4 x y z rest)
  let ?n = "of_char x * 65536 + of_char y * 256 + of_char z :: nat"
  show ?case using 4 byte_at_sum [of x y z] quantum_chars [of ?n] b64_char_plain [of "?n mod 64"] by (simp add: b64_group_def)
qed simp

lemma b64_group_plain: "c \<in> set (b64_group n) \<Longrightarrow> c \<noteq> CHR 0x0D \<and> c \<noteq> CHR 0x0A"
  by (auto simp: b64_group_def b64_char_plain)

lemma base64_encode_plain: "\<forall>c \<in> set (base64_encode bs). c \<noteq> CHR 0x0D \<and> c \<noteq> CHR 0x0A"
  by (induction bs rule: base64_encode.induct) (auto dest: b64_group_plain in_set_takeD)

lemma DecodeString_encode: "DecodeString (base64_encode bs) = Some bs"
  using base64_encode_plain by (simp add: DecodeString_def decode_encode filter_id_conv)

end
