(* ===== verification/Passport_Process.thy ===== *)
theory Passport_Process
  imports Passport_Grpc Passport_Run Registry_Correct Errgroup GoBase64
begin

text \<open>
  The process of the passport engine (\<^verbatim>\<open>s0/passport-issuance-engine/cmd/are-passport-issuance/main.go\<close>) and the command
  line probe of its gRPC service (\<^verbatim>\<open>cmd/passport-grpc-probe/main.go\<close>). The process serves the in-memory service with
  its local stubs, among them a registry that calls every agent active.
\<close>

section \<open>The process\<close>

datatype pass_start_error = PassConfig string | PassListen

datatype pass_task = PassGrpc | PassMetrics | PassHealth

record passport_process = "pass_task task_group" +
  pa_config :: passConfig
  pa_deps :: deps
  pa_state :: pass_state

definition passport_main :: "environ \<Rightarrow> (string \<Rightarrow> bool) \<Rightarrow> pass_start_error + passport_process" where
  "passport_main env listen =
     (case passport_Load env of
        Inl err \<Rightarrow> Inl (PassConfig err)
      | Inr cfg \<Rightarrow>
          if \<not> listen (CHR '':'' # Itoa (pc_GRPCPort cfg)) then Inl PassListen
          else Inr \<lparr>tg_running = {PassGrpc, PassMetrics, PassHealth}, tg_error = None, tg_done = False, tg_signalled = False,
            pa_config = cfg, pa_deps = NewInMemoryService, pa_state = new_service\<rparr>)"

definition passport_health :: "string \<Rightarrow> (nat \<times> string) option" where
  "passport_health path =
     (if path = ''/healthz'' then Some (200, ''ok'') else if path = ''/readyz'' then Some (200, ''ready'') else None)"

text \<open>
  Requests are answered while the gRPC server runs; a new passport's identifier is a fresh UUID. The tasks watch no context of
  the group, so a server ends only by its own failure or when the process is asked to stop.
\<close>

inductive passport_step :: "passport_process \<Rightarrow> passport_process \<Rightarrow> bool" where
  issues: "PassGrpc \<in> tg_running p \<Longrightarrow> ps_passports (pa_state p) (ca_uuid c) = None \<Longrightarrow>
    passport_step p (p\<lparr>pa_state := snd (snd (rpc_IssuePassport (pa_deps p) c now ids req (pa_state p)))\<rparr>)"
| revokes: "PassGrpc \<in> tg_running p \<Longrightarrow>
    passport_step p (p\<lparr>pa_state := snd (snd (rpc_RevokePassport (pa_deps p) c rreq (pa_state p)))\<rparr>)"
| fails: "t \<in> tg_running p \<Longrightarrow> passport_step p (task_returns t True p)"
| signalled: "passport_step p (stop_signal p)"
| stops: "t \<in> tg_running p \<Longrightarrow> tg_signalled p \<Longrightarrow> passport_step p (task_returns t False p)"

section \<open>The probe\<close>

record probe_flags =
  pf_addr :: string
  pf_operation :: string
  pf_passport_id :: string
  pf_payload_b64 :: string
  pf_signature_b64 :: string
  pf_reason :: string
  pf_revoked_by :: string

definition probe_defaults :: probe_flags where
  "probe_defaults = \<lparr>pf_addr = ''127.0.0.1:9094'', pf_operation = ''verify'', pf_passport_id = [], pf_payload_b64 = [],
     pf_signature_b64 = [], pf_reason = ''passport_authority_probe'', pf_revoked_by = ''passport-grpc-probe''\<rparr>"

text \<open>\<open>marshal\<close> is \<^verbatim>\<open>protojson\<close>; a document that is \<^verbatim>\<open>null\<close> leaves a nil map, and writing to it panics.\<close>

datatype 'm probe_error =
    PassportIdRequired | DialError | PayloadB64 | SignatureB64 | CallError "code \<times> 'm" | ProtoJson | ProbePanic
  | UnsupportedOperation string

definition writeProto :: "('r \<Rightarrow> body option) \<Rightarrow> 'r \<Rightarrow> 'm probe_error + object" where
  "writeProto marshal msg =
     (case marshal msg of
        None \<Rightarrow> Inl ProtoJson
      | Some raw \<Rightarrow>
          (case Unmarshal raw of
             None \<Rightarrow> Inl ProtoJson
           | Some ANil \<Rightarrow> Inl ProbePanic
           | Some (AObj m) \<Rightarrow> Inr (alist_put m ''ok'' (ABool True))
           | Some _ \<Rightarrow> Inl ProtoJson))"

record probe_io =
  pi_dials :: "string \<Rightarrow> bool"
  pi_verify_json :: "VerifyPassportResponse \<Rightarrow> body option"
  pi_revoke_json :: "RevokePassportResponse \<Rightarrow> body option"

definition probe_run :: "probe_io \<Rightarrow> (VerifyPassportRequest \<Rightarrow> ('m, VerifyPassportResponse) rpc) \<Rightarrow>
    (RevokePassportRequest \<Rightarrow> ('m, RevokePassportResponse) rpc) \<Rightarrow> probe_flags \<Rightarrow> 'm probe_error + object" where
  "probe_run io verify revoke fl =
     (if pf_passport_id fl = [] then Inl PassportIdRequired
      else if \<not> pi_dials io (pf_addr fl) then Inl DialError
      else if pf_operation fl = ''verify'' then
        (case DecodeString (pf_payload_b64 fl) of
           None \<Rightarrow> Inl PayloadB64
         | Some payload \<Rightarrow>
             (case DecodeString (pf_signature_b64 fl) of
                None \<Rightarrow> Inl SignatureB64
              | Some signature \<Rightarrow>
                  (case verify \<lparr>vq_PassportId = pf_passport_id fl, vq_Signature = signature, vq_Payload = payload\<rparr> of
                     Inl err \<Rightarrow> Inl (CallError err)
                   | Inr resp \<Rightarrow> writeProto (pi_verify_json io) resp)))
      else if pf_operation fl = ''revoke'' then
        (case revoke \<lparr>rq_PassportId = pf_passport_id fl, rq_Reason = pf_reason fl, rq_RevokedBy = pf_revoked_by fl\<rparr> of
           Inl err \<Rightarrow> Inl (CallError err)
         | Inr resp \<Rightarrow> writeProto (pi_revoke_json io) resp)
      else Inl (UnsupportedOperation (pf_operation fl)))"

text \<open>The document printed and the exit status; \<open>text_of\<close> gives the message of an error. A panic prints no document.\<close>

definition probe_main :: "('m probe_error \<Rightarrow> string) \<Rightarrow> 'm probe_error + object \<Rightarrow> any option \<times> nat" where
  "probe_main text_of result =
     (case result of
        Inr m \<Rightarrow> (Some (AObj m), 0)
      | Inl ProbePanic \<Rightarrow> (None, 2)
      | Inl err \<Rightarrow> (Some (AObj [(''ok'', ABool False), (''error'', AStr (text_of err))]), 1))"

section \<open>The process and the service\<close>

lemma rpc_IssuePassport_steps:
  "ps_passports s (ca_uuid c) = None \<Longrightarrow> pass_step\<^sup>*\<^sup>* s (snd (snd (rpc_IssuePassport deps c now ids req s)))"
  unfolding rpc_IssuePassport_def Let_def
  by (auto split: sum.split prod.split) (metis pass_step.issue r_into_rtranclp snd_conv)+

lemma rpc_RevokePassport_steps: "pass_step\<^sup>*\<^sup>* s (snd (snd (rpc_RevokePassport deps c req s)))"
  unfolding rpc_RevokePassport_def
  by (auto split: sum.split prod.split) (metis pass_step.revoke r_into_rtranclp snd_conv)+

lemma passport_process_sel [simp]:
  "pa_state (task_returns t f p) = pa_state p" "pa_state (stop_signal p) = pa_state p"
  "pa_deps (task_returns t f p) = pa_deps p" "pa_deps (stop_signal p) = pa_deps p" for p :: passport_process
  by (simp_all add: task_returns_def stop_signal_def)

text \<open>What the service guarantees along its runs it guarantees in the process, and the process keeps its stubs.\<close>

lemma passport_process_reaches:
  assumes "passport_main env listen = Inr p0" "passport_step\<^sup>*\<^sup>* p0 p"
  shows "pass_step\<^sup>*\<^sup>* new_service (pa_state p) \<and> pa_deps p = NewInMemoryService"
  using assms(2)
proof (induction rule: rtranclp_induct)
  case base
  then show ?case using assms(1) by (auto simp: passport_main_def split: sum.splits if_splits)
next
  case (step p p')
  then have "pass_step\<^sup>*\<^sup>* (pa_state p) (pa_state p') \<and> pa_deps p' = pa_deps p"
    by (auto elim!: passport_step.cases simp: rpc_IssuePassport_steps rpc_RevokePassport_steps)
  with step show ?case by auto
qed

text \<open>A listener that fails goes unnoticed: until it is asked to stop, the process serves on and does not exit.\<close>

lemma passport_listener_failure_unnoticed:
  assumes "passport_step p (task_returns t True p)" "t \<noteq> PassGrpc" "PassGrpc \<in> tg_running p"
  shows "group_exit (task_returns t True p) = None \<and> pa_state (task_returns t True p) = pa_state p"
  using assms(2,3) by (auto intro!: group_exit_running)

text \<open>
  The probe asks the service about exactly the bytes that were encoded: its answer for a passport is the answer of the
  handler for that payload and signature.
\<close>

lemma probe_asks_for_encoded_bytes:
  assumes "i \<noteq> []" "pi_dials io (pf_addr probe_defaults)"
  shows "probe_run io verify revoke (probe_defaults\<lparr>pf_passport_id := i, pf_payload_b64 := base64_encode payload,
      pf_signature_b64 := base64_encode sig\<rparr>) =
    (case verify \<lparr>vq_PassportId = i, vq_Signature = sig, vq_Payload = payload\<rparr> of
       Inl err \<Rightarrow> Inl (CallError err) | Inr resp \<Rightarrow> writeProto (pi_verify_json io) resp)"
  using assms by (simp add: probe_run_def probe_defaults_def DecodeString_encode)

section \<open>The registry is not asked\<close>

definition registry_status :: "db \<Rightarrow> string \<Rightarrow> string option" where
  "registry_status d i = map_option ar_status (find_agent d i)"

lemma issue_checks_status:
  "issue_checks NewInMemoryService input = None \<Longrightarrow> f (ii_AgentID input) = Some AgentDeregistered \<Longrightarrow>
     issue_checks (NewInMemoryService\<lparr>dp_GetAgentStatus := f\<rparr>) input = Some PErrFailedPrecondition"
  by (auto simp: issue_checks_def NewInMemoryService_def split: if_splits)

text \<open>
  The started passport engine issues passports to agents the registry has deregistered. Wired to the registry, the service
  refuses an agent that is deregistered there and changes nothing; the process that is started asks a stub instead, and in
  every state it reaches it issues the same request, so that the agent has an active passport.
\<close>

theorem started_passports_ignore_registry:
  assumes "passport_main env listen = Inr p0" "passport_step\<^sup>*\<^sup>* p0 p"
    and "find_agent d (ii_AgentID input) = Some r" "ar_status r = StatusDeregistered"
    and "issue_checks (pa_deps p) input = None" "ps_activeByAgent (pa_state p) (ii_AgentID input) = None"
  shows "IssuePassport ((pa_deps p)\<lparr>dp_GetAgentStatus := registry_status d\<rparr>) c input (pa_state p) =
      (Inl PErrFailedPrecondition, pa_state p) \<and>
    (\<exists>q. fst (IssuePassport (pa_deps p) c input (pa_state p)) = Inr q \<and> pp_Status q = PStatusActive \<and>
      GetAgentPassport (ii_AgentID input) (snd (IssuePassport (pa_deps p) c input (pa_state p))) = Inr q)"
proof -
  have deps: "pa_deps p = NewInMemoryService" using passport_process_reaches [OF assms(1,2)] by simp
  show ?thesis
    using assms(3-6) issue_checks_status [of input "registry_status d"]
    unfolding deps
    by (auto simp: IssuePassport_def registry_status_def issue_new_def NewInMemoryService_def stub_Sign_def policy_at_issuance_def
        GetAgentPassport_def Let_def WritePassportLifecycle_def Enqueue_def)
qed

theorem started_passports_ignore_registry_witness:
  "\<exists>p0. passport_main (\<lambda>k. []) (\<lambda>a. True) = Inr p0 \<and> reg_reaches empty_db ex_db3 \<and>
     map_option ar_status (find_agent ex_db3 ''a0'') = Some StatusDeregistered \<and>
     (\<exists>q. fst (IssuePassport (pa_deps p0) (ex_call ''p1'') (ex_input\<lparr>ii_AgentID := ''a0''\<rparr>) (pa_state p0)) = Inr q \<and>
        pp_Status q = PStatusActive)"
proof -
  obtain p0 where p0: "passport_main (\<lambda>k. []) (\<lambda>a. True) = Inr p0"
    by (simp add: passport_main_def passport_Load_def getenvInt_def)
  then have st: "pa_deps p0 = NewInMemoryService" "pa_state p0 = new_service"
    by (auto simp: passport_main_def split: sum.splits)
  have status: "map_option ar_status (find_agent ex_db3 ''a0'') = Some StatusDeregistered" by code_simp
  then obtain r where r: "find_agent ex_db3 ''a0'' = Some r" "ar_status r = StatusDeregistered" by auto
  have "reg_reaches empty_db ex_db3" unfolding ex_db3_def by (intro reg_reaches_update ex_db2_reached)
  moreover have "issue_checks NewInMemoryService (ex_input\<lparr>ii_AgentID := ''a0''\<rparr>) = None"
    by (simp add: issue_checks_def NewInMemoryService_def ex_input_def)
  ultimately show ?thesis
    using started_passports_ignore_registry [OF p0 rtranclp.rtrancl_refl, of ex_db3 "ex_input\<lparr>ii_AgentID := ''a0''\<rparr>" r "ex_call ''p1''"]
      p0 st r status
    by (auto simp: ex_input_def new_service_def)
qed

end
