(* ===== verification/Bff_Repo.thy ===== *)
theory Bff_Repo
  imports Registry_Domain "HOL-Library.List_Lexorder" "HOL-Library.Char_ord"
begin

text \<open>
  The repository of the REST front end (\<^verbatim>\<open>sx/s0s1-rest-bff/internal/repo\<close>): the Go interface
  \<^verbatim>\<open>Repository\<close> as a record of operations, its in-memory implementation and its PostgreSQL one.

  The locale \<open>repository\<close> is the contract the handlers rely on: what an idempotency key returns after
  it was used, and what is readable after a registration or an issuance. Both implementations are
  interpretations of it, the PostgreSQL one for a server that works, with any writes of other
  clients between the statements of a transaction.
\<close>

section \<open>Interface\<close>

record AgentRec =
  rc_AgentType :: string
  rc_OwnerID :: string
  rc_Metadata :: "object option"
  rc_Status :: string
  rc_AdmissionEnvelope :: "object option"

datatype repo_error = ErrAgentNotFound | ErrStorage db_error | ErrRace string | ErrEnvelopeJSON

record 's Repository =
  rp_GetRegisterIdem :: "string \<Rightarrow> 's \<Rightarrow> repo_error + body option"
  rp_FinishRegister :: "string \<Rightarrow> string \<Rightarrow> body \<Rightarrow> AgentRec \<Rightarrow> 's \<Rightarrow> (repo_error + body) \<times> 's"
  rp_GetAgent :: "string \<Rightarrow> 's \<Rightarrow> repo_error + AgentRec option"
  rp_GetAdmissionEnvelope :: "string \<Rightarrow> 's \<Rightarrow> repo_error + object option"
  rp_GetPassportIdem :: "string \<Rightarrow> 's \<Rightarrow> repo_error + body option"
  rp_FinishPassport :: "string \<Rightarrow> string \<Rightarrow> body \<Rightarrow> 's \<Rightarrow> (repo_error + body) \<times> 's"
  rp_ListPassportBodiesByAgent :: "string \<Rightarrow> 's \<Rightarrow> repo_error + body list"
  rp_GetPassportBody :: "string \<Rightarrow> 's \<Rightarrow> repo_error + body option"

text \<open>
  The identifier inside a response body. Decoding into the nested struct fails when \<^verbatim>\<open>passport\<close> is not
  an object or \<^verbatim>\<open>passport_id\<close> not a string; null and a missing key leave the empty string.
\<close>

definition passportIDFromBody :: "body \<Rightarrow> string" where
  "passportIDFromBody b =
     (case Option.bind (Unmarshal b) into_map of
        None \<Rightarrow> []
      | Some m \<Rightarrow>
          (case into_map (struct_field m ''passport'') of
             None \<Rightarrow> []
           | Some p \<Rightarrow> (case into_string (struct_field p ''passport_id'') of None \<Rightarrow> [] | Some i \<Rightarrow> i)))"

section \<open>In memory\<close>

record Memory =
  mm_agents :: "string \<rightharpoonup> AgentRec"
  mm_registerIdem :: "string \<rightharpoonup> body"
  mm_passportIdem :: "string \<rightharpoonup> body"
  mm_passports :: "string \<rightharpoonup> body"
  mm_byAgent :: "string \<Rightarrow> string list"

definition NewMemory :: Memory where
  "NewMemory = \<lparr>mm_agents = Map.empty, mm_registerIdem = Map.empty, mm_passportIdem = Map.empty,
     mm_passports = Map.empty, mm_byAgent = (\<lambda>a. [])\<rparr>"

definition mem_GetRegisterIdem :: "string \<Rightarrow> Memory \<Rightarrow> repo_error + body option" where
  "mem_GetRegisterIdem idemKey m = Inr (mm_registerIdem m idemKey)"

definition mem_FinishRegister ::
  "string \<Rightarrow> string \<Rightarrow> body \<Rightarrow> AgentRec \<Rightarrow> Memory \<Rightarrow> (repo_error + body) \<times> Memory" where
  "mem_FinishRegister idemKey agentID responseBody rec m =
     (case mm_registerIdem m idemKey of
        Some prev \<Rightarrow> (Inr prev, m)
      | None \<Rightarrow>
          (Inr responseBody, m\<lparr>mm_agents := (mm_agents m)(agentID \<mapsto> rec),
             mm_registerIdem := (mm_registerIdem m)(idemKey \<mapsto> responseBody)\<rparr>))"

definition mem_GetAgent :: "string \<Rightarrow> Memory \<Rightarrow> repo_error + AgentRec option" where
  "mem_GetAgent agentID m = Inr (mm_agents m agentID)"

definition mem_GetAdmissionEnvelope :: "string \<Rightarrow> Memory \<Rightarrow> repo_error + object option" where
  "mem_GetAdmissionEnvelope agentID m =
     Inr (case mm_agents m agentID of
            None \<Rightarrow> None
          | Some rec \<Rightarrow>
              if length (entries (rc_AdmissionEnvelope rec)) = 0 then None
              else Some (entries (rc_AdmissionEnvelope rec)))"

definition mem_GetPassportIdem :: "string \<Rightarrow> Memory \<Rightarrow> repo_error + body option" where
  "mem_GetPassportIdem idemKey m = Inr (mm_passportIdem m idemKey)"

definition mem_FinishPassport ::
  "string \<Rightarrow> string \<Rightarrow> body \<Rightarrow> Memory \<Rightarrow> (repo_error + body) \<times> Memory" where
  "mem_FinishPassport idemKey agentID responseBody m =
     (case mm_passportIdem m idemKey of
        Some prev \<Rightarrow> (Inr prev, m)
      | None \<Rightarrow>
          if mm_agents m agentID = None then (Inl ErrAgentNotFound, m)
          else
            (let m1 = m\<lparr>mm_passportIdem := (mm_passportIdem m)(idemKey \<mapsto> responseBody)\<rparr>;
                 passportID = passportIDFromBody responseBody;
                 m2 = (if passportID \<noteq> []
                       then m1\<lparr>mm_passports := (mm_passports m1)(passportID \<mapsto> responseBody),
                              mm_byAgent := (mm_byAgent m1)(agentID := mm_byAgent m1 agentID @ [passportID])\<rparr>
                       else m1)
             in (Inr responseBody, m2)))"

definition mem_ListPassportBodiesByAgent :: "string \<Rightarrow> Memory \<Rightarrow> repo_error + body list" where
  "mem_ListPassportBodiesByAgent agentID m =
     Inr (List.map_filter (mm_passports m) (mm_byAgent m agentID))"

definition mem_GetPassportBody :: "string \<Rightarrow> Memory \<Rightarrow> repo_error + body option" where
  "mem_GetPassportBody passportID m = Inr (mm_passports m passportID)"

definition memory_repo :: "Memory Repository" where
  "memory_repo = \<lparr>
     rp_GetRegisterIdem = mem_GetRegisterIdem, rp_FinishRegister = mem_FinishRegister,
     rp_GetAgent = mem_GetAgent, rp_GetAdmissionEnvelope = mem_GetAdmissionEnvelope,
     rp_GetPassportIdem = mem_GetPassportIdem, rp_FinishPassport = mem_FinishPassport,
     rp_ListPassportBodiesByAgent = mem_ListPassportBodiesByAgent,
     rp_GetPassportBody = mem_GetPassportBody\<rparr>"

section \<open>PostgreSQL\<close>

text \<open>
  The tables with their primary keys; \<^verbatim>\<open>s0s1_passports\<close> keeps the agent and the body of a
  passport. \<open>io k n\<close> is the error of the \<open>n\<close>-th statement of attempt \<open>k\<close>, \<open>others k\<close> what other clients
  commit between the read and the writes of attempt \<open>k\<close>.
\<close>

record bff_agent_row =
  ba_agent_type :: string
  ba_owner_id :: string
  ba_metadata_json :: any
  ba_status :: string
  ba_admission_envelope_json :: any

record bff_db =
  bd_agents :: "string \<rightharpoonup> bff_agent_row"
  bd_register_idem :: "string \<rightharpoonup> body"
  bd_passport_idem :: "string \<rightharpoonup> body"
  bd_passports :: "(string \<times> string \<times> body) list"

type_synonym bff_io = "nat \<Rightarrow> nat \<Rightarrow> db_error option"

definition isUniqueViolation :: "db_error \<Rightarrow> bool" where
  "isUniqueViolation e \<longleftrightarrow> e = UniqueViolation"

definition pg_GetRegisterIdem :: "bff_io \<Rightarrow> string \<Rightarrow> bff_db \<Rightarrow> repo_error + body option" where
  "pg_GetRegisterIdem io idemKey d =
     (case io 0 0 of Some e \<Rightarrow> Inl (ErrStorage e) | None \<Rightarrow> Inr (bd_register_idem d idemKey))"

definition insert_bff_agent :: "string \<Rightarrow> AgentRec \<Rightarrow> bff_db \<Rightarrow> bff_db" where
  "insert_bff_agent agentID rec d =
     (if bd_agents d agentID \<noteq> None then d
      else d\<lparr>bd_agents := (bd_agents d)(agentID \<mapsto> \<lparr>
        ba_agent_type = rc_AgentType rec, ba_owner_id = rc_OwnerID rec,
        ba_metadata_json = decoded (AObj (entries (rc_Metadata rec))),
        ba_status = rc_Status rec,
        ba_admission_envelope_json = decoded (objmap_any (rc_AdmissionEnvelope rec))\<rparr>)\<rparr>)"

text \<open>
  One attempt: \<open>Some\<close> is the return of the function, \<open>None\<close> the \<^verbatim>\<open>continue\<close> after a lost race. Statements:
  0 \<^verbatim>\<open>BEGIN\<close>, 1 read of the key, 2 insert agent, 3 insert key, 4 \<^verbatim>\<open>COMMIT\<close>.
\<close>

definition register_attempt ::
  "(nat \<Rightarrow> db_error option) \<Rightarrow> (bff_db \<Rightarrow> bff_db) \<Rightarrow> string \<Rightarrow> string \<Rightarrow> body \<Rightarrow> AgentRec \<Rightarrow> bff_db
   \<Rightarrow> (repo_error + body) option \<times> bff_db" where
  "register_attempt io others idemKey agentID responseBody rec d =
     (case io 0 of Some e \<Rightarrow> (Some (Inl (ErrStorage e)), d) | None \<Rightarrow>
     (case io 1 of Some e \<Rightarrow> (Some (Inl (ErrStorage e)), d) | None \<Rightarrow>
     (case bd_register_idem d idemKey of
        Some cached \<Rightarrow> (Some (Inr cached), d)
      | None \<Rightarrow>
     (let d1 = others d
      in case io 2 of Some e \<Rightarrow> (Some (Inl (ErrStorage e)), d1) | None \<Rightarrow>
         (case (case io 3 of
                  Some e \<Rightarrow> Inl e
                | None \<Rightarrow> if bd_register_idem d1 idemKey \<noteq> None then Inl UniqueViolation
                         else Inr ((insert_bff_agent agentID rec d1)
                           \<lparr>bd_register_idem := (bd_register_idem d1)(idemKey \<mapsto> responseBody)\<rparr>)) of
            Inl e \<Rightarrow> if isUniqueViolation e then (None, d1) else (Some (Inl (ErrStorage e)), d1)
          | Inr d2 \<Rightarrow>
              (case io 4 of
                 Some e \<Rightarrow> (Some (Inl (ErrStorage e)), d1)
               | None \<Rightarrow> (Some (Inr responseBody), d2)))))))"

fun register_attempts ::
  "bff_io \<Rightarrow> (nat \<Rightarrow> bff_db \<Rightarrow> bff_db) \<Rightarrow> nat \<Rightarrow> nat \<Rightarrow> string \<Rightarrow> string \<Rightarrow> body \<Rightarrow> AgentRec \<Rightarrow> bff_db
   \<Rightarrow> (repo_error + body) \<times> bff_db" where
  "register_attempts io others k 0 idemKey agentID responseBody rec d = (Inl (ErrRace idemKey), d)"
| "register_attempts io others k (Suc n) idemKey agentID responseBody rec d =
     (case register_attempt (io k) (others k) idemKey agentID responseBody rec d of
        (Some r, d') \<Rightarrow> (r, d')
      | (None, d') \<Rightarrow> register_attempts io others (Suc k) n idemKey agentID responseBody rec d')"

definition pg_FinishRegister ::
  "bff_io \<Rightarrow> (nat \<Rightarrow> bff_db \<Rightarrow> bff_db) \<Rightarrow> string \<Rightarrow> string \<Rightarrow> body \<Rightarrow> AgentRec \<Rightarrow> bff_db
   \<Rightarrow> (repo_error + body) \<times> bff_db" where
  "pg_FinishRegister io others idemKey agentID responseBody rec d =
     register_attempts io others 0 8 idemKey agentID responseBody rec d"

definition pg_GetAgent :: "bff_io \<Rightarrow> string \<Rightarrow> bff_db \<Rightarrow> repo_error + AgentRec option" where
  "pg_GetAgent io agentID d =
     (case io 0 0 of
        Some e \<Rightarrow> Inl (ErrStorage e)
      | None \<Rightarrow> Inr
          (case bd_agents d agentID of
             None \<Rightarrow> None
           | Some r \<Rightarrow> Some \<lparr>
               rc_AgentType = ba_agent_type r, rc_OwnerID = ba_owner_id r,
               rc_Metadata = Some (case into_map (ba_metadata_json r) of None \<Rightarrow> [] | Some m \<Rightarrow> m),
               rc_Status = ba_status r, rc_AdmissionEnvelope = None\<rparr>))"

definition pg_GetAdmissionEnvelope :: "bff_io \<Rightarrow> string \<Rightarrow> bff_db \<Rightarrow> repo_error + object option" where
  "pg_GetAdmissionEnvelope io agentID d =
     (case io 0 0 of
        Some e \<Rightarrow> Inl (ErrStorage e)
      | None \<Rightarrow>
          (case bd_agents d agentID of
             None \<Rightarrow> Inr None
           | Some r \<Rightarrow>
               if ba_admission_envelope_json r = ANil then Inr None
               else
                 (case into_map (ba_admission_envelope_json r) of
                    None \<Rightarrow> Inl ErrEnvelopeJSON
                  | Some out \<Rightarrow> Inr (if length out = 0 then None else Some out))))"

definition pg_GetPassportIdem :: "bff_io \<Rightarrow> string \<Rightarrow> bff_db \<Rightarrow> repo_error + body option" where
  "pg_GetPassportIdem io idemKey d =
     (case io 0 0 of Some e \<Rightarrow> Inl (ErrStorage e) | None \<Rightarrow> Inr (bd_passport_idem d idemKey))"

text \<open>\<^verbatim>\<open>INSERT ... ON CONFLICT (passport_id) DO UPDATE SET response_body\<close>: the agent column stays.\<close>

fun upsert_passport ::
  "string \<Rightarrow> string \<Rightarrow> body \<Rightarrow> (string \<times> string \<times> body) list \<Rightarrow> (string \<times> string \<times> body) list" where
  "upsert_passport i agentID b [] = [(i, agentID, b)]"
| "upsert_passport i agentID b ((i', a', b') # rows) =
     (if i' = i then (i', a', b) # rows else (i', a', b') # upsert_passport i agentID b rows)"

definition store_passport :: "string \<Rightarrow> string \<Rightarrow> body \<Rightarrow> bff_db \<Rightarrow> bff_db" where
  "store_passport idemKey agentID b d =
     (let d1 = d\<lparr>bd_passport_idem := (bd_passport_idem d)(idemKey \<mapsto> b)\<rparr>; i = passportIDFromBody b
      in if i \<noteq> [] then d1\<lparr>bd_passports := upsert_passport i agentID b (bd_passports d1)\<rparr> else d1)"

text \<open>
  Statements: 0 \<^verbatim>\<open>BEGIN\<close>, 1 read of the key, 2 read of the agent, 3 insert key, 4 upsert passport,
  5 \<^verbatim>\<open>COMMIT\<close>. The agent is read in the state the other clients left.
\<close>

definition passport_attempt ::
  "(nat \<Rightarrow> db_error option) \<Rightarrow> (bff_db \<Rightarrow> bff_db) \<Rightarrow> string \<Rightarrow> string \<Rightarrow> body \<Rightarrow> bff_db
   \<Rightarrow> (repo_error + body) option \<times> bff_db" where
  "passport_attempt io others idemKey agentID responseBody d =
     (case io 0 of Some e \<Rightarrow> (Some (Inl (ErrStorage e)), d) | None \<Rightarrow>
     (case io 1 of Some e \<Rightarrow> (Some (Inl (ErrStorage e)), d) | None \<Rightarrow>
     (case bd_passport_idem d idemKey of
        Some cached \<Rightarrow> (Some (Inr cached), d)
      | None \<Rightarrow>
     (let d1 = others d
      in case io 2 of Some e \<Rightarrow> (Some (Inl (ErrStorage e)), d1) | None \<Rightarrow>
         if bd_agents d1 agentID = None then (Some (Inl ErrAgentNotFound), d1)
         else
         (case (case io 3 of
                  Some e \<Rightarrow> Inl e
                | None \<Rightarrow> if bd_passport_idem d1 idemKey \<noteq> None then Inl UniqueViolation
                         else (case (if passportIDFromBody responseBody \<noteq> [] then io 4 else None) of
                                 Some e \<Rightarrow> Inl e
                               | None \<Rightarrow> Inr (store_passport idemKey agentID responseBody d1))) of
            Inl e \<Rightarrow> if isUniqueViolation e then (None, d1) else (Some (Inl (ErrStorage e)), d1)
          | Inr d2 \<Rightarrow>
              (case io 5 of
                 Some e \<Rightarrow> (Some (Inl (ErrStorage e)), d1)
               | None \<Rightarrow> (Some (Inr responseBody), d2)))))))"

fun passport_attempts ::
  "bff_io \<Rightarrow> (nat \<Rightarrow> bff_db \<Rightarrow> bff_db) \<Rightarrow> nat \<Rightarrow> nat \<Rightarrow> string \<Rightarrow> string \<Rightarrow> body \<Rightarrow> bff_db
   \<Rightarrow> (repo_error + body) \<times> bff_db" where
  "passport_attempts io others k 0 idemKey agentID responseBody d = (Inl (ErrRace idemKey), d)"
| "passport_attempts io others k (Suc n) idemKey agentID responseBody d =
     (case passport_attempt (io k) (others k) idemKey agentID responseBody d of
        (Some r, d') \<Rightarrow> (r, d')
      | (None, d') \<Rightarrow> passport_attempts io others (Suc k) n idemKey agentID responseBody d')"

definition pg_FinishPassport ::
  "bff_io \<Rightarrow> (nat \<Rightarrow> bff_db \<Rightarrow> bff_db) \<Rightarrow> string \<Rightarrow> string \<Rightarrow> body \<Rightarrow> bff_db
   \<Rightarrow> (repo_error + body) \<times> bff_db" where
  "pg_FinishPassport io others idemKey agentID responseBody d =
     passport_attempts io others 0 8 idemKey agentID responseBody d"

definition pg_ListPassportBodiesByAgent :: "bff_io \<Rightarrow> string \<Rightarrow> bff_db \<Rightarrow> repo_error + body list" where
  "pg_ListPassportBodiesByAgent io agentID d =
     (case io 0 0 of
        Some e \<Rightarrow> Inl (ErrStorage e)
      | None \<Rightarrow>
          Inr (map (\<lambda>(i, a, b). b) (sort_key fst (filter (\<lambda>(i, a, b). a = agentID) (bd_passports d)))))"

definition pg_GetPassportBody :: "bff_io \<Rightarrow> string \<Rightarrow> bff_db \<Rightarrow> repo_error + body option" where
  "pg_GetPassportBody io passportID d =
     (case io 0 0 of
        Some e \<Rightarrow> Inl (ErrStorage e)
      | None \<Rightarrow> Inr (map_option (\<lambda>(i, a, b). b) (List.find (\<lambda>(i, a, b). i = passportID) (bd_passports d))))"

definition postgres_repo :: "bff_io \<Rightarrow> (nat \<Rightarrow> bff_db \<Rightarrow> bff_db) \<Rightarrow> bff_db Repository" where
  "postgres_repo io others = \<lparr>
     rp_GetRegisterIdem = pg_GetRegisterIdem io, rp_FinishRegister = pg_FinishRegister io others,
     rp_GetAgent = pg_GetAgent io, rp_GetAdmissionEnvelope = pg_GetAdmissionEnvelope io,
     rp_GetPassportIdem = pg_GetPassportIdem io, rp_FinishPassport = pg_FinishPassport io others,
     rp_ListPassportBodiesByAgent = pg_ListPassportBodiesByAgent io,
     rp_GetPassportBody = pg_GetPassportBody io\<rparr>"

section \<open>Contract\<close>

text \<open>
  What the handlers rely on: reads and the registration do not fail; the body a registration
  or an issuance returns is the one its key holds from then on; a used key returns its body and
  changes nothing; no operation changes the body of a used key.
\<close>

locale repository =
  fixes R :: "'s Repository"
  assumes register_idem_total: "\<exists>v. rp_GetRegisterIdem R k s = Inr v"
    and passport_idem_total: "\<exists>v. rp_GetPassportIdem R k s = Inr v"
    and register_total: "\<exists>b'. fst (rp_FinishRegister R k a b rec s) = Inr b'"
    and register_stores: "fst (rp_FinishRegister R k a b rec s) = Inr b' \<Longrightarrow>
      rp_GetRegisterIdem R k (snd (rp_FinishRegister R k a b rec s)) = Inr (Some b')"
    and register_cached: "rp_GetRegisterIdem R k s = Inr (Some b') \<Longrightarrow>
      rp_FinishRegister R k a b rec s = (Inr b', s)"
    and register_keeps: "rp_GetRegisterIdem R k' s = Inr (Some b') \<Longrightarrow>
      rp_GetRegisterIdem R k' (snd (rp_FinishRegister R k a b rec s)) = Inr (Some b')"
    and register_keeps_passport: "rp_GetPassportIdem R k' s = Inr (Some b') \<Longrightarrow>
      rp_GetPassportIdem R k' (snd (rp_FinishRegister R k a b rec s)) = Inr (Some b')"
    and passport_stores: "fst (rp_FinishPassport R k a b s) = Inr b' \<Longrightarrow>
      rp_GetPassportIdem R k (snd (rp_FinishPassport R k a b s)) = Inr (Some b')"
    and passport_cached: "rp_GetPassportIdem R k s = Inr (Some b') \<Longrightarrow> rp_FinishPassport R k a b s = (Inr b', s)"
    and passport_keeps: "rp_GetPassportIdem R k' s = Inr (Some b') \<Longrightarrow>
      rp_GetPassportIdem R k' (snd (rp_FinishPassport R k a b s)) = Inr (Some b')"
    and passport_keeps_register: "rp_GetRegisterIdem R k' s = Inr (Some b') \<Longrightarrow>
      rp_GetRegisterIdem R k' (snd (rp_FinishPassport R k a b s)) = Inr (Some b')"
begin

text \<open>Finishing twice under one key returns what the first returned.\<close>

lemma register_twice:
  "fst (rp_FinishRegister R k a b rec s) = Inr b' \<Longrightarrow>
   rp_FinishRegister R k a2 b2 rec2 (snd (rp_FinishRegister R k a b rec s)) =
     (Inr b', snd (rp_FinishRegister R k a b rec s))"
  by (rule register_cached [OF register_stores])

end

lemmas memory_defs =
  memory_repo_def mem_GetRegisterIdem_def mem_FinishRegister_def mem_GetAgent_def
  mem_GetAdmissionEnvelope_def mem_GetPassportIdem_def mem_FinishPassport_def
  mem_ListPassportBodiesByAgent_def mem_GetPassportBody_def

interpretation memory: repository memory_repo
  by unfold_locales (auto simp: memory_defs Let_def split: option.splits if_splits)

text \<open>
  Other clients of the database only add rows: a used key keeps its body.
\<close>

definition monotone_db :: "(bff_db \<Rightarrow> bff_db) \<Rightarrow> bool" where
  "monotone_db f \<longleftrightarrow> (\<forall>d. bd_register_idem d \<subseteq>\<^sub>m bd_register_idem (f d) \<and>
     bd_passport_idem d \<subseteq>\<^sub>m bd_passport_idem (f d) \<and> dom (bd_agents d) \<subseteq> dom (bd_agents (f d)))"

lemma monotone_dbD:
  "monotone_db f \<Longrightarrow> bd_register_idem d k = Some b \<Longrightarrow> bd_register_idem (f d) k = Some b"
  "monotone_db f \<Longrightarrow> bd_passport_idem d k = Some b \<Longrightarrow> bd_passport_idem (f d) k = Some b"
  "monotone_db f \<Longrightarrow> bd_agents d a \<noteq> None \<Longrightarrow> bd_agents (f d) a \<noteq> None"
  by (fastforce simp: monotone_db_def map_le_def dom_def)+

lemma insert_bff_agent_sel [simp]:
  "bd_register_idem (insert_bff_agent a rec d) = bd_register_idem d"
  "bd_passport_idem (insert_bff_agent a rec d) = bd_passport_idem d"
  "bd_passports (insert_bff_agent a rec d) = bd_passports d"
  by (simp_all add: insert_bff_agent_def)

lemma store_passport_sel [simp]:
  "bd_register_idem (store_passport k a b d) = bd_register_idem d"
  "bd_passport_idem (store_passport k a b d) = (bd_passport_idem d)(k \<mapsto> b)"
  "bd_agents (store_passport k a b d) = bd_agents d"
  by (simp_all add: store_passport_def Let_def)

text \<open>
  With a server that works, the first attempt returns or loses the race to another client; in
  the second the key is there. Eight attempts are more than enough.
\<close>

lemma register_attempts_eq:
  assumes "\<And>k n. io k n = None" "\<And>k. monotone_db (others k)"
  shows "register_attempts io others k (Suc (Suc n)) key a b rec d =
    (case bd_register_idem d key of
       Some c \<Rightarrow> (Inr c, d)
     | None \<Rightarrow>
         (case bd_register_idem (others k d) key of
            Some c \<Rightarrow> (Inr c, others k d)
          | None \<Rightarrow> (Inr b, (insert_bff_agent a rec (others k d))
              \<lparr>bd_register_idem := (bd_register_idem (others k d))(key \<mapsto> b)\<rparr>)))"
  by (simp add: register_attempt_def assms isUniqueViolation_def Let_def split: option.split)

lemma passport_attempts_eq:
  assumes "\<And>k n. io k n = None" "\<And>k. monotone_db (others k)"
  shows "passport_attempts io others k (Suc (Suc n)) key a b d =
    (case bd_passport_idem d key of
       Some c \<Rightarrow> (Inr c, d)
     | None \<Rightarrow>
         if bd_agents (others k d) a = None then (Inl ErrAgentNotFound, others k d)
         else
           (case bd_passport_idem (others k d) key of
              Some c \<Rightarrow> (Inr c, others k d)
            | None \<Rightarrow> (Inr b, store_passport key a b (others k d))))"
  by (simp add: passport_attempt_def assms isUniqueViolation_def Let_def split: option.split)

definition no_errors :: bff_io where
  "no_errors k n = None"

lemma eight: "(8::nat) = Suc (Suc 6)"
  by simp

lemma pg_FinishRegister_eq:
  assumes "\<And>k. monotone_db (others k)"
  shows "pg_FinishRegister no_errors others key a b rec d =
    (case bd_register_idem d key of
       Some c \<Rightarrow> (Inr c, d)
     | None \<Rightarrow>
         (case bd_register_idem (others 0 d) key of
            Some c \<Rightarrow> (Inr c, others 0 d)
          | None \<Rightarrow> (Inr b, (insert_bff_agent a rec (others 0 d))
              \<lparr>bd_register_idem := (bd_register_idem (others 0 d))(key \<mapsto> b)\<rparr>)))"
  unfolding pg_FinishRegister_def eight by (rule register_attempts_eq) (simp_all add: no_errors_def assms)

lemma pg_FinishPassport_eq:
  assumes "\<And>k. monotone_db (others k)"
  shows "pg_FinishPassport no_errors others key a b d =
    (case bd_passport_idem d key of
       Some c \<Rightarrow> (Inr c, d)
     | None \<Rightarrow>
         if bd_agents (others 0 d) a = None then (Inl ErrAgentNotFound, others 0 d)
         else
           (case bd_passport_idem (others 0 d) key of
              Some c \<Rightarrow> (Inr c, others 0 d)
            | None \<Rightarrow> (Inr b, store_passport key a b (others 0 d))))"
  unfolding pg_FinishPassport_def eight by (rule passport_attempts_eq) (simp_all add: no_errors_def assms)

lemma postgres_repository:
  assumes "\<And>k. monotone_db (others k)"
  shows "repository (postgres_repo no_errors others)"
  by unfold_locales
    (use monotone_dbD [OF assms [of 0]] in
      \<open>auto simp: postgres_repo_def pg_GetRegisterIdem_def pg_GetPassportIdem_def no_errors_def
         pg_FinishRegister_eq [OF assms] pg_FinishPassport_eq [OF assms]
         split: option.splits if_splits\<close>)

text \<open>A database that works, shared with clients that only add rows, is a repository.\<close>

locale working_postgres =
  fixes others :: "nat \<Rightarrow> bff_db \<Rightarrow> bff_db"
  assumes others_add: "monotone_db (others k)"

sublocale working_postgres \<subseteq> shared: repository "postgres_repo no_errors others"
  by (rule postgres_repository [OF others_add])

interpretation lone_postgres: working_postgres "\<lambda>k d. d"
  by unfold_locales (simp add: monotone_db_def)

text \<open>
  C32: With a PostgreSQL server that works, and whatever other front ends insert between the
  statements of a transaction, finishing a registration always returns, never with a lost race: it returns
  the body the key then holds, its own or the one of the client that won.
\<close>

theorem register_race_resolves:
  assumes "\<And>k. monotone_db (others k)"
  shows "\<exists>c d'. pg_FinishRegister no_errors others key a b rec d = (Inr c, d')
    \<and> bd_register_idem d' key = Some c
    \<and> (c = b \<or> bd_register_idem d key = Some c \<or> bd_register_idem (others 0 d) key = Some c)"
  unfolding pg_FinishRegister_eq [OF assms] by (auto split: option.split)

definition ex_winner :: "nat \<Rightarrow> bff_db \<Rightarrow> bff_db" where
  "ex_winner k d = (if bd_register_idem d ''k'' = None
     then d\<lparr>bd_register_idem := (bd_register_idem d)(''k'' \<mapsto> Doc (AStr ''winner''))\<rparr> else d)"

definition ex_rec :: AgentRec where
  "ex_rec = \<lparr>rc_AgentType = ''t'', rc_OwnerID = ''o'', rc_Metadata = None, rc_Status = ''ACTIVE'',
     rc_AdmissionEnvelope = None\<rparr>"

definition empty_bff_db :: bff_db where
  "empty_bff_db = \<lparr>bd_agents = Map.empty, bd_register_idem = Map.empty, bd_passport_idem = Map.empty,
     bd_passports = []\<rparr>"

lemma monotone_ex_winner: "monotone_db (ex_winner k)"
  by (auto simp: ex_winner_def monotone_db_def map_le_def)

theorem register_race_resolves_witness:
  "fst (pg_FinishRegister no_errors ex_winner ''k'' ''agt'' (Doc (AStr ''loser'')) ex_rec empty_bff_db) =
     Inr (Doc (AStr ''winner''))"
proof -
  have "bd_register_idem (snd (pg_FinishRegister no_errors ex_winner ''k'' ''agt'' (Doc (AStr ''loser'')) ex_rec empty_bff_db))
      ''k'' = Some (Doc (AStr ''winner''))"
    unfolding pg_FinishRegister_eq [OF monotone_ex_winner] by (simp add: ex_winner_def empty_bff_db_def)
  with register_race_resolves [of ex_winner "''k''" "''agt''" "Doc (AStr ''loser'')" ex_rec empty_bff_db,
      OF monotone_ex_winner]
  show ?thesis by auto
qed

end
