(* ===== verification/Bff_Delegate.thy ===== *)
theory Bff_Delegate
  imports Registry_Service Passport_Grpc Bff_Repo
begin

text \<open>
  The optional delegation of the REST front end to the registry and the passport engine
  (\<^verbatim>\<open>sx/s0s1-rest-bff/internal/s0delegate\<close>): the requests it builds, the JSON it makes of the answers and
  the HTTP status of an error.

  The gRPC clients are the other services as seen through the wire; \<open>Backend\<close> is how they answer
  during one request. A response without its message is \<open>None\<close>. An error is a status with its
  message, or none when it did not come from gRPC. \<open>Sprint\<close> and \<open>text_of\<close> render a value as
  \<^verbatim>\<open>fmt.Sprint\<close> and \<^verbatim>\<open>json.Marshal\<close> do; they only reach free-text metadata.
\<close>

section \<open>Clients and errors\<close>

datatype delegate_error = GrpcStatus code string | NotFoundError | OtherError string

record Backend =
  bk_RegisterAgent :: "(RegisterAgentRequest \<Rightarrow> (string, pbAgent option) rpc) option"
  bk_GetAgent :: "string \<Rightarrow> (string, pbAgent option) rpc"
  bk_GetAdmissionEnvelope :: "string \<Rightarrow> (string, pbAdmissionEnvelope option) rpc"
  bk_IssuePassport :: "(IssuePassportRequest \<Rightarrow> (string, pbPassport option) rpc) option"

fun UpstreamHTTP :: "delegate_error \<Rightarrow> nat" where
  "UpstreamHTTP (GrpcStatus c _) =
     (if c \<in> {InvalidArgument, FailedPrecondition, OutOfRange} then 400
      else if c = NotFound then 404
      else if c \<in> {AlreadyExists, Aborted} then 409
      else if c = DeadlineExceeded then 504
      else if c = Unauthenticated then 401
      else if c = PermissionDenied then 403
      else 502)"
| "UpstreamHTTP _ = 502"

fun UpstreamIsRetryable :: "delegate_error \<Rightarrow> bool" where
  "UpstreamIsRetryable (GrpcStatus c _) \<longleftrightarrow> c \<in> {DeadlineExceeded, Unavailable, ResourceExhausted}"
| "UpstreamIsRetryable _ = True"

fun IsNotFound :: "delegate_error \<Rightarrow> bool" where
  "IsNotFound NotFoundError = True"
| "IsNotFound (GrpcStatus c _) \<longleftrightarrow> c = NotFound"
| "IsNotFound (OtherError _) = False"

section \<open>Registry\<close>

definition mapStringString :: "(any \<Rightarrow> string) \<Rightarrow> (any \<Rightarrow> string) \<Rightarrow> object \<Rightarrow> strmap option" where
  "mapStringString Sprint text_of m =
     (if length m = 0 then None
      else Some (map (\<lambda>(k, v). (k, case v of
        AStr t \<Rightarrow> t
      | AFloat _ \<Rightarrow> Sprint v | ABool _ \<Rightarrow> Sprint v | AInt _ \<Rightarrow> Sprint v
      | _ \<Rightarrow> text_of v)) m))"

definition agentToMap :: "pbAgent \<Rightarrow> any" where
  "agentToMap a = AObj
     ([(''agent_id'', AStr (pa_AgentId a)), (''agent_type'', AStr (pa_AgentType a)),
       (''owner_id'', AStr (pa_OwnerId a)), (''status'', AStr (pa_Status a))]
      @ (case pa_Metadata a of None \<Rightarrow> [] | Some m \<Rightarrow> [(''metadata'', strmap_any (Some m))])
      @ (if pa_ExternalId a \<noteq> [] then [(''external_id'', AStr (pa_ExternalId a))] else [])
      @ (if pa_PassportId a \<noteq> [] then [(''passport_id'', AStr (pa_PassportId a))] else []))"

definition delegate_Register ::
  "(any \<Rightarrow> string) \<Rightarrow> (any \<Rightarrow> string) \<Rightarrow> (RegisterAgentRequest \<Rightarrow> (string, pbAgent option) rpc)
   \<Rightarrow> string \<Rightarrow> string \<Rightarrow> object \<Rightarrow> object \<Rightarrow> delegate_error + body \<times> string" where
  "delegate_Register Sprint text_of client agentType ownerID metadata admission =
     (case client \<lparr>
        rr_AgentType = agentType, rr_OwnerId = ownerID, rr_ExternalId = [],
        rr_Metadata = mapStringString Sprint text_of metadata,
        rr_AdmissionConstraintsJson = (if length admission > 0 then Some (Marshal (AObj admission)) else None),
        rr_AdmittedPolicyId = [], rr_AdmittedPolicyVer = [], rr_AdmittedScopePatterns = [],
        rr_AdmittedBehavioralCaps = [], rr_IssuingAuthority = [], rr_AdmissionSignature = [],
        rr_EnvelopeId = []\<rparr> of
        Inl (c, msg) \<Rightarrow> Inl (GrpcStatus c msg)
      | Inr None \<Rightarrow> Inl (OtherError ''s0delegate: empty agent in RegisterAgentResponse'')
      | Inr (Some a) \<Rightarrow> Inr (Marshal (AObj [(''agent'', agentToMap a)]), TrimSpace (pa_AgentId a)))"

definition GetAgentJSON ::
  "(string \<Rightarrow> (string, pbAgent option) rpc) \<Rightarrow> string \<Rightarrow> delegate_error + body" where
  "GetAgentJSON client agentID =
     (case client agentID of
        Inl (c, msg) \<Rightarrow> if c = NotFound then Inl NotFoundError else Inl (GrpcStatus c msg)
      | Inr None \<Rightarrow> Inl NotFoundError
      | Inr (Some a) \<Rightarrow> Inr (Marshal (AObj [(''agent'', agentToMap a)])))"

definition AgentExists :: "(string \<Rightarrow> (string, pbAgent option) rpc) \<Rightarrow> string \<Rightarrow> delegate_error + bool" where
  "AgentExists client agentID =
     (case client agentID of
        Inl (c, msg) \<Rightarrow> if c = NotFound then Inr False else Inl (GrpcStatus c msg)
      | Inr a \<Rightarrow> Inr (a \<noteq> None))"

definition admissionEnvelopeToMap :: "pbAdmissionEnvelope \<Rightarrow> any" where
  "admissionEnvelopeToMap e = AObj
     ([(''envelope_id'', AStr (pe_EnvelopeId e)), (''agent_id'', AStr (pe_AgentId e)),
       (''policy_id'', AStr (pe_PolicyId e)), (''policy_ver'', AStr (pe_PolicyVer e)),
       (''admitted_scopes'', if pe_AdmittedScopes e = [] then ANil else AArr (map AStr (pe_AdmittedScopes e))),
       (''admitted_ts_ms'', AInt (pe_AdmittedTsMs e)), (''issuing_authority'', AStr (pe_IssuingAuthority e))]
      @ (if pe_AdmittedBehavioralCaps e \<noteq> []
         then [(''admitted_behavioral_caps'', AObj (map (\<lambda>(k, x). (k, AFloat x)) (pe_AdmittedBehavioralCaps e)))]
         else [])
      @ (if pe_Signature e \<noteq> [] then [(''signature'', AStr (pe_Signature e))] else []))"

definition GetAdmissionEnvelopeJSON ::
  "(string \<Rightarrow> (string, pbAdmissionEnvelope option) rpc) \<Rightarrow> string \<Rightarrow> delegate_error + body" where
  "GetAdmissionEnvelopeJSON client agentID =
     (case client agentID of
        Inl (c, msg) \<Rightarrow> if c = NotFound then Inl NotFoundError else Inl (GrpcStatus c msg)
      | Inr None \<Rightarrow> Inl NotFoundError
      | Inr (Some env) \<Rightarrow>
          Inr (Marshal (AObj [(''agent_id'', AStr agentID), (''admission_envelope'', admissionEnvelopeToMap env)])))"

section \<open>Passports\<close>

definition scopeToMap :: "PassportScope \<Rightarrow> any" where
  "scopeToMap s = AObj
     ([(''scope_id'', AStr (px_ScopeId s)), (''action_class'', AStr (px_ActionClass s)),
       (''resource_pattern'', AStr (px_ResourcePattern s))]
      @ (if entries (px_ContextConstraints s) \<noteq> []
         then [(''context_constraints'', strmap_any (px_ContextConstraints s))] else [])
      @ (if px_GrantedTs s \<noteq> 0 then [(''granted_ts'', AInt (px_GrantedTs s))] else [])
      @ (if px_ExpiresTs s \<noteq> 0 then [(''expires_ts'', AInt (px_ExpiresTs s))] else [])
      @ (if px_IsEscalation s then [(''is_escalation'', ABool True)] else []))"

definition passportToMap :: "pbPassport \<Rightarrow> any" where
  "passportToMap p = AObj
     ([(''passport_id'', AStr (pb_PassportId p)), (''agent_id'', AStr (pb_AgentId p)),
       (''passport_type'', AStr (pb_PassportType p)), (''status'', AStr (pb_Status p)),
       (''issued_by'', AStr (pb_IssuedBy p)), (''issued_ts'', AInt (pb_IssuedTs p)),
       (''expires_ts'', AInt (pb_ExpiresTs p)), (''credential_id'', AStr (pb_CredentialId p)),
       (''public_key_pem'', AStr (pb_PublicKeyPem p)),
       (''policy_id_at_issuance'', AStr (pb_PolicyIdAtIssuance p)),
       (''policy_ver_at_issuance'', AStr (pb_PolicyVerAtIssuance p))]
      @ (if pb_Signature p \<noteq> [] then [(''signature'', AStr (pb_Signature p))] else [])
      @ (if pb_RevocationReason p \<noteq> [] then [(''revocation_reason'', AStr (pb_RevocationReason p))] else [])
      @ (if pb_SupersededBy p \<noteq> [] then [(''superseded_by'', AStr (pb_SupersededBy p))] else [])
      @ (if pb_RevokedTs p \<noteq> 0 then [(''revoked_ts'', AInt (pb_RevokedTs p))] else [])
      @ [(''scope_set'', AArr (map scopeToMap (pb_ScopeSet p)))])"

definition IssuePassportJSON ::
  "(IssuePassportRequest \<Rightarrow> (string, pbPassport option) rpc) \<Rightarrow> IssuePassportRequest \<Rightarrow> delegate_error + body" where
  "IssuePassportJSON client req =
     (case client req of
        Inl (c, msg) \<Rightarrow> Inl (GrpcStatus c msg)
      | Inr None \<Rightarrow> Inl (OtherError ''s0delegate: empty passport in IssuePassportResponse'')
      | Inr (Some p) \<Rightarrow> Inr (Marshal (AObj [(''passport'', passportToMap p)])))"

definition asInt64Any :: "any \<Rightarrow> int option" where
  "asInt64Any v = (case v of AFloat x \<Rightarrow> Some (float_to_int64 x) | AInt i \<Rightarrow> Some i | _ \<Rightarrow> None)"

definition scope_request :: "(any \<Rightarrow> string) \<Rightarrow> object \<Rightarrow> ScopeRequest" where
  "scope_request Sprint row = \<lparr>
     sr_ActionClass = str_field row ''action_class'',
     sr_ResourcePattern = str_field row ''resource_pattern'',
     sr_ContextConstraints =
       (case as_obj (field row ''context_constraints'') of
          None \<Rightarrow> None
        | Some raw \<Rightarrow> if length raw > 0 then Some (map (\<lambda>(k, v). (k, Sprint v)) raw) else None),
     sr_ScopeTtlSeconds = (case asInt64Any (field row ''scope_ttl_seconds'') of None \<Rightarrow> 0 | Some n \<Rightarrow> n)\<rparr>"

definition BuildIssueRequest ::
  "(any \<Rightarrow> string) \<Rightarrow> string \<Rightarrow> string \<Rightarrow> string \<Rightarrow> string \<Rightarrow> int \<Rightarrow> object list \<Rightarrow> bool
   \<Rightarrow> IssuePassportRequest" where
  "BuildIssueRequest Sprint agentID passportType issuedBy reason ttl scopes forceReissue = \<lparr>
     ir_AgentId = agentID, ir_PassportType = passportType,
     ir_RequestedScopes = map (\<lambda>row. Some (scope_request Sprint row)) scopes,
     ir_TtlSeconds = ttl, ir_IssuedBy = issuedBy, ir_ForceReissue = forceReissue, ir_Reason = reason\<rparr>"

end
