(* ===== verification/Bff_Policy.thy ===== *)
theory Bff_Policy
  imports GoJson
begin

text \<open>
  Policy evaluation of the REST front end (\<^verbatim>\<open>sx/s0s1-rest-bff/internal/policy/evaluate.go\<close>): the
  built-in stub and the client of the Open Policy Agent. The agent is another service: \<open>http\<close> is how it
  answers a request, by URL and body.
\<close>

datatype opa_reply =
    OpaError string \<comment> \<open>the URL does not parse, or the request or the read of the reply fails\<close>
  | OpaReply int body

datatype policy_error =
    ErrDependencyTimeout
  | OpaEmptyBase
  | OpaRequest string
  | OpaStatus int
  | OpaDecode
  | OpaMissingEffect

type_synonym opa_http = "string \<Rightarrow> any \<Rightarrow> opa_reply"

text \<open>\<^verbatim>\<open>policy.Stub\<close>: effect and reason.\<close>

definition Stub_Evaluate ::
  "string \<Rightarrow> string \<Rightarrow> string \<Rightarrow> string \<Rightarrow> policy_error + string \<times> string" where
  "Stub_Evaluate decisionID agentID actionClass resource =
     (if Contains (ToLower resource) ''timeout'' then Inl ErrDependencyTimeout
      else if actionClass = ''demo.forbidden_action'' then Inr (''DENY'', ''forbidden action class for demo'')
      else if actionClass = ''demo.read'' then Inr (''ALLOW'', ''read scope allowed'')
      else if Contains (ToUpper actionClass) ''DENY'' then Inr (''DENY'', ''policy-evaluated'')
      else Inr (''ALLOW'', ''policy-evaluated''))"

text \<open>The JSON reply of the agent: \<^verbatim>\<open>result\<close> must be an object with string \<^verbatim>\<open>effect\<close> and \<^verbatim>\<open>reason\<close>.\<close>

definition decode_result :: "body \<Rightarrow> policy_error + (string \<times> string) option" where
  "decode_result b =
     (case Option.bind (Unmarshal b) into_map of
        None \<Rightarrow> Inl OpaDecode
      | Some m \<Rightarrow>
          (case struct_field m ''result'' of
             ANil \<Rightarrow> Inr None
           | AObj r \<Rightarrow>
               (case (into_string (struct_field r ''effect''), into_string (struct_field r ''reason'')) of
                  (Some effect, Some reason) \<Rightarrow> Inr (Some (effect, reason))
                | _ \<Rightarrow> Inl OpaDecode)
           | _ \<Rightarrow> Inl OpaDecode))"

definition OPAClient_Evaluate ::
  "opa_http \<Rightarrow> string \<Rightarrow> string \<Rightarrow> string \<Rightarrow> string \<Rightarrow> string \<Rightarrow> policy_error + string \<times> string" where
  "OPAClient_Evaluate http baseURL decisionID agentID actionClass resource =
     (if Contains (ToLower resource) ''timeout'' then Inl ErrDependencyTimeout
      else
        (let base = TrimRight (TrimSpace baseURL) CHR ''/''
         in if base = [] then Inl OpaEmptyBase
            else
              (case http (base @ ''/v1/data/are/evaluatepolicy/decision'')
                      (AObj [(''input'', AObj [(''decision_id'', AStr decisionID), (''agent_id'', AStr agentID),
                         (''action_class'', AStr actionClass), (''resource'', AStr resource)])]) of
                 OpaError e \<Rightarrow> Inl (OpaRequest e)
               | OpaReply status raw \<Rightarrow>
                   if status \<noteq> 200 then Inl (OpaStatus status)
                   else
                     (case decode_result raw of
                        Inl e \<Rightarrow> Inl e
                      | Inr None \<Rightarrow> Inl OpaMissingEffect
                      | Inr (Some (effect, reason)) \<Rightarrow>
                          if TrimSpace effect = [] then Inl OpaMissingEffect
                          else Inr (ToUpper (TrimSpace effect), reason)))))"

text \<open>
  The stub allows exactly the actions whose class is not the forbidden demo action and does not
  contain \<^verbatim>\<open>DENY\<close> in any case, on resources that do not contain \<^verbatim>\<open>timeout\<close> in any case, whoever asks.
\<close>

lemma stub_policy_spec:
  "Stub_Evaluate decisionID agentID actionClass resource =
     (if Contains (ToLower resource) ''timeout'' then Inl ErrDependencyTimeout
      else Inr (if actionClass = ''demo.forbidden_action'' \<or> Contains (ToUpper actionClass) ''DENY''
                then ''DENY'' else ''ALLOW'',
                if actionClass = ''demo.forbidden_action'' then ''forbidden action class for demo''
                else if actionClass = ''demo.read'' then ''read scope allowed'' else ''policy-evaluated''))"
proof -
  have "\<not> Contains (ToUpper ''demo.read'') ''DENY''" by code_simp
  then show ?thesis by (simp add: Stub_Evaluate_def)
qed

end
