(* ===== verification/Bff_Api.thy ===== *)
theory Bff_Api
  imports Bff_Delegate Bff_Policy
begin

text \<open>
  The HTTP handlers of the REST front end (\<^verbatim>\<open>sx/s0s1-rest-bff/internal/api/api.go\<close> and
  \<^verbatim>\<open>api_s0.go\<close>), each a function of the request, the repository and its state.

  \<open>others\<close> is what other requests do to the repository between a handler's read of an idempotency
  key and its final write. \<open>S0\<close> is the optional backend of \<open>Bff_Delegate\<close>. Logging and counters are not
  part of the model.
\<close>

section \<open>Requests and responses\<close>

record http_request =
  hq_RequestID :: string
  hq_IdempotencyKey :: string
  hq_Path :: string
  hq_Body :: body

record http_response =
  hs_Status :: nat
  hs_Body :: body

definition api_jsonError :: "string \<Rightarrow> string \<Rightarrow> string \<Rightarrow> bool \<Rightarrow> nat \<Rightarrow> http_response" where
  "api_jsonError requestID errcode message retryable status = \<lparr>
     hs_Status = status,
     hs_Body = Marshal (AObj [(''error'', AObj [(''code'', AStr errcode), (''message'', AStr message),
       (''request_id'', AStr requestID), (''retryable'', ABool retryable)])])\<rparr>"

abbreviation api_storage_error :: "string \<Rightarrow> http_response" where
  "api_storage_error rid \<equiv> api_jsonError rid ''INTERNAL'' ''storage error'' False 500"

abbreviation invalid_body :: "string \<Rightarrow> http_response" where
  "invalid_body rid \<equiv> api_jsonError rid ''INVALID_ARGUMENT'' ''invalid json body'' False 400"

definition ok_json :: "nat \<Rightarrow> any \<Rightarrow> http_response" where
  "ok_json status v = \<lparr>hs_Status = status, hs_Body = Marshal v\<rparr>"

definition raw_json :: "nat \<Rightarrow> body \<Rightarrow> http_response" where
  "raw_json status b = \<lparr>hs_Status = status, hs_Body = b\<rparr>"

text \<open>\<^verbatim>\<open>json.NewDecoder(r.Body).Decode(&payload)\<close> into a \<^verbatim>\<open>map[string]any\<close>.\<close>

definition payload_of :: "body \<Rightarrow> object option" where
  "payload_of b = Option.bind (Decode b) into_map"

definition blank :: "string \<Rightarrow> bool" where
  "blank s \<longleftrightarrow> TrimSpace s = []"

definition register_key :: "string \<Rightarrow> string" where
  "register_key idem = ''RegisterAgent:'' @ idem"

definition issue_key :: "string \<Rightarrow> string" where
  "issue_key idem = ''IssuePassport:'' @ idem"

lemma key_inject [simp]:
  "register_key i = register_key j \<longleftrightarrow> i = j"
  "issue_key i = issue_key j \<longleftrightarrow> i = j"
  by (simp_all add: register_key_def issue_key_def)

section \<open>Delegation\<close>

definition registerBodyConflict :: "body \<Rightarrow> string \<Rightarrow> string \<Rightarrow> bool" where
  "registerBodyConflict cachedResp newAgentType newOwnerID =
     (case Option.bind (Unmarshal cachedResp) into_map of
        None \<Rightarrow> False
      | Some m \<Rightarrow>
          (case into_map (struct_field m ''agent'') of
             None \<Rightarrow> False
           | Some a \<Rightarrow>
               (case (into_string (struct_field a ''agent_type''), into_string (struct_field a ''owner_id'')) of
                  (Some t, Some ow) \<Rightarrow> TrimSpace t \<noteq> TrimSpace newAgentType \<or> TrimSpace ow \<noteq> TrimSpace newOwnerID
                | _ \<Rightarrow> False)))"

definition agentRecFromRegisterResponseBody :: "body \<Rightarrow> string \<Rightarrow> string \<Rightarrow> AgentRec option" where
  "agentRecFromRegisterResponseBody b fallbackType fallbackOwner =
     (case Option.bind (Option.bind (Unmarshal b) into_map) (\<lambda>m. into_map (struct_field m ''agent'')) of
        None \<Rightarrow> None
      | Some a \<Rightarrow>
          (case (into_string (struct_field a ''agent_type''), into_string (struct_field a ''owner_id''),
                 into_string (struct_field a ''status''), into_objmap (struct_field a ''metadata'')) of
             (Some t, Some ow, Some st, Some meta) \<Rightarrow> Some \<lparr>
               rc_AgentType = (if t = [] then fallbackType else t),
               rc_OwnerID = (if ow = [] then fallbackOwner else ow),
               rc_Metadata = (case meta of None \<Rightarrow> Some [] | Some m \<Rightarrow> Some m),
               rc_Status = (if TrimSpace st = [] then ''ACTIVE'' else TrimSpace st),
               rc_AdmissionEnvelope = None\<rparr>
           | _ \<Rightarrow> None))"

definition writeS0DelegateError :: "string \<Rightarrow> delegate_error \<Rightarrow> http_response" where
  "writeS0DelegateError rid err =
     (let h = UpstreamHTTP err;
          msg = (case err of
                   GrpcStatus c m \<Rightarrow> if blank m then ''upstream error'' else TrimSpace m
                 | _ \<Rightarrow> ''upstream error'');
          errcode = (if h = 400 then ''INVALID_ARGUMENT''
                  else if h = 404 then ''NOT_FOUND''
                  else if h = 409 then ''IDEMPOTENCY_CONFLICT''
                  else if h = 504 then ''DEPENDENCY_TIMEOUT''
                  else if h = 401 \<or> h = 403 then ''UPSTREAM_ERROR''
                  else if 500 \<le> h then ''POLICY_ENGINE_UNAVAILABLE'' else ''UPSTREAM_ERROR'')
      in api_jsonError rid errcode msg (UpstreamIsRetryable err) h)"

definition delegates_registry :: "Backend option \<Rightarrow> bool" where
  "delegates_registry S0 \<longleftrightarrow> (case S0 of None \<Rightarrow> False | Some b \<Rightarrow> bk_RegisterAgent b \<noteq> None)"

definition existsAgentForPassport ::
  "'s Repository \<Rightarrow> Backend option \<Rightarrow> string \<Rightarrow> 's \<Rightarrow> bool option" where
  "existsAgentForPassport R S0 agentID s =
     (case S0 of
        Some b \<Rightarrow>
          if bk_RegisterAgent b \<noteq> None
          then (case AgentExists (bk_GetAgent b) agentID of Inl _ \<Rightarrow> None | Inr found \<Rightarrow> Some found)
          else (case rp_GetAgent R agentID s of Inl _ \<Rightarrow> None | Inr r \<Rightarrow> Some (r \<noteq> None))
      | None \<Rightarrow> (case rp_GetAgent R agentID s of Inl _ \<Rightarrow> None | Inr r \<Rightarrow> Some (r \<noteq> None)))"

section \<open>Agents\<close>

definition agent_body :: "string \<Rightarrow> string \<Rightarrow> string \<Rightarrow> string \<Rightarrow> any" where
  "agent_body agentID agentType ownerID status =
     AObj [(''agent'', AObj [(''agent_id'', AStr agentID), (''agent_type'', AStr agentType),
       (''owner_id'', AStr ownerID), (''status'', AStr status)])]"

text \<open>What a registration stores: the identifier, the response body and the record, or an error response.\<close>

definition register_result ::
  "(any \<Rightarrow> string) \<Rightarrow> (any \<Rightarrow> string) \<Rightarrow> Backend option \<Rightarrow> string \<Rightarrow> string \<Rightarrow> string \<Rightarrow> string \<Rightarrow> object
   \<Rightarrow> object option \<Rightarrow> http_response + string \<times> body \<times> AgentRec" where
  "register_result Sprint text_of S0 rid idem agentType ownerID meta admission =
     (case Option.bind S0 bk_RegisterAgent of
        Some client \<Rightarrow>
          (case delegate_Register Sprint text_of client agentType ownerID meta (entries admission) of
             Inl err \<Rightarrow> Inl (writeS0DelegateError rid err)
           | Inr (b, agentID) \<Rightarrow>
               (case agentRecFromRegisterResponseBody b agentType ownerID of
                  None \<Rightarrow> Inl (api_jsonError rid ''INTERNAL'' ''marshal failed'' False 500)
                | Some rec \<Rightarrow>
                    Inr (agentID, b, if length (entries admission) > 0
                                     then rec\<lparr>rc_AdmissionEnvelope := admission\<rparr> else rec)))
      | None \<Rightarrow>
          (let agentID = ''agt-'' @ idem
           in Inr (agentID, Marshal (agent_body agentID agentType ownerID ''ACTIVE''),
                \<lparr>rc_AgentType = agentType, rc_OwnerID = ownerID, rc_Metadata = Some meta,
                 rc_Status = ''ACTIVE'', rc_AdmissionEnvelope = admission\<rparr>)))"

definition registerAgent ::
  "(any \<Rightarrow> string) \<Rightarrow> (any \<Rightarrow> string) \<Rightarrow> 's Repository \<Rightarrow> Backend option \<Rightarrow> ('s \<Rightarrow> 's) \<Rightarrow> http_request \<Rightarrow> 's
   \<Rightarrow> http_response \<times> 's" where
  "registerAgent Sprint text_of R S0 others req s =
     (let rid = hq_RequestID req; idem = hq_IdempotencyKey req
      in if idem = [] then (api_jsonError rid ''MISSING_IDEMPOTENCY_KEY'' ''idempotency key required'' False 400, s)
         else
         (case payload_of (hq_Body req) of
            None \<Rightarrow> (invalid_body rid, s)
          | Some payload \<Rightarrow>
         (let agentType = str_field payload ''agent_type''; ownerID = str_field payload ''owner_id''
          in if blank agentType \<or> blank ownerID
             then (api_jsonError rid ''INVALID_ARGUMENT'' ''agent_type and owner_id are required'' False 400, s)
             else
             (let key = register_key idem
              in case rp_GetRegisterIdem R key s of
                   Inl _ \<Rightarrow> (api_storage_error rid, s)
                 | Inr (Some prev) \<Rightarrow>
                     if registerBodyConflict prev agentType ownerID
                     then (api_jsonError rid ''IDEMPOTENCY_CONFLICT'' ''idempotency key reused with different body'' False 409, s)
                     else (raw_json 201 prev, s)
                 | Inr None \<Rightarrow>
                     (let meta = (case as_obj (field payload ''metadata'') of None \<Rightarrow> [] | Some m \<Rightarrow> m);
                          admission = as_obj (field payload ''admission_envelope'')
                      in case register_result Sprint text_of S0 rid idem agentType ownerID meta admission of
                           Inl resp \<Rightarrow> (resp, others s)
                         | Inr (agentID, b, rec) \<Rightarrow>
                             (case rp_FinishRegister R key agentID b rec (others s) of
                                (Inl _, s') \<Rightarrow> (api_storage_error rid, s')
                              | (Inr out, s') \<Rightarrow> (raw_json 201 out, s')))))))"

definition agentPathSuffix :: "string \<Rightarrow> string option" where
  "agentPathSuffix path =
     (if \<not> HasPrefix path ''/v1/identity/agents/'' then None
      else (let s = TrimPrefix path ''/v1/identity/agents/'' in if s = [] then None else Some s))"

definition getAdmissionEnvelope ::
  "'s Repository \<Rightarrow> Backend option \<Rightarrow> string \<Rightarrow> string \<Rightarrow> 's \<Rightarrow> http_response" where
  "getAdmissionEnvelope R S0 rid agentID s =
     (if delegates_registry S0
      then (case GetAdmissionEnvelopeJSON (bk_GetAdmissionEnvelope (the S0)) agentID of
              Inl err \<Rightarrow>
                if IsNotFound err then api_jsonError rid ''NOT_FOUND'' ''admission envelope not found'' False 404
                else writeS0DelegateError rid err
            | Inr b \<Rightarrow> raw_json 200 b)
      else (case rp_GetAdmissionEnvelope R agentID s of
              Inl _ \<Rightarrow> api_storage_error rid
            | Inr None \<Rightarrow> api_jsonError rid ''NOT_FOUND'' ''admission envelope not found'' False 404
            | Inr (Some env) \<Rightarrow>
                ok_json 200 (AObj [(''agent_id'', AStr agentID), (''admission_envelope'', AObj env)])))"

definition api_getAgent :: "'s Repository \<Rightarrow> Backend option \<Rightarrow> http_request \<Rightarrow> 's \<Rightarrow> http_response" where
  "api_getAgent R S0 req s =
     (let rid = hq_RequestID req
      in case agentPathSuffix (hq_Path req) of
           None \<Rightarrow> api_jsonError rid ''INVALID_ARGUMENT'' ''agent id required'' False 400
         | Some sfx \<Rightarrow>
             if HasSuffix sfx ''/admission-envelope''
             then (let agentID = TrimSpace (TrimSuffix sfx ''/admission-envelope'')
                   in if agentID = [] \<or> Contains agentID ''/''
                      then api_jsonError rid ''INVALID_ARGUMENT'' ''agent id required'' False 400
                      else getAdmissionEnvelope R S0 rid agentID s)
             else
               (let agentID = TrimSpace (TrimSuffix sfx '':check'')
                in if agentID = [] then api_jsonError rid ''INVALID_ARGUMENT'' ''agent id required'' False 400
                   else if delegates_registry S0
                   then (case GetAgentJSON (bk_GetAgent (the S0)) agentID of
                           Inl err \<Rightarrow>
                             if IsNotFound err then api_jsonError rid ''NOT_FOUND'' ''unknown agent_id'' False 404
                             else writeS0DelegateError rid err
                         | Inr b \<Rightarrow> raw_json 200 b)
                   else (case rp_GetAgent R agentID s of
                           Inl _ \<Rightarrow> api_storage_error rid
                         | Inr None \<Rightarrow> api_jsonError rid ''NOT_FOUND'' ''unknown agent_id'' False 404
                         | Inr (Some rec) \<Rightarrow>
                             ok_json 200 (agent_body agentID (rc_AgentType rec) (rc_OwnerID rec) (rc_Status rec)))))"

section \<open>Passports\<close>

definition asInt64 :: "any \<Rightarrow> int option" where
  "asInt64 v = (case v of
     AFloat x \<Rightarrow> Some (float_to_int64 x) | AInt i \<Rightarrow> Some i | AStr s \<Rightarrow> ParseInt (TrimSpace s) | _ \<Rightarrow> None)"

text \<open>The checked rows of the requested scopes, or the message of the first bad one.\<close>

fun scope_rows :: "any list \<Rightarrow> string + object list" where
  "scope_rows [] = Inr []"
| "scope_rows (item # items) =
     (case as_obj item of
        None \<Rightarrow> Inl ''invalid requested_scopes entry''
      | Some row \<Rightarrow>
          if blank (str_field row ''action_class'') \<or> blank (str_field row ''resource_pattern'')
          then Inl ''requested_scopes require action_class and resource_pattern''
          else (case scope_rows items of Inl e \<Rightarrow> Inl e | Inr rows \<Rightarrow> Inr (row # rows)))"

fun scope_set :: "string \<Rightarrow> nat \<Rightarrow> object list \<Rightarrow> any list" where
  "scope_set idem i [] = []"
| "scope_set idem i (row # rows) =
     AObj [(''scope_id'', AStr (''scp-'' @ idem @ ''-'' @ Itoa (int i))),
           (''action_class'', AStr (str_field row ''action_class'')),
           (''resource_pattern'', AStr (str_field row ''resource_pattern''))] # scope_set idem (Suc i) rows"

definition passport_body :: "string \<Rightarrow> string \<Rightarrow> string \<Rightarrow> object list \<Rightarrow> string \<Rightarrow> any" where
  "passport_body idem agentID passportType rows issuedBy =
     AObj [(''passport'', AObj [(''passport_id'', AStr (''ppt-'' @ idem)), (''agent_id'', AStr agentID),
       (''passport_type'', AStr passportType), (''scope_set'', AArr (scope_set idem 0 rows)),
       (''status'', AStr ''ACTIVE''), (''issued_by'', AStr issuedBy)])]"

record issue_fields =
  if_agentID :: string
  if_passportType :: string
  if_issuedBy :: string
  if_reason :: string
  if_ttl :: int
  if_rows :: "object list"

text \<open>The required fields of an issue request, or the message of the refusal.\<close>

definition issue_request :: "object \<Rightarrow> string + issue_fields" where
  "issue_request payload =
     (let agentID = str_field payload ''agent_id''; passportType = str_field payload ''passport_type'';
          issuedBy = str_field payload ''issued_by''; reason = str_field payload ''reason'';
          scopesRaw = (case as_arr (field payload ''requested_scopes'') of None \<Rightarrow> [] | Some vs \<Rightarrow> vs)
      in case asInt64 (field payload ''ttl_seconds'') of
           None \<Rightarrow> Inl ''agent_id, passport_type, requested_scopes, ttl_seconds, issued_by, and reason are required''
         | Some ttl \<Rightarrow>
             if blank agentID \<or> blank passportType \<or> scopesRaw = [] \<or> blank issuedBy \<or> blank reason
             then Inl ''agent_id, passport_type, requested_scopes, ttl_seconds, issued_by, and reason are required''
             else
               (case scope_rows scopesRaw of
                  Inl msg \<Rightarrow> Inl msg
                | Inr rows \<Rightarrow> Inr \<lparr>if_agentID = agentID, if_passportType = passportType, if_issuedBy = issuedBy,
                                 if_reason = reason, if_ttl = ttl, if_rows = rows\<rparr>))"

text \<open>The body to store: the one of the delegate, or one made here.\<close>

definition issue_body ::
  "(any \<Rightarrow> string) \<Rightarrow> Backend option \<Rightarrow> string \<Rightarrow> object \<Rightarrow> issue_fields \<Rightarrow> delegate_error + body" where
  "issue_body Sprint S0 idem payload f =
     (case Option.bind S0 bk_IssuePassport of
        Some client \<Rightarrow>
          IssuePassportJSON client (BuildIssueRequest Sprint (if_agentID f) (if_passportType f) (if_issuedBy f)
            (if_reason f) (if_ttl f) (if_rows f) (bool_field payload ''force_reissue''))
      | None \<Rightarrow> Inr (Marshal (passport_body idem (if_agentID f) (if_passportType f) (if_rows f) (if_issuedBy f))))"

definition issuePassport ::
  "(any \<Rightarrow> string) \<Rightarrow> 's Repository \<Rightarrow> Backend option \<Rightarrow> ('s \<Rightarrow> 's) \<Rightarrow> http_request \<Rightarrow> 's
   \<Rightarrow> http_response \<times> 's" where
  "issuePassport Sprint R S0 others req s =
     (let rid = hq_RequestID req; idem = hq_IdempotencyKey req; key = issue_key idem
      in if idem = [] then (api_jsonError rid ''MISSING_IDEMPOTENCY_KEY'' ''idempotency key required'' False 400, s)
         else
         (case rp_GetPassportIdem R key s of
            Inl _ \<Rightarrow> (api_storage_error rid, s)
          | Inr (Some prev) \<Rightarrow> (raw_json 201 prev, s)
          | Inr None \<Rightarrow>
         (case payload_of (hq_Body req) of
            None \<Rightarrow> (invalid_body rid, s)
          | Some payload \<Rightarrow>
         (case issue_request payload of
            Inl msg \<Rightarrow> (api_jsonError rid ''INVALID_ARGUMENT'' msg False 400, s)
          | Inr f \<Rightarrow>
         (case existsAgentForPassport R S0 (if_agentID f) s of
            None \<Rightarrow> (api_storage_error rid, s)
          | Some False \<Rightarrow> (api_jsonError rid ''NOT_FOUND'' ''unknown agent_id'' False 404, s)
          | Some True \<Rightarrow>
         (case issue_body Sprint S0 idem payload f of
            Inl err \<Rightarrow> (writeS0DelegateError rid err, others s)
          | Inr b \<Rightarrow>
         (case rp_FinishPassport R key (if_agentID f) b (others s) of
            (Inl e, s') \<Rightarrow>
              (if e = ErrAgentNotFound then api_jsonError rid ''NOT_FOUND'' ''unknown agent_id'' False 404
               else api_storage_error rid, s')
          | (Inr out, s') \<Rightarrow> (raw_json 201 out, s'))))))))"

definition publicPassportFromBody :: "body \<Rightarrow> object option" where
  "publicPassportFromBody b =
     (case Option.bind (Unmarshal b) into_map of
        None \<Rightarrow> None
      | Some m \<Rightarrow> (case into_objmap (struct_field m ''passport'') of None \<Rightarrow> None | Some p \<Rightarrow> p))"

definition listPassportsByAgent :: "'s Repository \<Rightarrow> http_request \<Rightarrow> 's \<Rightarrow> http_response" where
  "listPassportsByAgent R req s =
     (let rid = hq_RequestID req;
          agentID = TrimSpace (TrimPrefix (hq_Path req) ''/v1/passports/by-agent/'')
      in if agentID = [] \<or> Contains agentID ''/''
         then api_jsonError rid ''INVALID_ARGUMENT'' ''agent id required'' False 400
         else
           (case rp_ListPassportBodiesByAgent R agentID s of
              Inl _ \<Rightarrow> api_storage_error rid
            | Inr bodies \<Rightarrow>
                ok_json 200 (AObj [(''agent_id'', AStr agentID),
                  (''passports'', AArr (map AObj (List.map_filter publicPassportFromBody bodies))),
                  (''request_id'', AStr rid)])))"

definition verifyPassport :: "'s Repository \<Rightarrow> http_request \<Rightarrow> 's \<Rightarrow> http_response" where
  "verifyPassport R req s =
     (let rid = hq_RequestID req
      in case payload_of (hq_Body req) of
           None \<Rightarrow> invalid_body rid
         | Some payload \<Rightarrow>
             (let passportID = str_field payload ''passport_id''; agentID = str_field payload ''agent_id''
              in if blank passportID \<or> blank agentID
                 then api_jsonError rid ''INVALID_ARGUMENT'' ''passport_id and agent_id are required'' False 400
                 else
                   (case rp_GetPassportBody R passportID s of
                      Inl _ \<Rightarrow> api_storage_error rid
                    | Inr found \<Rightarrow>
                        (let verified = (case Option.bind found publicPassportFromBody of
                               None \<Rightarrow> False
                             | Some p \<Rightarrow> field p ''agent_id'' = AStr agentID \<and> field p ''status'' = AStr ''ACTIVE'')
                         in ok_json 200 (AObj [(''verified'', ABool verified),
                              (''reason'', AStr (if verified then ''passport verified''
                                 else ''passport missing, revoked, expired, or not bound to agent'')),
                              (''passport_id'', AStr passportID), (''agent_id'', AStr agentID),
                              (''request_id'', AStr rid), (''executed'', ABool False),
                              (''proof_status'', AStr ''reference_only'')])))))"

section \<open>Scope and policy\<close>

definition resourcePatternMatches :: "string \<Rightarrow> string \<Rightarrow> bool" where
  "resourcePatternMatches pattern0 resource =
     (let pattern = TrimSpace pattern0
      in if pattern = ''*'' \<or> pattern = resource then True
         else if HasSuffix pattern ''*'' then HasPrefix resource (TrimSuffix pattern ''*'')
         else False)"

definition scope_matches :: "string \<Rightarrow> string \<Rightarrow> string \<Rightarrow> object option \<Rightarrow> bool" where
  "scope_matches agentID actionClass resource passport =
     (case passport of
        None \<Rightarrow> False
      | Some p \<Rightarrow>
          field p ''agent_id'' = AStr agentID \<and> field p ''status'' = AStr ''ACTIVE''
        \<and> list_ex (\<lambda>item. case as_obj item of
              None \<Rightarrow> False
            | Some row \<Rightarrow> str_field row ''action_class'' = actionClass \<and>
                resourcePatternMatches (str_field row ''resource_pattern'') resource)
            (case as_arr (field p ''scope_set'') of None \<Rightarrow> [] | Some vs \<Rightarrow> vs))"

definition scopeAllows ::
  "'s Repository \<Rightarrow> string \<Rightarrow> string \<Rightarrow> string \<Rightarrow> string \<Rightarrow> 's \<Rightarrow> repo_error + bool \<times> string" where
  "scopeAllows R agentID passportID actionClass resource s =
     (if \<not> blank passportID
      then (case rp_GetPassportBody R passportID s of
              Inl e \<Rightarrow> Inl e
            | Inr None \<Rightarrow> Inr (False, ''passport not found'')
            | Inr (Some b) \<Rightarrow>
                if scope_matches agentID actionClass resource (publicPassportFromBody b)
                then Inr (True, ''scope matched requested passport'')
                else Inr (False, ''scope missing or passport inactive''))
      else (case rp_ListPassportBodiesByAgent R agentID s of
              Inl e \<Rightarrow> Inl e
            | Inr bodies \<Rightarrow>
                if list_ex (\<lambda>b. scope_matches agentID actionClass resource (publicPassportFromBody b)) bodies
                then Inr (True, ''scope matched active passport'')
                else Inr (False, ''no active passport scope matched'')))"

definition evaluateScope :: "'s Repository \<Rightarrow> http_request \<Rightarrow> 's \<Rightarrow> http_response" where
  "evaluateScope R req s =
     (let rid = hq_RequestID req
      in case payload_of (hq_Body req) of
           None \<Rightarrow> invalid_body rid
         | Some payload \<Rightarrow>
             (let agentID = str_field payload ''agent_id''; passportID = str_field payload ''passport_id'';
                  actionClass = str_field payload ''action_class''; resource = str_field payload ''resource''
              in if blank agentID \<or> blank actionClass \<or> blank resource
                 then api_jsonError rid ''INVALID_ARGUMENT'' ''agent_id, action_class, and resource are required'' False 400
                 else
                   (case scopeAllows R agentID passportID actionClass resource s of
                      Inl _ \<Rightarrow> api_storage_error rid
                    | Inr (allowed, reason) \<Rightarrow>
                        ok_json 200 (AObj [(''decision'', AObj [
                            (''effect'', AStr (if allowed then ''ALLOW'' else ''DENY'')), (''reason'', AStr reason),
                            (''agent_id'', AStr agentID), (''action_class'', AStr actionClass),
                            (''resource'', AStr resource)]),
                          (''request_id'', AStr rid), (''executed'', ABool False)]))))"

text \<open>\<open>eval\<close> is the evaluator of the configuration, \<open>err_text\<close> the text of its errors.\<close>

definition evaluatePolicy ::
  "(string \<Rightarrow> string \<Rightarrow> string \<Rightarrow> string \<Rightarrow> policy_error + string \<times> string) \<Rightarrow> (policy_error \<Rightarrow> string)
   \<Rightarrow> http_request \<Rightarrow> http_response" where
  "evaluatePolicy eval err_text req =
     (let rid = hq_RequestID req
      in case payload_of (hq_Body req) of
           None \<Rightarrow> invalid_body rid
         | Some payload \<Rightarrow>
             (let decisionID = str_field payload ''decision_id''; agentID = str_field payload ''agent_id'';
                  actionClass = str_field payload ''action_class''; resource = str_field payload ''resource''
              in if blank decisionID \<or> blank agentID \<or> blank actionClass
                 then api_jsonError rid ''INVALID_ARGUMENT'' ''decision_id, agent_id, and action_class are required'' False 400
                 else
                   (case eval decisionID agentID actionClass resource of
                      Inl e \<Rightarrow>
                        if e = ErrDependencyTimeout
                        then api_jsonError rid ''DEPENDENCY_TIMEOUT'' ''policy engine timeout'' True 504
                        else api_jsonError rid ''POLICY_ENGINE_UNAVAILABLE'' (err_text e) True 502
                    | Inr (effect, reason) \<Rightarrow>
                        if effect \<noteq> ''ALLOW'' \<and> effect \<noteq> ''DENY''
                        then api_jsonError rid ''INTERNAL'' ''invalid policy effect'' False 500
                        else ok_json 200 (AObj [(''decision'', AObj [(''decision_id'', AStr decisionID),
                               (''effect'', AStr effect), (''reason'', AStr reason)])]))))"

definition deploymentMeta :: "environ \<Rightarrow> http_request \<Rightarrow> http_response" where
  "deploymentMeta env req =
     (let stage1 = TrimSpace (ToLower (env ''ARE_DEPLOYMENT_STAGE''));
          stage2 = (if stage1 = [] then TrimSpace (ToLower (env ''ARE_S0S1_DEPLOYMENT_STAGE'')) else stage1);
          stage = (if stage2 = [] then ''s0s1'' else stage2)
      in ok_json 200 (AObj [(''deployment_stage'', AStr stage), (''request_id'', AStr (hq_RequestID req))]))"

section \<open>Routing\<close>

text \<open>
  The patterns of the mux. A pattern that ends in a slash takes every path below it; \<^verbatim>\<open>GET\<close> also takes
  \<^verbatim>\<open>HEAD\<close>. \<open>None\<close> is a request the mux answers by itself: no such path, another method, or a
  redirect to the cleaned path.
\<close>

datatype bff_endpoint =
    RegisterAgentEndpoint | GetAgentEndpoint | IssuePassportEndpoint | ListPassportsEndpoint
  | VerifyPassportEndpoint | EvaluateScopeEndpoint | EvaluatePolicyEndpoint | DeploymentMetaEndpoint

definition clean_path :: "string \<Rightarrow> bool" where
  "clean_path path \<longleftrightarrow>
     (case Split path CHR ''/'' of
        [] # segs \<Rightarrow> segs \<noteq> [] \<and> list_all (\<lambda>g. g \<noteq> []) (butlast segs) \<and> ''.'' \<notin> set segs \<and> ''..'' \<notin> set segs
      | _ \<Rightarrow> False)"

definition bff_route :: "string \<Rightarrow> string \<Rightarrow> bff_endpoint option" where
  "bff_route verb path =
     (let reads = (verb = ''GET'' \<or> verb = ''HEAD'')
      in if \<not> clean_path path then None
         else if verb = ''POST'' \<and> path = ''/v1/identity/agents'' then Some RegisterAgentEndpoint
         else if reads \<and> HasPrefix path ''/v1/identity/agents/'' then Some GetAgentEndpoint
         else if verb = ''POST'' \<and> path = ''/v1/passports'' then Some IssuePassportEndpoint
         else if reads \<and> HasPrefix path ''/v1/passports/by-agent/'' then Some ListPassportsEndpoint
         else if verb = ''POST'' \<and> path = ''/v1/passports:verify'' then Some VerifyPassportEndpoint
         else if verb = ''POST'' \<and> path = ''/v1/enforcement/scope:evaluate'' then Some EvaluateScopeEndpoint
         else if verb = ''POST'' \<and> path = ''/v1/policy/evaluations'' then Some EvaluatePolicyEndpoint
         else if reads \<and> path = ''/v1/meta/deployment'' then Some DeploymentMetaEndpoint
         else None)"

record 's api_config =
  cf_Repo :: "'s Repository"
  cf_Policy :: "(string \<Rightarrow> string \<Rightarrow> string \<Rightarrow> string \<Rightarrow> policy_error + string \<times> string) option"
  cf_S0 :: "Backend option"
  cf_Sprint :: "any \<Rightarrow> string"
  cf_text_of :: "any \<Rightarrow> string"
  cf_err_text :: "policy_error \<Rightarrow> string"
  cf_env :: environ

text \<open>The handler of an endpoint; a configuration without evaluator uses the stub.\<close>

definition bff_handle ::
  "'s api_config \<Rightarrow> ('s \<Rightarrow> 's) \<Rightarrow> bff_endpoint \<Rightarrow> http_request \<Rightarrow> 's \<Rightarrow> http_response \<times> 's" where
  "bff_handle cfg others ep req s =
     (let R = cf_Repo cfg; S0 = cf_S0 cfg;
          eval = (case cf_Policy cfg of None \<Rightarrow> Stub_Evaluate | Some e \<Rightarrow> e)
      in case ep of
           RegisterAgentEndpoint \<Rightarrow> registerAgent (cf_Sprint cfg) (cf_text_of cfg) R S0 others req s
         | GetAgentEndpoint \<Rightarrow> (api_getAgent R S0 req s, s)
         | IssuePassportEndpoint \<Rightarrow> issuePassport (cf_Sprint cfg) R S0 others req s
         | ListPassportsEndpoint \<Rightarrow> (listPassportsByAgent R req s, s)
         | VerifyPassportEndpoint \<Rightarrow> (verifyPassport R req s, s)
         | EvaluateScopeEndpoint \<Rightarrow> (evaluateScope R req s, s)
         | EvaluatePolicyEndpoint \<Rightarrow> (evaluatePolicy eval (cf_err_text cfg) req, s)
         | DeploymentMetaEndpoint \<Rightarrow> (deploymentMeta (cf_env cfg) req, s))"

definition bff_Handler ::
  "'s api_config \<Rightarrow> ('s \<Rightarrow> 's) \<Rightarrow> string \<Rightarrow> http_request \<Rightarrow> 's \<Rightarrow> http_response option \<times> 's" where
  "bff_Handler cfg others verb req s =
     (case bff_route verb (hq_Path req) of
        None \<Rightarrow> (None, s)
      | Some ep \<Rightarrow> (case bff_handle cfg others ep req s of (resp, s') \<Rightarrow> (Some resp, s')))"

end
