(* ===== verification/Bff_Correct.thy ===== *)
theory Bff_Correct
  imports Bff_Api
begin

text \<open>
  Properties of the REST front end, over runs of its handlers: idempotency of registration and of
  issuance for every repository that keeps the contract of \<open>Bff_Repo\<close>, and what a passport issued by the
  front end itself grants.
\<close>

section \<open>Runs\<close>

text \<open>
  A run is a sequence of requests to the two handlers that write. While one is between its read
  and its write, others may run to completion.
\<close>

inductive bff_run :: "'s api_config \<Rightarrow> 's \<Rightarrow> 's \<Rightarrow> bool" for cfg where
  quiet: "bff_run cfg s s"
| handles: "bff_run cfg s t \<Longrightarrow> (\<And>u. bff_run cfg u (others u)) \<Longrightarrow>
    bff_run cfg s (snd (bff_handle cfg others ep req t))"

lemma bff_run_trans:
  assumes "bff_run cfg s t" "bff_run cfg t u"
  shows "bff_run cfg s u"
  using assms(2,1) by (induction t u) (auto intro: bff_run.intros)

text \<open>
  What the handlers do to the state: nothing, what the others did, or one write after that.
\<close>

lemma snd_sum_cases [simp]:
  "snd (case p of (Inl e, s') \<Rightarrow> (f e, s') | (Inr b, s') \<Rightarrow> (g b, s')) = snd p"
  by (cases p, cases "fst p") auto

lemma registerAgent_preserves:
  assumes "P s" "P (others s)" "\<And>k a b rec. P (snd (rp_FinishRegister R k a b rec (others s)))"
  shows "P (snd (registerAgent Sp tx R S0 others req s))"
  unfolding registerAgent_def Let_def using assms
  by (simp split: option.split sum.split prod.split)

lemma issuePassport_preserves:
  assumes "P s" "P (others s)"
    "\<And>payload f b. issue_body Sp S0 (hq_IdempotencyKey req) payload f = Inr b \<Longrightarrow>
       P (snd (rp_FinishPassport R (issue_key (hq_IdempotencyKey req)) (if_agentID f) b (others s)))"
  shows "P (snd (issuePassport Sp R S0 others req s))"
  unfolding issuePassport_def Let_def using assms
  by (simp split: option.split sum.split bool.split)

lemma bff_handle_preserves:
  assumes "P s" "P (others s)" "\<And>k a b rec. P (snd (rp_FinishRegister (cf_Repo cfg) k a b rec (others s)))"
    "\<And>payload f b. issue_body (cf_Sprint cfg) (cf_S0 cfg) (hq_IdempotencyKey req) payload f = Inr b \<Longrightarrow>
       P (snd (rp_FinishPassport (cf_Repo cfg) (issue_key (hq_IdempotencyKey req)) (if_agentID f) b (others s)))"
  shows "P (snd (bff_handle cfg others ep req s))"
  unfolding bff_handle_def Let_def
  using assms registerAgent_preserves [of P] issuePassport_preserves [of P]
  by (simp split: bff_endpoint.split)

text \<open>A property of one state that every handler keeps holds along a run.\<close>

lemma bff_run_preserves:
  assumes "bff_run cfg s t" "P s"
    and register: "\<And>k a b rec u. P u \<Longrightarrow> P (snd (rp_FinishRegister (cf_Repo cfg) k a b rec u))"
    and issue: "\<And>idem payload f b u. P u \<Longrightarrow> issue_body (cf_Sprint cfg) (cf_S0 cfg) idem payload f = Inr b \<Longrightarrow>
       P (snd (rp_FinishPassport (cf_Repo cfg) (issue_key idem) (if_agentID f) b u))"
  shows "P t"
  using assms(1,2)
proof (induction s t)
  case (handles s t others ep req)
  have "P t" by (rule handles.IH(1) [OF handles.prems])
  moreover have others: "P (others t)" by (rule handles.IH(2) [OF \<open>P t\<close>])
  ultimately show ?case
    by (rule bff_handle_preserves [where P = P]) (rule register [OF others], rule issue [OF others])
qed

section \<open>Idempotency\<close>

lemma delegate_status: "hs_Status (writeS0DelegateError rid e) \<noteq> 201"
  unfolding writeS0DelegateError_def Let_def api_jsonError_def by (cases e rule: UpstreamHTTP.cases) auto

lemma register_result_status:
  "register_result Sp tx S0 rid idem ty ow meta adm = Inl resp \<Longrightarrow> hs_Status resp \<noteq> 201"
  unfolding register_result_def using delegate_status
  by (auto simp: Let_def api_jsonError_def split: option.splits sum.splits prod.splits)

text \<open>The response of the two handlers, by how it came about.\<close>

lemma registerAgent_result:
  assumes "\<And>resp. hs_Status resp \<noteq> 201 \<Longrightarrow> P (resp, s)" "\<And>resp. hs_Status resp \<noteq> 201 \<Longrightarrow> P (resp, others s)"
    "\<And>prev. rp_GetRegisterIdem R (register_key (hq_IdempotencyKey req)) s = Inr (Some prev) \<Longrightarrow> P (raw_json 201 prev, s)"
    "\<And>a b rec e s'. rp_FinishRegister R (register_key (hq_IdempotencyKey req)) a b rec (others s) = (Inl e, s') \<Longrightarrow>
       P (api_storage_error (hq_RequestID req), s')"
    "\<And>a b rec out s'. rp_FinishRegister R (register_key (hq_IdempotencyKey req)) a b rec (others s) = (Inr out, s') \<Longrightarrow>
       P (raw_json 201 out, s')"
  shows "P (registerAgent Sp tx R S0 others req s)"
  unfolding registerAgent_def Let_def using assms register_result_status
  by (simp add: api_jsonError_def split: option.split sum.split prod.split)

lemma issuePassport_result:
  assumes "\<And>resp. hs_Status resp \<noteq> 201 \<Longrightarrow> P (resp, s)" "\<And>resp. hs_Status resp \<noteq> 201 \<Longrightarrow> P (resp, others s)"
    "\<And>prev. rp_GetPassportIdem R (issue_key (hq_IdempotencyKey req)) s = Inr (Some prev) \<Longrightarrow> P (raw_json 201 prev, s)"
    "\<And>resp a b e s'. hs_Status resp \<noteq> 201 \<Longrightarrow>
       rp_FinishPassport R (issue_key (hq_IdempotencyKey req)) a b (others s) = (Inl e, s') \<Longrightarrow> P (resp, s')"
    "\<And>payload f b out s'. payload_of (hq_Body req) = Some payload \<Longrightarrow> issue_request payload = Inr f \<Longrightarrow>
       issue_body Sp S0 (hq_IdempotencyKey req) payload f = Inr b \<Longrightarrow>
       rp_FinishPassport R (issue_key (hq_IdempotencyKey req)) (if_agentID f) b (others s) = (Inr out, s') \<Longrightarrow>
       P (raw_json 201 out, s')"
  shows "P (issuePassport Sp R S0 others req s)"
  unfolding issuePassport_def Let_def using assms delegate_status
  by (simp add: api_jsonError_def split: option.split sum.split prod.split bool.split)

lemma registerAgent_needs_key:
  "registerAgent Sp tx R S0 others req s = (resp, s') \<Longrightarrow> hs_Status resp = 201 \<Longrightarrow> hq_IdempotencyKey req \<noteq> []"
  by (auto simp: registerAgent_def api_jsonError_def)

lemma issuePassport_needs_key:
  "issuePassport Sp R S0 others req s = (resp, s') \<Longrightarrow> hs_Status resp = 201 \<Longrightarrow> hq_IdempotencyKey req \<noteq> []"
  by (auto simp: issuePassport_def api_jsonError_def)

context repository
begin

lemma register_key_kept:
  assumes "bff_run cfg s t" "cf_Repo cfg = R" "rp_GetRegisterIdem R k s = Inr (Some b)"
  shows "rp_GetRegisterIdem R k t = Inr (Some b)"
  using assms(1,3) by (rule bff_run_preserves) (simp_all add: assms(2) register_keeps passport_keeps_register)

lemma passport_key_kept:
  assumes "bff_run cfg s t" "cf_Repo cfg = R" "rp_GetPassportIdem R k s = Inr (Some b)"
  shows "rp_GetPassportIdem R k t = Inr (Some b)"
  using assms(1,3) by (rule bff_run_preserves) (simp_all add: assms(2) register_keeps_passport passport_keeps)

lemma registered_key:
  "case registerAgent Sp tx R S0 others req s of (resp, s') \<Rightarrow> hs_Status resp = 201 \<longrightarrow>
     rp_GetRegisterIdem R (register_key (hq_IdempotencyKey req)) s' = Inr (Some (hs_Body resp)) \<and>
     resp = raw_json 201 (hs_Body resp)"
proof (rule registerAgent_result, goal_cases)
  case (5 a b rec out s')
  then show ?case using register_stores [of "register_key (hq_IdempotencyKey req)" a b rec "others s" out]
    by (simp add: raw_json_def)
qed (simp_all add: raw_json_def api_jsonError_def)

lemma issued_key:
  "case issuePassport Sp R S0 others req s of (resp, s') \<Rightarrow> hs_Status resp = 201 \<longrightarrow>
     rp_GetPassportIdem R (issue_key (hq_IdempotencyKey req)) s' = Inr (Some (hs_Body resp)) \<and>
     resp = raw_json 201 (hs_Body resp)"
proof (rule issuePassport_result, goal_cases)
  case (5 payload f b out s')
  then show ?case
    using passport_stores [of "issue_key (hq_IdempotencyKey req)" "if_agentID f" b "others s" out]
    by (simp add: raw_json_def)
qed (simp_all add: raw_json_def)

text \<open>A second registration under a used key, at any later time.\<close>

lemma register_again:
  assumes "cf_Repo cfg = R" "bff_handle cfg others RegisterAgentEndpoint req s = (resp, s')" "hs_Status resp = 201"
    and "bff_run cfg s' t"
    and "hq_IdempotencyKey req2 = hq_IdempotencyKey req"
    and "payload_of (hq_Body req2) = Some p"
    and "\<not> blank (str_field p ''agent_type'')" "\<not> blank (str_field p ''owner_id'')"
  shows "bff_handle cfg others2 RegisterAgentEndpoint req2 t =
    (if registerBodyConflict (hs_Body resp) (str_field p ''agent_type'') (str_field p ''owner_id'')
     then api_jsonError (hq_RequestID req2) ''IDEMPOTENCY_CONFLICT'' ''idempotency key reused with different body'' False 409
     else resp, t)"
proof -
  have *: "rp_GetRegisterIdem R (register_key (hq_IdempotencyKey req)) s' = Inr (Some (hs_Body resp)) \<and>
      resp = raw_json 201 (hs_Body resp)"
    using registered_key [of req "cf_Sprint cfg" "cf_text_of cfg" "cf_S0 cfg" others s] assms(1-3)
    by (simp add: bff_handle_def)
  have "rp_GetRegisterIdem R (register_key (hq_IdempotencyKey req)) t = Inr (Some (hs_Body resp))"
    by (rule register_key_kept [OF assms(4,1) conjunct1 [OF *]])
  moreover have key: "hq_IdempotencyKey req \<noteq> []"
    using assms(2,3) registerAgent_needs_key by (fastforce simp: bff_handle_def)
  ultimately show ?thesis
    unfolding bff_handle_def registerAgent_def Let_def
    using assms(5-8) conjunct2 [OF *] key by (simp add: assms(1))
qed

text \<open>A second issue request under a used key, whatever it asks for.\<close>

lemma issue_again:
  assumes "cf_Repo cfg = R" "bff_handle cfg others IssuePassportEndpoint req s = (resp, s')" "hs_Status resp = 201"
    and "bff_run cfg s' t" "hq_IdempotencyKey req2 = hq_IdempotencyKey req"
  shows "bff_handle cfg others2 IssuePassportEndpoint req2 t = (resp, t)"
proof -
  have *: "rp_GetPassportIdem R (issue_key (hq_IdempotencyKey req)) s' = Inr (Some (hs_Body resp)) \<and>
      resp = raw_json 201 (hs_Body resp)"
    using issued_key [of req "cf_Sprint cfg" "cf_S0 cfg" others s] assms(1-3)
    by (simp add: bff_handle_def)
  have "rp_GetPassportIdem R (issue_key (hq_IdempotencyKey req)) t = Inr (Some (hs_Body resp))"
    by (rule passport_key_kept [OF assms(4,1) conjunct1 [OF *]])
  moreover have key: "hq_IdempotencyKey req \<noteq> []"
    using assms(2,3) issuePassport_needs_key by (fastforce simp: bff_handle_def)
  ultimately show ?thesis
    unfolding bff_handle_def issuePassport_def Let_def
    using assms(5) conjunct2 [OF *] key by (simp add: assms(1))
qed

end

text \<open>For a body made by the front end itself the conflict test compares the two fields up to surrounding space.\<close>

lemma EqualFold_refl [simp]: "EqualFold k k"
  by (simp add: EqualFold_def)

lemma agent_keys:
  "\<not> EqualFold ''agent_id'' ''agent_type''" "\<not> EqualFold ''owner_id'' ''agent_type''" "\<not> EqualFold ''status'' ''agent_type''"
  "\<not> EqualFold ''agent_id'' ''owner_id''" "\<not> EqualFold ''agent_type'' ''owner_id''" "\<not> EqualFold ''status'' ''owner_id''"
  by code_simp+

lemma local_conflict:
  "registerBodyConflict (Marshal (agent_body a ty ow st)) ty2 ow2 \<longleftrightarrow>
     TrimSpace ty \<noteq> TrimSpace ty2 \<or> TrimSpace ow \<noteq> TrimSpace ow2"
  by (simp add: registerBodyConflict_def agent_body_def struct_field_def agent_keys)

definition ex_bff :: "bff_db api_config" where
  "ex_bff = \<lparr>cf_Repo = postgres_repo no_errors (\<lambda>k d. d), cf_Policy = None, cf_S0 = None,
     cf_Sprint = (\<lambda>v. []), cf_text_of = (\<lambda>v. []), cf_err_text = (\<lambda>e. []), cf_env = (\<lambda>k. [])\<rparr>"

definition ex_register_req :: "string \<Rightarrow> http_request" where
  "ex_register_req owner = \<lparr>hq_RequestID = ''r1'', hq_IdempotencyKey = ''k1'', hq_Path = ''/v1/identity/agents'',
     hq_Body = Doc (AObj [(''agent_type'', AStr ''SYSTEM''), (''owner_id'', AStr owner)])\<rparr>"

lemma ex_bff_sel:
  "cf_Repo ex_bff = postgres_repo no_errors (\<lambda>k d. d)" "hq_RequestID (ex_register_req owner) = ''r1''"
  "hq_IdempotencyKey (ex_register_req owner) = ''k1''"
  "payload_of (hq_Body (ex_register_req owner)) = Some [(''agent_type'', AStr ''SYSTEM''), (''owner_id'', AStr owner)]"
  by (simp_all add: ex_bff_def ex_register_req_def payload_of_def)



section \<open>Passports issued by the front end\<close>

definition ex_mem :: "Memory api_config" where
  "ex_mem = \<lparr>cf_Repo = memory_repo, cf_Policy = None, cf_S0 = None,
     cf_Sprint = (\<lambda>v. []), cf_text_of = (\<lambda>v. []), cf_err_text = (\<lambda>e. []), cf_env = (\<lambda>k. [])\<rparr>"

definition ex_scope :: any where
  "ex_scope = AObj [(''action_class'', AStr ''demo.read''), (''resource_pattern'', AStr ''doc/*'')]"

definition ex_issue_fields :: "int \<Rightarrow> object" where
  "ex_issue_fields ttl = [(''agent_id'', AStr ''agt-k1''), (''passport_type'', AStr ''STANDARD''),
     (''issued_by'', AStr ''ops''), (''reason'', AStr ''demo''), (''requested_scopes'', AArr [ex_scope]),
     (''ttl_seconds'', AFloat (of_int ttl))]"

definition ex_issue_req :: "int \<Rightarrow> http_request" where
  "ex_issue_req ttl = \<lparr>hq_RequestID = ''r2'', hq_IdempotencyKey = ''p1'', hq_Path = ''/v1/passports'',
     hq_Body = Doc (AObj (ex_issue_fields ttl))\<rparr>"

definition ex_mem1 :: Memory where
  "ex_mem1 = snd (bff_handle ex_mem (\<lambda>m. m) RegisterAgentEndpoint (ex_register_req ''ann'') NewMemory)"

definition ex_mem2 :: Memory where
  "ex_mem2 = snd (bff_handle ex_mem (\<lambda>m. m) IssuePassportEndpoint (ex_issue_req (- 5)) ex_mem1)"



text \<open>What a locally made body says, and where it is stored.\<close>

lemma passport_keys:
  "\<not> EqualFold ''agent_id'' ''passport_id''" "\<not> EqualFold ''passport_type'' ''passport_id''"
  "\<not> EqualFold ''scope_set'' ''passport_id''" "\<not> EqualFold ''status'' ''passport_id''"
  "\<not> EqualFold ''issued_by'' ''passport_id''"
  by code_simp+

lemma passportID_local [simp]:
  "passportIDFromBody (Marshal (passport_body idem a ty rows ib)) = ''ppt-'' @ idem"
  by (simp add: passportIDFromBody_def passport_body_def struct_field_def passport_keys)

lemma decoded_scope_set: "map decoded (scope_set idem i rows) = scope_set idem i rows"
  by (induction rows arbitrary: i) simp_all

lemma public_local:
  "publicPassportFromBody (Marshal (passport_body idem a ty rows ib)) =
     Some [(''passport_id'', AStr (''ppt-'' @ idem)), (''agent_id'', AStr a), (''passport_type'', AStr ty),
       (''scope_set'', AArr (scope_set idem 0 rows)), (''status'', AStr ''ACTIVE''), (''issued_by'', AStr ib)]"
  by (simp add: publicPassportFromBody_def passport_body_def struct_field_def decoded_scope_set)

lemma scope_set_ex:
  "list_ex (\<lambda>item. case as_obj item of None \<Rightarrow> False | Some row \<Rightarrow> str_field row ''action_class'' = ac \<and>
      resourcePatternMatches (str_field row ''resource_pattern'') r) (scope_set idem i rows) \<longleftrightarrow>
   list_ex (\<lambda>row. str_field row ''action_class'' = ac \<and>
      resourcePatternMatches (str_field row ''resource_pattern'') r) rows"
  by (induction rows arbitrary: i) (simp_all add: str_field_def field_def alist_get_def)

lemma scope_matches_local:
  "scope_matches a' ac r (publicPassportFromBody (Marshal (passport_body idem a ty rows ib))) \<longleftrightarrow>
     a' = a \<and> list_ex (\<lambda>row. str_field row ''action_class'' = ac \<and>
       resourcePatternMatches (str_field row ''resource_pattern'') r) rows"
  unfolding public_local scope_matches_def
  by (auto simp: field_def alist_get_def scope_set_ex)

text \<open>
  The body stored under a key and under the passport it made stays there: the key is taken, and
  other keys make other passports.
\<close>

definition stored_passport :: "string \<Rightarrow> body \<Rightarrow> Memory \<Rightarrow> bool" where
  "stored_passport idem b m \<longleftrightarrow>
     mm_passportIdem m (issue_key idem) = Some b \<and> mm_passports m (''ppt-'' @ idem) = Some b"

lemma stored_passport_register:
  "stored_passport idem b m \<Longrightarrow> stored_passport idem b (snd (mem_FinishRegister k a b2 rec m))"
  by (simp add: stored_passport_def mem_FinishRegister_def split: option.split)

lemma stored_passport_issue:
  assumes "stored_passport idem b m" "passportIDFromBody b2 = ''ppt-'' @ idem2"
  shows "stored_passport idem b (snd (mem_FinishPassport (issue_key idem2) a b2 m))"
  using assms by (auto simp: stored_passport_def mem_FinishPassport_def Let_def split: option.split)

lemma stored_passport_kept:
  assumes "bff_run cfg s t" "cf_Repo cfg = memory_repo" "cf_S0 cfg = None" "stored_passport idem b s"
  shows "stored_passport idem b t"
  using assms(1,4)
proof (rule bff_run_preserves)
  fix k a b2 rec u assume "stored_passport idem b u"
  then show "stored_passport idem b (snd (rp_FinishRegister (cf_Repo cfg) k a b2 rec u))"
    by (simp add: assms(2) memory_repo_def stored_passport_register)
next
  fix idem2 payload f b2 u
  assume "stored_passport idem b u" "issue_body (cf_Sprint cfg) (cf_S0 cfg) idem2 payload f = Inr b2"
  then show "stored_passport idem b (snd (rp_FinishPassport (cf_Repo cfg) (issue_key idem2) (if_agentID f) b2 u))"
    by (auto simp: assms(2,3) memory_repo_def issue_body_def intro: stored_passport_issue)
qed

lemma issued_locally:
  assumes "mm_passportIdem s (issue_key (hq_IdempotencyKey req)) = None"
    "mm_passportIdem (others s) (issue_key (hq_IdempotencyKey req)) = None"
    and "payload_of (hq_Body req) = Some payload" "issue_request payload = Inr f"
  shows "case issuePassport Sp memory_repo None others req s of (resp, s') \<Rightarrow> hs_Status resp = 201 \<longrightarrow>
    stored_passport (hq_IdempotencyKey req) (Marshal (passport_body (hq_IdempotencyKey req) (if_agentID f)
      (if_passportType f) (if_rows f) (if_issuedBy f))) s'"
proof (rule issuePassport_result, goal_cases)
  case (5 payload' f' b out s')
  with assms show ?case
    by (auto simp: memory_repo_def mem_FinishPassport_def issue_body_def stored_passport_def Let_def
        split: if_splits)
qed (use assms in \<open>simp_all add: memory_repo_def mem_GetPassportIdem_def\<close>)

text \<open>
  What a passport issued by the front end itself grants, for ever: after any further requests,
  evaluating a scope with it allows exactly the agent it was issued to the actions its scope rows match.
  Neither the time nor the requested time to live, which may even be negative, is looked at.
\<close>

theorem bff_passport_grants:
  assumes "cf_Repo cfg = memory_repo" "cf_S0 cfg = None"
    and "bff_handle cfg others IssuePassportEndpoint req s = (resp, s')" "hs_Status resp = 201"
    and "mm_passportIdem s (issue_key (hq_IdempotencyKey req)) = None"
    "mm_passportIdem (others s) (issue_key (hq_IdempotencyKey req)) = None"
    and "payload_of (hq_Body req) = Some payload" "issue_request payload = Inr f"
    and "bff_run cfg s' t"
  shows "scopeAllows memory_repo agent (''ppt-'' @ hq_IdempotencyKey req) action resource t =
    Inr (if agent = if_agentID f \<and> list_ex (\<lambda>row. str_field row ''action_class'' = action \<and>
              resourcePatternMatches (str_field row ''resource_pattern'') resource) (if_rows f)
         then (True, ''scope matched requested passport'') else (False, ''scope missing or passport inactive''))"
proof -
  let ?b = "Marshal (passport_body (hq_IdempotencyKey req) (if_agentID f) (if_passportType f) (if_rows f) (if_issuedBy f))"
  have "stored_passport (hq_IdempotencyKey req) ?b s'"
    using issued_locally [of s req others payload f, OF assms(5-8), of "cf_Sprint cfg"] assms(1-4) by (simp add: bff_handle_def)
  then have "stored_passport (hq_IdempotencyKey req) ?b t"
    by (rule stored_passport_kept [OF assms(9,1,2)])
  moreover have "\<not> blank (''ppt-'' @ hq_IdempotencyKey req)"
    by (simp add: blank_def TrimSpace_nonempty graphic_def)
  ultimately show ?thesis
    by (simp add: scopeAllows_def memory_repo_def mem_GetPassportBody_def stored_passport_def scope_matches_local)
qed

theorem bff_passport_grants_witness:
  "scopeAllows memory_repo ''agt-k1'' ''ppt-p1'' ''demo.read'' ''doc/7'' ex_mem2 =
     Inr (True, ''scope matched requested passport'')
   \<and> scopeAllows memory_repo ''agt-k1'' ''ppt-p1'' ''demo.write'' ''doc/7'' ex_mem2 =
     Inr (False, ''scope missing or passport inactive'')"
proof -
  have req: "payload_of (hq_Body (ex_issue_req (- 5))) = Some (ex_issue_fields (- 5))"
    by (simp add: ex_issue_req_def payload_of_def)
  let ?f = "\<lparr>if_agentID = ''agt-k1'', if_passportType = ''STANDARD'', if_issuedBy = ''ops'', if_reason = ''demo'',
    if_ttl = - 5, if_rows = [ [(''action_class'', AStr ''demo.read''), (''resource_pattern'', AStr ''doc/*'')] ]\<rparr>"
  have fields: "issue_request (ex_issue_fields (- 5)) = Inr ?f" by code_simp
  have code: "hs_Status (fst (bff_handle ex_mem (\<lambda>m. m) IssuePassportEndpoint (ex_issue_req (- 5)) ex_mem1)) = 201"
    "mm_passportIdem ex_mem1 (issue_key (hq_IdempotencyKey (ex_issue_req (- 5)))) = None"
    by code_simp+
  have step: "bff_handle ex_mem (\<lambda>m. m) IssuePassportEndpoint (ex_issue_req (- 5)) ex_mem1 =
      (fst (bff_handle ex_mem (\<lambda>m. m) IssuePassportEndpoint (ex_issue_req (- 5)) ex_mem1), ex_mem2)"
    by (simp add: ex_mem2_def)
  have cfg: "cf_Repo ex_mem = memory_repo" "cf_S0 ex_mem = None" by (simp_all add: ex_mem_def)
  note grants = bff_passport_grants [OF cfg step code(1,2,2) req fields bff_run.quiet]
  have "resourcePatternMatches ''doc/*'' ''doc/7''" by code_simp
  then show ?thesis
    using grants [of "''agt-k1''" "''demo.read''" "''doc/7''"] grants [of "''agt-k1''" "''demo.write''" "''doc/7''"]
    by (simp add: ex_issue_req_def str_field_def field_def alist_get_def)
qed

section \<open>Concurrency and delegation\<close>

text \<open>
  The conflict test is made before the write only. When another registration under the same key
  finishes in between, the request is answered 201 with that registration's body, also when it asked for
  another type or owner.
\<close>

theorem concurrent_key_reuse_unnoticed:
  assumes "cf_Repo cfg = memory_repo" "hq_IdempotencyKey req \<noteq> []"
    and "payload_of (hq_Body req) = Some p"
    and "\<not> blank (str_field p ''agent_type'')" "\<not> blank (str_field p ''owner_id'')" "cf_S0 cfg = None"
    and "mm_registerIdem s (register_key (hq_IdempotencyKey req)) = None"
    and "mm_registerIdem (others s) (register_key (hq_IdempotencyKey req)) = Some winner"
  shows "bff_handle cfg others RegisterAgentEndpoint req s = (raw_json 201 winner, others s)"
  using assms
  by (simp add: bff_handle_def registerAgent_def Let_def memory_repo_def mem_GetRegisterIdem_def
      mem_FinishRegister_def register_result_def split: option.split)

theorem concurrent_key_reuse_unnoticed_witness:
  "let others = (\<lambda>m. snd (bff_handle ex_mem (\<lambda>m. m) RegisterAgentEndpoint (ex_register_req ''ann'') m))
   in fst (bff_handle ex_mem others RegisterAgentEndpoint (ex_register_req ''bob'') NewMemory) =
        raw_json 201 (Marshal (agent_body ''agt-k1'' ''SYSTEM'' ''ann'' ''ACTIVE''))
    \<and> hs_Status (fst (bff_handle ex_mem (\<lambda>m. m) RegisterAgentEndpoint (ex_register_req ''bob'') (others NewMemory))) = 409"
proof -
  let ?others = "\<lambda>m. snd (bff_handle ex_mem (\<lambda>m. m) RegisterAgentEndpoint (ex_register_req ''ann'') m)"
  let ?p = "[(''agent_type'', AStr ''SYSTEM''), (''owner_id'', AStr ''bob'')]"
  have facts: "\<not> blank (str_field ?p ''agent_type'')" "\<not> blank (str_field ?p ''owner_id'')"
    "mm_registerIdem NewMemory (register_key (hq_IdempotencyKey (ex_register_req ''bob''))) = None"
    "mm_registerIdem (?others NewMemory) (register_key (hq_IdempotencyKey (ex_register_req ''bob''))) =
       Some (Marshal (agent_body ''agt-k1'' ''SYSTEM'' ''ann'' ''ACTIVE''))"
    by code_simp+
  have "hs_Status (fst (bff_handle ex_mem (\<lambda>m. m) RegisterAgentEndpoint (ex_register_req ''bob'') (?others NewMemory))) = 409"
    by code_simp
  then show ?thesis
    using concurrent_key_reuse_unnoticed [of ex_mem "ex_register_req ''bob''" ?p NewMemory ?others, OF _ _ _ facts(1,2) _ facts(3,4)]
    by (simp add: ex_bff_sel ex_mem_def)
qed

text \<open>
  With delegation a passport can be issued and lost. When the agent is known to the registry but not
  to the front end's own repository, the passport engine issues the passport and the client is answered
  404; nothing is stored under the key, so that a repeated request issues again.
\<close>

theorem delegated_issue_lost:
  assumes "cf_Repo cfg = memory_repo" "cf_S0 cfg = Some backend" "bk_RegisterAgent backend \<noteq> None"
    and "hq_IdempotencyKey req \<noteq> []" "payload_of (hq_Body req) = Some p" "issue_request p = Inr f"
    and "AgentExists (bk_GetAgent backend) (if_agentID f) = Inr True"
    and "issue_body (cf_Sprint cfg) (cf_S0 cfg) (hq_IdempotencyKey req) p f = Inr issued"
    and "mm_agents m (if_agentID f) = None" "mm_passportIdem m (issue_key (hq_IdempotencyKey req)) = None"
  shows "bff_handle cfg (\<lambda>m. m) IssuePassportEndpoint req m =
    (api_jsonError (hq_RequestID req) ''NOT_FOUND'' ''unknown agent_id'' False 404, m)"
  using assms
  by (simp add: bff_handle_def issuePassport_def Let_def memory_repo_def mem_GetPassportIdem_def
      mem_FinishPassport_def existsAgentForPassport_def)

definition ex_backend :: Backend where
  "ex_backend =
     (let agent = \<lparr>pa_AgentId = ''agt-k1'', pa_AgentType = ''SYSTEM'', pa_OwnerId = ''ann'', pa_ExternalId = [],
        pa_Status = ''ACTIVE'', pa_PassportId = [], pa_RegistrationTs = 0, pa_UpdatedTs = 0, pa_Metadata = None,
        pa_AdmissionConstraintsJson = None, pa_AdmittedPolicyId = [], pa_AdmittedPolicyVer = [], pa_AdmissionTs = 0\<rparr>
      in \<lparr>bk_RegisterAgent = Some (\<lambda>r. Inr (Some agent)), bk_GetAgent = (\<lambda>i. Inr (Some agent)),
          bk_GetAdmissionEnvelope = (\<lambda>i. Inr None),
          bk_IssuePassport = Some (\<lambda>r. Inr (Some ((passportToProto zero_passport)\<lparr>pb_PassportId := ''pp'', pb_AgentId := ir_AgentId r\<rparr>)))\<rparr>)"

theorem delegated_issue_lost_witness:
  "bff_handle (ex_mem\<lparr>cf_S0 := Some ex_backend\<rparr>) (\<lambda>m. m) IssuePassportEndpoint (ex_issue_req 300) NewMemory =
     (api_jsonError ''r2'' ''NOT_FOUND'' ''unknown agent_id'' False 404, NewMemory)"
proof -
  let ?cfg = "ex_mem\<lparr>cf_S0 := Some ex_backend\<rparr>" and ?req = "ex_issue_req 300"
  let ?f = "\<lparr>if_agentID = ''agt-k1'', if_passportType = ''STANDARD'', if_issuedBy = ''ops'', if_reason = ''demo'',
    if_ttl = 300, if_rows = [ [(''action_class'', AStr ''demo.read''), (''resource_pattern'', AStr ''doc/*'')] ]\<rparr>"
  have fields: "issue_request (ex_issue_fields 300) = Inr ?f" by code_simp
  have "is_ok (issue_body (cf_Sprint ?cfg) (cf_S0 ?cfg) (hq_IdempotencyKey ?req) (ex_issue_fields 300) ?f)"
    by code_simp
  then obtain issued where
    "issue_body (cf_Sprint ?cfg) (cf_S0 ?cfg) (hq_IdempotencyKey ?req) (ex_issue_fields 300) ?f = Inr issued"
    unfolding is_ok_iff by blast
  note lost = delegated_issue_lost [of ?cfg ex_backend ?req "ex_issue_fields 300" ?f issued NewMemory, OF _ _ _ _ _ fields _ this]
  have req: "hq_IdempotencyKey ?req = ''p1''" "hq_RequestID ?req = ''r2''"
    "payload_of (hq_Body ?req) = Some (ex_issue_fields 300)"
    by (simp_all add: ex_issue_req_def payload_of_def)
  have "bk_RegisterAgent ex_backend \<noteq> None" "AgentExists (bk_GetAgent ex_backend) ''agt-k1'' = Inr True"
    by (simp_all add: ex_backend_def AgentExists_def Let_def)
  then show ?thesis
    using lost by (simp add: req ex_mem_def NewMemory_def)
qed

end
