(* ===== verification/Gateway_Routes.thy ===== *)
theory Gateway_Routes
  imports Registry_Config GoTime
begin

text \<open>
  The parts of the API gateway that only look at the request line, the headers or the environment
  (\<^verbatim>\<open>sx/are-api-gateway/internal/gateway\<close>): the route table of \<^verbatim>\<open>phase1_contract.go\<close>, the metric labels of
  \<^verbatim>\<open>red_metrics.go\<close>, \<^verbatim>\<open>cors.go\<close>, \<^verbatim>\<open>upstream_mode.go\<close> and the tuning of the HTTP client in
  \<^verbatim>\<open>s0s1_http_proxy.go\<close>.
\<close>

section \<open>Routes\<close>

record routeSpec =
  rs_Service :: string
  rs_Method :: string
  rs_SuccessStatus :: nat

definition matchPhase1Route :: "string \<Rightarrow> string \<Rightarrow> routeSpec option" where
  "matchPhase1Route httpMethod path =
     (if httpMethod = ''POST'' \<and> path = ''/v1/identity/agents''
      then Some \<lparr>rs_Service = ''ARE-A-S0-001'', rs_Method = ''RegisterAgent'', rs_SuccessStatus = 201\<rparr>
      else if httpMethod = ''GET'' \<and> HasPrefix path ''/v1/identity/agents/''
      then Some \<lparr>rs_Service = ''ARE-A-S0-001'', rs_Method = ''GetAgent'', rs_SuccessStatus = 200\<rparr>
      else if httpMethod = ''POST'' \<and> path = ''/v1/passports''
      then Some \<lparr>rs_Service = ''ARE-A-S0-005'', rs_Method = ''IssuePassport'', rs_SuccessStatus = 201\<rparr>
      else if httpMethod = ''GET'' \<and> HasPrefix path ''/v1/passports/by-agent/''
      then Some \<lparr>rs_Service = ''ARE-A-S0-005'', rs_Method = ''ListPassportsByAgent'', rs_SuccessStatus = 200\<rparr>
      else if httpMethod = ''POST'' \<and> path = ''/v1/passports:verify''
      then Some \<lparr>rs_Service = ''ARE-A-S0-005'', rs_Method = ''VerifyPassport'', rs_SuccessStatus = 200\<rparr>
      else if httpMethod = ''POST'' \<and> path = ''/v1/enforcement/scope:evaluate''
      then Some \<lparr>rs_Service = ''ARE-A-S1-002'', rs_Method = ''EvaluateScope'', rs_SuccessStatus = 200\<rparr>
      else if httpMethod = ''POST'' \<and> path = ''/v1/policy/evaluations''
      then Some \<lparr>rs_Service = ''ARE-A-S1-001'', rs_Method = ''EvaluatePolicy'', rs_SuccessStatus = 200\<rparr>
      else if httpMethod = ''GET'' \<and> path = ''/v1/meta/deployment''
      then Some \<lparr>rs_Service = ''ARE-A-S0-META'', rs_Method = ''GetDeploymentMeta'', rs_SuccessStatus = 200\<rparr>
      else None)"

definition isFoundationAPIRoute :: "string \<Rightarrow> string \<Rightarrow> bool" where
  "isFoundationAPIRoute httpMethod path \<longleftrightarrow> matchPhase1Route httpMethod path \<noteq> None"

definition requiresIdempotencyKey :: "string \<Rightarrow> string \<Rightarrow> bool" where
  "requiresIdempotencyKey httpMethod path \<longleftrightarrow> httpMethod = ''POST'' \<and>
     path \<in> set [''/v1/identity/agents'', ''/v1/passports'', ''/v1/policy/evaluations'',
       ''/v1/enforcement/scope:evaluate'', ''/v1/passports:verify'']"

definition IsS0S1RESTProxyRoute :: "string \<Rightarrow> string \<Rightarrow> bool" where
  "IsS0S1RESTProxyRoute httpMethod path = isFoundationAPIRoute httpMethod path"

text \<open>Every \<^verbatim>\<open>POST\<close> route of the table needs an idempotency key, and no other request does.\<close>

lemma requiresIdempotencyKey_iff:
  "requiresIdempotencyKey m p \<longleftrightarrow> m = ''POST'' \<and> isFoundationAPIRoute m p"
  by (auto simp: requiresIdempotencyKey_def isFoundationAPIRoute_def matchPhase1Route_def)

section \<open>Metric labels\<close>

definition statusFamily :: "int \<Rightarrow> string" where
  "statusFamily code =
     (if 200 \<le> code \<and> code < 300 then ''2xx''
      else if 300 \<le> code \<and> code < 400 then ''3xx''
      else if 400 \<le> code \<and> code < 500 then ''4xx''
      else if 500 \<le> code then ''5xx''
      else Itoa code)"

definition normalizedRoute :: "string \<Rightarrow> string" where
  "normalizedRoute path =
     (let p = TrimSuffix (TrimSpace path) ''/''
      in if p = [] then ''/''
         else if p \<in> set [''/metrics'', ''/v1/platform/health'', ''/v1/identity/agents'', ''/v1/passports'',
           ''/v1/passports:verify'', ''/v1/enforcement/scope:evaluate'', ''/v1/policy/evaluations''] then p
         else if HasPrefix p ''/v1/identity/agents/'' then ''/v1/identity/agents/{agent_id}''
         else if HasPrefix p ''/v1/passports/by-agent/'' then ''/v1/passports/by-agent/{agent_id}''
         else if HasPrefix p ''/v1/''
         then (let sub = takeWhile (\<lambda>c. c \<noteq> CHR ''/'') (TrimPrefix p ''/v1/'')
               in if sub \<noteq> [] then ''/v1/'' @ sub else ''/v1/other'')
         else ''other'')"

text \<open>The counters: one per method, route and status family; \<open>observeGatewayHTTP\<close> adds one to its own.\<close>

type_synonym counters = "string \<times> string \<times> string \<Rightarrow> nat"

definition observeGatewayHTTP :: "string \<Rightarrow> string \<Rightarrow> int \<Rightarrow> counters \<Rightarrow> counters" where
  "observeGatewayHTTP verb path status cs =
     (let route = normalizedRoute path;
          m = (let t = ToUpper (TrimSpace verb) in if t = [] then ''UNKNOWN'' else t);
          key = (m, route, statusFamily status)
      in cs(key := Suc (cs key)))"

section \<open>Comma-separated lists\<close>

definition ParseCORSAllowedOrigins :: "string \<Rightarrow> string list" where
  "ParseCORSAllowedOrigins raw =
     (if TrimSpace raw = [] then []
      else filter (\<lambda>p. p \<noteq> []) (map TrimSpace (Split raw CHR '','')))"

definition ParseKafkaBootstrap :: "string \<Rightarrow> string list" where
  "ParseKafkaBootstrap raw =
     (if TrimSpace raw = [] then []
      else filter (\<lambda>p. p \<noteq> []) (map TrimSpace (Split raw CHR '','')))"

section \<open>CORS\<close>

text \<open>
  What the wrapper does with a request: it answers a preflight by itself, with these headers, or
  lets the next handler answer after adding these headers.
\<close>

datatype cors_action =
    Preflight "(string \<times> string) list"
  | PassOn "(string \<times> string) list"

definition WrapCORSIfConfigured :: "string list \<Rightarrow> string \<Rightarrow> string \<Rightarrow> cors_action" where
  "WrapCORSIfConfigured allowedOrigins verb originHeader =
     (let allowed = filter (\<lambda>o1. o1 \<noteq> []) (map TrimSpace allowedOrigins)
      in if length allowedOrigins = 0 \<or> allowed = [] then PassOn []
         else
           (let origin = TrimSpace originHeader; ok = (origin \<in> set allowed)
            in if verb = ''OPTIONS''
               then Preflight (if ok then [(''Access-Control-Allow-Origin'', origin),
                 (''Access-Control-Allow-Methods'', ''GET, POST, PUT, PATCH, DELETE, OPTIONS''),
                 (''Access-Control-Allow-Headers'',
                    ''Authorization, Content-Type, X-Request-ID, X-ARE-Agent-ID, Idempotency-Key''),
                 (''Access-Control-Max-Age'', ''86400'')] else [])
               else PassOn (if ok then [(''Access-Control-Allow-Origin'', origin)] else [])))"

section \<open>Modes and tuning\<close>

datatype UpstreamMode = UpstreamModeStatic | UpstreamModeMixed | UpstreamModeLive

definition LoadUpstreamMode :: "environ \<Rightarrow> string + UpstreamMode" where
  "LoadUpstreamMode env =
     (let v = TrimSpace (ToLower (env ''ARE_GW_UPSTREAM_MODE''))
      in if v = [] then Inr UpstreamModeStatic
         else if v = ''static'' then Inr UpstreamModeStatic
         else if v = ''mixed'' then Inr UpstreamModeMixed
         else if v = ''live'' then Inr UpstreamModeLive
         else Inl v)"

definition ValidateUpstreamModeRequirements :: "environ \<Rightarrow> UpstreamMode \<Rightarrow> bool" where
  "ValidateUpstreamModeRequirements env mode \<longleftrightarrow>
     mode \<noteq> UpstreamModeLive \<or> TrimSpace (env ''ARE_GW_S0S1_HTTP_PROXY_BASE'') \<noteq> []"

definition envLiveNoStaticPhase1 :: "environ \<Rightarrow> bool" where
  "envLiveNoStaticPhase1 env \<longleftrightarrow>
     TrimSpace (ToLower (env ''ARE_GW_LIVE_NO_STATIC_PHASE1'')) \<in> set [''1'', ''true'', ''yes'', ''on'']"

definition HTTPUpstreamTimeoutOrDefault :: "environ \<Rightarrow> duration" where
  "HTTPUpstreamTimeoutOrDefault env =
     (let v = TrimSpace (env ''ARE_GW_S0S1_HTTP_TIMEOUT_SECONDS'')
      in if v = [] then scale_duration 60 Second
         else (case Atoi v of
                 None \<Rightarrow> scale_duration 60 Second
               | Some sec \<Rightarrow> if sec \<le> 0 then scale_duration 60 Second else scale_duration sec Second))"

definition intFromEnv :: "environ \<Rightarrow> string \<Rightarrow> int \<Rightarrow> int" where
  "intFromEnv env name fallback =
     (let v = TrimSpace (env name)
      in if v = [] then fallback
         else (case Atoi v of None \<Rightarrow> fallback | Some n \<Rightarrow> if n < 0 then fallback else n))"

definition durationFromMillisEnv :: "environ \<Rightarrow> string \<Rightarrow> int \<Rightarrow> duration" where
  "durationFromMillisEnv env name fallbackMillis =
     (let v = TrimSpace (env name)
      in if v = [] then scale_duration fallbackMillis Millisecond
         else (case Atoi v of
                 None \<Rightarrow> scale_duration fallbackMillis Millisecond
               | Some n \<Rightarrow> if n \<le> 0 then scale_duration fallbackMillis Millisecond else scale_duration n Millisecond))"

definition durationFromSecondsEnv :: "environ \<Rightarrow> string \<Rightarrow> int \<Rightarrow> duration" where
  "durationFromSecondsEnv env name fallbackSeconds =
     (let v = TrimSpace (env name)
      in if v = [] then scale_duration fallbackSeconds Second
         else (case Atoi v of
                 None \<Rightarrow> scale_duration fallbackSeconds Second
               | Some n \<Rightarrow> if n \<le> 0 then scale_duration fallbackSeconds Second else scale_duration n Second))"

text \<open>The settings of the transport that come from the environment.\<close>

record transport =
  tp_connectTimeout :: duration
  tp_keepAlive :: duration
  tp_idleTimeout :: duration
  tp_tlsHandshakeTimeout :: duration
  tp_expectContinueTimeout :: duration
  tp_maxIdleConns :: int
  tp_maxIdleConnsPerHost :: int
  tp_maxConnsPerHost :: int

definition newRESTProxyTransport :: "environ \<Rightarrow> transport" where
  "newRESTProxyTransport env = \<lparr>
     tp_connectTimeout = durationFromMillisEnv env ''ARE_GW_HTTP_CONNECT_TIMEOUT_MS'' 250,
     tp_keepAlive = durationFromSecondsEnv env ''ARE_GW_HTTP_KEEPALIVE_SECONDS'' 30,
     tp_idleTimeout = durationFromSecondsEnv env ''ARE_GW_HTTP_IDLE_CONN_TIMEOUT_SECONDS'' 90,
     tp_tlsHandshakeTimeout = durationFromSecondsEnv env ''ARE_GW_HTTP_TLS_HANDSHAKE_TIMEOUT_SECONDS'' 10,
     tp_expectContinueTimeout = durationFromSecondsEnv env ''ARE_GW_HTTP_EXPECT_CONTINUE_TIMEOUT_SECONDS'' 1,
     tp_maxIdleConns = intFromEnv env ''ARE_GW_HTTP_MAX_IDLE_CONNS'' 512,
     tp_maxIdleConnsPerHost = intFromEnv env ''ARE_GW_HTTP_MAX_IDLE_CONNS_PER_HOST'' 128,
     tp_maxConnsPerHost = intFromEnv env ''ARE_GW_HTTP_MAX_CONNS_PER_HOST'' 0\<rparr>"

end
