(* ===== verification/Gateway_Static.thy ===== *)
theory Gateway_Static
  imports Gateway_Routes Bff_Policy
begin

text \<open>
  The local simulator of the platform inside the gateway
  (\<^verbatim>\<open>sx/are-api-gateway/internal/gateway/upstream.go\<close> and \<^verbatim>\<open>opa_evaluate.go\<close>).

  Each handler is a function of the request and the simulator's maps. The mutex is released between the
  look at the idempotency key and the final write; \<open>others\<close> is what concurrent requests do to the maps in such
  a window. \<open>now\<close> is the clock. The evaluator of policies, when one is configured, is the agent of
  \<open>Bff_Policy\<close>.
\<close>

section \<open>Requests, responses and state\<close>

text \<open>\<open>uq_HasBody\<close> says that the body is not empty: an empty one is no JSON value, but not the only such.\<close>

record UpstreamRequest =
  uq_Method :: string
  uq_Path :: string
  uq_RawQuery :: string
  uq_Body :: body
  uq_HasBody :: bool
  uq_AgentID :: string
  uq_RequestID :: string
  uq_Identity :: string
  uq_IdempotencyKey :: string
  uq_Authorization :: string
  uq_ContentType :: string
  uq_Traceparent :: string

record UpstreamResponse =
  us_StatusCode :: nat
  us_Body :: body

record agentRecord =
  ar_AgentType :: string
  ar_OwnerID :: string

record passportRecord =
  pr_PassportID :: string
  pr_AgentID :: string
  pr_PassportType :: string
  pr_ScopeSet :: "object list"
  pr_Status :: string
  pr_IssuedBy :: string
  pr_ExpiresAt :: instant

record static_state =
  ss_idempotentResp :: "string \<rightharpoonup> UpstreamResponse"
  ss_idempotentBodyHash :: "string \<rightharpoonup> string"
  ss_registeredAgents :: "string \<rightharpoonup> agentRecord"
  ss_passports :: "string \<rightharpoonup> passportRecord"
  ss_passportsByAgent :: "string \<Rightarrow> string list"

text \<open>The zero value after \<^verbatim>\<open>ensure\<close>: all maps empty.\<close>

definition static_init :: static_state where
  "static_init = \<lparr>ss_idempotentResp = Map.empty, ss_idempotentBodyHash = Map.empty,
     ss_registeredAgents = Map.empty, ss_passports = Map.empty, ss_passportsByAgent = (\<lambda>a. [])\<rparr>"

definition gw_jsonError :: "string \<Rightarrow> string \<Rightarrow> string \<Rightarrow> bool \<Rightarrow> nat \<Rightarrow> UpstreamResponse" where
  "gw_jsonError requestID errcode message retryable status = \<lparr>us_StatusCode = status,
     us_Body = Marshal (AObj [(''error'', AObj [(''code'', AStr errcode), (''message'', AStr message),
       (''request_id'', AStr requestID), (''retryable'', ABool retryable)])])\<rparr>"

definition gw_ok :: "nat \<Rightarrow> any \<Rightarrow> UpstreamResponse" where
  "gw_ok status v = \<lparr>us_StatusCode = status, us_Body = Marshal v\<rparr>"

definition gw_payload :: "body \<Rightarrow> object option" where
  "gw_payload b = Option.bind (Unmarshal b) into_map"

definition gw_asInt64 :: "any \<Rightarrow> int option" where
  "gw_asInt64 v = (case v of AFloat x \<Rightarrow> Some (float_to_int64 x) | AInt i \<Rightarrow> Some i | _ \<Rightarrow> None)"

section \<open>Agents\<close>

text \<open>The two fields with a null byte between them.\<close>

definition registerAgentBodyFingerprint :: "body \<Rightarrow> string option" where
  "registerAgentBodyFingerprint b =
     (case gw_payload b of
        None \<Rightarrow> None
      | Some payload \<Rightarrow>
          Some (TrimSpace (str_field payload ''agent_type'') @ [char_of (0 :: nat)] @ TrimSpace (str_field payload ''owner_id'')))"

definition gw_register_key :: "string \<Rightarrow> string" where
  "gw_register_key idem = ''RegisterAgent:'' @ idem"

definition gw_issue_key :: "string \<Rightarrow> string" where
  "gw_issue_key idem = ''IssuePassport:'' @ idem"

definition gw_agent_body :: "string \<Rightarrow> string \<Rightarrow> string \<Rightarrow> any" where
  "gw_agent_body agentID agentType ownerID =
     AObj [(''agent'', AObj [(''agent_id'', AStr agentID), (''agent_type'', AStr agentType),
       (''owner_id'', AStr ownerID), (''status'', AStr ''ACTIVE'')])]"

text \<open>The write at the end of a registration, on the maps as it finds them.\<close>

definition write_agent :: "string \<Rightarrow> string option \<Rightarrow> string \<Rightarrow> string \<Rightarrow> static_state \<Rightarrow> static_state" where
  "write_agent idem fp agentType ownerID u =
     u\<lparr>ss_idempotentResp := (ss_idempotentResp u)(gw_register_key idem \<mapsto>
         gw_ok 201 (gw_agent_body (''agt-'' @ idem) agentType ownerID)),
       ss_idempotentBodyHash := (case fp of None \<Rightarrow> ss_idempotentBodyHash u
                                 | Some f \<Rightarrow> (ss_idempotentBodyHash u)(gw_register_key idem \<mapsto> f)),
       ss_registeredAgents := (ss_registeredAgents u)(''agt-'' @ idem \<mapsto>
         \<lparr>ar_AgentType = agentType, ar_OwnerID = ownerID\<rparr>)\<rparr>"

definition handleRegisterAgent ::
  "(static_state \<Rightarrow> static_state) \<Rightarrow> UpstreamRequest \<Rightarrow> static_state \<Rightarrow> UpstreamResponse \<times> static_state" where
  "handleRegisterAgent others req s =
     (let rid = uq_RequestID req; idem = uq_IdempotencyKey req; key = gw_register_key idem;
          fp = registerAgentBodyFingerprint (uq_Body req)
      in if idem = [] then (gw_jsonError rid ''MISSING_IDEMPOTENCY_KEY'' ''idempotency key required'' False 400, s)
         else
         (case ss_idempotentResp s key of
            Some existing \<Rightarrow>
              (case fp of
                 None \<Rightarrow> (gw_jsonError rid ''INVALID_ARGUMENT'' ''invalid json body'' False 400, s)
               | Some f \<Rightarrow>
                   (let prevFP = (case ss_idempotentBodyHash s key of None \<Rightarrow> [] | Some p \<Rightarrow> p)
                    in if prevFP \<noteq> [] \<and> prevFP \<noteq> f
                       then (gw_jsonError rid ''IDEMPOTENCY_CONFLICT'' ''idempotency key replay with conflicting body'' False 409, s)
                       else (existing, s)))
          | None \<Rightarrow>
         (case gw_payload (uq_Body req) of
            None \<Rightarrow> (gw_jsonError rid ''INVALID_ARGUMENT'' ''invalid json body'' False 400, s)
          | Some payload \<Rightarrow>
         (let agentType = str_field payload ''agent_type''; ownerID = str_field payload ''owner_id''
          in if TrimSpace agentType = [] \<or> TrimSpace ownerID = []
             then (gw_jsonError rid ''INVALID_ARGUMENT'' ''agent_type and owner_id are required'' False 400, s)
             else
             (gw_ok 201 (gw_agent_body (''agt-'' @ idem) agentType ownerID),
              write_agent idem fp agentType ownerID (others s))))))"

definition handleGetAgent :: "UpstreamRequest \<Rightarrow> static_state \<Rightarrow> UpstreamResponse" where
  "handleGetAgent req s =
     (let agentID = TrimSpace (TrimPrefix (uq_Path req) ''/v1/identity/agents/'')
      in if agentID = [] \<or> Contains agentID ''/''
         then gw_jsonError (uq_RequestID req) ''INVALID_ARGUMENT'' ''agent id required'' False 400
         else
           (case ss_registeredAgents s agentID of
              None \<Rightarrow> gw_jsonError (uq_RequestID req) ''NOT_FOUND'' ''unknown agent_id'' False 404
            | Some rec \<Rightarrow> gw_ok 200 (gw_agent_body agentID (ar_AgentType rec) (ar_OwnerID rec))))"

section \<open>Passports\<close>

text \<open>The scope set of a request, numbered from \<open>i\<close>, or the message of the first bad entry.\<close>

fun gw_scope_set :: "string \<Rightarrow> nat \<Rightarrow> any list \<Rightarrow> string + object list" where
  "gw_scope_set idem i [] = Inr []"
| "gw_scope_set idem i (item # items) =
     (case as_obj item of
        None \<Rightarrow> Inl ''invalid requested_scopes entry''
      | Some row \<Rightarrow>
          if TrimSpace (str_field row ''action_class'') = [] \<or> TrimSpace (str_field row ''resource_pattern'') = []
          then Inl ''requested_scopes require action_class and resource_pattern''
          else
            (case gw_scope_set idem (Suc i) items of
               Inl e \<Rightarrow> Inl e
             | Inr rows \<Rightarrow>
                 Inr ([(''scope_id'', AStr (''scp-'' @ idem @ ''-'' @ Itoa (int i))),
                       (''action_class'', AStr (str_field row ''action_class'')),
                       (''resource_pattern'', AStr (str_field row ''resource_pattern''))] # rows)))"

definition publicPassport :: "passportRecord \<Rightarrow> any" where
  "publicPassport rec =
     AObj [(''passport_id'', AStr (pr_PassportID rec)), (''agent_id'', AStr (pr_AgentID rec)),
       (''passport_type'', AStr (pr_PassportType rec)), (''scope_set'', AArr (map AObj (pr_ScopeSet rec))),
       (''status'', AStr (pr_Status rec)), (''issued_by'', AStr (pr_IssuedBy rec)),
       (''expires_at'', AStr (RFC3339 (pr_ExpiresAt rec)))]"

record gw_issue_fields =
  gf_agentID :: string
  gf_passportType :: string
  gf_issuedBy :: string
  gf_scopesRaw :: "any list"
  gf_ttl :: int

text \<open>The required fields; \<open>None\<close> when one is missing or the time to live is not positive.\<close>

definition gw_issue_request :: "object \<Rightarrow> gw_issue_fields option" where
  "gw_issue_request payload =
     (let agentID = str_field payload ''agent_id''; passportType = str_field payload ''passport_type'';
          issuedBy = str_field payload ''issued_by''; reason = str_field payload ''reason''
      in case (as_arr (field payload ''requested_scopes''), gw_asInt64 (field payload ''ttl_seconds'')) of
           (Some scopesRaw, Some ttl) \<Rightarrow>
             if TrimSpace agentID = [] \<or> TrimSpace passportType = [] \<or> length scopesRaw = 0 \<or> ttl \<le> 0
                \<or> TrimSpace issuedBy = [] \<or> TrimSpace reason = []
             then None
             else Some \<lparr>gf_agentID = agentID, gf_passportType = passportType, gf_issuedBy = issuedBy,
                    gf_scopesRaw = scopesRaw, gf_ttl = ttl\<rparr>
         | _ \<Rightarrow> None)"

definition new_passportRecord :: "instant \<Rightarrow> string \<Rightarrow> gw_issue_fields \<Rightarrow> object list \<Rightarrow> passportRecord" where
  "new_passportRecord now idem f scopeSet = \<lparr>
     pr_PassportID = ''ppt-'' @ idem, pr_AgentID = gf_agentID f, pr_PassportType = gf_passportType f,
     pr_ScopeSet = scopeSet, pr_Status = ''ACTIVE'', pr_IssuedBy = gf_issuedBy f,
     pr_ExpiresAt = Add now (scale_duration (gf_ttl f) Second)\<rparr>"

definition write_passport :: "string \<Rightarrow> passportRecord \<Rightarrow> static_state \<Rightarrow> static_state" where
  "write_passport idem rec u =
     u\<lparr>ss_idempotentResp := (ss_idempotentResp u)(gw_issue_key idem \<mapsto> gw_ok 201 (AObj [(''passport'', publicPassport rec)])),
       ss_passports := (ss_passports u)(pr_PassportID rec \<mapsto> rec),
       ss_passportsByAgent := (ss_passportsByAgent u)(pr_AgentID rec :=
         ss_passportsByAgent u (pr_AgentID rec) @ [pr_PassportID rec])\<rparr>"

text \<open>\<open>others1\<close> runs between the look at the key and the look at the agent, \<open>others2\<close> between that and the write.\<close>

definition handleIssuePassport ::
  "instant \<Rightarrow> (static_state \<Rightarrow> static_state) \<Rightarrow> (static_state \<Rightarrow> static_state) \<Rightarrow> UpstreamRequest \<Rightarrow> static_state
   \<Rightarrow> UpstreamResponse \<times> static_state" where
  "handleIssuePassport now others1 others2 req s =
     (let rid = uq_RequestID req; idem = uq_IdempotencyKey req; key = gw_issue_key idem
      in if idem = [] then (gw_jsonError rid ''MISSING_IDEMPOTENCY_KEY'' ''idempotency key required'' False 400, s)
         else
         (case ss_idempotentResp s key of
            Some existing \<Rightarrow> (existing, s)
          | None \<Rightarrow>
         (case gw_payload (uq_Body req) of
            None \<Rightarrow> (gw_jsonError rid ''INVALID_ARGUMENT'' ''invalid json body'' False 400, s)
          | Some payload \<Rightarrow>
         (case gw_issue_request payload of
            None \<Rightarrow> (gw_jsonError rid ''INVALID_ARGUMENT''
              ''agent_id, passport_type, requested_scopes, ttl_seconds, issued_by, and reason are required'' False 400, s)
          | Some f \<Rightarrow>
         (let s1 = others1 s
          in if ss_registeredAgents s1 (gf_agentID f) = None
             then (gw_jsonError rid ''NOT_FOUND'' ''unknown agent_id'' False 404, s1)
             else
             (case gw_scope_set idem 0 (gf_scopesRaw f) of
                Inl msg \<Rightarrow> (gw_jsonError rid ''INVALID_ARGUMENT'' msg False 400, s1)
              | Inr scopeSet \<Rightarrow>
             (let rec = new_passportRecord now idem f scopeSet
              in (gw_ok 201 (AObj [(''passport'', publicPassport rec)]), write_passport idem rec (others2 s1)))))))))"

definition zero_passportRecord :: passportRecord where
  "zero_passportRecord = \<lparr>pr_PassportID = [], pr_AgentID = [], pr_PassportType = [], pr_ScopeSet = [], pr_Status = [],
     pr_IssuedBy = [], pr_ExpiresAt = - 62135596800000000000\<rparr>"

definition passport_at :: "static_state \<Rightarrow> string \<Rightarrow> passportRecord" where
  "passport_at s i = (case ss_passports s i of None \<Rightarrow> zero_passportRecord | Some rec \<Rightarrow> rec)"

definition handleListPassportsByAgent :: "UpstreamRequest \<Rightarrow> static_state \<Rightarrow> UpstreamResponse" where
  "handleListPassportsByAgent req s =
     (let agentID = TrimSpace (TrimPrefix (uq_Path req) ''/v1/passports/by-agent/'')
      in if agentID = [] \<or> Contains agentID ''/''
         then gw_jsonError (uq_RequestID req) ''INVALID_ARGUMENT'' ''agent id required'' False 400
         else gw_ok 200 (AObj [(''agent_id'', AStr agentID),
           (''passports'', AArr (map (\<lambda>i. publicPassport (passport_at s i)) (ss_passportsByAgent s agentID))),
           (''request_id'', AStr (uq_RequestID req))]))"

definition handleVerifyPassport :: "instant \<Rightarrow> UpstreamRequest \<Rightarrow> static_state \<Rightarrow> UpstreamResponse" where
  "handleVerifyPassport now req s =
     (case gw_payload (uq_Body req) of
        None \<Rightarrow> gw_jsonError (uq_RequestID req) ''INVALID_ARGUMENT'' ''invalid json body'' False 400
      | Some payload \<Rightarrow>
          (let passportID = str_field payload ''passport_id''; agentID = str_field payload ''agent_id''
           in if TrimSpace passportID = [] \<or> TrimSpace agentID = []
              then gw_jsonError (uq_RequestID req) ''INVALID_ARGUMENT'' ''passport_id and agent_id are required'' False 400
              else
                (let verified = (case ss_passports s passportID of
                       None \<Rightarrow> False
                     | Some rec \<Rightarrow> pr_AgentID rec = agentID \<and> pr_Status rec = ''ACTIVE'' \<and> now < pr_ExpiresAt rec)
                 in gw_ok 200 (AObj [(''verified'', ABool verified),
                      (''reason'', AStr (if verified then ''passport verified''
                         else ''passport missing, expired, revoked, or not bound to agent'')),
                      (''passport_id'', AStr passportID), (''agent_id'', AStr agentID),
                      (''request_id'', AStr (uq_RequestID req)), (''executed'', ABool False),
                      (''proof_status'', AStr ''reference_only'')]))))"

section \<open>Scope and policy\<close>

definition resourceMatches :: "string \<Rightarrow> string \<Rightarrow> bool" where
  "resourceMatches pattern0 resource =
     (let pattern = TrimSpace pattern0
      in if pattern = ''*'' \<or> pattern = resource then True
         else if HasSuffix pattern ''*'' then HasPrefix resource (TrimSuffix pattern ''*'')
         else False)"

definition scope_check :: "instant \<Rightarrow> string \<Rightarrow> string \<Rightarrow> string \<Rightarrow> passportRecord \<Rightarrow> bool" where
  "scope_check now agentID actionClass resource rec \<longleftrightarrow>
     pr_AgentID rec = agentID \<and> pr_Status rec = ''ACTIVE'' \<and> now < pr_ExpiresAt rec \<and>
     list_ex (\<lambda>scope. str_field scope ''action_class'' = actionClass \<and>
       resourceMatches (str_field scope ''resource_pattern'') resource) (pr_ScopeSet rec)"

definition gw_scopeAllows ::
  "instant \<Rightarrow> string \<Rightarrow> string \<Rightarrow> string \<Rightarrow> string \<Rightarrow> static_state \<Rightarrow> bool \<times> string" where
  "gw_scopeAllows now agentID passportID actionClass resource s =
     (if passportID \<noteq> []
      then (case ss_passports s passportID of
              None \<Rightarrow> (False, ''passport not found'')
            | Some rec \<Rightarrow>
                if scope_check now agentID actionClass resource rec
                then (True, ''scope matched requested passport'')
                else (False, ''scope missing, expired, or revoked''))
      else if list_ex (\<lambda>i. scope_check now agentID actionClass resource (passport_at s i)) (ss_passportsByAgent s agentID)
      then (True, ''scope matched active passport'')
      else (False, ''no active passport scope matched''))"

definition handleEvaluateScope :: "instant \<Rightarrow> UpstreamRequest \<Rightarrow> static_state \<Rightarrow> UpstreamResponse" where
  "handleEvaluateScope now req s =
     (case gw_payload (uq_Body req) of
        None \<Rightarrow> gw_jsonError (uq_RequestID req) ''INVALID_ARGUMENT'' ''invalid json body'' False 400
      | Some payload \<Rightarrow>
          (let agentID = str_field payload ''agent_id''; actionClass = str_field payload ''action_class'';
               resource = str_field payload ''resource''; passportID = str_field payload ''passport_id''
           in if TrimSpace agentID = [] \<or> TrimSpace actionClass = [] \<or> TrimSpace resource = []
              then gw_jsonError (uq_RequestID req) ''INVALID_ARGUMENT'' ''agent_id, action_class, and resource are required'' False 400
              else
                (case gw_scopeAllows now agentID passportID actionClass resource s of (allowed, reason) \<Rightarrow>
                   gw_ok 200 (AObj [(''decision'', AObj [
                       (''effect'', AStr (if allowed then ''ALLOW'' else ''DENY'')), (''reason'', AStr reason),
                       (''agent_id'', AStr agentID), (''action_class'', AStr actionClass), (''resource'', AStr resource)]),
                     (''executed'', ABool False)]))))"

definition policyDecision :: "string \<Rightarrow> string \<Rightarrow> string \<Rightarrow> string \<Rightarrow> UpstreamResponse" where
  "policyDecision requestID decisionID effect reason =
     gw_ok 200 (AObj [(''decision'', AObj [(''decision_id'', AStr decisionID), (''effect'', AStr (ToUpper effect)),
       (''reason'', AStr reason)]), (''request_id'', AStr requestID), (''executed'', ABool False)])"

text \<open>\<^verbatim>\<open>SetOPA\<close>: the base URL that is kept; the empty one leaves the evaluator off.\<close>

definition SetOPA :: "string \<Rightarrow> string" where
  "SetOPA baseURL = TrimRight (TrimSpace baseURL) CHR ''/''"

definition evaluatePolicyOPA ::
  "opa_http \<Rightarrow> string \<Rightarrow> string \<Rightarrow> string \<Rightarrow> string \<Rightarrow> string \<Rightarrow> policy_error + string \<times> string" where
  "evaluatePolicyOPA http base decisionID agentID actionClass resource =
     (case http (base @ ''/v1/data/are/evaluatepolicy/decision'')
             (AObj [(''input'', AObj [(''decision_id'', AStr decisionID), (''agent_id'', AStr agentID),
                (''action_class'', AStr actionClass), (''resource'', AStr resource)])]) of
        OpaError e \<Rightarrow> Inl (OpaRequest e)
      | OpaReply status raw \<Rightarrow>
          if status \<noteq> 200 then Inl (OpaStatus status)
          else
            (case decode_result raw of
               Inl e \<Rightarrow> Inl e
             | Inr None \<Rightarrow> Inl OpaMissingEffect
             | Inr (Some (effect, reason)) \<Rightarrow>
                 if TrimSpace effect = [] then Inl OpaMissingEffect
                 else Inr (ToUpper (TrimSpace effect), reason)))"

record opa_config =
  oc_base :: string
  oc_http :: opa_http
  oc_err_text :: "policy_error \<Rightarrow> string"

text \<open>The built-in decision, when no evaluator is configured.\<close>

definition demo_policy :: "string \<Rightarrow> string \<times> string" where
  "demo_policy actionClass =
     (if Contains (ToUpper actionClass) ''DENY'' \<or> actionClass = ''demo.forbidden_action''
      then (''DENY'', ''action class denied by foundation demo policy'') else (''ALLOW'', ''policy-evaluated''))"

definition handleEvaluatePolicy :: "opa_config \<Rightarrow> UpstreamRequest \<Rightarrow> UpstreamResponse" where
  "handleEvaluatePolicy opa req =
     (let rid = uq_RequestID req
      in case gw_payload (uq_Body req) of
           None \<Rightarrow> gw_jsonError rid ''INVALID_ARGUMENT'' ''invalid json body'' False 400
         | Some payload \<Rightarrow>
             (let decisionID = str_field payload ''decision_id''; agentID = str_field payload ''agent_id'';
                  actionClass = str_field payload ''action_class''; resource = str_field payload ''resource''
              in if TrimSpace decisionID = [] \<or> TrimSpace agentID = [] \<or> TrimSpace actionClass = []
                 then gw_jsonError rid ''INVALID_ARGUMENT'' ''decision_id, agent_id, and action_class are required'' False 400
                 else if Contains (ToLower resource) ''timeout''
                 then gw_jsonError rid ''DEPENDENCY_TIMEOUT'' ''policy engine timeout'' True 504
                 else if oc_base opa \<noteq> []
                 then (case evaluatePolicyOPA (oc_http opa) (oc_base opa) decisionID agentID actionClass resource of
                         Inl e \<Rightarrow> gw_jsonError rid ''POLICY_ENGINE_UNAVAILABLE'' (oc_err_text opa e) True 502
                       | Inr (effect, reason) \<Rightarrow> policyDecision rid decisionID effect reason)
                 else (case demo_policy actionClass of (effect, reason) \<Rightarrow> policyDecision rid decisionID effect reason)))"

definition handleGetDeploymentMeta :: "environ \<Rightarrow> UpstreamRequest \<Rightarrow> UpstreamResponse" where
  "handleGetDeploymentMeta env req =
     (let stage = TrimSpace (ToLower (env ''ARE_DEPLOYMENT_STAGE''))
      in gw_ok 200 (AObj [(''deployment_stage'', AStr (if stage = [] then ''stage-s0s1'' else stage)),
           (''request_id'', AStr (uq_RequestID req)), (''foundation'', AStr ''stage-s0s1'')]))"

section \<open>Dispatch\<close>

record static_env =
  se_env :: environ
  se_opa :: opa_config
  se_now :: instant
  se_others1 :: "static_state \<Rightarrow> static_state"
  se_others2 :: "static_state \<Rightarrow> static_state"

definition static_Call :: "static_env \<Rightarrow> UpstreamRequest \<Rightarrow> static_state \<Rightarrow> UpstreamResponse \<times> static_state" where
  "static_Call e req s =
     (case matchPhase1Route (uq_Method req) (uq_Path req) of
        None \<Rightarrow> (gw_jsonError (uq_RequestID req) ''NOT_FOUND'' ''route is not part of the ARE Foundation S0/S1 surface'' False 404, s)
      | Some route \<Rightarrow>
          (let m = rs_Method route
           in if m = ''RegisterAgent'' then handleRegisterAgent (se_others1 e) req s
              else if m = ''GetAgent'' then (handleGetAgent req s, s)
              else if m = ''IssuePassport'' then handleIssuePassport (se_now e) (se_others1 e) (se_others2 e) req s
              else if m = ''ListPassportsByAgent'' then (handleListPassportsByAgent req s, s)
              else if m = ''VerifyPassport'' then (handleVerifyPassport (se_now e) req s, s)
              else if m = ''EvaluateScope'' then (handleEvaluateScope (se_now e) req s, s)
              else if m = ''EvaluatePolicy'' then (handleEvaluatePolicy (se_opa e) req, s)
              else if m = ''GetDeploymentMeta'' then (handleGetDeploymentMeta (se_env e) req, s)
              else (gw_jsonError (uq_RequestID req) ''NOT_FOUND'' ''foundation route has no handler'' False 404, s)))"

end
