(* ===== verification/Gateway_Proxy.thy ===== *)
theory Gateway_Proxy
  imports Gateway_Static
begin

text \<open>
  How the gateway reaches the platform (\<^verbatim>\<open>sx/are-api-gateway/internal/gateway/s0s1_http_proxy.go\<close>): the HTTP
  proxy to the REST front end, and the choice between it and the local simulator.

  An upstream is a function of the request and of the state \<open>'s\<close> behind it. The HTTP client is an
  argument: \<open>http\<close> is how the server at the other end answers a request.
\<close>

type_synonym 's upstream = "UpstreamRequest \<Rightarrow> 's \<Rightarrow> (string + UpstreamResponse) \<times> 's"

section \<open>The proxy\<close>

record base_url =
  bu_Scheme :: string
  bu_Host :: string
  bu_Path :: string

record outbound =
  ho_Method :: string
  ho_Base :: base_url
  ho_Path :: string
  ho_RawQuery :: string
  ho_Headers :: strmap
  ho_Body :: body

text \<open>\<open>parsed\<close> is what \<^verbatim>\<open>url.Parse\<close> makes of the trimmed base URL.\<close>

definition NewRESTProxyUpstream :: "base_url option \<Rightarrow> base_url option" where
  "NewRESTProxyUpstream parsed =
     (case parsed of
        None \<Rightarrow> None
      | Some u \<Rightarrow> if bu_Scheme u = [] \<or> bu_Host u = [] then None else Some u)"

definition proxy_request :: "base_url \<Rightarrow> UpstreamRequest \<Rightarrow> outbound" where
  "proxy_request base req = \<lparr>
     ho_Method = uq_Method req, ho_Base = base,
     ho_Path = TrimSuffix (bu_Path base) ''/'' @ uq_Path req,
     ho_RawQuery = uq_RawQuery req,
     ho_Headers =
       (if uq_Authorization req \<noteq> [] then [(''Authorization'', uq_Authorization req)] else [])
       @ [(''X-Request-ID'', uq_RequestID req), (''X-ARE-Agent-ID'', uq_AgentID req)]
       @ (if uq_IdempotencyKey req \<noteq> [] then [(''Idempotency-Key'', uq_IdempotencyKey req)] else [])
       @ (if uq_Traceparent req \<noteq> [] then [(''traceparent'', uq_Traceparent req)] else [])
       @ (if TrimSpace (uq_ContentType req) \<noteq> [] then [(''Content-Type'', TrimSpace (uq_ContentType req))]
          else if uq_HasBody req then [(''Content-Type'', ''application/json'')] else []),
     ho_Body = uq_Body req\<rparr>"

definition proxy_Call ::
  "(outbound \<Rightarrow> 's \<Rightarrow> (string + UpstreamResponse) \<times> 's) \<Rightarrow> base_url \<Rightarrow> 's upstream" where
  "proxy_Call http base req s =
     (if uq_Path req = [] \<or> hd (uq_Path req) \<noteq> CHR ''/'' then (Inl ''upstream path must be absolute'', s)
      else http (proxy_request base req) s)"

section \<open>Fixed answers\<close>

definition unavailable_body :: "string \<Rightarrow> body" where
  "unavailable_body message =
     Doc (AObj [(''error'', AObj [(''code'', AStr ''UPSTREAM_UNAVAILABLE''), (''message'', AStr message)])])"

definition upstreamUnavailable503 :: "'s upstream" where
  "upstreamUnavailable503 req s =
     (Inr \<lparr>us_StatusCode = 503, us_Body = unavailable_body
        ''unknown REST path under live upstream mode; not part of the ARE Foundation S0/S1 contract''\<rparr>, s)"

definition upstreamFixed503 :: "body \<Rightarrow> 's upstream" where
  "upstreamFixed503 b req s = (Inr \<lparr>us_StatusCode = 503, us_Body = b\<rparr>, s)"

definition phase1StaticDisabledBody :: body where
  "phase1StaticDisabledBody = unavailable_body
     ''foundation route is not forwarded via ARE_GW_S0S1_HTTP_PROXY_BASE; StaticUpstream disabled''"

section \<open>Selection\<close>

record 's s0s1SelectingUpstream =
  sl_s0s1Proxy :: "'s upstream option"
  sl_fallback :: "'s upstream"
  sl_denyUnknownPhase1 :: bool
  sl_rejectPhase1Static :: bool

definition selecting_Call :: "'s s0s1SelectingUpstream \<Rightarrow> 's upstream" where
  "selecting_Call sel req s =
     (let local_answer = (\<lambda>_. if sl_denyUnknownPhase1 sel \<and> matchPhase1Route (uq_Method req) (uq_Path req) = None
                          then upstreamUnavailable503 req s
                          else if sl_rejectPhase1Static sel then upstreamFixed503 phase1StaticDisabledBody req s
                          else sl_fallback sel req s)
      in case sl_s0s1Proxy sel of
           Some proxy \<Rightarrow>
             if IsS0S1RESTProxyRoute (uq_Method req) (uq_Path req) then proxy req s else local_answer ()
         | None \<Rightarrow> local_answer ())"

definition NewS0S1SelectingUpstream ::
  "environ \<Rightarrow> 's upstream option \<Rightarrow> 's upstream option \<Rightarrow> bool \<Rightarrow> 's upstream option" where
  "NewS0S1SelectingUpstream env proxy fallback denyUnknownPhase1REST =
     (case proxy of
        None \<Rightarrow> fallback
      | Some p \<Rightarrow>
          (case fallback of
             None \<Rightarrow> Some p
           | Some f \<Rightarrow> Some (selecting_Call \<lparr>sl_s0s1Proxy = Some p, sl_fallback = f,
               sl_denyUnknownPhase1 = denyUnknownPhase1REST,
               sl_rejectPhase1Static = denyUnknownPhase1REST \<and> envLiveNoStaticPhase1 env\<rparr>)))"

text \<open>The simulator as an upstream: it always answers.\<close>

definition static_upstream :: "static_env \<Rightarrow> static_state upstream" where
  "static_upstream e req s = (case static_Call e req s of (resp, s') \<Rightarrow> (Inr resp, s'))"

text \<open>
  With a proxy the simulator is never asked for a route of the platform, and in live mode not at all; the
  switch \<^verbatim>\<open>ARE_GW_LIVE_NO_STATIC_PHASE1\<close> makes no difference.
\<close>

lemma selecting_any_mode:
  "\<exists>up. NewS0S1SelectingUpstream env (Some proxy) (Some fallback) deny = Some up \<and>
     up req s = (if isFoundationAPIRoute (uq_Method req) (uq_Path req) then proxy req s
                 else if deny then upstreamUnavailable503 req s else fallback req s)"
  by (auto simp: NewS0S1SelectingUpstream_def selecting_Call_def IsS0S1RESTProxyRoute_def isFoundationAPIRoute_def Let_def)

end
