(* ===== verification/Gateway_Trace.thy ===== *)
theory Gateway_Trace
  imports Gateway_Routes GoJson
begin

text \<open>
  Trace context of the gateway (\<^verbatim>\<open>sx/are-api-gateway/internal/gateway/tracing.go\<close>): parsing and printing
  of the \<^verbatim>\<open>traceparent\<close> header, the trace of a request and the span that is exported for it.

  Randomness and the sampling of new traces are arguments: \<open>entropy n\<close> is what the random source gives
  for \<open>n\<close> bytes (\<open>None\<close> when it fails), \<open>clock\<close> the time that stands in for it then, \<open>sample\<close> the
  decision of \<^verbatim>\<open>shouldSampleTrace\<close>, which compares floating-point numbers read from the environment.
  The export itself is fire-and-forget network traffic; the payload is modelled.
\<close>

section \<open>The header\<close>

record traceparentParts =
  tx_traceID :: string
  tx_parentSpanID :: string
  tx_sampled :: bool

definition parseTraceparent :: "string \<Rightarrow> traceparentParts option" where
  "parseTraceparent value =
     (case Split (TrimSpace value) CHR ''-'' of
        [version, traceID, spanID, flagText] \<Rightarrow>
          if version \<noteq> ''00'' \<or> length traceID \<noteq> 32 \<or> length spanID \<noteq> 16 then None
          else if \<not> HexDecodes traceID then None
          else if \<not> HexDecodes spanID then None
          else
            (case ParseUint16 flagText 8 of
               None \<Rightarrow> None
             | Some flags \<Rightarrow> Some \<lparr>tx_traceID = traceID, tx_parentSpanID = spanID, tx_sampled = odd flags\<rparr>)
      | _ \<Rightarrow> None)"

record serverTrace =
  tr_endpoint :: string
  tr_traceID :: string
  tr_spanID :: string
  tr_parentSpanID :: string
  tr_sampled :: bool
  tr_serviceName :: string
  tr_scopeName :: string

definition traceparent :: "serverTrace option \<Rightarrow> string" where
  "traceparent trace =
     (case trace of
        None \<Rightarrow> []
      | Some t \<Rightarrow>
          (let flags = (if tr_sampled t then ''01'' else ''00'');
               span1 = (if tr_sampled t then tr_spanID t else tr_parentSpanID t);
               spanID = (if span1 = [] then tr_spanID t else span1)
           in if spanID = [] then [] else ''00-'' @ tr_traceID t @ ''-'' @ spanID @ ''-'' @ flags))"

section \<open>Starting a trace\<close>

fun hex_digits :: "nat \<Rightarrow> string" where
  "hex_digits n = (if n < 16 then [hex_char n] else hex_digits (n div 16) @ [hex_char (n mod 16)])"

declare hex_digits.simps [simp del]

definition randomHex :: "bytes option \<Rightarrow> instant \<Rightarrow> string" where
  "randomHex entropy clock =
     (case entropy of
        None \<Rightarrow> (if clock < 0 then ''-'' else []) @ hex_digits (nat \<bar>clock\<bar>)
      | Some bs \<Rightarrow> HexEncode bs)"

definition otlpEndpoint :: "environ \<Rightarrow> string" where
  "otlpEndpoint env =
     (let raw1 = TrimSpace (env ''ARE_OTLP_HTTP_URL'');
          raw2 = (if raw1 = [] then TrimSpace (env ''STRATA_OTLP_HTTP_URL'') else raw1);
          raw3 = (if raw2 = [] then TrimSpace (env ''OTEL_EXPORTER_OTLP_TRACES_ENDPOINT'') else raw2);
          raw = (if raw3 = [] then TrimSpace (env ''OTEL_EXPORTER_OTLP_ENDPOINT'') else raw3)
      in if raw = [] then []
         else if HasSuffix raw ''/v1/traces'' then raw
         else TrimRight raw CHR ''/'' @ ''/v1/traces'')"

definition envDefault :: "environ \<Rightarrow> string \<Rightarrow> string \<Rightarrow> string" where
  "envDefault env name fallback = (let v = TrimSpace (env name) in if v \<noteq> [] then v else fallback)"

definition startServerTrace ::
  "environ \<Rightarrow> (nat \<Rightarrow> bytes option) \<Rightarrow> instant \<Rightarrow> (string \<Rightarrow> bool) \<Rightarrow> string \<Rightarrow> string \<Rightarrow> string \<Rightarrow> string
   \<Rightarrow> serverTrace option" where
  "startServerTrace env entropy clock sample path header serviceName scopeName =
     (if path = ''/metrics'' then None
      else
        (let incoming = parseTraceparent header; endpoint = otlpEndpoint env;
             (traceID, parentSpanID, sampled) =
               (case incoming of
                  Some p \<Rightarrow> (tx_traceID p, tx_parentSpanID p, tx_sampled p)
                | None \<Rightarrow>
                    if endpoint \<noteq> []
                    then (let i = randomHex (entropy 16) clock in (i, [], sample i))
                    else ([], [], False))
         in if traceID = [] then None
            else Some \<lparr>tr_endpoint = endpoint, tr_traceID = traceID, tr_spanID = randomHex (entropy 8) clock,
              tr_parentSpanID = parentSpanID, tr_sampled = sampled,
              tr_serviceName = envDefault env ''OTEL_SERVICE_NAME'' serviceName, tr_scopeName = scopeName\<rparr>))"

section \<open>The exported span\<close>

definition shouldRecord :: "serverTrace option \<Rightarrow> bool" where
  "shouldRecord trace \<longleftrightarrow> (case trace of None \<Rightarrow> False | Some t \<Rightarrow> tr_sampled t \<and> tr_endpoint t \<noteq> [])"

definition recordedTraceparent :: "serverTrace option \<Rightarrow> string" where
  "recordedTraceparent trace =
     (if \<not> shouldRecord trace then []
      else ''00-'' @ tr_traceID (the trace) @ ''-'' @ tr_spanID (the trace) @ ''-01'')"

definition otlpAttr :: "string \<Rightarrow> any \<Rightarrow> any" where
  "otlpAttr key value =
     AObj [(''key'', AStr key), (''value'', AObj [case value of
        ABool b \<Rightarrow> (''boolValue'', ABool b)
      | AInt i \<Rightarrow> (''intValue'', AStr (Itoa i))
      | AFloat x \<Rightarrow> (''doubleValue'', AFloat x)
      | AStr s \<Rightarrow> (''stringValue'', AStr (TrimSpace s))
      | _ \<Rightarrow> (''stringValue'', AStr [])])]"

text \<open>The endpoint and the payload that \<^verbatim>\<open>finish\<close> posts, if any.\<close>

definition trace_finish ::
  "serverTrace option \<Rightarrow> string \<Rightarrow> string \<Rightarrow> string \<Rightarrow> int \<Rightarrow> instant \<Rightarrow> instant \<Rightarrow> string \<Rightarrow> (string \<times> any) option" where
  "trace_finish trace verb route0 path0 status started ended component =
     (if \<not> shouldRecord trace then None
      else
        (let t = the trace;
             route = (if route0 = [] then normalizedRoute path0 else route0);
             path = (if path0 = [] then route else path0);
             statusCode = (if 500 \<le> status then 2 else 1);
             statusMessage = (if 500 \<le> status then ''HTTP '' @ Itoa status else []);
             span = AObj
               ([(''traceId'', AStr (tr_traceID t)), (''spanId'', AStr (tr_spanID t)),
                 (''name'', AStr (ToUpper verb @ '' '' @ route)), (''kind'', AInt 2),
                 (''startTimeUnixNano'', AStr (Itoa started)), (''endTimeUnixNano'', AStr (Itoa ended)),
                 (''attributes'', AArr [otlpAttr ''http.request.method'' (AStr (ToUpper verb)),
                    otlpAttr ''url.path'' (AStr path), otlpAttr ''http.route'' (AStr route),
                    otlpAttr ''http.response.status_code'' (AInt status),
                    otlpAttr ''are.component'' (AStr component), otlpAttr ''error'' (ABool (500 \<le> status))]),
                 (''status'', AObj ((''code'', AInt statusCode) #
                    (if statusMessage = [] then [] else [(''message'', AStr statusMessage)])))]
                @ (if tr_parentSpanID t = [] then [] else [(''parentSpanId'', AStr (tr_parentSpanID t))]));
             payload = AObj [(''resourceSpans'', AArr [AObj [
               (''resource'', AObj [(''attributes'', AArr [otlpAttr ''service.name'' (AStr (tr_serviceName t)),
                  otlpAttr ''telemetry.sdk.name'' (AStr ''manual-otlp-json''),
                  otlpAttr ''telemetry.sdk.language'' (AStr ''go'')])]),
               (''scopeSpans'', AArr [AObj [(''scope'', AObj [(''name'', AStr (tr_scopeName t))]),
                  (''spans'', AArr [span])]])]])]
         in Some (tr_endpoint t, payload)))"

section \<open>Properties\<close>

lemma hex_no_dash: "list_all is_hex s \<Longrightarrow> CHR ''-'' \<notin> set s"
proof -
  assume "list_all is_hex s"
  moreover have "\<not> is_hex CHR ''-''" by (simp add: is_hex_def)
  ultimately show ?thesis unfolding list_all_iff by blast
qed

lemma Split_cons: "c \<notin> set s \<Longrightarrow> Split (s @ c # t) c = s # Split t c"
  by (induction s) auto

text \<open>A header with well-formed identifiers is read back.\<close>

definition span_id :: "string \<Rightarrow> bool" where
  "span_id s \<longleftrightarrow> length s = 16 \<and> list_all is_hex s"

lemma parse_fields:
  assumes "length i = 32" "list_all is_hex i" "span_id s"
    and "ParseUint16 f 8 = Some n" "CHR ''-'' \<notin> set f" "f \<noteq> []" "graphic (last f)"
  shows "parseTraceparent (''00-'' @ i @ ''-'' @ s @ ''-'' @ f) =
    Some \<lparr>tx_traceID = i, tx_parentSpanID = s, tx_sampled = odd n\<rparr>"
proof -
  let ?h = "''00-'' @ i @ ''-'' @ s @ ''-'' @ f"
  have trim: "TrimSpace ?h = ?h"
  proof (rule TrimSpace_graphic)
    show "graphic (hd ?h)" by (simp add: graphic_def)
    show "graphic (last ?h)" using assms(6,7) by simp
  qed
  have split: "Split ?h CHR ''-'' = [''00'', i, s, f]"
    using Split_cons [of "CHR ''-''" "''00''" "i @ ''-'' @ s @ ''-'' @ f"]
      Split_cons [of "CHR ''-''" i "s @ ''-'' @ f"] Split_cons [of "CHR ''-''" s f]
      hex_no_dash [OF assms(2)] hex_no_dash [of s] assms(3,5) by (simp add: span_id_def Split_plain)
  show ?thesis
    unfolding parseTraceparent_def trim split
    using assms by (simp add: HexDecodes_def span_id_def)
qed

lemma flag_values: "ParseUint16 ''01'' 8 = Some 1" "ParseUint16 ''00'' 8 = Some 0"
  by (simp_all add: ParseUint16_def is_hex_def hex_value_def)

lemma parse_printed:
  assumes "length i = 32" "list_all is_hex i" "span_id s"
  shows "parseTraceparent (''00-'' @ i @ ''-'' @ s @ ''-01'') = Some \<lparr>tx_traceID = i, tx_parentSpanID = s, tx_sampled = True\<rparr>"
    "parseTraceparent (''00-'' @ i @ ''-'' @ s @ ''-00'') = Some \<lparr>tx_traceID = i, tx_parentSpanID = s, tx_sampled = False\<rparr>"
  using parse_fields [OF assms flag_values(1)] parse_fields [OF assms flag_values(2)]
  by (simp_all add: graphic_def)

lemma parseTraceparent_ids:
  assumes "parseTraceparent h = Some p"
  shows "length (tx_traceID p) = 32" "list_all is_hex (tx_traceID p)" "span_id (tx_parentSpanID p)"
  using assms by (auto simp: parseTraceparent_def HexDecodes_def span_id_def split: list.splits if_splits option.splits)

text \<open>
  C36: The trace context of a caller survives the gateway. When a request carries a valid
  \<^verbatim>\<open>traceparent\<close>, the header sent upstream parses to the same trace and the same sampling decision; its
  span is the gateway's own when the trace is sampled and the caller's otherwise.
\<close>

theorem trace_context_propagates:
  assumes "parseTraceparent header = Some p" "path \<noteq> ''/metrics''"
    and "entropy 8 = Some bs" "length bs = 8"
  shows "parseTraceparent (traceparent (startServerTrace env entropy clock sample path header service scope)) =
    Some (if tx_sampled p then p\<lparr>tx_parentSpanID := HexEncode bs\<rparr> else p)"
proof -
  have "span_id (HexEncode bs)"
    by (simp add: span_id_def assms(4) HexEncode_is_hex)
  moreover note ids = parseTraceparent_ids [OF assms(1)]
  moreover have "tx_traceID p \<noteq> []" "HexEncode bs \<noteq> []" "tx_parentSpanID p \<noteq> []"
    using ids \<open>span_id (HexEncode bs)\<close> by (force simp: span_id_def simp del: length_HexEncode)+
  ultimately show ?thesis
    using assms(2,3) parse_printed(1) [of "tx_traceID p" "HexEncode bs"]
      parse_printed(2) [of "tx_traceID p" "tx_parentSpanID p"]
    by (simp add: assms(1) startServerTrace_def traceparent_def randomHex_def Let_def)
qed

definition ex_header :: string where
  "ex_header = ''00-0af7651916cd43dd8448eb211c80319c-b7ad6b7169203331-01''"

theorem trace_context_propagates_witness:
  "parseTraceparent (traceparent (startServerTrace (\<lambda>k. []) (\<lambda>n. Some (replicate n CHR ''A'')) 0 (\<lambda>i. False)
       ''/v1/passports'' ex_header ''gw'' ''http'')) =
     Some \<lparr>tx_traceID = ''0af7651916cd43dd8448eb211c80319c'', tx_parentSpanID = ''4141414141414141'', tx_sampled = True\<rparr>"
proof -
  have hex: "list_all is_hex ''0af7651916cd43dd8448eb211c80319c''" "list_all is_hex ''b7ad6b7169203331''"
    by (simp_all add: is_hex_def)
  have "parseTraceparent ex_header =
      Some \<lparr>tx_traceID = ''0af7651916cd43dd8448eb211c80319c'', tx_parentSpanID = ''b7ad6b7169203331'', tx_sampled = True\<rparr>"
    using parse_printed(1) [OF _ hex(1), of "''b7ad6b7169203331''"] hex(2) by (simp add: ex_header_def span_id_def)
  note propagated = trace_context_propagates [OF this, of "''/v1/passports''" "\<lambda>n. Some (replicate n CHR ''A'')"
      "replicate 8 CHR ''A''" "\<lambda>k. []" 0 "\<lambda>i. False" "''gw''" "''http''"]
  have "HexEncode (replicate 8 CHR ''A'') = ''4141414141414141''" by code_simp
  then show ?thesis using propagated by simp
qed

end
