(* ===== verification/Gateway_Simulator.thy ===== *)
theory Gateway_Simulator
  imports Gateway_Static
begin

text \<open>
  Properties of the gateway's local simulator over runs of its requests: the consistency of its maps,
  what an allowed scope rests on, the lifetime of a passport, and idempotency with and without a
  concurrent request.
\<close>

section \<open>Runs and the invariant\<close>

text \<open>
  A run is a sequence of calls; in the windows where a call holds no lock, other calls may run.
\<close>

inductive static_run :: "static_state \<Rightarrow> static_state \<Rightarrow> bool" where
  idle: "static_run s s"
| calls: "static_run s t \<Longrightarrow> (\<And>u. static_run u (se_others1 e u)) \<Longrightarrow> (\<And>u. static_run u (se_others2 e u)) \<Longrightarrow>
    static_run s (snd (static_Call e req t))"

lemma gw_key_inject [simp]:
  "gw_register_key i = gw_register_key j \<longleftrightarrow> i = j" "gw_issue_key i = gw_issue_key j \<longleftrightarrow> i = j"
  "gw_register_key i \<noteq> gw_issue_key j" "gw_issue_key i \<noteq> gw_register_key j"
  by (simp_all add: gw_register_key_def gw_issue_key_def)

text \<open>What a call does to the state.\<close>

lemma handleRegisterAgent_preserves:
  assumes "P s"
    and "\<And>f ty ow. uq_IdempotencyKey req \<noteq> [] \<Longrightarrow> ss_idempotentResp s (gw_register_key (uq_IdempotencyKey req)) = None \<Longrightarrow>
      P (write_agent (uq_IdempotencyKey req) (Some f) ty ow (others s))"
  shows "P (snd (handleRegisterAgent others req s))"
  unfolding handleRegisterAgent_def registerAgentBodyFingerprint_def Let_def using assms
  by (simp split: option.split)

lemma handleIssuePassport_preserves:
  assumes "P s" "P (others1 s)"
    and "\<And>f scopes. ss_idempotentResp s (gw_issue_key (uq_IdempotencyKey req)) = None \<Longrightarrow>
      ss_registeredAgents (others1 s) (gf_agentID f) \<noteq> None \<Longrightarrow>
      P (write_passport (uq_IdempotencyKey req) (new_passportRecord now (uq_IdempotencyKey req) f scopes) (others2 (others1 s)))"
  shows "P (snd (handleIssuePassport now others1 others2 req s))"
  unfolding handleIssuePassport_def Let_def using assms
  by (simp split: option.split sum.split)

lemma static_Call_preserves:
  assumes "P s" "P (se_others1 e s)"
    and "\<And>f ty ow. uq_IdempotencyKey req \<noteq> [] \<Longrightarrow> ss_idempotentResp s (gw_register_key (uq_IdempotencyKey req)) = None \<Longrightarrow>
      P (write_agent (uq_IdempotencyKey req) (Some f) ty ow (se_others1 e s))"
    and "\<And>f scopes. ss_idempotentResp s (gw_issue_key (uq_IdempotencyKey req)) = None \<Longrightarrow>
      ss_registeredAgents (se_others1 e s) (gf_agentID f) \<noteq> None \<Longrightarrow>
      P (write_passport (uq_IdempotencyKey req) (new_passportRecord (se_now e) (uq_IdempotencyKey req) f scopes)
          (se_others2 e (se_others1 e s)))"
  shows "P (snd (static_Call e req s))"
proof -
  have reg: "P (snd (handleRegisterAgent (se_others1 e) req s))"
    by (rule handleRegisterAgent_preserves [where P = P]) (use assms in blast)+
  have iss: "P (snd (handleIssuePassport (se_now e) (se_others1 e) (se_others2 e) req s))"
    by (rule handleIssuePassport_preserves [where P = P]) (use assms in blast)+
  show ?thesis
    unfolding static_Call_def Let_def using assms(1) reg iss by (simp split: option.split)
qed

text \<open>Agents are never removed.\<close>

lemma registered_kept:
  assumes "static_run s t" "ss_registeredAgents s a \<noteq> None"
  shows "ss_registeredAgents t a \<noteq> None"
  using assms
proof (induction s t)
  case (calls s t e req)
  let ?P = "\<lambda>u. ss_registeredAgents u a \<noteq> None"
  have "?P t" by (rule calls.IH(1) [OF calls.prems])
  moreover have "?P (se_others1 e t)" by (rule calls.IH(2) [OF \<open>?P t\<close>])
  moreover have "?P (se_others2 e (se_others1 e t))" by (rule calls.IH(3) [OF \<open>?P (se_others1 e t)\<close>])
  ultimately show ?case
    by (intro static_Call_preserves [where P = ?P]) (simp_all add: write_agent_def write_passport_def)
qed

text \<open>
  A property that both writes keep, when it held at the look at the key and again before the write,
  holds along a run.
\<close>

lemma static_run_preserves:
  assumes "static_run s t" "P s"
    and agent: "\<And>u v idem f ty ow. P u \<Longrightarrow> P v \<Longrightarrow> ss_idempotentResp u (gw_register_key idem) = None \<Longrightarrow>
      P (write_agent idem (Some f) ty ow v)"
    and passport: "\<And>u v idem now f scopes. P u \<Longrightarrow> P v \<Longrightarrow> ss_idempotentResp u (gw_issue_key idem) = None \<Longrightarrow>
      ss_registeredAgents v (gf_agentID f) \<noteq> None \<Longrightarrow> P (write_passport idem (new_passportRecord now idem f scopes) v)"
  shows "P t"
  using assms(1,2)
proof (induction s t)
  case (calls s t e req)
  have t: "P t" by (rule calls.IH(1) [OF calls.prems])
  have t1: "P (se_others1 e t)" by (rule calls.IH(2) [OF t])
  have t2: "P (se_others2 e (se_others1 e t))" by (rule calls.IH(3) [OF t1])
  show ?case
  proof (rule static_Call_preserves [where P = P, OF t t1])
    show "P (write_agent (uq_IdempotencyKey req) (Some f) ty ow (se_others1 e t))"
      if "ss_idempotentResp t (gw_register_key (uq_IdempotencyKey req)) = None" for f ty ow
      by (rule agent [OF t t1 that])
    show "P (write_passport (uq_IdempotencyKey req) (new_passportRecord (se_now e) (uq_IdempotencyKey req) f scopes)
        (se_others2 e (se_others1 e t)))"
      if "ss_idempotentResp t (gw_issue_key (uq_IdempotencyKey req)) = None"
        "ss_registeredAgents (se_others1 e t) (gf_agentID f) \<noteq> None" for f scopes
      by (rule passport [OF t t2 that(1) registered_kept [OF calls.hyps(3) that(2)]])
  qed
qed

text \<open>
  The maps fit together: a passport sits under its own identifier and belongs to a registered agent,
  the index names stored passports only, and a used key has its agent or its passport.
\<close>

definition static_inv :: "static_state \<Rightarrow> bool" where
  "static_inv s \<longleftrightarrow>
     (\<forall>i rec. ss_passports s i = Some rec \<longrightarrow> pr_PassportID rec = i \<and> pr_Status rec = ''ACTIVE'' \<and>
        ss_registeredAgents s (pr_AgentID rec) \<noteq> None \<and> i \<in> set (ss_passportsByAgent s (pr_AgentID rec))) \<and>
     (\<forall>a. set (ss_passportsByAgent s a) \<subseteq> dom (ss_passports s)) \<and>
     (\<forall>idem. ss_idempotentResp s (gw_register_key idem) \<noteq> None \<longrightarrow>
        ss_registeredAgents s (''agt-'' @ idem) \<noteq> None \<and> ss_idempotentBodyHash s (gw_register_key idem) \<noteq> None) \<and>
     (\<forall>idem. ss_idempotentResp s (gw_issue_key idem) \<noteq> None \<longrightarrow> ss_passports s (''ppt-'' @ idem) \<noteq> None)"

lemma static_inv_init: "static_inv static_init"
  by (simp add: static_inv_def static_init_def)

lemma static_inv_agent: "static_inv u \<Longrightarrow> static_inv (write_agent idem (Some f) ty ow u)"
  by (auto simp: static_inv_def write_agent_def)

lemma static_inv_passport:
  assumes "static_inv u" "ss_registeredAgents u (gf_agentID f) \<noteq> None"
  shows "static_inv (write_passport idem (new_passportRecord now idem f scopes) u)"
  using assms by (auto simp: static_inv_def write_passport_def new_passportRecord_def dom_def) metis

lemma static_inv_run:
  assumes "static_run static_init s"
  shows "static_inv s"
  by (rule static_run_preserves [where P = static_inv, OF assms static_inv_init])
    (simp_all add: static_inv_agent static_inv_passport)

section \<open>Authority\<close>

definition scope_granted :: "string \<Rightarrow> string \<Rightarrow> object list \<Rightarrow> bool" where
  "scope_granted action resource scopes \<longleftrightarrow>
     list_ex (\<lambda>scope. str_field scope ''action_class'' = action \<and>
       resourceMatches (str_field scope ''resource_pattern'') resource) scopes"

lemma scope_check_iff:
  "scope_check now a action resource rec \<longleftrightarrow>
     pr_AgentID rec = a \<and> pr_Status rec = ''ACTIVE'' \<and> now < pr_ExpiresAt rec \<and> scope_granted action resource (pr_ScopeSet rec)"
  by (simp add: scope_check_def scope_granted_def)

lemma static_inv_passportD:
  assumes "static_inv s" "ss_passports s i = Some rec"
  shows "pr_PassportID rec = i" "pr_Status rec = ''ACTIVE''" "ss_registeredAgents s (pr_AgentID rec) \<noteq> None"
    "i \<in> set (ss_passportsByAgent s (pr_AgentID rec))"
  using assms by (simp_all add: static_inv_def)

lemma static_inv_indexD:
  "static_inv s \<Longrightarrow> i \<in> set (ss_passportsByAgent s a) \<Longrightarrow> \<exists>rec. ss_passports s i = Some rec"
  by (auto simp: static_inv_def dom_def)

text \<open>
  C25: The simulator allows exactly what a stored passport grants. In every state it can reach, with
  concurrent requests, a scope evaluation says \<^verbatim>\<open>ALLOW\<close> if and only if some stored passport, the named one
  when one is named, belongs to the agent, has not expired and has a matching scope; its agent is then
  registered.
\<close>

theorem static_allows_what_passports_grant:
  assumes "static_run static_init s"
  shows "fst (gw_scopeAllows now agent passport action resource s) \<longleftrightarrow>
    (\<exists>i rec. ss_passports s i = Some rec \<and> (passport = [] \<or> passport = i) \<and> pr_AgentID rec = agent \<and>
       ss_registeredAgents s agent \<noteq> None \<and> now < pr_ExpiresAt rec \<and> scope_granted action resource (pr_ScopeSet rec))"
proof -
  note inv = static_inv_run [OF assms]
  have check: "scope_check now agent action resource rec \<longleftrightarrow> pr_AgentID rec = agent \<and>
      ss_registeredAgents s agent \<noteq> None \<and> now < pr_ExpiresAt rec \<and> scope_granted action resource (pr_ScopeSet rec)"
    if "ss_passports s i = Some rec" for i rec
    using static_inv_passportD [OF inv that] by (auto simp: scope_check_iff)
  have index: "i \<in> set (ss_passportsByAgent s agent)"
    if "ss_passports s i = Some rec" "scope_check now agent action resource rec" for i rec
    using static_inv_passportD(4) [OF inv that(1)] that(2) by (simp add: scope_check_iff)
  have found: "(\<exists>i\<in>set (ss_passportsByAgent s agent). scope_check now agent action resource (passport_at s i)) \<longleftrightarrow>
    (\<exists>i rec. ss_passports s i = Some rec \<and> scope_check now agent action resource rec)"
  proof safe
    fix i assume "i \<in> set (ss_passportsByAgent s agent)" "scope_check now agent action resource (passport_at s i)"
    moreover from static_inv_indexD [OF inv this(1)] obtain rec where "ss_passports s i = Some rec" by blast
    ultimately have "ss_passports s i = Some rec \<and> scope_check now agent action resource rec"
      by (simp add: passport_at_def)
    then show "\<exists>i rec. ss_passports s i = Some rec \<and> scope_check now agent action resource rec" by blast
  next
    fix i rec assume "ss_passports s i = Some rec" "scope_check now agent action resource rec"
    then show "\<exists>i\<in>set (ss_passportsByAgent s agent). scope_check now agent action resource (passport_at s i)"
      using index by (intro bexI [of _ i]) (simp_all add: passport_at_def)
  qed
  have allowed: "fst (gw_scopeAllows now agent passport action resource s) \<longleftrightarrow>
    (\<exists>i rec. ss_passports s i = Some rec \<and> (passport = [] \<or> passport = i) \<and> scope_check now agent action resource rec)"
    by (cases "passport = []")
      (simp_all add: gw_scopeAllows_def list_ex_iff found split: option.split)
  show ?thesis
    unfolding allowed
    by (rule ex_cong1, rule ex_cong1, rule conj_cong [OF refl], rule conj_cong [OF refl], rule check)
qed

text \<open>A passport stays as it was issued while its key is in use.\<close>

lemma passport_kept:
  assumes "static_run s t" "ss_idempotentResp s (gw_issue_key idem) \<noteq> None" "ss_passports s (''ppt-'' @ idem) = Some rec"
  shows "ss_passports t (''ppt-'' @ idem) = Some rec"
proof -
  let ?P = "\<lambda>u. ss_idempotentResp u (gw_issue_key idem) \<noteq> None \<and> ss_passports u (''ppt-'' @ idem) = Some rec"
  have "?P t"
    by (rule static_run_preserves [where P = ?P, OF assms(1)])
      (use assms in \<open>auto simp: write_agent_def write_passport_def new_passportRecord_def\<close>)
  then show ?thesis by simp
qed

lemma scope_granted_simps [simp]:
  "\<not> scope_granted action resource []"
  "scope_granted action resource (row # rows) \<longleftrightarrow>
     str_field row ''action_class'' = action \<and> resourceMatches (str_field row ''resource_pattern'') resource
     \<or> scope_granted action resource rows"
  by (simp_all add: scope_granted_def)

lemma new_scope_fields:
  "str_field [(''scope_id'', v), (''action_class'', AStr a), (''resource_pattern'', AStr p)] ''action_class'' = a"
  "str_field [(''scope_id'', v), (''action_class'', AStr a), (''resource_pattern'', AStr p)] ''resource_pattern'' = p"
  by (simp_all add: str_field_def field_def alist_get_def)

lemma gw_scope_set_granted:
  "gw_scope_set idem i items = Inr scopes \<Longrightarrow>
   scope_granted action resource scopes \<longleftrightarrow> scope_granted action resource (List.map_filter as_obj items)"
proof (induction items arbitrary: i scopes)
  case (Cons item items)
  from Cons.prems obtain row rows where "as_obj item = Some row" "gw_scope_set idem (Suc i) items = Inr rows"
    and "scopes = [(''scope_id'', AStr (''scp-'' @ idem @ ''-'' @ Itoa (int i))),
      (''action_class'', AStr (str_field row ''action_class'')),
      (''resource_pattern'', AStr (str_field row ''resource_pattern''))] # rows"
    by (auto split: option.splits if_splits sum.splits)
  with Cons.IH show ?case by (simp add: new_scope_fields)
qed simp

definition ex_gw_req :: "string \<Rightarrow> string \<Rightarrow> string \<Rightarrow> object \<Rightarrow> UpstreamRequest" where
  "ex_gw_req verb path idem payload = \<lparr>uq_Method = verb, uq_Path = path, uq_RawQuery = [], uq_Body = Doc (AObj payload), uq_HasBody = True,
     uq_AgentID = ''agt-k1'', uq_RequestID = ''r1'', uq_Identity = ''sub'', uq_IdempotencyKey = idem,
     uq_Authorization = ''Bearer t'', uq_ContentType = [], uq_Traceparent = []\<rparr>"

definition ex_gw_register :: "string \<Rightarrow> UpstreamRequest" where
  "ex_gw_register owner = ex_gw_req ''POST'' ''/v1/identity/agents'' ''k1''
     [(''agent_type'', AStr ''SYSTEM''), (''owner_id'', AStr owner)]"

definition ex_gw_issue :: UpstreamRequest where
  "ex_gw_issue = ex_gw_req ''POST'' ''/v1/passports'' ''p1''
     [(''agent_id'', AStr ''agt-k1''), (''passport_type'', AStr ''STANDARD''), (''issued_by'', AStr ''ops''),
      (''reason'', AStr ''demo''), (''ttl_seconds'', AFloat 60),
      (''requested_scopes'', AArr [AObj [(''action_class'', AStr ''demo.read''), (''resource_pattern'', AStr ''doc/*'')]])]"

definition ex_static :: static_env where
  "ex_static = \<lparr>se_env = (\<lambda>k. []), se_opa = \<lparr>oc_base = [], oc_http = (\<lambda>u b. OpaError []), oc_err_text = (\<lambda>e. [])\<rparr>,
     se_now = 0, se_others1 = (\<lambda>s. s), se_others2 = (\<lambda>s. s)\<rparr>"

definition ex_static1 :: static_state where
  "ex_static1 = snd (static_Call ex_static (ex_gw_register ''ann'') static_init)"

definition ex_static2 :: static_state where
  "ex_static2 = snd (static_Call ex_static ex_gw_issue ex_static1)"

lemma ex_static_run: "static_run static_init ex_static2"
  unfolding ex_static2_def ex_static1_def
  by (intro static_run.calls static_run.idle) (simp_all add: ex_static_def static_run.idle)

theorem static_allows_what_passports_grant_witness:
  "fst (gw_scopeAllows 59999999999 ''agt-k1'' [] ''demo.read'' ''doc/7'' ex_static2)
   \<and> (\<exists>i rec. ss_passports ex_static2 i = Some rec \<and> pr_AgentID rec = ''agt-k1'' \<and>
        59999999999 < pr_ExpiresAt rec \<and> scope_granted ''demo.read'' ''doc/7'' (pr_ScopeSet rec))"
proof -
  have "fst (gw_scopeAllows 59999999999 ''agt-k1'' [] ''demo.read'' ''doc/7'' ex_static2)" by code_simp
  with static_allows_what_passports_grant [OF ex_static_run, of 59999999999 "''agt-k1''" "[]" "''demo.read''" "''doc/7''"]
  show ?thesis by auto
qed

text \<open>
  The lifetime of a passport of the simulator. A passport issued without a concurrent request under the
  same key allows, through any further requests, exactly its own agent the actions of its scopes, until
  its time to live has passed; a time to live of more than \<open>9223372036\<close> seconds wraps around.
\<close>

theorem static_passport_window:
  assumes "handleIssuePassport now (\<lambda>u. u) (\<lambda>u. u) req s = (resp, s')" "us_StatusCode resp = 201"
    and "ss_idempotentResp s (gw_issue_key (uq_IdempotencyKey req)) = None"
    and "gw_payload (uq_Body req) = Some payload" "gw_issue_request payload = Some f"
    and "static_run s' t"
  shows "fst (gw_scopeAllows later agent (''ppt-'' @ uq_IdempotencyKey req) action resource t) \<longleftrightarrow>
    agent = gf_agentID f \<and> later < now + wrap64 (gf_ttl f * 1000000000) \<and>
    scope_granted action resource (List.map_filter as_obj (gf_scopesRaw f))"
proof -
  let ?i = "uq_IdempotencyKey req"
  from assms(1-5) obtain scopes where scopes: "gw_scope_set ?i 0 (gf_scopesRaw f) = Inr scopes"
    and s': "s' = write_passport ?i (new_passportRecord now ?i f scopes) s"
    by (auto simp: handleIssuePassport_def Let_def gw_jsonError_def split: if_splits option.splits sum.splits)
  have "ss_passports t (''ppt-'' @ ?i) = Some (new_passportRecord now ?i f scopes)"
    by (rule passport_kept [OF assms(6)]) (simp_all add: s' write_passport_def new_passportRecord_def)
  then show ?thesis
    by (auto simp: gw_scopeAllows_def scope_check_iff new_passportRecord_def Add_def scale_duration_def
        gw_scope_set_granted [OF scopes])
qed

theorem static_passport_window_witness:
  "fst (gw_scopeAllows 59999999999 ''agt-k1'' ''ppt-p1'' ''demo.read'' ''doc/7'' ex_static2)
   \<and> \<not> fst (gw_scopeAllows 60000000000 ''agt-k1'' ''ppt-p1'' ''demo.read'' ''doc/7'' ex_static2)"
proof -
  let ?row = "[(''action_class'', AStr ''demo.read''), (''resource_pattern'', AStr ''doc/*'')]"
  let ?payload = "[(''agent_id'', AStr ''agt-k1''), (''passport_type'', AStr ''STANDARD''), (''issued_by'', AStr ''ops''),
      (''reason'', AStr ''demo''), (''ttl_seconds'', AFloat 60), (''requested_scopes'', AArr [AObj ?row])]"
  let ?f = "\<lparr>gf_agentID = ''agt-k1'', gf_passportType = ''STANDARD'', gf_issuedBy = ''ops'', gf_scopesRaw = [AObj ?row], gf_ttl = 60\<rparr>"
  have idem: "uq_IdempotencyKey ex_gw_issue = ''p1''" and payload: "gw_payload (uq_Body ex_gw_issue) = Some ?payload"
    by (simp_all add: ex_gw_issue_def ex_gw_req_def gw_payload_def)
  have route: "static_Call ex_static ex_gw_issue ex_static1 = handleIssuePassport 0 (\<lambda>u. u) (\<lambda>u. u) ex_gw_issue ex_static1"
    by (simp add: static_Call_def ex_gw_issue_def ex_gw_req_def matchPhase1Route_def ex_static_def HasPrefix_code)
  have fields: "gw_issue_request ?payload = Some ?f" by code_simp
  have code: "us_StatusCode (fst (handleIssuePassport 0 (\<lambda>u. u) (\<lambda>u. u) ex_gw_issue ex_static1)) = 201"
    "ss_idempotentResp ex_static1 (gw_issue_key (uq_IdempotencyKey ex_gw_issue)) = None"
    by code_simp+
  have step: "handleIssuePassport 0 (\<lambda>u. u) (\<lambda>u. u) ex_gw_issue ex_static1 =
      (fst (handleIssuePassport 0 (\<lambda>u. u) (\<lambda>u. u) ex_gw_issue ex_static1), ex_static2)"
    by (simp add: ex_static2_def route)
  have match: "resourceMatches ''doc/*'' ''doc/7''" by code_simp
  note window = static_passport_window [OF step code payload fields static_run.idle]
  have "wrap64 60000000000 = 60000000000" by (simp add: in_int64_def)
  then show ?thesis
    using window [of 59999999999 "''agt-k1''" "''demo.read''" "''doc/7''"]
      window [of 60000000000 "''agt-k1''" "''demo.read''" "''doc/7''"] match
    by (simp add: idem str_field_def field_def alist_get_def)
qed

section \<open>Idempotency\<close>

lemma fingerprint_kept:
  assumes "static_run s t" "ss_idempotentResp s (gw_register_key idem) = Some resp"
    "ss_idempotentBodyHash s (gw_register_key idem) = Some f"
  shows "ss_idempotentResp t (gw_register_key idem) = Some resp \<and> ss_idempotentBodyHash t (gw_register_key idem) = Some f"
  by (rule static_run_preserves [where P = "\<lambda>u. ss_idempotentResp u (gw_register_key idem) = Some resp \<and>
      ss_idempotentBodyHash u (gw_register_key idem) = Some f", OF assms(1)])
    (use assms in \<open>auto simp: write_agent_def write_passport_def\<close>)

lemma handleRegisterAgent_created:
  assumes "handleRegisterAgent others req s = (resp, s')" "us_StatusCode resp = 201"
    and "ss_idempotentResp s (gw_register_key (uq_IdempotencyKey req)) = None"
  obtains f ty ow where "registerAgentBodyFingerprint (uq_Body req) = Some f" "f \<noteq> []" "uq_IdempotencyKey req \<noteq> []"
    "resp = gw_ok 201 (gw_agent_body (''agt-'' @ uq_IdempotencyKey req) ty ow)"
    "s' = write_agent (uq_IdempotencyKey req) (Some f) ty ow (others s)"
  using assms
  by (auto simp: handleRegisterAgent_def registerAgentBodyFingerprint_def Let_def gw_jsonError_def
      split: if_splits option.splits)

text \<open>
  A registration of the simulator that was answered 201 is final for its key when no other request
  under that key was under way: after any further requests, registering again under the key changes
  nothing and answers the first response when type and owner are the same up to surrounding space, 409 when
  they differ, and 400 for a body that is no JSON object.
\<close>

theorem static_register_once:
  assumes "handleRegisterAgent others req s = (resp, s')" "us_StatusCode resp = 201"
    and "ss_idempotentResp s (gw_register_key (uq_IdempotencyKey req)) = None"
    and "static_run s' t" "uq_IdempotencyKey req2 = uq_IdempotencyKey req"
  shows "handleRegisterAgent others2 req2 t =
    (case registerAgentBodyFingerprint (uq_Body req2) of
       None \<Rightarrow> gw_jsonError (uq_RequestID req2) ''INVALID_ARGUMENT'' ''invalid json body'' False 400
     | Some f \<Rightarrow>
         if registerAgentBodyFingerprint (uq_Body req) = Some f then resp
         else gw_jsonError (uq_RequestID req2) ''IDEMPOTENCY_CONFLICT'' ''idempotency key replay with conflicting body'' False 409,
     t)"
proof -
  obtain f ty ow where created: "registerAgentBodyFingerprint (uq_Body req) = Some f" "f \<noteq> []" "uq_IdempotencyKey req \<noteq> []"
      "resp = gw_ok 201 (gw_agent_body (''agt-'' @ uq_IdempotencyKey req) ty ow)"
      "s' = write_agent (uq_IdempotencyKey req) (Some f) ty ow (others s)"
    using handleRegisterAgent_created [OF assms(1-3)] by blast
  have "ss_idempotentResp t (gw_register_key (uq_IdempotencyKey req)) = Some resp \<and>
      ss_idempotentBodyHash t (gw_register_key (uq_IdempotencyKey req)) = Some f"
    by (rule fingerprint_kept [OF assms(4)]) (simp_all add: created(4,5) write_agent_def)
  then show ?thesis
    using created(1-3) by (simp add: handleRegisterAgent_def assms(5) split: option.split)
qed

theorem static_register_once_witness:
  "handleRegisterAgent (\<lambda>u. u) (ex_gw_register ''ann'') ex_static1 =
     (fst (handleRegisterAgent (\<lambda>u. u) (ex_gw_register ''ann'') static_init), ex_static1)
   \<and> us_StatusCode (fst (handleRegisterAgent (\<lambda>u. u) (ex_gw_register ''bob'') ex_static1)) = 409"
proof -
  let ?first = "handleRegisterAgent (\<lambda>u. u) (ex_gw_register ''ann'') static_init"
  have route: "static_Call ex_static (ex_gw_register ''ann'') static_init = ?first"
    by (simp add: static_Call_def ex_gw_register_def ex_gw_req_def matchPhase1Route_def ex_static_def)
  have step: "?first = (fst ?first, ex_static1)" by (simp add: ex_static1_def route)
  have code: "us_StatusCode (fst ?first) = 201"
    "ss_idempotentResp static_init (gw_register_key (uq_IdempotencyKey (ex_gw_register ''ann''))) = None"
    by code_simp+
  note again = static_register_once [OF step code static_run.idle]
  have prints: "registerAgentBodyFingerprint (uq_Body (ex_gw_register ''ann'')) \<noteq> None"
    "registerAgentBodyFingerprint (uq_Body (ex_gw_register ''bob'')) \<noteq> None"
    "registerAgentBodyFingerprint (uq_Body (ex_gw_register ''ann'')) \<noteq> registerAgentBodyFingerprint (uq_Body (ex_gw_register ''bob''))"
    by code_simp+
  have "uq_IdempotencyKey (ex_gw_register owner) = ''k1''" for owner
    by (simp add: ex_gw_register_def ex_gw_req_def)
  with again [of "ex_gw_register ''ann''" "\<lambda>u. u"] again [of "ex_gw_register ''bob''" "\<lambda>u. u"] prints
  show ?thesis by (auto simp: gw_jsonError_def)
qed

text \<open>
  Without that condition the key protects nothing: whatever a concurrent request under the same
  key has answered and stored meanwhile, a registration that found the key free answers 201 with its own
  agent and overwrites the stored response and the agent.
\<close>

theorem static_register_race:
  assumes "uq_IdempotencyKey req \<noteq> []" "gw_payload (uq_Body req) = Some payload"
    and "TrimSpace (str_field payload ''agent_type'') \<noteq> []" "TrimSpace (str_field payload ''owner_id'') \<noteq> []"
    and "ss_idempotentResp s (gw_register_key (uq_IdempotencyKey req)) = None"
    and "ss_idempotentResp (others s) (gw_register_key (uq_IdempotencyKey req)) = Some answered"
  shows "let (resp, s') = handleRegisterAgent others req s
    in us_StatusCode resp = 201 \<and> ss_idempotentResp s' (gw_register_key (uq_IdempotencyKey req)) = Some resp \<and>
       ss_registeredAgents s' (''agt-'' @ uq_IdempotencyKey req) =
         Some \<lparr>ar_AgentType = str_field payload ''agent_type'', ar_OwnerID = str_field payload ''owner_id''\<rparr>"
  using assms by (simp add: handleRegisterAgent_def write_agent_def gw_ok_def Let_def)

theorem static_register_race_witness:
  "let others = (\<lambda>u. snd (handleRegisterAgent (\<lambda>u. u) (ex_gw_register ''ann'') u));
       (resp, s') = handleRegisterAgent others (ex_gw_register ''bob'') static_init
   in ss_registeredAgents (others static_init) ''agt-k1'' = Some \<lparr>ar_AgentType = ''SYSTEM'', ar_OwnerID = ''ann''\<rparr>
    \<and> us_StatusCode resp = 201 \<and> ss_registeredAgents s' ''agt-k1'' = Some \<lparr>ar_AgentType = ''SYSTEM'', ar_OwnerID = ''bob''\<rparr>"
proof -
  let ?others = "\<lambda>u. snd (handleRegisterAgent (\<lambda>u. u) (ex_gw_register ''ann'') u)"
  let ?p = "[(''agent_type'', AStr ''SYSTEM''), (''owner_id'', AStr ''bob'')]"
  have req: "uq_IdempotencyKey (ex_gw_register ''bob'') = ''k1''" "gw_payload (uq_Body (ex_gw_register ''bob'')) = Some ?p"
    by (simp_all add: ex_gw_register_def ex_gw_req_def gw_payload_def)
  have free: "TrimSpace (str_field ?p ''agent_type'') \<noteq> []" "TrimSpace (str_field ?p ''owner_id'') \<noteq> []"
    "ss_idempotentResp static_init (gw_register_key (uq_IdempotencyKey (ex_gw_register ''bob''))) = None"
    by code_simp+
  have first: "ss_registeredAgents (?others static_init) ''agt-k1'' = Some \<lparr>ar_AgentType = ''SYSTEM'', ar_OwnerID = ''ann''\<rparr>"
    "ss_idempotentResp (?others static_init) (gw_register_key (uq_IdempotencyKey (ex_gw_register ''bob''))) =
       Some (fst (handleRegisterAgent (\<lambda>u. u) (ex_gw_register ''ann'') static_init))"
    by code_simp+
  from static_register_race [of "ex_gw_register ''bob''" ?p static_init ?others, OF _ req(2) free first(2)] first(1)
  show ?thesis
    by (auto simp: req(1) str_field_def field_def alist_get_def split: prod.splits)
qed

end
