(* ===== verification/Gateway_Handle.thy ===== *)
theory Gateway_Handle
  imports Gateway_Proxy Gateway_Trace Gateway_Simulator GoGrpc
begin

text \<open>
  The gateway itself (\<^verbatim>\<open>sx/are-api-gateway/internal/gateway/gateway.go\<close>, \<^verbatim>\<open>auth.go\<close>, \<^verbatim>\<open>dev_insecure_token_*.go\<close>,
  \<^verbatim>\<open>readiness.go\<close>, \<^verbatim>\<open>grpc_conformance.go\<close>) and its start-up (\<^verbatim>\<open>cmd/are-api-gateway/main.go\<close>).

  The JWT library and the key set are arguments: \<open>parse keyfunc token\<close> is what \<^verbatim>\<open>jwt.Parse\<close> returns when it looks
  up keys with \<open>keyfunc\<close>, which maps the algorithm of a token to a key or refuses it.
\<close>

section \<open>Tokens\<close>

record jwt_token =
  jt_Valid :: bool
  jt_MapClaims :: "object option"

type_synonym 'k jwt_parse = "(string \<Rightarrow> 'k option) \<Rightarrow> string \<Rightarrow> string + jwt_token"

datatype auth_error = ContextDone | TokenRefused string | TokenInvalid | ClaimsInvalid | SubjectMissing

text \<open>\<open>dev\<close>: the binary was built with the tag \<^verbatim>\<open>dev\<close>.\<close>

definition DevBuildSupportsInsecureTestToken :: "bool \<Rightarrow> bool" where
  "DevBuildSupportsInsecureTestToken dev = dev"

definition insecureBypassTestToken :: "bool \<Rightarrow> bool \<Rightarrow> string \<Rightarrow> string option" where
  "insecureBypassTestToken dev allowInsecureTestToken token =
     (if dev \<and> allowInsecureTestToken \<and> token = ''test-token'' then Some ''test-subject'' else None)"

definition subject_of :: "bool \<Rightarrow> string + jwt_token \<Rightarrow> auth_error + string" where
  "subject_of done_after parsed =
     (case parsed of
        Inl e \<Rightarrow> Inl (TokenRefused e)
      | Inr tok \<Rightarrow>
          if done_after then Inl ContextDone
          else if \<not> jt_Valid tok then Inl TokenInvalid
          else
            (case jt_MapClaims tok of
               None \<Rightarrow> Inl ClaimsInvalid
             | Some claims \<Rightarrow>
                 if str_field claims ''sub'' = [] then Inl SubjectMissing else Inr (str_field claims ''sub'')))"

text \<open>\<open>done_before\<close> and \<open>done_after\<close>: the context is over at the first and at the second look.\<close>

definition JWKS_Validate ::
  "bool \<Rightarrow> bool \<Rightarrow> 'k jwt_parse \<Rightarrow> (string \<Rightarrow> 'k option) \<Rightarrow> bool \<Rightarrow> bool \<Rightarrow> string \<Rightarrow> auth_error + string" where
  "JWKS_Validate dev allow parse jwks done_before done_after token =
     (case insecureBypassTestToken dev allow token of
        Some sub \<Rightarrow> Inr sub
      | None \<Rightarrow> if done_before then Inl ContextDone else subject_of done_after (parse jwks token))"

definition Static_Validate ::
  "bool \<Rightarrow> bool \<Rightarrow> 'k jwt_parse \<Rightarrow> 'k \<Rightarrow> bool \<Rightarrow> bool \<Rightarrow> string \<Rightarrow> auth_error + string" where
  "Static_Validate dev allow parse publicKey done_before done_after token =
     (case insecureBypassTestToken dev allow token of
        Some sub \<Rightarrow> Inr sub
      | None \<Rightarrow>
          if done_before then Inl ContextDone
          else subject_of done_after (parse (\<lambda>alg. if alg \<noteq> ''RS256'' then None else Some publicKey) token))"

section \<open>Requests\<close>

text \<open>\<open>gq_Body\<close> is \<open>None\<close> when reading the body fails.\<close>

record gw_request =
  gq_Method :: string
  gq_Path :: string
  gq_RawQuery :: string
  gq_RequestID :: string
  gq_Authorization :: string
  gq_AgentID :: string
  gq_IdempotencyKey :: string
  gq_ContentType :: string
  gq_Traceparent :: string
  gq_Origin :: string
  gq_Body :: "body option"
  gq_HasBody :: bool

datatype gw_body = PlainText string | JsonBody body | MetricsPage

record gw_response =
  gr_Status :: nat
  gr_Body :: gw_body

text \<open>
  The environment of one request: \<open>ge_validate\<close> the validator, \<open>ge_late\<close> whether its deadline has passed when it
  returns, the sources of the trace, and the two readings of the clock.
\<close>

record gw_env =
  ge_env :: environ
  ge_validate :: "string \<Rightarrow> auth_error + string"
  ge_late :: bool
  ge_entropy :: "nat \<Rightarrow> bytes option"
  ge_sample :: "string \<Rightarrow> bool"
  ge_start :: instant
  ge_end :: instant

definition metricsScrapeRequiresAuth :: "environ \<Rightarrow> bool" where
  "metricsScrapeRequiresAuth env =
     (let anonymous = TrimSpace (env ''ARE_GATEWAY_METRICS_ALLOW_ANONYMOUS'');
          v = TrimSpace (ToLower (env ''ARE_GATEWAY_METRICS_REQUIRE_AUTH''))
      in if EqualFold anonymous ''true'' \<or> anonymous = ''1'' then False
         else if EqualFold (TrimSpace (env ''ARE_GW_DEV_UNSAFE_MODE'')) ''true'' then False
         else if v = ''0'' \<or> v = ''false'' \<or> v = ''no'' then False
         else True)"

definition bearer :: "string \<Rightarrow> bool" where
  "bearer authz \<longleftrightarrow> authz \<noteq> [] \<and> HasPrefix authz ''Bearer ''"

definition authorizeMetricsScrape :: "gw_env \<Rightarrow> gw_request \<Rightarrow> string option" where
  "authorizeMetricsScrape e r =
     (if \<not> metricsScrapeRequiresAuth (ge_env e) then None
      else if \<not> bearer (gq_Authorization r) then Some ''missing bearer token''
      else
        (case ge_validate e (TrimPrefix (gq_Authorization r) ''Bearer '') of
           Inl _ \<Rightarrow> Some ''unauthorized''
         | Inr _ \<Rightarrow> if ge_late e then Some ''unauthorized'' else None))"

definition http_Error :: "string \<Rightarrow> nat \<Rightarrow> gw_response" where
  "http_Error msg status = \<lparr>gr_Status = status, gr_Body = PlainText msg\<rparr>"

definition MetricsPrometheusHandler :: "gw_env \<Rightarrow> gw_request \<Rightarrow> counters \<Rightarrow> gw_response \<times> counters" where
  "MetricsPrometheusHandler e r c =
     (let resp = (case authorizeMetricsScrape e r of
                    Some msg \<Rightarrow> http_Error msg 401
                  | None \<Rightarrow> \<lparr>gr_Status = 200, gr_Body = MetricsPage\<rparr>)
      in (resp, observeGatewayHTTP (gq_Method r) ''/metrics'' (int (gr_Status resp)) c))"

definition request_trace :: "gw_env \<Rightarrow> gw_request \<Rightarrow> serverTrace option" where
  "request_trace e r =
     startServerTrace (ge_env e) (ge_entropy e) (ge_start e) (ge_sample e) (gq_Path r) (gq_Traceparent r)
       ''are-api-gateway'' ''are-api-gateway/http-server''"

definition upstream_request :: "gw_env \<Rightarrow> gw_request \<Rightarrow> string \<Rightarrow> body \<Rightarrow> UpstreamRequest" where
  "upstream_request e r identity b = \<lparr>
     uq_Method = gq_Method r, uq_Path = gq_Path r, uq_RawQuery = gq_RawQuery r, uq_Body = b, uq_HasBody = gq_HasBody r,
     uq_AgentID = gq_AgentID r, uq_RequestID = gq_RequestID r, uq_Identity = identity,
     uq_IdempotencyKey = gq_IdempotencyKey r, uq_Authorization = gq_Authorization r,
     uq_ContentType = gq_ContentType r, uq_Traceparent = traceparent (request_trace e r)\<rparr>"

text \<open>The response, the identity of the caller and the error of the upstream, if any, and the state behind it.\<close>

definition gw_handle ::
  "gw_env \<Rightarrow> 's upstream \<Rightarrow> gw_request \<Rightarrow> 's \<Rightarrow> (gw_response \<times> string \<times> string option) \<times> 's" where
  "gw_handle e upstream r s =
     (if gq_Path r = ''/v1/platform/health''
      then ((\<lparr>gr_Status = 200, gr_Body = JsonBody (Doc (AObj [(''status'', AStr ''ok'')]))\<rparr>, [], None), s)
      else if gq_Path r = ''/metrics''
      then ((case authorizeMetricsScrape e r of
               Some msg \<Rightarrow> http_Error msg 401
             | None \<Rightarrow> \<lparr>gr_Status = 200, gr_Body = MetricsPage\<rparr>, [], None), s)
      else if gq_RequestID r = [] then ((http_Error ''missing request id'' 400, [], None), s)
      else if requiresIdempotencyKey (gq_Method r) (gq_Path r) \<and> gq_IdempotencyKey r = []
      then ((http_Error ''missing idempotency key'' 400, [], None), s)
      else if \<not> bearer (gq_Authorization r) then ((http_Error ''missing bearer token'' 401, [], None), s)
      else if gq_AgentID r = [] then ((http_Error ''missing agent id'' 400, [], None), s)
      else
        (case ge_validate e (TrimPrefix (gq_Authorization r) ''Bearer '') of
           Inl _ \<Rightarrow> ((http_Error ''unauthorized'' 401, [], None), s)
         | Inr identity \<Rightarrow>
             if ge_late e then ((http_Error ''unauthorized'' 401, [], None), s)
             else if \<not> isFoundationAPIRoute (gq_Method r) (gq_Path r)
             then ((http_Error ''route is not part of the ARE Foundation S0/S1 surface'' 404, identity, None), s)
             else
               (case gq_Body r of
                  None \<Rightarrow> ((http_Error ''bad body'' 400, identity, None), s)
                | Some b \<Rightarrow>
                    (case upstream (upstream_request e r identity b) s of
                       (Inl err, s') \<Rightarrow> ((http_Error ''upstream unavailable'' 503, identity, Some err), s')
                     | (Inr resp, s') \<Rightarrow>
                         ((\<lparr>gr_Status = us_StatusCode resp, gr_Body = JsonBody (us_Body resp)\<rparr>, identity, None), s')))))"

text \<open>
  What the handler leaves behind besides the response: the metric counters, the exported span and the
  log lines, the upstream error first.
\<close>

record gw_trail =
  gt_counters :: counters
  gt_spans :: "(string \<times> any) list"
  gt_log :: "any list"

definition logRequest :: "gw_env \<Rightarrow> gw_request \<Rightarrow> string \<Rightarrow> nat \<Rightarrow> any" where
  "logRequest e r identity status =
     AObj [(''request_id'', AStr (gq_RequestID r)), (''caller_identity'', AStr identity), (''method'', AStr (gq_Method r)),
       (''path'', AStr (gq_Path r)), (''response_code'', AInt (int status)),
       (''latency_ms'', AInt ((ge_end e - ge_start e) div 1000000))]"

definition logUpstreamError :: "gw_request \<Rightarrow> string \<Rightarrow> any" where
  "logUpstreamError r err =
     AObj [(''event'', AStr ''upstream_error''), (''request_id'', AStr (gq_RequestID r)), (''method'', AStr (gq_Method r)),
       (''path'', AStr (gq_Path r)), (''error'', AStr err)]"

definition gw_serve ::
  "gw_env \<Rightarrow> 's upstream \<Rightarrow> gw_request \<Rightarrow> gw_trail \<Rightarrow> 's \<Rightarrow> gw_response \<times> gw_trail \<times> 's" where
  "gw_serve e upstream r trail s =
     (case gw_handle e upstream r s of ((resp, identity, err), s') \<Rightarrow>
        (let status = gr_Status resp
         in (resp,
             \<lparr>gt_counters = observeGatewayHTTP (gq_Method r) (gq_Path r) (int status) (gt_counters trail),
              gt_spans = gt_spans trail @
                (case trace_finish (request_trace e r) (gq_Method r) (normalizedRoute (gq_Path r)) (gq_Path r) (int status)
                        (ge_start e) (ge_end e) ''are-api-gateway'' of None \<Rightarrow> [] | Some posted \<Rightarrow> [posted]),
              gt_log = gt_log trail @ (case err of None \<Rightarrow> [] | Some m \<Rightarrow> [logUpstreamError r m]) @
                [logRequest e r identity status]\<rparr>, s')))"

text \<open>The public listener: CORS around the handler. A preflight gets an empty answer with status 204.\<close>

definition gw_listener ::
  "string list \<Rightarrow> gw_env \<Rightarrow> 's upstream \<Rightarrow> gw_request \<Rightarrow> gw_trail \<Rightarrow> 's
   \<Rightarrow> (strmap \<times> gw_response) \<times> gw_trail \<times> 's" where
  "gw_listener origins e upstream r trail s =
     (case WrapCORSIfConfigured origins (gq_Method r) (gq_Origin r) of
        Preflight hs \<Rightarrow> ((hs, \<lparr>gr_Status = 204, gr_Body = PlainText []\<rparr>), trail, s)
      | PassOn hs \<Rightarrow> (case gw_serve e upstream r trail s of (resp, trail', s') \<Rightarrow> ((hs, resp), trail', s')))"

section \<open>Readiness\<close>

text \<open>\<open>get url\<close> is the outcome of the probe of the key set, \<open>dial addr\<close> the error of connecting to a broker.\<close>

datatype probe = ProbeError string | ProbeStatus int string

definition probeJWKS :: "(string \<Rightarrow> probe) \<Rightarrow> string \<Rightarrow> string option" where
  "probeJWKS get jwksURL =
     (if TrimSpace jwksURL = [] then Some ''jwks url is empty''
      else
        (case get jwksURL of
           ProbeError e \<Rightarrow> Some e
         | ProbeStatus code text \<Rightarrow> if code < 200 \<or> code > 299 then Some (''HTTP '' @ text) else None))"

fun probe_brokers :: "(string \<Rightarrow> string option) \<Rightarrow> string option \<Rightarrow> string list \<Rightarrow> string option" where
  "probe_brokers dial lastErr [] = Some (case lastErr of None \<Rightarrow> ''no kafka brokers configured for probe'' | Some e \<Rightarrow> e)"
| "probe_brokers dial lastErr (addr # addrs) =
     (if addr = [] then probe_brokers dial lastErr addrs
      else (case dial addr of None \<Rightarrow> None | Some e \<Rightarrow> probe_brokers dial (Some e) addrs))"

definition probeKafka :: "(string \<Rightarrow> string option) \<Rightarrow> string list \<Rightarrow> string option" where
  "probeKafka dial brokers = probe_brokers dial None brokers"

definition ReadinessFailures ::
  "(string \<Rightarrow> probe) \<Rightarrow> (string \<Rightarrow> string option) \<Rightarrow> string \<Rightarrow> string list \<Rightarrow> string list" where
  "ReadinessFailures get dial jwksURL brokers =
     (case probeJWKS get jwksURL of None \<Rightarrow> [] | Some e \<Rightarrow> [''jwks: '' @ e])
     @ (if brokers \<noteq> [] then (case probeKafka dial brokers of None \<Rightarrow> [] | Some e \<Rightarrow> [''kafka: '' @ e]) else [])"

definition ServeReadiness ::
  "(string \<Rightarrow> probe) \<Rightarrow> (string \<Rightarrow> string option) \<Rightarrow> string \<Rightarrow> string list \<Rightarrow> string \<Rightarrow> gw_response" where
  "ServeReadiness get dial jwksURL brokers verb =
     (if verb \<noteq> ''GET'' then http_Error ''method not allowed'' 405
      else
        (let failures = ReadinessFailures get dial jwksURL brokers
         in if failures \<noteq> [] then \<lparr>gr_Status = 503, gr_Body = PlainText (Join failures [CHR 0x0A])\<rparr>
            else \<lparr>gr_Status = 200, gr_Body = PlainText ''ok''\<rparr>))"

section \<open>gRPC conformance\<close>

text \<open>\<open>values\<close> are the values of the metadata key \<^verbatim>\<open>x-conformance-dimension\<close>.\<close>

definition dimensionFromMetadata :: "string list option \<Rightarrow> string" where
  "dimensionFromMetadata md = (case md of None \<Rightarrow> [] | Some [] \<Rightarrow> [] | Some (v # vs) \<Rightarrow> TrimSpace v)"

definition unaryConformanceHandler :: "string \<Rightarrow> bool \<Rightarrow> string list option \<Rightarrow> (string, any) rpc" where
  "unaryConformanceHandler verb decodes md =
     (if \<not> decodes then Inl (InvalidArgument, ''invalid request body'')
      else
        (let dimension = dimensionFromMetadata md
         in if dimension = ''auth_denial_path'' \<or> dimension = ''missing_bearer_path'' then Inl (PermissionDenied, ''auth denied'')
            else if dimension = ''invalid_input_path'' then Inl (InvalidArgument, ''invalid input'')
            else if dimension = ''missing_request_id_path'' then Inl (InvalidArgument, ''missing request id'')
            else if dimension = ''dependency_timeout_path'' then Inl (Unavailable, ''dependency timeout'')
            else if dimension = ''concurrency_race_path'' then Inl (Aborted, ''concurrency conflict'')
            else Inr (AObj [(''method'', AStr verb), (''status'', AStr ''ok'')])))"

definition phase1_services :: "(string \<times> string list) list" where
  "phase1_services =
     [(''are.api.v1.IdentityService'', [''RegisterAgent'', ''GetAgent'']),
      (''are.api.v1.PassportService'', [''IssuePassport'', ''VerifyPassport'', ''ListPassportsByAgent'']),
      (''are.api.v1.ScopeService'', [''EvaluateScope'']),
      (''are.api.v1.PolicyService'', [''EvaluatePolicy''])]"

section \<open>What reaches the upstream\<close>

text \<open>An upstream that also keeps a list of the requests it was given.\<close>

definition recording :: "'s upstream \<Rightarrow> (UpstreamRequest list \<times> 's) upstream" where
  "recording up req st = (case st of (calls, s) \<Rightarrow> (case up req s of (r, s') \<Rightarrow> (r, (calls @ [req], s'))))"

text \<open>The checks a request passes before it is forwarded, and the identity they establish.\<close>

definition admitted :: "gw_env \<Rightarrow> gw_request \<Rightarrow> string \<Rightarrow> bool" where
  "admitted e r identity \<longleftrightarrow>
     gq_RequestID r \<noteq> [] \<and> gq_AgentID r \<noteq> [] \<and> (gq_Method r = ''POST'' \<longrightarrow> gq_IdempotencyKey r \<noteq> []) \<and>
     isFoundationAPIRoute (gq_Method r) (gq_Path r) \<and> HasPrefix (gq_Authorization r) ''Bearer '' \<and>
     ge_validate e (TrimPrefix (gq_Authorization r) ''Bearer '') = Inr identity \<and> \<not> ge_late e"

lemma foundation_not_own:
  "isFoundationAPIRoute m p \<Longrightarrow> p \<noteq> ''/v1/platform/health'' \<and> p \<noteq> ''/metrics''"
  by (auto simp: isFoundationAPIRoute_def matchPhase1Route_def HasPrefix_code split: if_splits)

text \<open>The handler in one equation: it forwards an admitted request with a readable body, and nothing else.\<close>

lemma gw_handle_forwards:
  assumes "admitted e r identity" "gq_Body r = Some b"
  shows "gw_handle e up r s =
    (case up (upstream_request e r identity b) s of
       (Inl err, s') \<Rightarrow> ((http_Error ''upstream unavailable'' 503, identity, Some err), s')
     | (Inr resp, s') \<Rightarrow> ((\<lparr>gr_Status = us_StatusCode resp, gr_Body = JsonBody (us_Body resp)\<rparr>, identity, None), s'))"
proof -
  from assms(1) have "isFoundationAPIRoute (gq_Method r) (gq_Path r)" by (simp add: admitted_def)
  note own = foundation_not_own [OF this]
  from assms own show ?thesis
    by (auto simp: gw_handle_def admitted_def requiresIdempotencyKey_iff bearer_def HasPrefix_code)
qed

lemma gw_handle_refuses:
  assumes "\<And>identity b. admitted e r identity \<Longrightarrow> gq_Body r \<noteq> Some b"
  shows "snd (gw_handle e up r s) = s"
  using assms
  by (auto simp: gw_handle_def admitted_def requiresIdempotencyKey_iff bearer_def split: sum.splits option.splits)

text \<open>
  C7: Nothing passes the gateway unchecked. A request reaches the upstream at most once, and only when it
  carries a request id, an agent id, a bearer token that the validator accepted in time, an idempotency key
  if it is a \<^verbatim>\<open>POST\<close>, and a route of the platform; the forwarded request names the identity of the token.
  Otherwise the state behind the gateway is untouched.
\<close>

theorem gateway_forwards_only_admitted:
  assumes "gw_handle e (recording up) r ([], s) = ((resp, identity, err), calls, s')"
  shows "(calls = [] \<and> s' = s) \<or>
    (\<exists>b. gq_Body r = Some b \<and> admitted e r identity \<and> calls = [upstream_request e r identity b])"
proof (cases "\<exists>identity' b. admitted e r identity' \<and> gq_Body r = Some b")
  case True
  then obtain identity' b where "admitted e r identity'" "gq_Body r = Some b" by blast
  with assms gw_handle_forwards [OF this, of "recording up" "([], s)"] show ?thesis
    by (auto simp: recording_def split: prod.splits sum.splits)
next
  case False
  then have "snd (gw_handle e (recording up) r ([], s)) = ([], s)"
    by (intro gw_handle_refuses) blast
  with assms show ?thesis by simp
qed

definition ex_gw_env :: gw_env where
  "ex_gw_env = \<lparr>ge_env = (\<lambda>k. []), ge_validate = (\<lambda>t. if t = ''good'' then Inr ''alice'' else Inl TokenInvalid), ge_late = False,
     ge_entropy = (\<lambda>n. None), ge_sample = (\<lambda>i. False), ge_start = 0, ge_end = 0\<rparr>"

definition ex_gw_request :: "string \<Rightarrow> gw_request" where
  "ex_gw_request token = \<lparr>gq_Method = ''POST'', gq_Path = ''/v1/identity/agents'', gq_RawQuery = [], gq_RequestID = ''r1'',
     gq_Authorization = ''Bearer '' @ token, gq_AgentID = ''a1'', gq_IdempotencyKey = ''k1'', gq_ContentType = [],
     gq_Traceparent = [], gq_Origin = [],
     gq_Body = Some (Doc (AObj [(''agent_type'', AStr ''SYSTEM''), (''owner_id'', AStr ''ann'')])), gq_HasBody = True\<rparr>"

theorem gateway_forwards_only_admitted_witness:
  "fst (snd (gw_handle ex_gw_env (recording (static_upstream ex_static)) (ex_gw_request ''bad'') ([], static_init))) = []
   \<and> (\<exists>b. gq_Body (ex_gw_request ''good'') = Some b \<and> admitted ex_gw_env (ex_gw_request ''good'') ''alice'' \<and>
        fst (snd (gw_handle ex_gw_env (recording (static_upstream ex_static)) (ex_gw_request ''good'') ([], static_init))) =
          [upstream_request ex_gw_env (ex_gw_request ''good'') ''alice'' b])"
proof -
  let ?run = "\<lambda>t. gw_handle ex_gw_env (recording (static_upstream ex_static)) (ex_gw_request t) ([], static_init)"
  have bad: "fst (fst (?run ''bad'')) = http_Error ''unauthorized'' 401" "fst (snd (?run ''bad'')) = []"
    and good: "fst (snd (fst (?run ''good''))) = ''alice''" "fst (snd (?run ''good'')) \<noteq> []"
    by (simp_all add: gw_handle_def ex_gw_request_def ex_gw_env_def bearer_def HasPrefix_code TrimPrefix_def
        requiresIdempotencyKey_def isFoundationAPIRoute_def matchPhase1Route_def recording_def
        split: prod.split sum.split)
  obtain resp err calls s' where run: "?run ''good'' = ((resp, ''alice'', err), calls, s')"
    using good(1) by (metis prod.collapse)
  from gateway_forwards_only_admitted [OF run] good(2) bad(2) show ?thesis
    by (simp add: run)
qed

text \<open>
  The identity of the token and the agent id of the header are passed on but not compared: the simulator
  answers a request by its body alone, whoever sent it and on whose behalf.
\<close>

theorem simulator_ignores_caller:
  "static_Call e (req\<lparr>uq_AgentID := a, uq_Identity := i, uq_Authorization := t\<rparr>) s = static_Call e req s"
proof -
  let ?req = "req\<lparr>uq_AgentID := a, uq_Identity := i, uq_Authorization := t\<rparr>"
  have same: "uq_Method ?req = uq_Method req" "uq_Path ?req = uq_Path req" "uq_Body ?req = uq_Body req"
    "uq_RequestID ?req = uq_RequestID req" "uq_IdempotencyKey ?req = uq_IdempotencyKey req" by simp_all
  have "handleRegisterAgent o1 ?req s = handleRegisterAgent o1 req s" "handleGetAgent ?req s = handleGetAgent req s"
    "handleIssuePassport n o1 o2 ?req s = handleIssuePassport n o1 o2 req s"
    "handleListPassportsByAgent ?req s = handleListPassportsByAgent req s"
    "handleVerifyPassport n ?req s = handleVerifyPassport n req s" "handleEvaluateScope n ?req s = handleEvaluateScope n req s"
    "handleEvaluatePolicy opa ?req = handleEvaluatePolicy opa req"
    "handleGetDeploymentMeta env ?req = handleGetDeploymentMeta env req" for o1 o2 n opa env
    unfolding handleRegisterAgent_def handleGetAgent_def handleIssuePassport_def handleListPassportsByAgent_def
      handleVerifyPassport_def handleEvaluateScope_def handleEvaluatePolicy_def handleGetDeploymentMeta_def same
    by (rule refl)+
  then show ?thesis by (simp add: static_Call_def Let_def split: option.split)
qed

end
