(* ===== verification/Gateway_Startup.thy ===== *)
theory Gateway_Startup
  imports Gateway_Handle
begin

text \<open>
  Start-up of the gateway (\<^verbatim>\<open>sx/are-api-gateway/cmd/are-api-gateway/main.go\<close>): which configurations start, in
  which order the others are refused, and what is started. Serving and shutting down are not modelled.

  \<open>host\<close> answers for the machine and the libraries: which files exist and what they hold, what \<^verbatim>\<open>url.Parse\<close> makes
  of a URL, whether a key pair, a certificate bundle or the key set loads, and whether a port can be listened
  on, given the ports this process has already bound.
\<close>

record gw_Config =
  gc_HTTPSPort :: int
  gc_HTTPPort :: int
  gc_GRPCPort :: int
  gc_InsecureGRPC :: int
  gc_HealthPort :: int
  gc_MetricsPort :: int
  gc_CertFile :: string
  gc_KeyFile :: string
  gc_CAFile :: string
  gc_JWKSURL :: string
  gc_EnableInsecureConformance :: bool
  gc_PollInterval :: duration

definition envInt :: "environ \<Rightarrow> string \<Rightarrow> int \<Rightarrow> int" where
  "envInt env name fallback =
     (if env name = [] then fallback else case Atoi (env name) of None \<Rightarrow> fallback | Some n \<Rightarrow> n)"

definition loadConfig :: "environ \<Rightarrow> gw_Config" where
  "loadConfig env = \<lparr>
     gc_HTTPSPort = envInt env ''ARE_GW_HTTPS_PORT'' 443, gc_HTTPPort = envInt env ''ARE_GW_HTTP_PORT'' 8085,
     gc_GRPCPort = envInt env ''ARE_GW_GRPC_PORT'' 9100, gc_InsecureGRPC = envInt env ''ARE_GW_INSECURE_GRPC_PORT'' 9101,
     gc_HealthPort = envInt env ''ARE_GW_HEALTH_PORT'' 8080, gc_MetricsPort = envInt env ''ARE_GW_METRICS_PORT'' 8090,
     gc_CertFile = env ''ARE_GW_TLS_CERT_FILE'', gc_KeyFile = env ''ARE_GW_TLS_KEY_FILE'', gc_CAFile = env ''ARE_GW_TLS_CA_FILE'',
     gc_JWKSURL = env ''ARE_GW_JWKS_URL'',
     gc_EnableInsecureConformance = (env ''ARE_GW_ENABLE_INSECURE_CONFORMANCE'' = ''true''),
     gc_PollInterval = scale_duration 250 Millisecond\<rparr>"

record host =
  hs_stat :: "string \<Rightarrow> bool"
  hs_url :: "string \<Rightarrow> base_url option"
  hs_jwks :: "string \<Rightarrow> bool"
  hs_keypair :: "string \<Rightarrow> string \<Rightarrow> bool"
  hs_read :: "string \<Rightarrow> string option"
  hs_pem :: "string \<Rightarrow> bool"
  hs_listen :: "int list \<Rightarrow> int \<Rightarrow> bool"

section \<open>TLS and HTTP clients\<close>

datatype tls_error = KeypairError | ReadCAError | AppendCAError

record tls_config =
  tc_MinVersion :: nat
  tc_Certificates :: "(string \<times> string) list"
  tc_RootCAs :: "string option"
  tc_ClientCAs :: "string option"
  tc_RequireClientCert :: bool
  tc_ServerName :: string

definition VersionTLS13 :: nat where
  "VersionTLS13 = 0x0304"

definition load_ca :: "host \<Rightarrow> string \<Rightarrow> string \<Rightarrow> string \<Rightarrow> tls_error + string" where
  "load_ca h certFile keyFile caFile =
     (if \<not> hs_keypair h certFile keyFile then Inl KeypairError
      else case hs_read h caFile of
             None \<Rightarrow> Inl ReadCAError
           | Some caBytes \<Rightarrow> if hs_pem h caBytes then Inr caBytes else Inl AppendCAError)"

definition newTLSConfig :: "host \<Rightarrow> string \<Rightarrow> string \<Rightarrow> string \<Rightarrow> tls_error + tls_config" where
  "newTLSConfig h certFile keyFile caFile =
     (case load_ca h certFile keyFile caFile of
        Inl e \<Rightarrow> Inl e
      | Inr pool \<Rightarrow> Inr \<lparr>tc_MinVersion = VersionTLS13, tc_Certificates = [(certFile, keyFile)], tc_RootCAs = None,
          tc_ClientCAs = Some pool, tc_RequireClientCert = True, tc_ServerName = []\<rparr>)"

record http_client =
  cl_Timeout :: duration
  cl_Transport :: transport
  cl_TLS :: "tls_config option"

definition effective_timeout :: "environ \<Rightarrow> duration \<Rightarrow> duration" where
  "effective_timeout env timeout = (if timeout \<le> 0 then HTTPUpstreamTimeoutOrDefault env else timeout)"

definition NewHTTPClientForRESTProxy :: "environ \<Rightarrow> duration \<Rightarrow> http_client" where
  "NewHTTPClientForRESTProxy env timeout =
     \<lparr>cl_Timeout = effective_timeout env timeout, cl_Transport = newRESTProxyTransport env, cl_TLS = None\<rparr>"

definition NewHTTPClientForGatewayMTLS ::
  "host \<Rightarrow> environ \<Rightarrow> string \<Rightarrow> string \<Rightarrow> string \<Rightarrow> string \<Rightarrow> duration \<Rightarrow> tls_error + http_client" where
  "NewHTTPClientForGatewayMTLS h env certFile keyFile caFile tlsServerName timeout =
     (case load_ca h certFile keyFile caFile of
        Inl e \<Rightarrow> Inl e
      | Inr pool \<Rightarrow> Inr \<lparr>cl_Timeout = effective_timeout env timeout, cl_Transport = newRESTProxyTransport env,
          cl_TLS = Some \<lparr>tc_MinVersion = VersionTLS13, tc_Certificates = [(certFile, keyFile)], tc_RootCAs = Some pool,
            tc_ClientCAs = None, tc_RequireClientCert = False, tc_ServerName = TrimSpace tlsServerName\<rparr>\<rparr>)"

section \<open>Start-up\<close>

datatype proxy_error = ParseProxyBase | ProxyClient tls_error | InvalidProxyBase

datatype startup_error =
    TLSFilesRequired | JWKSRequired | StatCert | StatKey | StatCA | TestTokenNotBuilt | TestTokenNeedsUnsafe
  | ConformanceNeedsUnsafe | BadUpstreamMode string | LiveNeedsProxy | ValidatorError | ProxyError proxy_error
  | TLSError tls_error | ReadinessTLSError tls_error | ListenInsecureGRPC | ListenGRPC

record startup =
  su_allowInsecureTestToken :: bool
  su_mode :: UpstreamMode
  su_opa :: "(string \<times> duration) option"
  su_proxy :: "(base_url \<times> http_client) option"
  su_metrics :: "int option"
  su_corsOrigins :: "string list"
  su_tls :: tls_config
  su_kafkaBrokers :: "string list"
  su_jwksClient :: "http_client option"
  su_plaintext :: "(int \<times> int) option"
  su_grpc :: int

definition buildRESTProxy ::
  "host \<Rightarrow> environ \<Rightarrow> string \<Rightarrow> string \<Rightarrow> gw_Config \<Rightarrow> proxy_error + base_url \<times> http_client" where
  "buildRESTProxy h env base tlsServerName cfg =
     (case hs_url h base of
        None \<Rightarrow> Inl ParseProxyBase
      | Some u \<Rightarrow>
          (let timeout = HTTPUpstreamTimeoutOrDefault env;
               client = (if bu_Scheme u = ''http'' then Inr (NewHTTPClientForRESTProxy env timeout)
                         else NewHTTPClientForGatewayMTLS h env (gc_CertFile cfg) (gc_KeyFile cfg) (gc_CAFile cfg) tlsServerName timeout)
           in case client of
                Inl e \<Rightarrow> Inl (ProxyClient e)
              | Inr c \<Rightarrow>
                  (case NewRESTProxyUpstream (hs_url h (TrimSpace base)) of
                     None \<Rightarrow> Inl InvalidProxyBase
                   | Some b \<Rightarrow> Inr (b, c))))"

definition NewJWKSValidator :: "host \<Rightarrow> string \<Rightarrow> bool" where
  "NewJWKSValidator h jwksURL \<longleftrightarrow> TrimSpace jwksURL \<noteq> [] \<and> hs_jwks h jwksURL"

text \<open>The refusals that need no service: files, unsafe switches and the upstream mode.\<close>

definition startup_guards :: "bool \<Rightarrow> host \<Rightarrow> environ \<Rightarrow> gw_Config \<Rightarrow> startup_error + bool \<times> UpstreamMode" where
  "startup_guards dev h env cfg =
     (let allowFromEnv = EqualFold (env ''ARE_GW_ALLOW_INSECURE_TEST_TOKEN'') ''true'';
          allow = (allowFromEnv \<and> DevBuildSupportsInsecureTestToken dev);
          unsafe = EqualFold (env ''ARE_GW_DEV_UNSAFE_MODE'') ''true''
      in if gc_CertFile cfg = [] \<or> gc_KeyFile cfg = [] \<or> gc_CAFile cfg = [] then Inl TLSFilesRequired
         else if gc_JWKSURL cfg = [] then Inl JWKSRequired
         else if \<not> hs_stat h (gc_CertFile cfg) then Inl StatCert
         else if \<not> hs_stat h (gc_KeyFile cfg) then Inl StatKey
         else if \<not> hs_stat h (gc_CAFile cfg) then Inl StatCA
         else if allowFromEnv \<and> \<not> DevBuildSupportsInsecureTestToken dev then Inl TestTokenNotBuilt
         else if allow \<and> \<not> unsafe then Inl TestTokenNeedsUnsafe
         else if gc_EnableInsecureConformance cfg \<and> \<not> unsafe then Inl ConformanceNeedsUnsafe
         else
           (case LoadUpstreamMode env of
              Inl v \<Rightarrow> Inl (BadUpstreamMode v)
            | Inr mode \<Rightarrow>
                if \<not> ValidateUpstreamModeRequirements env mode then Inl LiveNeedsProxy
                else if \<not> NewJWKSValidator h (gc_JWKSURL cfg) then Inl ValidatorError
                else Inr (allow, mode)))"

definition startup_proxy :: "host \<Rightarrow> environ \<Rightarrow> gw_Config \<Rightarrow> proxy_error + (base_url \<times> http_client) option" where
  "startup_proxy h env cfg =
     (let base = TrimSpace (env ''ARE_GW_S0S1_HTTP_PROXY_BASE'')
      in if base = [] then Inr None
         else map_sum id Some (buildRESTProxy h env base (env ''ARE_GW_S0S1_HTTP_TLS_SERVER_NAME'') cfg))"

definition startup_readiness :: "host \<Rightarrow> environ \<Rightarrow> gw_Config \<Rightarrow> tls_error + http_client option" where
  "startup_readiness h env cfg =
     (if \<not> EqualFold (env ''ARE_GW_JWKS_READINESS_USE_MTLS'') ''true'' then Inr None
      else map_sum id Some (NewHTTPClientForGatewayMTLS h env (gc_CertFile cfg) (gc_KeyFile cfg) (gc_CAFile cfg)
             (env ''ARE_GW_JWKS_TLS_SERVER_NAME'') (scale_duration 5 Second)))"

definition startup_opa :: "environ \<Rightarrow> (string \<times> duration) option" where
  "startup_opa env =
     (let opaURL = TrimSpace (env ''ARE_GW_OPA_URL'')
      in if opaURL = [] then None
         else Some (SetOPA opaURL, scale_duration (envInt env ''ARE_GW_OPA_TIMEOUT_MS'' 5000) Millisecond))"

definition gw_run :: "bool \<Rightarrow> host \<Rightarrow> environ \<Rightarrow> gw_Config \<Rightarrow> startup_error + startup" where
  "gw_run dev h env cfg =
     (case startup_guards dev h env cfg of
        Inl e \<Rightarrow> Inl e
      | Inr (allow, mode) \<Rightarrow>
     (case startup_proxy h env cfg of
        Inl e \<Rightarrow> Inl (ProxyError e)
      | Inr proxy \<Rightarrow>
     (case newTLSConfig h (gc_CertFile cfg) (gc_KeyFile cfg) (gc_CAFile cfg) of
        Inl e \<Rightarrow> Inl (TLSError e)
      | Inr tls \<Rightarrow>
     (case startup_readiness h env cfg of
        Inl e \<Rightarrow> Inl (ReadinessTLSError e)
      | Inr jwksHTTP \<Rightarrow>
          (let plain = gc_EnableInsecureConformance cfg; bound = (if plain then [gc_InsecureGRPC cfg] else [])
           in if plain \<and> \<not> hs_listen h [] (gc_InsecureGRPC cfg) then Inl ListenInsecureGRPC
              else if \<not> hs_listen h bound (gc_GRPCPort cfg) then Inl ListenGRPC
              else Inr \<lparr>su_allowInsecureTestToken = allow, su_mode = mode, su_opa = startup_opa env, su_proxy = proxy,
                su_metrics = (if 0 < gc_MetricsPort cfg then Some (gc_MetricsPort cfg) else None),
                su_corsOrigins = ParseCORSAllowedOrigins (env ''ARE_GW_CORS_ALLOWED_ORIGINS''),
                su_tls = tls, su_kafkaBrokers = ParseKafkaBootstrap (env ''ARE_GW_KAFKA_BOOTSTRAP_SERVERS''),
                su_jwksClient = jwksHTTP,
                su_plaintext = (if plain then Some (gc_HTTPPort cfg, gc_InsecureGRPC cfg) else None),
                su_grpc = gc_GRPCPort cfg\<rparr>)))))"

definition healthPlain :: "string \<Rightarrow> gw_response" where
  "healthPlain verb =
     (if verb \<noteq> ''GET'' then http_Error ''method not allowed'' 405 else \<lparr>gr_Status = 200, gr_Body = PlainText ''ok''\<rparr>)"

text \<open>The upstream of a started gateway: the simulator, or the choice between proxy and simulator.\<close>

definition started_upstream ::
  "environ \<Rightarrow> startup \<Rightarrow> (base_url \<times> http_client \<Rightarrow> 's upstream) \<Rightarrow> 's upstream \<Rightarrow> 's upstream" where
  "started_upstream env su upstream_of simulator =
     (case su_proxy su of
        None \<Rightarrow> simulator
      | Some p \<Rightarrow>
          (case NewS0S1SelectingUpstream env (Some (upstream_of p)) (Some simulator) (su_mode su = UpstreamModeLive) of
             None \<Rightarrow> simulator
           | Some up \<Rightarrow> up))"

lemma started_upstream_eq:
  "started_upstream env su upstream_of simulator req s =
     (case su_proxy su of
        None \<Rightarrow> simulator req s
      | Some p \<Rightarrow> if isFoundationAPIRoute (uq_Method req) (uq_Path req) then upstream_of p req s
          else if su_mode su = UpstreamModeLive then upstreamUnavailable503 req s else simulator req s)"
proof (cases "su_proxy su")
  case (Some p)
  then show ?thesis
    using selecting_any_mode [of env "upstream_of p" simulator "su_mode su = UpstreamModeLive" req s]
    by (auto simp: started_upstream_def)
qed (simp add: started_upstream_def)

lemma startup_guardsD:
  assumes "startup_guards dev h env cfg = Inr (allow, mode)"
  shows "allow \<Longrightarrow> dev \<and> EqualFold (env ''ARE_GW_ALLOW_INSECURE_TEST_TOKEN'') ''true'' \<and>
      EqualFold (env ''ARE_GW_DEV_UNSAFE_MODE'') ''true''"
    and "gc_EnableInsecureConformance cfg \<Longrightarrow> EqualFold (env ''ARE_GW_DEV_UNSAFE_MODE'') ''true''"
    and "mode = UpstreamModeLive \<Longrightarrow> TrimSpace (env ''ARE_GW_S0S1_HTTP_PROXY_BASE'') \<noteq> []"
  using assms
  by (auto simp: startup_guards_def Let_def ValidateUpstreamModeRequirements_def DevBuildSupportsInsecureTestToken_def
      split: if_splits sum.splits)

lemma startup_proxyD:
  "startup_proxy h env cfg = Inr proxy \<Longrightarrow> TrimSpace (env ''ARE_GW_S0S1_HTTP_PROXY_BASE'') \<noteq> [] \<Longrightarrow> proxy \<noteq> None"
  by (cases "buildRESTProxy h env (TrimSpace (env ''ARE_GW_S0S1_HTTP_PROXY_BASE'')) (env ''ARE_GW_S0S1_HTTP_TLS_SERVER_NAME'') cfg")
     (auto simp: startup_proxy_def Let_def)

lemma newTLSConfigD:
  "newTLSConfig h certFile keyFile caFile = Inr tls \<Longrightarrow>
     tc_MinVersion tls = VersionTLS13 \<and> tc_RequireClientCert tls \<and> tc_ClientCAs tls \<noteq> None"
  by (auto simp: newTLSConfig_def split: sum.splits)

lemma gw_runD:
  assumes "gw_run dev h env cfg = Inr su"
  shows "startup_guards dev h env cfg = Inr (su_allowInsecureTestToken su, su_mode su)"
    and "startup_proxy h env cfg = Inr (su_proxy su)"
    and "newTLSConfig h (gc_CertFile cfg) (gc_KeyFile cfg) (gc_CAFile cfg) = Inr (su_tls su)"
    and "su_plaintext su \<noteq> None \<Longrightarrow> gc_EnableInsecureConformance cfg"
  using assms by (auto simp: gw_run_def Let_def split: sum.splits prod.splits if_splits)


definition ex_environ :: environ where
  "ex_environ k = (if k = ''ARE_GW_UPSTREAM_MODE'' then ''Live''
     else if k = ''ARE_GW_S0S1_HTTP_PROXY_BASE'' then ''http://bff:8080''
     else if k = ''ARE_GW_JWKS_URL'' then ''http://idp/jwks''
     else if k \<in> set [''ARE_GW_TLS_CERT_FILE'', ''ARE_GW_TLS_KEY_FILE'', ''ARE_GW_TLS_CA_FILE''] then ''f.pem'' else [])"

definition ex_host :: host where
  "ex_host = \<lparr>hs_stat = (\<lambda>f. True), hs_url = (\<lambda>u. Some \<lparr>bu_Scheme = ''http'', bu_Host = ''bff:8080'', bu_Path = []\<rparr>),
     hs_jwks = (\<lambda>u. True), hs_keypair = (\<lambda>c k. True), hs_read = (\<lambda>f. Some ''pem''), hs_pem = (\<lambda>b. True),
     hs_listen = (\<lambda>bound p. p \<notin> set bound)\<rparr>"


text \<open>
  The time limit of the proxy. A positive number of seconds up to 9223372036 becomes exactly that limit,
  but the next 9223372037 values overflow to a negative duration, which the repair in the client constructor
  recomputes unchanged, and a client with such a limit has none at all.
\<close>

theorem proxy_timeout_overflows:
  assumes "Atoi (TrimSpace (env ''ARE_GW_S0S1_HTTP_TIMEOUT_SECONDS'')) = Some sec" "0 < sec"
    and "TrimSpace (env ''ARE_GW_S0S1_HTTP_TIMEOUT_SECONDS'') \<noteq> []"
  shows "(sec \<le> 9223372036 \<longrightarrow>
      cl_Timeout (NewHTTPClientForRESTProxy env (HTTPUpstreamTimeoutOrDefault env)) = sec * 1000000000) \<and>
    (9223372036 < sec \<and> sec \<le> 18446744073 \<longrightarrow>
      cl_Timeout (NewHTTPClientForRESTProxy env (HTTPUpstreamTimeoutOrDefault env)) < 0)"
proof -
  have limit: "cl_Timeout (NewHTTPClientForRESTProxy env (HTTPUpstreamTimeoutOrDefault env)) = scale_duration sec Second"
    using assms by (simp add: NewHTTPClientForRESTProxy_def effective_timeout_def HTTPUpstreamTimeoutOrDefault_def Let_def)
  have "scale_duration sec Second < 0" if "9223372036 < sec" "sec \<le> 18446744073"
  proof -
    have "(sec * 1000000000 + 2 ^ 63) mod 2 ^ 64 = sec * 1000000000 + 2 ^ 63 - 2 ^ 64"
      using that by (simp add: mod_pos_geq)
    with that show ?thesis by (simp add: scale_duration_def wrap64_def)
  qed
  with limit assms(2) scale_duration_Second [of sec] show ?thesis by simp
qed

theorem proxy_timeout_overflows_witness:
  "cl_Timeout (NewHTTPClientForRESTProxy (\<lambda>k. ''9223372037'') (HTTPUpstreamTimeoutOrDefault (\<lambda>k. ''9223372037''))) < 0"
proof -
  have trimmed: "TrimSpace ''9223372037'' = ''9223372037''" by code_simp
  have "Atoi ''9223372037'' = Some 9223372037"
    by (simp add: ParseInt_def digits_value_def is_digit_def in_int64_def of_char_def)
  with trimmed proxy_timeout_overflows [of "\<lambda>k. ''9223372037''" 9223372037] show ?thesis by simp
qed

end
