(* ===== verification/Platform.thy ===== *)
theory Platform
  imports Bff_Correct Gateway_Startup
begin

text \<open>
  The gateway in front of the REST front end: the server of the front end
  (\<^verbatim>\<open>sx/s0s1-rest-bff/cmd/are-s0s1-rest-bff/main.go\<close>), the upstream the gateway sees when its proxy points there,
  and the contract \<open>upstream_service\<close> under which a session of requests is a run of what is behind the gateway.
\<close>

section \<open>The server of the front end\<close>

text \<open>Header names are compared as \<^verbatim>\<open>http.Header\<close> does, without regard to case.\<close>

definition header_get :: "strmap \<Rightarrow> string \<Rightarrow> string" where
  "header_get hs name = (case find (\<lambda>(n, v). EqualFold n name) hs of None \<Rightarrow> [] | Some (n, v) \<Rightarrow> v)"

definition stripUntrustedStageSpoofHeaders :: "strmap \<Rightarrow> strmap" where
  "stripUntrustedStageSpoofHeaders hs =
     filter (\<lambda>(n, v). \<not> list_ex (EqualFold n)
       [''X-Are-Ui-Stage'', ''X-Are-Session-Stage'', ''X-Are-Client-Stage'', ''X-Are-Deployment-Stage'']) hs"

definition needs_idempotency_key :: "string \<Rightarrow> string \<Rightarrow> bool" where
  "needs_idempotency_key verb path \<longleftrightarrow> EqualFold verb ''POST'' \<and>
     path \<in> set [''/v1/identity/agents'', ''/v1/passports'', ''/v1/passports:verify'', ''/v1/enforcement/scope:evaluate'',
       ''/v1/policy/evaluations'']"

definition withRequiredHeaders ::
  "(strmap \<Rightarrow> 's \<Rightarrow> http_response \<times> 's) \<Rightarrow> string \<Rightarrow> string \<Rightarrow> strmap \<Rightarrow> 's \<Rightarrow> http_response \<times> 's" where
  "withRequiredHeaders next verb path headers s =
     (let hs = stripUntrustedStageSpoofHeaders headers
      in if header_get hs ''X-Request-ID'' = [] then (\<lparr>hs_Status = 400, hs_Body = NotJSON\<rparr>, s)
         else if needs_idempotency_key verb path \<and> header_get hs ''Idempotency-Key'' = []
         then (\<lparr>hs_Status = 400, hs_Body = NotJSON\<rparr>, s)
         else next hs s)"

text \<open>
  The whole server. \<open>unrouted\<close> is what \<^verbatim>\<open>http.ServeMux\<close> answers by itself for a path that no pattern matches.
\<close>

definition bff_server ::
  "'s api_config \<Rightarrow> ('s \<Rightarrow> 's) \<Rightarrow> (outbound \<Rightarrow> http_response) \<Rightarrow> outbound \<Rightarrow> 's \<Rightarrow> http_response \<times> 's" where
  "bff_server cfg others unrouted out =
     withRequiredHeaders
       (\<lambda>hs s. case bff_Handler cfg others (ho_Method out)
                  \<lparr>hq_RequestID = header_get hs ''X-Request-ID'', hq_IdempotencyKey = header_get hs ''Idempotency-Key'',
                   hq_Path = ho_Path out, hq_Body = ho_Body out\<rparr> s of
                (None, s') \<Rightarrow> (unrouted out, s') | (Some resp, s') \<Rightarrow> (resp, s'))
       (ho_Method out) (ho_Path out) (ho_Headers out)"

definition platform_upstream ::
  "'s api_config \<Rightarrow> ('s \<Rightarrow> 's) \<Rightarrow> (outbound \<Rightarrow> http_response) \<Rightarrow> base_url \<Rightarrow> 's upstream" where
  "platform_upstream cfg others unrouted base =
     proxy_Call (\<lambda>out s. case bff_server cfg others unrouted out s of (resp, s') \<Rightarrow>
       (Inr \<lparr>us_StatusCode = hs_Status resp, us_Body = hs_Body resp\<rparr>, s')) base"

text \<open>The state behind a gateway: that of the front end and that of the local simulator.\<close>

definition on_fst :: "'s upstream \<Rightarrow> ('s \<times> 't) upstream" where
  "on_fst up req st = (case up req (fst st) of (r, s') \<Rightarrow> (r, (s', snd st)))"

definition on_snd :: "'t upstream \<Rightarrow> ('s \<times> 't) upstream" where
  "on_snd up req st = (case up req (snd st) of (r, t') \<Rightarrow> (r, (fst st, t')))"

definition system_upstream ::
  "environ \<Rightarrow> startup \<Rightarrow> 's api_config \<Rightarrow> ('s \<Rightarrow> 's) \<Rightarrow> (outbound \<Rightarrow> http_response) \<Rightarrow> static_env
   \<Rightarrow> ('s \<times> static_state) upstream" where
  "system_upstream env su cfg others unrouted e =
     started_upstream env su (\<lambda>p. on_fst (platform_upstream cfg others unrouted (fst p))) (on_snd (static_upstream e))"

section \<open>What the front end receives\<close>

lemma header_names:
  "\<not> EqualFold ''Authorization'' ''X-Request-ID''" "\<not> EqualFold ''Authorization'' ''Idempotency-Key''"
  "\<not> EqualFold ''X-Request-ID'' ''Idempotency-Key''" "\<not> EqualFold ''X-ARE-Agent-ID'' ''Idempotency-Key''"
  "\<not> EqualFold ''traceparent'' ''Idempotency-Key''" "\<not> EqualFold ''Content-Type'' ''Idempotency-Key''"
  by code_simp+

lemma not_spoofed:
  "stripUntrustedStageSpoofHeaders (ho_Headers (proxy_request base req)) = ho_Headers (proxy_request base req)"
proof -
  have "list_all (\<lambda>n. \<not> list_ex (EqualFold n)
       [''X-Are-Ui-Stage'', ''X-Are-Session-Stage'', ''X-Are-Client-Stage'', ''X-Are-Deployment-Stage''])
     [''Authorization'', ''X-Request-ID'', ''X-ARE-Agent-ID'', ''Idempotency-Key'', ''traceparent'', ''Content-Type'']"
    by code_simp
  then show ?thesis
    unfolding stripUntrustedStageSpoofHeaders_def by (auto simp: proxy_request_def filter_id_conv)
qed

lemma proxied_headers:
  "header_get (ho_Headers (proxy_request base req)) ''X-Request-ID'' = uq_RequestID req"
  "header_get (ho_Headers (proxy_request base req)) ''Idempotency-Key'' = uq_IdempotencyKey req"
  by (simp_all add: header_get_def proxy_request_def header_names)

definition as_http :: "base_url \<Rightarrow> UpstreamRequest \<Rightarrow> http_request" where
  "as_http base req = \<lparr>hq_RequestID = uq_RequestID req, hq_IdempotencyKey = uq_IdempotencyKey req,
     hq_Path = TrimSuffix (bu_Path base) ''/'' @ uq_Path req, hq_Body = uq_Body req\<rparr>"

lemma proxy_request_sel:
  "ho_Method (proxy_request base req) = uq_Method req" "ho_Body (proxy_request base req) = uq_Body req"
  "ho_Path (proxy_request base req) = TrimSuffix (bu_Path base) ''/'' @ uq_Path req"
  by (simp_all add: proxy_request_def)

text \<open>Nothing the gateway adds or drops changes what the handlers see.\<close>

lemma platform_upstream_eq:
  assumes "uq_Path req \<noteq> []" "hd (uq_Path req) = CHR ''/''" "uq_RequestID req \<noteq> []"
    and "needs_idempotency_key (uq_Method req) (hq_Path (as_http base req)) \<Longrightarrow> uq_IdempotencyKey req \<noteq> []"
  shows "platform_upstream cfg others unrouted base req s =
    (case bff_Handler cfg others (uq_Method req) (as_http base req) s of
       (None, s') \<Rightarrow> (let resp = unrouted (proxy_request base req)
                      in (Inr \<lparr>us_StatusCode = hs_Status resp, us_Body = hs_Body resp\<rparr>, s'))
     | (Some resp, s') \<Rightarrow> (Inr \<lparr>us_StatusCode = hs_Status resp, us_Body = hs_Body resp\<rparr>, s'))"
proof -
  have key: "\<not> (needs_idempotency_key (uq_Method req) (TrimSuffix (bu_Path base) ''/'' @ uq_Path req) \<and> uq_IdempotencyKey req = [])"
    using assms(4) by (auto simp: as_http_def)
  have "bff_server cfg others unrouted (proxy_request base req) s =
    (case bff_Handler cfg others (uq_Method req) (as_http base req) s of
       (None, s') \<Rightarrow> (unrouted (proxy_request base req), s') | (Some resp, s') \<Rightarrow> (resp, s'))"
    unfolding bff_server_def withRequiredHeaders_def Let_def not_spoofed proxied_headers proxy_request_sel as_http_def
    using assms(3) key by auto
  with assms(1,2) show ?thesis
    by (simp add: platform_upstream_def proxy_Call_def Let_def split: prod.split option.split)
qed

text \<open>Whatever is sent to it, the front end runs at most one handler.\<close>

lemma platform_upstream_state:
  assumes "P s" "\<And>ep r. bff_route (uq_Method req) (TrimSuffix (bu_Path base) ''/'' @ uq_Path req) = Some ep \<Longrightarrow>
    P (snd (bff_handle cfg others ep r s))"
  shows "P (snd (platform_upstream cfg others unrouted base req s))"
  using assms
  by (simp add: platform_upstream_def proxy_Call_def bff_server_def withRequiredHeaders_def bff_Handler_def
      proxy_request_sel Let_def split_beta split: option.split)

section \<open>Services behind the gateway\<close>

text \<open>
  What the gateway relies on: a call moves the service along its own runs. Then so does a session of requests
  to the gateway, each with its own environment.
\<close>

fun gw_session :: "'s upstream \<Rightarrow> (gw_env \<times> gw_request) list \<Rightarrow> 's \<Rightarrow> 's" where
  "gw_session up [] s = s"
| "gw_session up ((e, r) # rs) s = gw_session up rs (snd (gw_handle e up r s))"

lemma gw_handle_state:
  assumes "P s" "\<And>identity b. admitted e r identity \<Longrightarrow> P (snd (up (upstream_request e r identity b) s))"
  shows "P (snd (gw_handle e up r s))"
proof (cases "\<exists>identity b. admitted e r identity \<and> gq_Body r = Some b")
  case True
  then obtain identity b where ok: "admitted e r identity" "gq_Body r = Some b" by blast
  then show ?thesis using gw_handle_forwards [OF ok, of up s] assms(2) [OF ok(1), of b]
    by (simp add: split_beta split: sum.split)
next
  case False
  then have "snd (gw_handle e up r s) = s" by (intro gw_handle_refuses) blast
  with assms(1) show ?thesis by simp
qed

locale upstream_service =
  fixes call :: "'s upstream"
    and runs :: "'s \<Rightarrow> 's \<Rightarrow> bool"
  assumes runs_refl: "runs s s"
    and runs_trans: "runs s t \<Longrightarrow> runs t u \<Longrightarrow> runs s u"
    and call_runs: "runs s (snd (call req s))"
begin

lemma handle_runs: "runs s (snd (gw_handle e call r s))"
  by (rule gw_handle_state) (rule runs_refl, rule call_runs)

lemma session_runs: "runs s (gw_session call rs s)"
proof (induction rs arbitrary: s)
  case (Cons er rs)
  obtain e r where "er = (e, r)" by fastforce
  with Cons.IH [of "snd (gw_handle e call r s)"] handle_runs [of s e r] show ?case
    by (auto intro: runs_trans)
qed (simp add: runs_refl)

end

text \<open>The simulator, as long as the requests that overtake a call are calls themselves.\<close>

lemma static_run_trans:
  assumes "static_run s t" "static_run t u"
  shows "static_run s u"
  using assms(2,1) by (induction t u) (auto intro: static_run.intros)

locale shared_simulator =
  fixes e :: static_env
  assumes overtaking: "static_run s (se_others1 e s)" "static_run s (se_others2 e s)"

sublocale shared_simulator \<subseteq> simulator: upstream_service "static_upstream e" static_run
proof
  show "static_run s (snd (static_upstream e req s))" for req s
    using static_run.calls [OF static_run.idle overtaking, of s req] by (simp add: static_upstream_def split_beta)
qed (rule static_run.idle, rule static_run_trans)

interpretation lone_simulator: shared_simulator "e\<lparr>se_others1 := \<lambda>s. s, se_others2 := \<lambda>s. s\<rparr>" for e
  by unfold_locales (simp_all add: static_run.idle)

text \<open>The front end, as long as the requests that overtake a handler are requests to the same front end.\<close>

locale shared_platform =
  fixes cfg :: "'s api_config" and others :: "'s \<Rightarrow> 's"
  assumes overtaking: "bff_run cfg s (others s)"

sublocale shared_platform \<subseteq> platform: upstream_service "platform_upstream cfg others unrouted base" "bff_run cfg"
proof
  show "bff_run cfg s (snd (platform_upstream cfg others unrouted base req s))" for req s
    by (rule platform_upstream_state) (auto intro: bff_run.intros overtaking)
qed (rule bff_run.quiet, rule bff_run_trans)

interpretation lone_platform: shared_platform cfg "\<lambda>s. s" for cfg
  by unfold_locales (rule bff_run.quiet)

text \<open>Two services behind one started gateway.\<close>

locale two_services = p: upstream_service callp runp + q: upstream_service callq runq
  for callp :: "'s upstream" and runp and callq :: "'t upstream" and runq +
  fixes env :: environ and su :: startup
begin

lemma started_runs:
  "rel_prod runp runq st (snd (started_upstream env su (\<lambda>p. on_fst callp) (on_snd callq) req st))"
  using p.runs_refl q.runs_refl p.call_runs q.call_runs
  by (cases st) (auto simp: started_upstream_eq on_fst_def on_snd_def upstreamUnavailable503_def split_beta split: option.split)

end

sublocale two_services \<subseteq> started: upstream_service "started_upstream env su (\<lambda>p. on_fst callp) (on_snd callq)" "rel_prod runp runq"
proof
  show "rel_prod runp runq s u" if "rel_prod runp runq s t" "rel_prod runp runq t u" for s t u
    using that p.runs_trans q.runs_trans by (cases s; cases t; cases u) auto
  show "rel_prod runp runq s s" for s using p.runs_refl q.runs_refl by (cases s) auto
qed (rule started_runs)

interpretation system: two_services "platform_upstream cfg (\<lambda>s. s) unrouted base" "bff_run cfg"
  "static_upstream (e\<lparr>se_others1 := \<lambda>s. s, se_others2 := \<lambda>s. s\<rparr>)" static_run env su
  for cfg unrouted base e env su
  by unfold_locales

text \<open>The gateway's own upstream has one base URL, so it is an instance of this.\<close>

lemma system_upstream_eq:
  assumes "su_proxy su = Some (base, client)"
  shows "system_upstream env su cfg others unrouted e =
    started_upstream env su (\<lambda>p. on_fst (platform_upstream cfg others unrouted base)) (on_snd (static_upstream e))"
  using assms by (simp add: system_upstream_def started_upstream_def)

lemma system_session_runs:
  assumes "su_proxy su = Some (base, client)"
  shows "bff_run cfg (fst st)
    (fst (gw_session (system_upstream env su cfg (\<lambda>s. s) unrouted (e\<lparr>se_others1 := \<lambda>s. s, se_others2 := \<lambda>s. s\<rparr>)) rs st))"
  using system.started.session_runs [of cfg st env su unrouted base e rs]
  unfolding system_upstream_eq [OF assms] by (auto simp: rel_prod_sel)

section \<open>Requests through the gateway\<close>

lemma gw_handle_created:
  assumes "gw_handle e up r s = ((resp, identity, err), s')" "gr_Status resp = 201"
  shows "admitted e r identity \<and> (\<exists>b. gq_Body r = Some b)"
proof (cases "\<exists>i b. admitted e r i \<and> gq_Body r = Some b")
  case True
  then obtain i b where ok: "admitted e r i" "gq_Body r = Some b" by blast
  with assms(1) gw_handle_forwards [OF ok, of up s] show ?thesis
    by (auto simp: split_beta split: sum.splits)
next
  case False
  then have "gr_Status resp \<noteq> 201" using assms(1)
    by (auto simp: gw_handle_def admitted_def requiresIdempotencyKey_iff bearer_def http_Error_def
        split: if_splits sum.splits option.splits)
  with assms(2) show ?thesis by simp
qed

lemma upstream_request_sel:
  "uq_Method (upstream_request e r i b) = gq_Method r" "uq_Path (upstream_request e r i b) = gq_Path r"
  "uq_RequestID (upstream_request e r i b) = gq_RequestID r" "uq_Body (upstream_request e r i b) = b"
  "uq_IdempotencyKey (upstream_request e r i b) = gq_IdempotencyKey r"
  by (simp_all add: upstream_request_def)

lemma only_writers_write:
  "ep \<noteq> RegisterAgentEndpoint \<Longrightarrow> ep \<noteq> IssuePassportEndpoint \<Longrightarrow> snd (bff_handle cfg others ep req s) = s"
  by (cases ep) (simp_all add: bff_handle_def Let_def)

lemma registration_route: "bff_route ''POST'' ''/v1/identity/agents'' = Some RegisterAgentEndpoint"
  "isFoundationAPIRoute ''POST'' ''/v1/identity/agents''"
  by code_simp+

text \<open>An admitted registration is handled by the front end as if it had been sent there directly.\<close>

lemma gateway_registers:
  assumes "su_proxy su = Some (base, client)" "TrimSuffix (bu_Path base) ''/'' = []"
    and "admitted e r identity" "gq_Body r = Some b" "gq_Method r = ''POST''" "gq_Path r = ''/v1/identity/agents''"
  shows "gw_handle e (system_upstream env su cfg others unrouted se) r st =
    (case bff_handle cfg others RegisterAgentEndpoint
         \<lparr>hq_RequestID = gq_RequestID r, hq_IdempotencyKey = gq_IdempotencyKey r, hq_Path = gq_Path r, hq_Body = b\<rparr> (fst st) of
       (resp, s') \<Rightarrow> ((\<lparr>gr_Status = hs_Status resp, gr_Body = JsonBody (hs_Body resp)\<rparr>, identity, None), (s', snd st)))"
proof -
  let ?q = "upstream_request e r identity b"
  have ids: "gq_RequestID r \<noteq> []" "gq_IdempotencyKey r \<noteq> []" using assms(3,5) by (simp_all add: admitted_def)
  have http: "as_http base ?q =
      \<lparr>hq_RequestID = gq_RequestID r, hq_IdempotencyKey = gq_IdempotencyKey r, hq_Path = gq_Path r, hq_Body = b\<rparr>"
    by (simp add: as_http_def upstream_request_sel assms(2))
  have "platform_upstream cfg others unrouted base ?q (fst st) =
    (case bff_Handler cfg others ''POST'' (as_http base ?q) (fst st) of
       (None, s') \<Rightarrow> (let resp = unrouted (proxy_request base ?q)
                      in (Inr \<lparr>us_StatusCode = hs_Status resp, us_Body = hs_Body resp\<rparr>, s'))
     | (Some resp, s') \<Rightarrow> (Inr \<lparr>us_StatusCode = hs_Status resp, us_Body = hs_Body resp\<rparr>, s'))"
    using platform_upstream_eq [of ?q base cfg others unrouted "fst st"] ids assms(5,6) by (simp add: upstream_request_sel)
  then show ?thesis
    unfolding gw_handle_forwards [OF assms(3,4)] system_upstream_eq [OF assms(1)] started_upstream_eq assms(1)
    using registration_route assms(5,6)
    by (simp add: http bff_Handler_def on_fst_def upstream_request_sel split: prod.split)
qed

end
