(* ===== verification/Bff_Startup.thy ===== *)
theory Bff_Startup
  imports Platform
begin

text \<open>
  Start-up of the REST front end (\<^verbatim>\<open>sx/s0s1-rest-bff/cmd/are-s0s1-rest-bff/main.go\<close>): its configuration, the migration of its
  database, the connections to the gRPC services (\<^verbatim>\<open>internal/s0delegate/dial.go\<close>, \<^verbatim>\<open>from_conn.go\<close>), the client of the policy
  agent, and what a started front end serves. Files and certificates are read through the same \<open>host\<close> as in the
  start-up of the gateway.
\<close>

section \<open>Connections to the gRPC services\<close>

record s0_Config =
  sc_RegistryAddr :: string
  sc_PassportAddr :: string
  sc_CertFile :: string
  sc_KeyFile :: string
  sc_CAFile :: string
  sc_TLSServerName :: string
  sc_Insecure :: bool

datatype credentials = InsecureCredentials | TLSCredentials tls_config

record ClientConn =
  cc_addr :: string
  cc_creds :: credentials

datatype dial_error = CertsRequired | DialTLS tls_error | NewClientError | RegistryGrpc dial_error | PassportGrpc dial_error

text \<open>The clients of a backend, and the connections it closes.\<close>

record connections =
  cn_Reg :: "ClientConn option"
  cn_Pass :: "ClientConn option"
  cn_conns :: "ClientConn option list"

definition no_connections :: connections where
  "no_connections = \<lparr>cn_Reg = None, cn_Pass = None, cn_conns = []\<rparr>"

text \<open>Closing goes over every connection, also after an error; \<open>close\<close> is the library's, the result the first error.\<close>

fun close_conns :: "(ClientConn \<Rightarrow> string option) \<Rightarrow> ClientConn option list \<Rightarrow> string option \<Rightarrow> ClientConn list \<Rightarrow> string option \<times> ClientConn list" where
  "close_conns close [] first shut = (first, shut)"
| "close_conns close (None # cs) first shut = close_conns close cs first shut"
| "close_conns close (Some c # cs) first shut =
     close_conns close cs (if close c \<noteq> None \<and> first = None then close c else first) (shut @ [c])"

definition Backend_Close :: "(ClientConn \<Rightarrow> string option) \<Rightarrow> connections \<Rightarrow> string option \<times> ClientConn list" where
  "Backend_Close close b = close_conns close (cn_conns b) None []"

text \<open>\<open>newClient\<close> says whether the library makes a client for an address.\<close>

definition dialOne :: "host \<Rightarrow> (string \<Rightarrow> credentials \<Rightarrow> bool) \<Rightarrow> s0_Config \<Rightarrow> string \<Rightarrow> dial_error + ClientConn" where
  "dialOne h newClient cfg addr =
     (let connect = (\<lambda>creds. if newClient addr creds then Inr \<lparr>cc_addr = addr, cc_creds = creds\<rparr> else Inl NewClientError)
      in if sc_Insecure cfg then connect InsecureCredentials
         else if sc_CertFile cfg = [] \<or> sc_KeyFile cfg = [] \<or> sc_CAFile cfg = [] then Inl CertsRequired
         else
           (case load_ca h (sc_CertFile cfg) (sc_KeyFile cfg) (sc_CAFile cfg) of
              Inl e \<Rightarrow> Inl (DialTLS e)
            | Inr pool \<Rightarrow> connect (TLSCredentials \<lparr>tc_MinVersion = VersionTLS13,
                tc_Certificates = [(sc_CertFile cfg, sc_KeyFile cfg)], tc_RootCAs = Some pool, tc_ClientCAs = None,
                tc_RequireClientCert = False, tc_ServerName = TrimSpace (sc_TLSServerName cfg)\<rparr>)))"

text \<open>The result, and the connections that were closed again.\<close>

definition Dial :: "host \<Rightarrow> (string \<Rightarrow> credentials \<Rightarrow> bool) \<Rightarrow> (ClientConn \<Rightarrow> string option) \<Rightarrow> s0_Config \<Rightarrow>
    (dial_error + connections) \<times> ClientConn list" where
  "Dial h newClient close cfg =
     (let regAddr = TrimSpace (sc_RegistryAddr cfg); passAddr = TrimSpace (sc_PassportAddr cfg)
      in if regAddr = [] \<and> passAddr = [] then (Inr no_connections, [])
         else
           (case (if regAddr = [] then Inr no_connections
                  else case dialOne h newClient cfg regAddr of
                         Inl e \<Rightarrow> Inl (RegistryGrpc e)
                       | Inr c \<Rightarrow> Inr (no_connections\<lparr>cn_Reg := Some c, cn_conns := [Some c]\<rparr>)) of
              Inl e \<Rightarrow> (Inl e, [])
            | Inr b \<Rightarrow>
                if passAddr = [] then (Inr b, [])
                else
                  (case dialOne h newClient cfg passAddr of
                     Inl e \<Rightarrow> (Inl (PassportGrpc e), snd (Backend_Close close b))
                   | Inr c \<Rightarrow> (Inr (b\<lparr>cn_Pass := Some c, cn_conns := cn_conns b @ [Some c]\<rparr>), []))))"

definition FromClientConn :: "ClientConn option \<Rightarrow> connections" where
  "FromClientConn c =
     (case c of None \<Rightarrow> no_connections
      | Some conn \<Rightarrow> \<lparr>cn_Reg = Some conn, cn_Pass = Some conn, cn_conns = [Some conn]\<rparr>)"

section \<open>Database and policy agent\<close>

text \<open>The tables by name with their columns. A table that exists is left as it is.\<close>

type_synonym schema = "string \<rightharpoonup> string list"

datatype ddl = CreateTable string "string list" | AddColumn string string

definition bff_statements :: "ddl list" where
  "bff_statements =
     [CreateTable ''s0s1_agents'' [''agent_id'', ''agent_type'', ''owner_id'', ''metadata_json'', ''status''],
      CreateTable ''s0s1_register_idem'' [''idem_key'', ''response_body''],
      CreateTable ''s0s1_passport_idem'' [''idem_key'', ''response_body''],
      CreateTable ''s0s1_passports'' [''passport_id'', ''agent_id'', ''response_body''],
      AddColumn ''s0s1_agents'' ''admission_envelope_json'']"

fun exec_ddl :: "ddl \<Rightarrow> schema \<Rightarrow> string + schema" where
  "exec_ddl (CreateTable t cols) d = (if d t = None then Inr (d(t \<mapsto> cols)) else Inr d)"
| "exec_ddl (AddColumn t col) d =
     (case d t of None \<Rightarrow> Inl ''undefined_table'' | Some cols \<Rightarrow> Inr (if col \<in> set cols then d else d(t \<mapsto> cols @ [col])))"

text \<open>\<open>fault i\<close> is an error of the connection at statement \<open>i\<close>.\<close>

fun run_ddl :: "(nat \<Rightarrow> string option) \<Rightarrow> nat \<Rightarrow> ddl list \<Rightarrow> schema \<Rightarrow> string option \<times> schema" where
  "run_ddl fault i [] d = (None, d)"
| "run_ddl fault i (s # ss) d =
     (case fault i of
        Some e \<Rightarrow> (Some e, d)
      | None \<Rightarrow> (case exec_ddl s d of Inl e \<Rightarrow> (Some e, d) | Inr d' \<Rightarrow> run_ddl fault (Suc i) ss d'))"

definition bff_migrate :: "(nat \<Rightarrow> string option) \<Rightarrow> schema \<Rightarrow> string option \<times> schema" where
  "bff_migrate fault d = run_ddl fault 0 bff_statements d"

record pg_env =
  pe_new :: "string \<Rightarrow> string option"
  pe_fault :: "nat \<Rightarrow> string option"
  pe_schema :: schema

definition NewPostgres :: "pg_env \<Rightarrow> string \<Rightarrow> string + schema" where
  "NewPostgres pg connString =
     (case pe_new pg connString of
        Some err \<Rightarrow> Inl err
      | None \<Rightarrow> (case bff_migrate (pe_fault pg) (pe_schema pg) of (Some err, _) \<Rightarrow> Inl err | (None, d) \<Rightarrow> Inr d))"

record OPAClient =
  oc_BaseURL :: string
  oc_Timeout :: duration

definition NewOPAClient :: "string \<Rightarrow> duration \<Rightarrow> OPAClient" where
  "NewOPAClient baseURL timeout = \<lparr>oc_BaseURL = baseURL, oc_Timeout = (if timeout \<le> 0 then 5 * Second else timeout)\<rparr>"

section \<open>Start-up\<close>

definition bff_envInt :: "environ \<Rightarrow> string \<Rightarrow> int \<Rightarrow> int" where
  "bff_envInt env name dflt =
     (let raw = TrimSpace (env name) in if raw = [] then dflt else case Atoi raw of None \<Rightarrow> dflt | Some n \<Rightarrow> n)"

datatype bff_start_error =
    BffTLSFilesRequired | BffPostgres string | BffTLS tls_error | BffDial dial_error

datatype bff_store = MemoryStore | PostgresStore schema

record bff_startup =
  bs_store :: bff_store
  bs_tls :: tls_config
  bs_policy :: "OPAClient option"
  bs_delegate :: "connections option"
  bs_httpsPort :: int
  bs_healthPort :: int

definition bff_store_of :: "pg_env \<Rightarrow> environ \<Rightarrow> bff_start_error + bff_store" where
  "bff_store_of pg env =
     (let dsn = TrimSpace (env ''ARE_S0S1_DATABASE_URL'')
      in if dsn = [] then Inr MemoryStore
         else case NewPostgres pg dsn of Inl err \<Rightarrow> Inl (BffPostgres err) | Inr d \<Rightarrow> Inr (PostgresStore d))"

definition bff_policy_of :: "environ \<Rightarrow> OPAClient option" where
  "bff_policy_of env =
     (let opaBase = TrimSpace (env ''ARE_S0S1_OPA_URL'')
      in if opaBase = [] then None
         else Some (NewOPAClient opaBase (scale_duration (bff_envInt env ''ARE_S0S1_OPA_TIMEOUT_MS'' 5000) Millisecond)))"

definition bff_delegate_of :: "host \<Rightarrow> (string \<Rightarrow> credentials \<Rightarrow> bool) \<Rightarrow> (ClientConn \<Rightarrow> string option) \<Rightarrow> environ \<Rightarrow>
    bff_start_error + connections option" where
  "bff_delegate_of h newClient close env =
     (if TrimSpace (env ''ARE_S0S1_S0_DELEGATE'') = ''0'' then Inr None
      else
        (let regAddr = TrimSpace (env ''ARE_S0S1_REGISTRY_GRPC_ADDR''); passAddr = TrimSpace (env ''ARE_S0S1_PASSPORT_GRPC_ADDR'')
         in if regAddr = [] \<and> passAddr = [] then Inr None
            else
              (case fst (Dial h newClient close \<lparr>sc_RegistryAddr = regAddr, sc_PassportAddr = passAddr,
                     sc_CertFile = env ''ARE_S0S1_TLS_CERT_FILE'', sc_KeyFile = env ''ARE_S0S1_TLS_KEY_FILE'',
                     sc_CAFile = env ''ARE_S0S1_TLS_CA_FILE'', sc_TLSServerName = TrimSpace (env ''ARE_S0S1_S0_GRPC_TLS_SERVER_NAME''),
                     sc_Insecure = (env ''ARE_S0S1_S0_GRPC_INSECURE'' = ''1'')\<rparr>) of
                 Inl err \<Rightarrow> Inl (BffDial err)
               | Inr b \<Rightarrow> Inr (Some b))))"

definition bff_main :: "host \<Rightarrow> pg_env \<Rightarrow> (string \<Rightarrow> credentials \<Rightarrow> bool) \<Rightarrow> (ClientConn \<Rightarrow> string option) \<Rightarrow> environ \<Rightarrow>
    bff_start_error + bff_startup" where
  "bff_main h pg newClient close env =
     (let certFile = env ''ARE_S0S1_TLS_CERT_FILE''; keyFile = env ''ARE_S0S1_TLS_KEY_FILE''; caFile = env ''ARE_S0S1_TLS_CA_FILE''
      in if certFile = [] \<or> keyFile = [] \<or> caFile = [] then Inl BffTLSFilesRequired
         else
           (case bff_store_of pg env of
              Inl err \<Rightarrow> Inl err
            | Inr store \<Rightarrow>
                (case load_ca h certFile keyFile caFile of
                   Inl err \<Rightarrow> Inl (BffTLS err)
                 | Inr pool \<Rightarrow>
                     (case bff_delegate_of h newClient close env of
                        Inl err \<Rightarrow> Inl err
                      | Inr b \<Rightarrow> Inr \<lparr>bs_store = store,
                          bs_tls = \<lparr>tc_MinVersion = VersionTLS13, tc_Certificates = [(certFile, keyFile)], tc_RootCAs = None,
                            tc_ClientCAs = Some pool, tc_RequireClientCert = True, tc_ServerName = []\<rparr>,
                          bs_policy = bff_policy_of env, bs_delegate = b,
                          bs_httpsPort = bff_envInt env ''ARE_S0S1_HTTPS_PORT'' 8443,
                          bs_healthPort = bff_envInt env ''ARE_S0S1_HEALTH_PORT'' 8099\<rparr>))))"

section \<open>Serving\<close>

text \<open>The first listener to return ends the process; that it was closed is no error.\<close>

datatype serve_result = ServeNil | ServerClosed | ServeError string

fun bff_exit :: "serve_result \<Rightarrow> string option" where
  "bff_exit (ServeError e) = Some e"
| "bff_exit _ = None"

definition bff_health :: "string \<Rightarrow> string \<Rightarrow> (nat \<times> string) option" where
  "bff_health verb path = (if verb = ''GET'' \<and> path = ''/health'' then Some (200, ''ok'') else None)"

text \<open>
  The recorder keeps the last status a handler writes, the connection sends the first one; a handler that writes
  none sends 200 with its body.
\<close>

record statusRecorder =
  sr_sent :: "nat option"
  sr_code :: nat

definition WriteHeader :: "nat \<Rightarrow> statusRecorder \<Rightarrow> statusRecorder" where
  "WriteHeader status r = r\<lparr>sr_code := status, sr_sent := (if sr_sent r = None then Some status else sr_sent r)\<rparr>"

definition sent_status :: "statusRecorder \<Rightarrow> nat" where
  "sent_status r = (case sr_sent r of None \<Rightarrow> 200 | Some status \<Rightarrow> status)"

record request_log =
  lg_request_id :: string
  lg_method :: string
  lg_path :: string
  lg_response_code :: nat
  lg_latency_ms :: int

definition Milliseconds :: "duration \<Rightarrow> int" where
  "Milliseconds d = sgn d * (\<bar>d\<bar> div Millisecond)"

text \<open>\<open>handler\<close> is the handler behind it, by the statuses it writes; \<open>start\<close> and \<open>stop\<close> are the clock before and after it.\<close>

definition loggingMiddleware :: "(http_request \<Rightarrow> nat list) \<Rightarrow> string \<Rightarrow> instant \<Rightarrow> instant \<Rightarrow> http_request \<Rightarrow> statusRecorder \<times> request_log" where
  "loggingMiddleware handler verb start stop req =
     (let rec = fold WriteHeader (handler req) \<lparr>sr_sent = None, sr_code = 200\<rparr>
      in (rec, \<lparr>lg_request_id = hq_RequestID req, lg_method = verb, lg_path = hq_Path req, lg_response_code = sr_code rec,
           lg_latency_ms = Milliseconds (stop - start)\<rparr>))"

definition IncS0DelegateError :: "string \<Rightarrow> (string \<Rightarrow> nat) \<Rightarrow> string \<Rightarrow> nat" where
  "IncS0DelegateError errorCode m =
     (let ecode = (if TrimSpace errorCode = [] then ''UNKNOWN'' else TrimSpace errorCode) in m(ecode := m ecode + 1))"

section \<open>What a started front end guarantees\<close>

lemma logged_is_sent:
  "length (handler req) \<le> 1 \<Longrightarrow>
     lg_response_code (snd (loggingMiddleware handler verb start stop req)) =
     sent_status (fst (loggingMiddleware handler verb start stop req))"
  by (cases "handler req") (auto simp: loggingMiddleware_def WriteHeader_def sent_status_def Let_def)

text \<open>A statement that was executed has nothing more to do, also after the others.\<close>

lemma exec_ddl_settles: "exec_ddl s d = Inr d' \<Longrightarrow> exec_ddl s d' = Inr d'"
  by (cases s) (auto split: if_splits option.splits)

lemma CreateTable_settled: "exec_ddl (CreateTable t cols) d = Inr d \<longleftrightarrow> d t \<noteq> None"
  by (auto dest!: fun_cong [where x = t])

lemma AddColumn_settled: "exec_ddl (AddColumn t col) d = Inr d \<longleftrightarrow> (\<exists>cols. d t = Some cols \<and> col \<in> set cols)"
  by (auto dest!: fun_cong [where x = t] split: option.splits if_splits)

lemma exec_ddl_grows:
  "exec_ddl s d = Inr d' \<Longrightarrow> d t = Some cols \<Longrightarrow> \<exists>cols'. d' t = Some cols' \<and> set cols \<subseteq> set cols'"
  by (cases s) (auto split: if_splits option.splits)

lemma exec_ddl_keeps: "exec_ddl s' d = Inr d' \<Longrightarrow> exec_ddl s d = Inr d \<Longrightarrow> exec_ddl s d' = Inr d'"
proof (cases s)
  case (CreateTable t cols)
  assume "exec_ddl s' d = Inr d'" "exec_ddl s d = Inr d"
  then show ?thesis using exec_ddl_grows [of s' d d' t] unfolding CreateTable CreateTable_settled by fastforce
next
  case (AddColumn t col)
  assume "exec_ddl s' d = Inr d'" "exec_ddl s d = Inr d"
  then show ?thesis using exec_ddl_grows [of s' d d' t] unfolding AddColumn AddColumn_settled by fastforce
qed

lemma run_ddl_keeps: "run_ddl fault i ss d = (None, d') \<Longrightarrow> exec_ddl s d = Inr d \<Longrightarrow> exec_ddl s d' = Inr d'"
  by (induction ss arbitrary: i d) (auto dest: exec_ddl_keeps split: option.splits sum.splits)

lemma run_ddl_settles: "run_ddl fault i ss d = (None, d') \<Longrightarrow> \<forall>s \<in> set ss. exec_ddl s d' = Inr d'"
  by (induction ss arbitrary: i d) (auto dest: exec_ddl_settles run_ddl_keeps split: option.splits sum.splits)

lemma run_ddl_settled: "\<forall>s \<in> set ss. exec_ddl s d = Inr d \<Longrightarrow> run_ddl (\<lambda>i. None) i ss d = (None, d)"
  by (induction ss arbitrary: i) auto

text \<open>Migrating a migrated database changes nothing.\<close>

lemma migrate_idempotent: "bff_migrate fault d = (None, d') \<Longrightarrow> bff_migrate (\<lambda>i. None) d' = (None, d')"
  unfolding bff_migrate_def by (intro run_ddl_settled run_ddl_settles)

lemma NewPostgres_migrated:
  assumes "NewPostgres pg dsn = Inr d"
  shows "\<exists>cols. d ''s0s1_agents'' = Some cols \<and> ''admission_envelope_json'' \<in> set cols"
proof -
  from assms have "bff_migrate (pe_fault pg) (pe_schema pg) = (None, d)"
    by (auto simp: NewPostgres_def split: option.splits prod.splits)
  then have "\<forall>s \<in> set bff_statements. exec_ddl s d = Inr d" unfolding bff_migrate_def by (rule run_ddl_settles)
  then show ?thesis unfolding bff_statements_def by (simp only: AddColumn_settled [symmetric]) simp
qed

lemma close_conns_all: "set (snd (close_conns close cs first shut)) = set shut \<union> {c. Some c \<in> set cs}"
  by (induction close cs first shut rule: close_conns.induct) auto

text \<open>A failed dial leaves no connection open: the only one it may have made is closed.\<close>

lemma Dial_no_leak:
  assumes "Dial h newClient close cfg = (Inl (PassportGrpc e), shut)" "TrimSpace (sc_RegistryAddr cfg) \<noteq> []"
  shows "\<exists>c. dialOne h newClient cfg (TrimSpace (sc_RegistryAddr cfg)) = Inr c \<and> set shut = {c}"
  using assms
  by (auto simp: Dial_def Backend_Close_def close_conns_all Let_def no_connections_def split: sum.splits if_splits)

definition conn_ok :: "host \<Rightarrow> s0_Config \<Rightarrow> ClientConn \<Rightarrow> bool" where
  "conn_ok h cfg c \<longleftrightarrow>
     (if sc_Insecure cfg then cc_creds c = InsecureCredentials
      else \<exists>t pool. cc_creds c = TLSCredentials t \<and> tc_MinVersion t = VersionTLS13 \<and>
        tc_Certificates t = [(sc_CertFile cfg, sc_KeyFile cfg)] \<and> tc_RootCAs t = Some pool \<and> hs_read h (sc_CAFile cfg) = Some pool)"

lemma load_caD: "load_ca h certFile keyFile caFile = Inr pool \<Longrightarrow> hs_read h caFile = Some pool"
  by (auto simp: load_ca_def split: if_splits option.splits)

lemma dialOne_ok: "dialOne h newClient cfg addr = Inr c \<Longrightarrow> conn_ok h cfg c \<and> cc_addr c = addr"
  by (auto simp: dialOne_def conn_ok_def Let_def dest: load_caD split: if_splits sum.splits)

lemma Dial_ok:
  assumes "fst (Dial h newClient close cfg) = Inr b" "Some c \<in> set (cn_conns b) \<or> cn_Reg b = Some c \<or> cn_Pass b = Some c"
  shows "conn_ok h cfg c \<and> Some c \<in> set (cn_conns b)"
  using assms by (auto simp: Dial_def no_connections_def Let_def dest: dialOne_ok split: sum.splits if_splits)

lemma NewOPAClient_limited: "0 < oc_Timeout (NewOPAClient base t)"
  by (simp add: NewOPAClient_def)


definition ex_bff_environ :: environ where
  "ex_bff_environ k = (if k = ''ARE_S0S1_REGISTRY_GRPC_ADDR'' then ''registry:9090''
     else if k = ''ARE_S0S1_OPA_URL'' then ''http://opa:8181''
     else if k \<in> set [''ARE_S0S1_TLS_CERT_FILE'', ''ARE_S0S1_TLS_KEY_FILE'', ''ARE_S0S1_TLS_CA_FILE''] then ''f.pem'' else [])"


end
