(* ===== verification/Ledger_Repo.thy ===== *)
theory Ledger_Repo
  imports GoTime GoJson "HOL-Library.Product_Lexorder"
begin

text \<open>
  The storage of the immutable ledger (\<^verbatim>\<open>s0/immutable-ledger/src/crypto\<close> and \<^verbatim>\<open>src/repository\<close>): the hash of an entry,
  the repository in memory and the one over PostgreSQL.

  Both refine one abstract machine: a chain of entries for every entry type, to which a write appends
  when it names the hash of the last entry. The locale \<open>ledger_repository\<close> is that contract.
\<close>

section \<open>Hashes\<close>

definition sha256_hex :: "bytes \<Rightarrow> string" where
  "sha256_hex v = HexEncode (sha256 v)"

definition canonical_bytes :: "string \<Rightarrow> string \<Rightarrow> bytes \<Rightarrow> string \<Rightarrow> string \<Rightarrow> int \<Rightarrow> string \<Rightarrow> bytes" where
  "canonical_bytes entry_type agent_id content content_type source_id written_ts_ms previous_hash =
     entry_type @ agent_id @ content @ content_type @ source_id @ Itoa written_ts_ms @ previous_hash"

definition canonical_entry_hash :: "string \<Rightarrow> string \<Rightarrow> bytes \<Rightarrow> string \<Rightarrow> string \<Rightarrow> int \<Rightarrow> string \<Rightarrow> string" where
  "canonical_entry_hash entry_type agent_id content content_type source_id written_ts_ms previous_hash =
     sha256_hex (canonical_bytes entry_type agent_id content content_type source_id written_ts_ms previous_hash)"

lemma length_sha256_hex [simp]: "length (sha256_hex v) = 64"
  by (simp add: sha256_hex_def)

lemma sha256_hex_not_Nil [simp]: "sha256_hex v \<noteq> []"
  using length_sha256_hex [of v] by fastforce

section \<open>Records\<close>

text \<open>\<^verbatim>\<open>timestamp_millis\<close> of an instant in nanoseconds.\<close>

definition timestamp_millis :: "instant \<Rightarrow> int" where
  "timestamp_millis t = t div 1000000"

record LedgerEntryRecord =
  le_entry_id :: string
  le_entry_type :: string
  le_agent_id :: string
  le_content :: bytes
  le_content_type :: string
  le_source_id :: string
  le_correlation_id :: "string option"
  le_idempotency_key :: "string option"
  le_entry_hash :: string
  le_previous_hash :: string
  le_chain_position :: int
  le_written_ts :: instant

datatype OutboxStatus = OutboxPending | OutboxDelivered | OutboxFailed

record OutboxRecord =
  lo_outbox_id :: string
  lo_entry_id :: string
  lo_entry_type :: string
  lo_payload :: any
  lo_status :: OutboxStatus
  lo_attempt_count :: int

record ChainTip =
  ct_entry_id :: string
  ct_hash :: string
  ct_position :: int
  ct_written_ts :: instant

datatype RepositoryError = RepoNotFound | RepoUnavailable | ChainIntegrityViolation

record EntryWriteInput =
  ew_entry_type :: string
  ew_agent_id :: string
  ew_content :: bytes
  ew_content_type :: string
  ew_source_id :: string
  ew_correlation_id :: "string option"
  ew_idempotency_key :: "string option"
  ew_entry_hash :: string
  ew_previous_hash :: string
  ew_written_ts :: instant
  ew_outbox_payload :: any

text \<open>
  What one write depends on besides its input: the two identifiers, and for the database which statement fails, by
  number, and how the commit ends. A commit whose reply is lost has happened although it reports an error.
\<close>

datatype commit = CommitOK | CommitFails | CommitReplyLost

record write_env =
  we_entry_id :: string
  we_outbox_id :: string
  we_fail :: "nat \<Rightarrow> bool"
  we_commit :: commit

type_synonym 's ledger_write = "write_env \<Rightarrow> EntryWriteInput \<Rightarrow> 's \<Rightarrow> (RepositoryError + LedgerEntryRecord \<times> OutboxRecord) \<times> 's"

text \<open>The reads take whether the database fails.\<close>

record 's LedgerRepository =
  lr_write :: "'s ledger_write"
  lr_get_entry :: "bool \<Rightarrow> string \<Rightarrow> 's \<Rightarrow> RepositoryError + LedgerEntryRecord"
  lr_query_entries :: "bool \<Rightarrow> 's \<Rightarrow> RepositoryError + LedgerEntryRecord list"
  lr_get_chain_tip :: "bool \<Rightarrow> string \<Rightarrow> 's \<Rightarrow> RepositoryError + ChainTip"
  lr_get_entries_by_type :: "bool \<Rightarrow> string \<Rightarrow> 's \<Rightarrow> RepositoryError + LedgerEntryRecord list"
  lr_find_idempotent :: "bool \<Rightarrow> string \<Rightarrow> string \<Rightarrow> 's \<Rightarrow> RepositoryError + LedgerEntryRecord option"
  lr_pending_outbox :: "bool \<Rightarrow> 's \<Rightarrow> RepositoryError + OutboxRecord list"
  lr_mark_outbox_delivered :: "bool \<Rightarrow> string \<Rightarrow> 's \<Rightarrow> (RepositoryError + unit) \<times> 's"

definition new_entry :: "string \<Rightarrow> int \<Rightarrow> EntryWriteInput \<Rightarrow> LedgerEntryRecord" where
  "new_entry entry_id position input = \<lparr>
     le_entry_id = entry_id, le_entry_type = ew_entry_type input, le_agent_id = ew_agent_id input,
     le_content = ew_content input, le_content_type = ew_content_type input, le_source_id = ew_source_id input,
     le_correlation_id = ew_correlation_id input, le_idempotency_key = ew_idempotency_key input,
     le_entry_hash = ew_entry_hash input, le_previous_hash = ew_previous_hash input,
     le_chain_position = position, le_written_ts = ew_written_ts input\<rparr>"

definition new_ledger_outbox :: "string \<Rightarrow> string \<Rightarrow> EntryWriteInput \<Rightarrow> OutboxRecord" where
  "new_ledger_outbox outbox_id entry_id input = \<lparr>
     lo_outbox_id = outbox_id, lo_entry_id = entry_id, lo_entry_type = ew_entry_type input,
     lo_payload = ew_outbox_payload input, lo_status = OutboxPending, lo_attempt_count = 0\<rparr>"

definition tip_of :: "LedgerEntryRecord \<Rightarrow> ChainTip" where
  "tip_of e = \<lparr>ct_entry_id = le_entry_id e, ct_hash = le_entry_hash e, ct_position = le_chain_position e,
     ct_written_ts = le_written_ts e\<rparr>"

section \<open>In memory\<close>

text \<open>
  Hash maps are association lists; \<open>order\<close> is the order in which a hash map is walked, a permutation.
\<close>

record Inner =
  in_entries :: "(string \<times> LedgerEntryRecord) list"
  in_ordered_by_type :: "string \<Rightarrow> string list option"
  in_chain_tips :: "string \<Rightarrow> ChainTip option"
  in_idempotency_index :: "string \<times> string \<Rightarrow> string option"
  in_outbox :: "(string \<times> OutboxRecord) list"

definition empty_inner :: Inner where
  "empty_inner = \<lparr>in_entries = [], in_ordered_by_type = (\<lambda>t. None), in_chain_tips = (\<lambda>t. None),
     in_idempotency_index = (\<lambda>k. None), in_outbox = []\<rparr>"

definition mem_write :: "Inner ledger_write" where
  "mem_write e input s =
     (let ty = ew_entry_type input;
          next_position = (case in_chain_tips s ty of None \<Rightarrow> 1 | Some tip \<Rightarrow> ct_position tip + 1)
      in if next_position = 1 \<and> ew_previous_hash input = [] then (Inl ChainIntegrityViolation, s)
         else if next_position > 1 \<and>
           (case in_chain_tips s ty of None \<Rightarrow> True | Some tip \<Rightarrow> ct_hash tip \<noteq> ew_previous_hash input)
         then (Inl ChainIntegrityViolation, s)
         else
           (let entry = new_entry (we_entry_id e) next_position input;
                outbox = new_ledger_outbox (we_outbox_id e) (we_entry_id e) input
            in (Inr (entry, outbox),
                s\<lparr>in_entries := alist_put (in_entries s) (we_entry_id e) entry,
                  in_ordered_by_type := (in_ordered_by_type s)(ty \<mapsto>
                    (case in_ordered_by_type s ty of None \<Rightarrow> [] | Some ids \<Rightarrow> ids) @ [we_entry_id e]),
                  in_chain_tips := (in_chain_tips s)(ty \<mapsto> tip_of entry),
                  in_idempotency_index :=
                    (case ew_idempotency_key input of
                       None \<Rightarrow> in_idempotency_index s
                     | Some key \<Rightarrow> (in_idempotency_index s)((ty, key) \<mapsto> we_entry_id e)),
                  in_outbox := alist_put (in_outbox s) (we_outbox_id e) outbox\<rparr>)))"

definition mem_get_entry :: "string \<Rightarrow> Inner \<Rightarrow> RepositoryError + LedgerEntryRecord" where
  "mem_get_entry entry_id s = (case alist_get (in_entries s) entry_id of None \<Rightarrow> Inl RepoNotFound | Some e \<Rightarrow> Inr e)"

definition query_key :: "LedgerEntryRecord \<Rightarrow> int \<times> int" where
  "query_key e = (timestamp_millis (le_written_ts e), le_chain_position e)"

definition mem_query_entries ::
  "(LedgerEntryRecord list \<Rightarrow> LedgerEntryRecord list) \<Rightarrow> Inner \<Rightarrow> RepositoryError + LedgerEntryRecord list" where
  "mem_query_entries order s = Inr (sort_key query_key (order (map snd (in_entries s))))"

definition mem_get_chain_tip :: "string \<Rightarrow> Inner \<Rightarrow> RepositoryError + ChainTip" where
  "mem_get_chain_tip ty s = (case in_chain_tips s ty of None \<Rightarrow> Inl RepoNotFound | Some tip \<Rightarrow> Inr tip)"

definition mem_get_entries_by_type :: "string \<Rightarrow> Inner \<Rightarrow> RepositoryError + LedgerEntryRecord list" where
  "mem_get_entries_by_type ty s =
     (case in_ordered_by_type s ty of
        None \<Rightarrow> Inr []
      | Some ids \<Rightarrow> Inr (List.map_filter (alist_get (in_entries s)) ids))"

definition mem_find_idempotent :: "string \<Rightarrow> string \<Rightarrow> Inner \<Rightarrow> RepositoryError + LedgerEntryRecord option" where
  "mem_find_idempotent ty key s =
     (case in_idempotency_index s (ty, key) of None \<Rightarrow> Inr None | Some i \<Rightarrow> Inr (alist_get (in_entries s) i))"

definition mem_pending_outbox ::
  "(OutboxRecord list \<Rightarrow> OutboxRecord list) \<Rightarrow> Inner \<Rightarrow> RepositoryError + OutboxRecord list" where
  "mem_pending_outbox order s = Inr (filter (\<lambda>r. lo_status r = OutboxPending) (order (map snd (in_outbox s))))"

definition mem_mark_outbox_delivered :: "string \<Rightarrow> Inner \<Rightarrow> (RepositoryError + unit) \<times> Inner" where
  "mem_mark_outbox_delivered outbox_id s =
     (case alist_get (in_outbox s) outbox_id of
        None \<Rightarrow> (Inl RepoNotFound, s)
      | Some r \<Rightarrow> (Inr (), s\<lparr>in_outbox := alist_put (in_outbox s) outbox_id (r\<lparr>lo_status := OutboxDelivered\<rparr>)\<rparr>))"

definition memory_ledger ::
  "(LedgerEntryRecord list \<Rightarrow> LedgerEntryRecord list) \<Rightarrow> (OutboxRecord list \<Rightarrow> OutboxRecord list) \<Rightarrow> Inner LedgerRepository" where
  "memory_ledger order order2 = \<lparr>
     lr_write = mem_write, lr_get_entry = (\<lambda>f. mem_get_entry), lr_query_entries = (\<lambda>f. mem_query_entries order),
     lr_get_chain_tip = (\<lambda>f. mem_get_chain_tip), lr_get_entries_by_type = (\<lambda>f. mem_get_entries_by_type),
     lr_find_idempotent = (\<lambda>f. mem_find_idempotent), lr_pending_outbox = (\<lambda>f. mem_pending_outbox order2),
     lr_mark_outbox_delivered = (\<lambda>f. mem_mark_outbox_delivered)\<rparr>"

section \<open>PostgreSQL\<close>

text \<open>
  The two tables, rows in the order of insertion, with the unique indexes of the migrations. The outbox is
  read in the order of \<^verbatim>\<open>created_ts\<close>, which is set by the insertion.
\<close>

record ledger_db =
  ld_entries :: "LedgerEntryRecord list"
  ld_outbox :: "OutboxRecord list"

definition empty_ledger_db :: ledger_db where
  "empty_ledger_db = \<lparr>ld_entries = [], ld_outbox = []\<rparr>"

definition rows_of_type :: "string \<Rightarrow> ledger_db \<Rightarrow> LedgerEntryRecord list" where
  "rows_of_type ty d = sort_key le_chain_position (filter (\<lambda>e. le_entry_type e = ty) (ld_entries d))"

definition tip_row :: "string \<Rightarrow> ledger_db \<Rightarrow> LedgerEntryRecord option" where
  "tip_row ty d = (let es = rows_of_type ty d in if es = [] then None else Some (last es))"

definition violates_unique :: "LedgerEntryRecord \<Rightarrow> LedgerEntryRecord \<Rightarrow> bool" where
  "violates_unique e f \<longleftrightarrow> le_entry_id e = le_entry_id f \<or>
     le_entry_type e = le_entry_type f \<and> le_chain_position e = le_chain_position f \<or>
     le_entry_type e = le_entry_type f \<and> le_idempotency_key e = le_idempotency_key f \<and> le_idempotency_key e \<noteq> None"

definition pg_ledger_write :: "ledger_db ledger_write" where
  "pg_ledger_write e input d =
     (let ty = ew_entry_type input
      in if we_fail e 0 \<or> we_fail e 1 \<or> we_fail e 2 then (Inl RepoUnavailable, d)
         else if (case tip_row ty d of None \<Rightarrow> ew_previous_hash input = [] | Some row \<Rightarrow> le_entry_hash row \<noteq> ew_previous_hash input)
         then (Inl ChainIntegrityViolation, d)
         else
           (let next_position = (case tip_row ty d of None \<Rightarrow> 1 | Some row \<Rightarrow> le_chain_position row + 1);
                entry = new_entry (we_entry_id e) next_position input;
                outbox = new_ledger_outbox (we_outbox_id e) (we_entry_id e) input;
                d' = d\<lparr>ld_entries := ld_entries d @ [entry], ld_outbox := ld_outbox d @ [outbox]\<rparr>
            in if we_fail e 3 then (Inl RepoUnavailable, d)
               else if list_ex (violates_unique entry) (ld_entries d) then (Inl ChainIntegrityViolation, d)
               else if we_fail e 4 \<or> list_ex (\<lambda>r. lo_outbox_id r = we_outbox_id e) (ld_outbox d) then (Inl RepoUnavailable, d)
               else (case we_commit e of
                       CommitOK \<Rightarrow> (Inr (entry, outbox), d')
                     | CommitFails \<Rightarrow> (Inl RepoUnavailable, d)
                     | CommitReplyLost \<Rightarrow> (Inl RepoUnavailable, d'))))"

definition pg_ledger_get_entry :: "bool \<Rightarrow> string \<Rightarrow> ledger_db \<Rightarrow> RepositoryError + LedgerEntryRecord" where
  "pg_ledger_get_entry fails entry_id d =
     (if fails then Inl RepoUnavailable
      else case find (\<lambda>e. le_entry_id e = entry_id) (ld_entries d) of None \<Rightarrow> Inl RepoNotFound | Some e \<Rightarrow> Inr e)"

text \<open>The database orders by the timestamp in microseconds, the service sorts again by milliseconds.\<close>

definition pg_ledger_query_entries :: "bool \<Rightarrow> ledger_db \<Rightarrow> RepositoryError + LedgerEntryRecord list" where
  "pg_ledger_query_entries fails d =
     (if fails then Inl RepoUnavailable
      else Inr (sort_key (\<lambda>e. (le_written_ts e div 1000, le_chain_position e)) (ld_entries d)))"

definition pg_ledger_get_chain_tip :: "bool \<Rightarrow> string \<Rightarrow> ledger_db \<Rightarrow> RepositoryError + ChainTip" where
  "pg_ledger_get_chain_tip fails ty d =
     (if fails then Inl RepoUnavailable else case tip_row ty d of None \<Rightarrow> Inl RepoNotFound | Some e \<Rightarrow> Inr (tip_of e))"

definition pg_ledger_get_entries_by_type :: "bool \<Rightarrow> string \<Rightarrow> ledger_db \<Rightarrow> RepositoryError + LedgerEntryRecord list" where
  "pg_ledger_get_entries_by_type fails ty d = (if fails then Inl RepoUnavailable else Inr (rows_of_type ty d))"

definition pg_ledger_find_idempotent :: "bool \<Rightarrow> string \<Rightarrow> string \<Rightarrow> ledger_db \<Rightarrow> RepositoryError + LedgerEntryRecord option" where
  "pg_ledger_find_idempotent fails ty key d =
     (if fails then Inl RepoUnavailable
      else Inr (find (\<lambda>e. le_entry_type e = ty \<and> le_idempotency_key e = Some key) (ld_entries d)))"

definition pg_ledger_pending_outbox :: "bool \<Rightarrow> ledger_db \<Rightarrow> RepositoryError + OutboxRecord list" where
  "pg_ledger_pending_outbox fails d =
     (if fails then Inl RepoUnavailable else Inr (filter (\<lambda>r. lo_status r = OutboxPending) (ld_outbox d)))"

definition pg_ledger_mark_delivered :: "bool \<Rightarrow> string \<Rightarrow> ledger_db \<Rightarrow> (RepositoryError + unit) \<times> ledger_db" where
  "pg_ledger_mark_delivered fails outbox_id d =
     (let hit = (\<lambda>r. lo_outbox_id r = outbox_id \<and> lo_status r = OutboxPending)
      in if fails then (Inl RepoUnavailable, d)
         else if \<not> list_ex hit (ld_outbox d) then (Inl RepoNotFound, d)
         else (Inr (), d\<lparr>ld_outbox := map (\<lambda>r. if hit r then r\<lparr>lo_status := OutboxDelivered\<rparr> else r) (ld_outbox d)\<rparr>))"

definition postgres_ledger :: "ledger_db LedgerRepository" where
  "postgres_ledger = \<lparr>
     lr_write = pg_ledger_write, lr_get_entry = pg_ledger_get_entry, lr_query_entries = pg_ledger_query_entries,
     lr_get_chain_tip = pg_ledger_get_chain_tip, lr_get_entries_by_type = pg_ledger_get_entries_by_type,
     lr_find_idempotent = pg_ledger_find_idempotent, lr_pending_outbox = pg_ledger_pending_outbox,
     lr_mark_outbox_delivered = pg_ledger_mark_delivered\<rparr>"

section \<open>The abstract machine\<close>

text \<open>A chain of entries for every entry type. A write appends, or is refused when it does not name the last hash.\<close>

type_synonym chains = "string \<Rightarrow> LedgerEntryRecord list"

definition append_spec :: "string \<Rightarrow> EntryWriteInput \<Rightarrow> chains \<Rightarrow> RepositoryError + chains" where
  "append_spec entry_id input C =
     (let es = C (ew_entry_type input)
      in if (if es = [] then ew_previous_hash input = [] else le_entry_hash (last es) \<noteq> ew_previous_hash input)
         then Inl ChainIntegrityViolation
         else Inr (C(ew_entry_type input := es @ [new_entry entry_id (int (length es) + 1) input])))"

definition positions_ok :: "LedgerEntryRecord list \<Rightarrow> bool" where
  "positions_ok es \<longleftrightarrow> map le_chain_position es = [1..int (length es)]"

lemma positions_ok_Nil [simp]: "positions_ok []"
  by (simp add: positions_ok_def)

lemma positions_ok_snoc [simp]:
  "positions_ok (es @ [e]) \<longleftrightarrow> positions_ok es \<and> le_chain_position e = int (length es) + 1"
proof -
  have "[1..int (length es) + 1] = [1..int (length es)] @ [int (length es) + 1]"
    by (rule upto_rec2 [of 1 "int (length es) + 1", simplified])
  then show ?thesis by (simp add: positions_ok_def add.commute)
qed

lemma positions_ok_sorted: "positions_ok es \<Longrightarrow> sorted (map le_chain_position es)"
  by (simp add: positions_ok_def)

lemma positions_ok_last: "positions_ok es \<Longrightarrow> es \<noteq> [] \<Longrightarrow> le_chain_position (last es) = int (length es)"
  by (cases es rule: rev_cases) auto

lemma positions_ok_nth: "positions_ok es \<Longrightarrow> i < length es \<Longrightarrow> le_chain_position (es ! i) = int i + 1"
proof -
  assume ok: "positions_ok es" and i: "i < length es"
  have "map le_chain_position es ! i = [1..int (length es)] ! i" using ok by (simp add: positions_ok_def)
  with i show ?thesis by (simp add: nth_upto)
qed

lemma new_entry_sel [simp]:
  "le_entry_id (new_entry i p input) = i" "le_entry_type (new_entry i p input) = ew_entry_type input"
  "le_chain_position (new_entry i p input) = p" "le_entry_hash (new_entry i p input) = ew_entry_hash input"
  "le_previous_hash (new_entry i p input) = ew_previous_hash input"
  "le_idempotency_key (new_entry i p input) = ew_idempotency_key input"
  "le_agent_id (new_entry i p input) = ew_agent_id input" "le_content (new_entry i p input) = ew_content input"
  "le_content_type (new_entry i p input) = ew_content_type input" "le_source_id (new_entry i p input) = ew_source_id input"
  "le_written_ts (new_entry i p input) = ew_written_ts input"
  by (simp_all add: new_entry_def)

section \<open>The contract\<close>

locale ledger_repository =
  fixes R :: "'s LedgerRepository"
    and chains :: "'s \<Rightarrow> chains"
    and inv :: "'s \<Rightarrow> bool"
    and fresh :: "write_env \<Rightarrow> 's \<Rightarrow> bool"
  assumes write_appends: "inv s \<Longrightarrow> fresh w s \<Longrightarrow> lr_write R w input s = (Inr (entry, ob), s') \<Longrightarrow>
      inv s' \<and> append_spec (we_entry_id w) input (chains s) = Inr (chains s') \<and> entry = last (chains s' (ew_entry_type input))"
    and write_fails: "inv s \<Longrightarrow> fresh w s \<Longrightarrow> lr_write R w input s = (Inl err, s') \<Longrightarrow>
      inv s' \<and> (chains s' = chains s \<or> append_spec (we_entry_id w) input (chains s) = Inr (chains s'))"
    and tip_found: "inv s \<Longrightarrow> lr_get_chain_tip R f ty s = Inr tip \<Longrightarrow> chains s ty \<noteq> [] \<and> tip = tip_of (last (chains s ty))"
    and tip_missing: "inv s \<Longrightarrow> lr_get_chain_tip R f ty s = Inl RepoNotFound \<Longrightarrow> chains s ty = []"
    and by_type: "inv s \<Longrightarrow> lr_get_entries_by_type R f ty s = Inr es \<Longrightarrow> es = chains s ty"
    and stored: "inv s \<Longrightarrow> lr_get_entry R f i s = Inr e \<Longrightarrow> le_entry_id e = i \<and> e \<in> set (chains s (le_entry_type e))"
    and types_kept: "inv s \<Longrightarrow> e \<in> set (chains s ty) \<Longrightarrow> le_entry_type e = ty"
    and numbered: "inv s \<Longrightarrow> positions_ok (chains s ty)"
    and idempotent_found: "inv s \<Longrightarrow> lr_find_idempotent R f ty k s = Inr (Some e) \<Longrightarrow>
      e \<in> set (chains s ty) \<and> le_idempotency_key e = Some k"
    and delivery_keeps: "inv s \<Longrightarrow> inv (snd (lr_mark_outbox_delivered R f i s)) \<and>
      chains (snd (lr_mark_outbox_delivered R f i s)) = chains s"

text \<open>A repository that keeps the idempotency keys of a type distinct finds the entry of a key.\<close>

locale keyed_ledger = ledger_repository +
  assumes find_complete: "inv s \<Longrightarrow> e \<in> set (chains s ty) \<Longrightarrow> le_idempotency_key e = Some k \<Longrightarrow>
      lr_find_idempotent R False ty k s = Inr (Some e)"

section \<open>PostgreSQL refines it\<close>

definition pg_chains :: "ledger_db \<Rightarrow> chains" where
  "pg_chains d ty = filter (\<lambda>e. le_entry_type e = ty) (ld_entries d)"

definition pg_ledger_inv :: "ledger_db \<Rightarrow> bool" where
  "pg_ledger_inv d \<longleftrightarrow> (\<forall>ty. positions_ok (pg_chains d ty)) \<and>
     (\<forall>e \<in> set (ld_entries d). \<forall>f \<in> set (ld_entries d). violates_unique e f \<longrightarrow> e = f)"

lemma pg_ledger_inv_empty [simp]: "pg_ledger_inv empty_ledger_db"
  by (simp add: pg_ledger_inv_def pg_chains_def empty_ledger_db_def)

lemma violates_unique_sym: "violates_unique e f \<Longrightarrow> violates_unique f e"
  unfolding violates_unique_def by metis

lemma pg_inv_rows: "pg_ledger_inv d \<Longrightarrow> rows_of_type ty d = pg_chains d ty"
  unfolding rows_of_type_def pg_chains_def [symmetric]
  by (rule sort_key_id_if_sorted) (simp add: pg_ledger_inv_def positions_ok_sorted)

lemma pg_inv_tip:
  "pg_ledger_inv d \<Longrightarrow> tip_row ty d = (if pg_chains d ty = [] then None else Some (last (pg_chains d ty)))"
  by (simp add: tip_row_def pg_inv_rows)

lemma pg_chains_snoc:
  "pg_chains (d\<lparr>ld_entries := ld_entries d @ [e], ld_outbox := ob\<rparr>) =
     (pg_chains d)(le_entry_type e := pg_chains d (le_entry_type e) @ [e])"
  by (auto simp: pg_chains_def)

lemma pg_inv_snoc:
  "pg_ledger_inv d \<Longrightarrow> le_chain_position e = int (length (pg_chains d (le_entry_type e))) + 1 \<Longrightarrow>
   \<not> list_ex (violates_unique e) (ld_entries d) \<Longrightarrow>
   pg_ledger_inv (d\<lparr>ld_entries := ld_entries d @ [e], ld_outbox := ob\<rparr>)"
  unfolding pg_ledger_inv_def pg_chains_snoc by (auto simp: list_ex_iff dest: violates_unique_sym)

lemma pg_write_spec:
  assumes "pg_ledger_inv d" "pg_ledger_write w input d = (r, d')"
  shows "pg_ledger_inv d' \<and>
    (case r of
       Inr (entry, ob) \<Rightarrow> append_spec (we_entry_id w) input (pg_chains d) = Inr (pg_chains d') \<and>
         entry = last (pg_chains d' (ew_entry_type input)) \<and> ld_outbox d' = ld_outbox d @ [ob] \<and> lo_entry_id ob = le_entry_id entry
     | Inl ChainIntegrityViolation \<Rightarrow> d' = d \<and>
         (append_spec (we_entry_id w) input (pg_chains d) = Inl ChainIntegrityViolation \<or>
          (\<exists>e \<in> set (ld_entries d). le_entry_id e = we_entry_id w \<or>
             le_entry_type e = ew_entry_type input \<and> le_idempotency_key e = ew_idempotency_key input \<and> ew_idempotency_key input \<noteq> None))
     | Inl _ \<Rightarrow> d' = d \<or> we_commit w = CommitReplyLost \<and> append_spec (we_entry_id w) input (pg_chains d) = Inr (pg_chains d'))"
proof -
  let ?ty = "ew_entry_type input"
  let ?es = "pg_chains d ?ty"
  define e where "e = new_entry (we_entry_id w) (int (length ?es) + 1) input"
  define ob where "ob = new_ledger_outbox (we_outbox_id w) (we_entry_id w) input"
  define d1 where "d1 = d\<lparr>ld_entries := ld_entries d @ [e], ld_outbox := ld_outbox d @ [ob]\<rparr>"
  have pos: "positions_ok ?es" using assms(1) by (simp add: pg_ledger_inv_def)
  have succ: "(case tip_row ?ty d of None \<Rightarrow> 1 | Some row \<Rightarrow> le_chain_position row + 1) = int (length ?es) + 1"
    using pos by (simp add: pg_inv_tip [OF assms(1)] positions_ok_last)
  have link: "(case tip_row ?ty d of None \<Rightarrow> ew_previous_hash input = [] | Some row \<Rightarrow> le_entry_hash row \<noteq> ew_previous_hash input)
      \<longleftrightarrow> append_spec (we_entry_id w) input (pg_chains d) = Inl ChainIntegrityViolation"
    by (simp add: pg_inv_tip [OF assms(1)] append_spec_def Let_def)
  have app: "append_spec (we_entry_id w) input (pg_chains d) = Inr (pg_chains d1)"
    if "append_spec (we_entry_id w) input (pg_chains d) \<noteq> Inl ChainIntegrityViolation"
    using that unfolding d1_def pg_chains_snoc by (auto simp: e_def append_spec_def Let_def split: if_splits)
  have inv: "pg_ledger_inv d1" if "\<not> list_ex (violates_unique e) (ld_entries d)"
    unfolding d1_def by (rule pg_inv_snoc [OF assms(1) _ that]) (simp add: e_def)
  have entry: "last (pg_chains d1 ?ty) = e" unfolding d1_def pg_chains_snoc by (simp add: e_def)
  have outbox: "ld_outbox d1 = ld_outbox d @ [ob]" "lo_entry_id ob = le_entry_id e" by (simp_all add: new_ledger_outbox_def d1_def ob_def e_def)
  have unique: "\<exists>f \<in> set (ld_entries d). le_entry_id f = we_entry_id w \<or>
      le_entry_type f = ?ty \<and> le_idempotency_key f = ew_idempotency_key input \<and> ew_idempotency_key input \<noteq> None"
    if dup: "list_ex (violates_unique e) (ld_entries d)"
  proof -
    obtain f where f: "f \<in> set (ld_entries d)" "violates_unique e f" using dup by (auto simp: list_ex_iff)
    have "le_chain_position f \<noteq> int (length ?es) + 1" if "le_entry_type f = ?ty"
    proof -
      have "f \<in> set ?es" using f(1) that by (simp add: pg_chains_def)
      then have "le_chain_position f \<in> set [1..int (length ?es)]" using pos by (metis image_eqI list.set_map positions_ok_def)
      then show ?thesis by simp
    qed
    with f show ?thesis by (intro bexI [of _ f]) (auto simp: violates_unique_def e_def)
  qed
  from assms(2) show ?thesis
    unfolding pg_ledger_write_def Let_def succ link e_def [symmetric] ob_def [symmetric] d1_def [symmetric]
    using app inv entry unique outbox assms(1)
    by (auto split: if_splits commit.splits)
qed

lemma pg_find_stored:
  "find P (ld_entries d) = Some e \<Longrightarrow> P e \<and> e \<in> set (pg_chains d (le_entry_type e))"
  by (induction "ld_entries d" arbitrary: e) (auto simp: find_Some_iff pg_chains_def)

lemma pg_find_key:
  assumes "pg_ledger_inv d" "e \<in> set (pg_chains d ty)" "le_idempotency_key e = Some k"
  shows "find (\<lambda>e. le_entry_type e = ty \<and> le_idempotency_key e = Some k) (ld_entries d) = Some e"
proof -
  let ?P = "\<lambda>e. le_entry_type e = ty \<and> le_idempotency_key e = Some k"
  have e: "e \<in> set (ld_entries d)" "?P e" using assms(2,3) by (auto simp: pg_chains_def)
  then obtain f where f: "find ?P (ld_entries d) = Some f" by (cases "find ?P (ld_entries d)") (auto simp: find_None_iff)
  then have "f \<in> set (ld_entries d)" "?P f" by (auto simp: find_Some_iff)
  with e assms(1) have "f = e" by (auto simp: pg_ledger_inv_def violates_unique_def)
  with f show ?thesis by simp
qed

interpretation pg: keyed_ledger postgres_ledger pg_chains pg_ledger_inv "\<lambda>w d. True"
proof (unfold_locales, goal_cases)
  case (1 s w input entry ob s')
  with pg_write_spec [OF 1(1), of w input] show ?case by (auto simp: postgres_ledger_def)
next
  case (2 s w input err s')
  with pg_write_spec [OF 2(1), of w input] show ?case by (auto simp: postgres_ledger_def split: RepositoryError.splits)
next
  case (6 s f i e)
  with pg_find_stored [of "\<lambda>e. le_entry_id e = i" s e] show ?case
    by (auto simp: postgres_ledger_def pg_ledger_get_entry_def split: if_splits option.splits)
next
  case (9 s f ty k e)
  with pg_find_stored [of "\<lambda>e. le_entry_type e = ty \<and> le_idempotency_key e = Some k" s e] show ?case
    by (auto simp: postgres_ledger_def pg_ledger_find_idempotent_def split: if_splits)
next
  case (10 s f i)
  then show ?case
    by (auto simp: postgres_ledger_def pg_ledger_mark_delivered_def Let_def pg_ledger_inv_def pg_chains_def)
next
  case (11 s e ty k)
  then show ?case by (simp add: postgres_ledger_def pg_ledger_find_idempotent_def pg_find_key)
qed (auto simp: postgres_ledger_def pg_ledger_get_chain_tip_def pg_ledger_get_entries_by_type_def pg_inv_tip pg_inv_rows
    pg_chains_def pg_ledger_inv_def split: if_splits)

section \<open>So does the memory\<close>

definition mem_chains :: "Inner \<Rightarrow> chains" where
  "mem_chains s ty = (case in_ordered_by_type s ty of None \<Rightarrow> [] | Some ids \<Rightarrow> List.map_filter (alist_get (in_entries s)) ids)"

definition mem_inv :: "Inner \<Rightarrow> bool" where
  "mem_inv s \<longleftrightarrow>
     (\<forall>ty. positions_ok (mem_chains s ty)) \<and>
     (\<forall>ty. in_chain_tips s ty = (if mem_chains s ty = [] then None else Some (tip_of (last (mem_chains s ty))))) \<and>
     (\<forall>ty. \<forall>e \<in> set (mem_chains s ty). le_entry_type e = ty) \<and>
     (\<forall>ty ids i. in_ordered_by_type s ty = Some ids \<longrightarrow> i \<in> set ids \<longrightarrow> alist_get (in_entries s) i \<noteq> None) \<and>
     (\<forall>i e. alist_get (in_entries s) i = Some e \<longrightarrow> le_entry_id e = i \<and> e \<in> set (mem_chains s (le_entry_type e))) \<and>
     (\<forall>ty k i. in_idempotency_index s (ty, k) = Some i \<longrightarrow>
        (\<exists>e. alist_get (in_entries s) i = Some e \<and> le_entry_type e = ty \<and> le_idempotency_key e = Some k))"

lemma map_filter_snoc: "List.map_filter f (xs @ [x]) = List.map_filter f xs @ (case f x of None \<Rightarrow> [] | Some y \<Rightarrow> [y])"
  by (auto simp: List.map_filter_def)

lemma map_filter_put_other:
  "\<forall>i \<in> set ids. i \<noteq> k \<Longrightarrow> List.map_filter (alist_get (alist_put m k v)) ids = List.map_filter (alist_get m) ids"
  by (induction ids) (auto simp: map_filter_simps split: option.splits)

lemma mem_write_effect:
  assumes inv: "mem_inv s" and fresh: "alist_get (in_entries s) (we_entry_id w) = None"
    and wr: "mem_write w input s = (r, s')"
  shows "(\<exists>e. r = Inl e \<and> s' = s) \<or>
    (let ty = ew_entry_type input; e = new_entry (we_entry_id w) (int (length (mem_chains s ty)) + 1) input
     in r = Inr (e, new_ledger_outbox (we_outbox_id w) (we_entry_id w) input) \<and>
        append_spec (we_entry_id w) input (mem_chains s) = Inr (mem_chains s') \<and>
        mem_chains s' = (mem_chains s)(ty := mem_chains s ty @ [e]) \<and>
        in_entries s' = alist_put (in_entries s) (we_entry_id w) e \<and>
        in_chain_tips s' = (in_chain_tips s)(ty \<mapsto> tip_of e) \<and>
        in_ordered_by_type s' = (in_ordered_by_type s)(ty \<mapsto>
          (case in_ordered_by_type s ty of None \<Rightarrow> [] | Some ids \<Rightarrow> ids) @ [we_entry_id w]) \<and>
        in_idempotency_index s' = (case ew_idempotency_key input of
            None \<Rightarrow> in_idempotency_index s | Some key \<Rightarrow> (in_idempotency_index s)((ty, key) \<mapsto> we_entry_id w)))"
proof -
  let ?ty = "ew_entry_type input"
  define e where "e = new_entry (we_entry_id w) (int (length (mem_chains s ?ty)) + 1) input"
  have tips: "in_chain_tips s ?ty = (if mem_chains s ?ty = [] then None else Some (tip_of (last (mem_chains s ?ty))))"
    and pos: "positions_ok (mem_chains s ?ty)"
    and ids: "\<And>ty ids i. in_ordered_by_type s ty = Some ids \<Longrightarrow> i \<in> set ids \<Longrightarrow> alist_get (in_entries s) i \<noteq> None"
    using inv unfolding mem_inv_def by auto
  have succ: "(case in_chain_tips s ?ty of None \<Rightarrow> 1 | Some tip \<Rightarrow> ct_position tip + 1) = int (length (mem_chains s ?ty)) + 1"
    using positions_ok_last [OF pos] by (simp add: tips tip_of_def)
  have other: "List.map_filter (alist_get (alist_put (in_entries s) (we_entry_id w) e)) l =
      List.map_filter (alist_get (in_entries s)) l" if "in_ordered_by_type s ty = Some l" for ty l
    using ids [OF that] fresh by (intro map_filter_put_other) force
  have chains: "mem_chains s'' = (mem_chains s)(?ty := mem_chains s ?ty @ [e])"
    if "in_entries s'' = alist_put (in_entries s) (we_entry_id w) e"
      "in_ordered_by_type s'' = (in_ordered_by_type s)(?ty \<mapsto>
         (case in_ordered_by_type s ?ty of None \<Rightarrow> [] | Some l \<Rightarrow> l) @ [we_entry_id w])" for s''
    using that other by (intro ext) (auto simp: mem_chains_def map_filter_snoc map_filter_simps split: option.splits)
  show ?thesis
  proof (cases r)
    case (Inl err)
    then show ?thesis using wr by (auto simp: mem_write_def Let_def split: if_splits)
  next
    case (Inr x)
    have upd: "in_entries s' = alist_put (in_entries s) (we_entry_id w) e"
      "in_chain_tips s' = (in_chain_tips s)(?ty \<mapsto> tip_of e)"
      "in_ordered_by_type s' = (in_ordered_by_type s)(?ty \<mapsto>
         (case in_ordered_by_type s ?ty of None \<Rightarrow> [] | Some l \<Rightarrow> l) @ [we_entry_id w])"
      "in_idempotency_index s' = (case ew_idempotency_key input of
         None \<Rightarrow> in_idempotency_index s | Some key \<Rightarrow> (in_idempotency_index s)((?ty, key) \<mapsto> we_entry_id w))"
      "r = Inr (e, new_ledger_outbox (we_outbox_id w) (we_entry_id w) input)"
      using wr Inr unfolding mem_write_def Let_def succ e_def [symmetric] by (auto split: if_splits)
    have "append_spec (we_entry_id w) input (mem_chains s) = Inr ((mem_chains s)(?ty := mem_chains s ?ty @ [e]))"
      using wr Inr unfolding mem_write_def Let_def succ
      by (auto simp: append_spec_def Let_def e_def tips tip_of_def split: if_splits)
    then show ?thesis using upd chains [OF upd(1,3)] by (simp add: Let_def e_def)
  qed
qed

lemma mem_write_inv:
  assumes inv: "mem_inv s" and fresh: "alist_get (in_entries s) (we_entry_id w) = None"
    and wr: "mem_write w input s = (Inr (entry, ob), s')"
  shows "mem_inv s'"
proof -
  define e where "e = new_entry (we_entry_id w) (int (length (mem_chains s (ew_entry_type input))) + 1) input"
  have sel: "le_entry_id e = we_entry_id w" "le_entry_type e = ew_entry_type input"
    "le_idempotency_key e = ew_idempotency_key input"
    "le_chain_position e = int (length (mem_chains s (ew_entry_type input))) + 1"
    by (simp_all add: e_def)
  note eff = mem_write_effect [OF inv fresh wr, unfolded Let_def e_def [symmetric], simplified]
  have chains: "mem_chains s' = (mem_chains s)(ew_entry_type input := mem_chains s (ew_entry_type input) @ [e])"
    and ents: "in_entries s' = alist_put (in_entries s) (we_entry_id w) e"
    using eff by auto
  note i = inv [unfolded mem_inv_def]
  have known: "le_entry_id f = j \<and> f \<in> set (mem_chains s (le_entry_type f))" if "alist_get (in_entries s) j = Some f" for j f
    using i that by blast
  have key: "\<exists>f. alist_get (in_entries s) j = Some f \<and> le_entry_type f = ty \<and> le_idempotency_key f = Some k"
    if "in_idempotency_index s (ty, k) = Some j" for ty k j
    using i that by blast
  show ?thesis
    unfolding mem_inv_def
  proof (intro conjI, goal_cases)
    case 1
    then show ?case using i by (simp add: chains sel)
  next
    case 2
    then show ?case using i eff by (simp add: chains)
  next
    case 3
    then show ?case using i by (simp add: chains sel)
  next
    case 4
    then show ?case using i eff by (auto simp: ents split: option.splits if_splits)
  next
    case 5
    then show ?case by (auto simp: ents chains sel dest!: known split: if_splits)
  next
    case 6
    have "in_idempotency_index s' (ty, k) = Some j \<Longrightarrow>
        j = we_entry_id w \<and> ty = ew_entry_type input \<and> ew_idempotency_key input = Some k \<or>
        j \<noteq> we_entry_id w \<and> in_idempotency_index s (ty, k) = Some j" for ty k j
      using eff key [of ty k j] fresh by (auto split: option.splits if_splits)
    then show ?case using key by (fastforce simp: ents sel)
  qed
qed

interpretation mem: ledger_repository "memory_ledger order order2" mem_chains mem_inv
  "\<lambda>w s. alist_get (in_entries s) (we_entry_id w) = None" for order order2
proof (unfold_locales, goal_cases)
  case (1 s w input entry ob s')
  then have wr: "mem_write w input s = (Inr (entry, ob), s')" by (simp add: memory_ledger_def)
  from mem_write_effect [OF 1(1,2) wr] mem_write_inv [OF 1(1,2) wr] show ?case by (simp add: Let_def)
next
  case (2 s w input err s')
  then have "mem_write w input s = (Inl err, s')" by (simp add: memory_ledger_def)
  with mem_write_effect [OF 2(1,2) this] 2(1) show ?case by (simp add: Let_def)
next
  case (3 s f ty tip)
  then have "in_chain_tips s ty = Some tip" by (auto simp: memory_ledger_def mem_get_chain_tip_def split: option.splits)
  with 3(1) show ?case by (auto simp: mem_inv_def split: if_splits)
next
  case (4 s f ty)
  then have "in_chain_tips s ty = None" by (auto simp: memory_ledger_def mem_get_chain_tip_def split: option.splits)
  with 4(1) show ?case by (auto simp: mem_inv_def split: if_splits)
next
  case (5 s f ty es)
  then show ?case by (auto simp: memory_ledger_def mem_get_entries_by_type_def mem_chains_def split: option.splits)
next
  case (6 s f i e)
  then have "alist_get (in_entries s) i = Some e" by (auto simp: memory_ledger_def mem_get_entry_def split: option.splits)
  with 6(1) show ?case by (auto simp: mem_inv_def)
next
  case (9 s f ty k e)
  then obtain i where "in_idempotency_index s (ty, k) = Some i" "alist_get (in_entries s) i = Some e"
    by (auto simp: memory_ledger_def mem_find_idempotent_def split: option.splits)
  moreover from this 9(1) have "le_entry_type e = ty \<and> le_idempotency_key e = Some k"
    unfolding mem_inv_def by (metis option.inject)
  moreover have "e \<in> set (mem_chains s (le_entry_type e))" using calculation(2) 9(1) by (auto simp: mem_inv_def)
  ultimately show ?case by simp
next
  case (10 s f i)
  then show ?case by (auto simp: memory_ledger_def mem_mark_outbox_delivered_def mem_inv_def mem_chains_def split: option.splits)
qed (auto simp: mem_inv_def)

text \<open>
  C17: The PostgreSQL repository implements the abstract chains. A write that succeeds is the abstract append; one
  that is refused as a violation changed nothing, and either the abstract machine refuses it too or the identifier
  or idempotency key is taken; one that reports a failure changed nothing or, when only the reply of the
  commit was lost, is the abstract append. The numbering of every chain from 1 without gaps is kept.
\<close>

theorem postgres_refines_chains:
  assumes "pg_ledger_inv d" "pg_ledger_write w input d = (r, d')"
  shows "pg_ledger_inv d' \<and>
    (case r of
       Inr (entry, ob) \<Rightarrow> append_spec (we_entry_id w) input (pg_chains d) = Inr (pg_chains d') \<and>
         entry = last (pg_chains d' (ew_entry_type input)) \<and> ld_outbox d' = ld_outbox d @ [ob] \<and> lo_entry_id ob = le_entry_id entry
     | Inl ChainIntegrityViolation \<Rightarrow> d' = d \<and>
         (append_spec (we_entry_id w) input (pg_chains d) = Inl ChainIntegrityViolation \<or>
          (\<exists>e \<in> set (ld_entries d). le_entry_id e = we_entry_id w \<or>
             le_entry_type e = ew_entry_type input \<and> le_idempotency_key e = ew_idempotency_key input \<and> ew_idempotency_key input \<noteq> None))
     | Inl _ \<Rightarrow> d' = d \<or> we_commit w = CommitReplyLost \<and> append_spec (we_entry_id w) input (pg_chains d) = Inr (pg_chains d'))"
  by (rule pg_write_spec [OF assms])

definition sample_entry_input :: EntryWriteInput where
  "sample_entry_input = \<lparr>ew_entry_type = ''AUDIT'', ew_agent_id = ''agent'', ew_content = ''x'', ew_content_type = ''text/plain'',
     ew_source_id = ''registry'', ew_correlation_id = None, ew_idempotency_key = None, ew_entry_hash = ''h'',
     ew_previous_hash = ''g'', ew_written_ts = 0, ew_outbox_payload = ANil\<rparr>"

definition sample_write_env :: "commit \<Rightarrow> write_env" where
  "sample_write_env c = \<lparr>we_entry_id = ''1'', we_outbox_id = ''2'', we_fail = (\<lambda>i. False), we_commit = c\<rparr>"

theorem postgres_refines_chains_witness:
  "\<exists>d'. pg_ledger_write (sample_write_env CommitReplyLost) sample_entry_input empty_ledger_db = (Inl RepoUnavailable, d') \<and>
     pg_ledger_inv d' \<and> d' \<noteq> empty_ledger_db \<and>
     append_spec ''1'' sample_entry_input (pg_chains empty_ledger_db) = Inr (pg_chains d')"
proof -
  obtain d' where d': "pg_ledger_write (sample_write_env CommitReplyLost) sample_entry_input empty_ledger_db = (Inl RepoUnavailable, d')"
    "d' \<noteq> empty_ledger_db"
    by (simp add: pg_ledger_write_def sample_write_env_def sample_entry_input_def empty_ledger_db_def tip_row_def rows_of_type_def Let_def)
  with postgres_refines_chains [OF pg_ledger_inv_empty d'(1)] show ?thesis by (simp add: sample_write_env_def)
qed

end
