(* ===== verification/RustStd.thy ===== *)
theory RustStd
  imports GoStrings
begin

text \<open>
  What the Rust services use of their standard library: the environment, parsing of unsigned numbers and the characters of a
  string.
\<close>

section \<open>Environment and numbers\<close>

text \<open>An environment gives \<open>None\<close> for a variable that is not set.\<close>

type_synonym rust_env = "string \<Rightarrow> string option"

text \<open>\<^verbatim>\<open>str::parse\<close> at an unsigned type of \<open>w\<close> bits: digits after an optional plus sign.\<close>

definition parse_unsigned :: "nat \<Rightarrow> string \<Rightarrow> int option" where
  "parse_unsigned w raw =
     (let ds = (case raw of [] \<Rightarrow> [] | c # cs \<Rightarrow> if c = CHR ''+'' then cs else raw);
          v = int (digits_value ds)
      in if ds = [] \<or> \<not> list_all is_digit ds \<or> 2 ^ w \<le> v then None else Some v)"

lemma parse_unsigned_Itoa: "v < 2 ^ w \<Longrightarrow> parse_unsigned w (Itoa (int v)) = Some (int v)"
proof -
  assume v: "v < 2 ^ w"
  obtain c cs where d: "nat_digits v = c # cs" using nat_digits_not_Nil by (cases "nat_digits v") auto
  have "is_digit c" using nat_digits_digits [of v] d by simp
  then have "c \<noteq> CHR ''+''" by (simp add: digit_no_sign)
  with d v show ?thesis
    using nat_digits_digits [of v] digits_value_nat_digits [of v]
    by (simp add: parse_unsigned_def Itoa_def Let_def del: digits_value_nat_digits flip: of_nat_power_eq_of_nat_cancel_iff)
qed

section \<open>Characters\<close>

text \<open>A \<^verbatim>\<open>char\<close> of a Rust string is the group of bytes that encodes it: a byte and the continuation bytes after it.\<close>

type_synonym rchar = string

definition is_continuation :: "char \<Rightarrow> bool" where
  "is_continuation b \<longleftrightarrow> 128 \<le> (of_char b :: nat) \<and> (of_char b :: nat) < 192"

function rchars :: "string \<Rightarrow> rchar list" where
  "rchars [] = []"
| "rchars (b # s) = (b # takeWhile is_continuation s) # rchars (dropWhile is_continuation s)"
  by pat_completeness auto

termination
  by (relation "measure length") (auto simp: length_dropWhile_le le_imp_less_Suc)

lemma rchars_length: "length (rchars s) \<le> length s"
  by (induction s rule: rchars.induct) (auto intro: order_trans [OF _ length_dropWhile_le])

end
