(* ===== verification/Ledger_Service.thy ===== *)
theory Ledger_Service
  imports Ledger_Repo GoGrpc RustStd
begin

text \<open>
  The service of the immutable ledger (\<^verbatim>\<open>s0/immutable-ledger/src/service\<close>), its configuration, the check of the
  database role, its gRPC handlers and its start.

  A write is a loop of at most five attempts. Other requests run between the steps of an attempt; what they do to
  the service is the functions \<open>at_before\<close> and \<open>at_between\<close>.
\<close>

section \<open>Configuration\<close>

record AppConfig =
  lc_grpc_port :: int
  lc_health_port :: int
  lc_metrics_port :: int
  lc_max_content_size_bytes :: int
  lc_db_connection_string :: string
  lc_read_replica_connection_string :: "string option"
  lc_kafka_bootstrap_servers :: string
  lc_kafka_sasl_username :: string
  lc_kafka_sasl_password :: string
  lc_genesis_hash_input :: string

datatype ConfigError = Missing string | InvalidInteger string

definition required :: "rust_env \<Rightarrow> string \<Rightarrow> ConfigError + string" where
  "required env name = (case env name of None \<Rightarrow> Inl (Missing name) | Some v \<Rightarrow> Inr v)"

definition parse_env_unsigned :: "nat \<Rightarrow> rust_env \<Rightarrow> string \<Rightarrow> int \<Rightarrow> ConfigError + int" where
  "parse_env_unsigned w env name dflt =
     (case env name of
        Some raw \<Rightarrow> (case parse_unsigned w raw of None \<Rightarrow> Inl (InvalidInteger name) | Some v \<Rightarrow> Inr v)
      | None \<Rightarrow> Inr dflt)"

definition parse_u16 :: "rust_env \<Rightarrow> string \<Rightarrow> int \<Rightarrow> ConfigError + int" where
  "parse_u16 = parse_env_unsigned 16"

definition parse_usize :: "rust_env \<Rightarrow> string \<Rightarrow> int \<Rightarrow> ConfigError + int" where
  "parse_usize = parse_env_unsigned 64"

definition from_env :: "rust_env \<Rightarrow> ConfigError + AppConfig" where
  "from_env env =
     case_sum Inl (\<lambda>grpc_port.
     case_sum Inl (\<lambda>health_port.
     case_sum Inl (\<lambda>metrics_port.
     case_sum Inl (\<lambda>max_content_size_bytes.
     case_sum Inl (\<lambda>db_connection_string.
     case_sum Inl (\<lambda>kafka_bootstrap_servers.
     case_sum Inl (\<lambda>kafka_sasl_username.
     case_sum Inl (\<lambda>kafka_sasl_password.
       Inr \<lparr>lc_grpc_port = grpc_port, lc_health_port = health_port, lc_metrics_port = metrics_port,
            lc_max_content_size_bytes = max_content_size_bytes, lc_db_connection_string = db_connection_string,
            lc_read_replica_connection_string = env ''ARE_LEDGER_READ_REPLICA_CONNECTION_STRING'',
            lc_kafka_bootstrap_servers = kafka_bootstrap_servers, lc_kafka_sasl_username = kafka_sasl_username,
            lc_kafka_sasl_password = kafka_sasl_password,
            lc_genesis_hash_input =
              (case env ''ARE_LEDGER_GENESIS_HASH_INPUT'' of None \<Rightarrow> ''ARE_LEDGER_GENESIS'' | Some v \<Rightarrow> v)\<rparr>)
     (required env ''ARE_LEDGER_KAFKA_SASL_PASSWORD''))
     (required env ''ARE_LEDGER_KAFKA_SASL_USERNAME''))
     (required env ''ARE_LEDGER_KAFKA_BOOTSTRAP_SERVERS''))
     (required env ''ARE_LEDGER_DB_CONNECTION_STRING''))
     (parse_usize env ''ARE_LEDGER_MAX_CONTENT_SIZE_BYTES'' 1048576))
     (parse_u16 env ''ARE_LEDGER_METRICS_PORT'' 8083))
     (parse_u16 env ''ARE_LEDGER_HEALTH_PORT'' 8080))
     (parse_u16 env ''ARE_LEDGER_GRPC_PORT'' 9092)"

definition genesis_hash :: "AppConfig \<Rightarrow> string" where
  "genesis_hash cfg = sha256_hex (lc_genesis_hash_input cfg)"

section \<open>Inputs, outputs and state\<close>

record WriteEntryInput =
  wi_entry_type :: string
  wi_agent_id :: string
  wi_content :: bytes
  wi_content_type :: string
  wi_source_id :: string
  wi_correlation_id :: "string option"
  wi_idempotency_key :: "string option"

record WriteEntryOutput =
  wo_entry_id :: string
  wo_entry_hash :: string
  wo_chain_position :: int
  wo_written_ts_ms :: int

record VerifyEntryOutput =
  veo_entry_id :: string
  veo_hash_valid :: bool
  veo_chain_link_valid :: bool
  veo_failure_reason :: string

record VerifyChainOutput =
  vco_chain_valid :: bool
  vco_entries_checked :: int
  vco_first_invalid_entry_id :: "string option"
  vco_failure_reason :: string

record QueryEntriesInput =
  qi_entry_type :: "string option"
  qi_agent_id :: "string option"
  qi_source_id :: "string option"
  qi_correlation_id :: "string option"
  qi_from_ts :: "int option"
  qi_to_ts :: "int option"
  qi_page_size :: int
  qi_page_token :: "string option"

datatype ServiceError = SvcNotFound | SvcInvalidArgument string | SvcUnavailable | SvcInternal string

text \<open>
  The service over a repository of type \<open>'s\<close>, with the counters of \<^verbatim>\<open>metrics.rs\<close>. The publisher and the
  configuration never change and are arguments.
\<close>

record 's ImmutableLedgerService =
  ls_repo :: 's
  ls_chain_halted :: "string set"
  ls_write_total :: "string \<Rightarrow> nat"
  ls_chain_verify_failure_total :: nat
  ls_outbox_publish_failure_total :: nat

definition new_ledger_service :: "'s \<Rightarrow> 's ImmutableLedgerService" where
  "new_ledger_service repo = \<lparr>ls_repo = repo, ls_chain_halted = {}, ls_write_total = (\<lambda>l. 0),
     ls_chain_verify_failure_total = 0, ls_outbox_publish_failure_total = 0\<rparr>"

fun map_repo :: "RepositoryError \<Rightarrow> ServiceError" where
  "map_repo RepoNotFound = SvcNotFound"
| "map_repo RepoUnavailable = SvcUnavailable"
| "map_repo ChainIntegrityViolation = SvcInternal ''chain integrity violation''"

section \<open>Writing\<close>

text \<open>
  What one attempt meets: the requests that run before the tip is read and between that and the write, whether the
  read fails, the clock, the identifier of the event, and the environment of the write, whose identifiers are drawn when
  it happens.
\<close>

record 's attempt_env =
  at_before :: "'s ImmutableLedgerService \<Rightarrow> 's ImmutableLedgerService"
  at_tip_fails :: bool
  at_now :: instant
  at_event_id :: string
  at_between :: "'s ImmutableLedgerService \<Rightarrow> 's ImmutableLedgerService"
  at_write :: "'s \<Rightarrow> write_env"

definition previous_hash_of :: "AppConfig \<Rightarrow> RepositoryError + ChainTip \<Rightarrow> ServiceError + string" where
  "previous_hash_of cfg tip =
     (case tip of
        Inr t \<Rightarrow> Inr (ct_hash t)
      | Inl RepoNotFound \<Rightarrow> Inr (genesis_hash cfg)
      | Inl err \<Rightarrow> Inl (map_repo err))"

definition entry_write_input :: "WriteEntryInput \<Rightarrow> instant \<Rightarrow> string \<Rightarrow> string \<Rightarrow> EntryWriteInput" where
  "entry_write_input input written_ts event_id previous_hash =
     (let entry_hash = canonical_entry_hash (wi_entry_type input) (wi_agent_id input) (wi_content input)
            (wi_content_type input) (wi_source_id input) (timestamp_millis written_ts) previous_hash
      in \<lparr>ew_entry_type = wi_entry_type input, ew_agent_id = wi_agent_id input, ew_content = wi_content input,
          ew_content_type = wi_content_type input, ew_source_id = wi_source_id input,
          ew_correlation_id = wi_correlation_id input, ew_idempotency_key = wi_idempotency_key input,
          ew_entry_hash = entry_hash, ew_previous_hash = previous_hash, ew_written_ts = written_ts,
          ew_outbox_payload = AObj [
            (''event_id'', AStr event_id), (''event_type'', AStr ''LEDGER_ENTRY_WRITTEN''),
            (''entry_type'', AStr (wi_entry_type input)), (''agent_id'', AStr (wi_agent_id input)),
            (''source_id'', AStr (wi_source_id input)), (''entry_hash'', AStr entry_hash),
            (''correlation_id'', case wi_correlation_id input of None \<Rightarrow> ANil | Some c \<Rightarrow> AStr c),
            (''written_ts'', AInt (timestamp_millis written_ts)), (''schema_version'', AStr ''1.0.0'')]\<rparr>)"

definition write_output :: "LedgerEntryRecord \<Rightarrow> WriteEntryOutput" where
  "write_output e = \<lparr>wo_entry_id = le_entry_id e, wo_entry_hash = le_entry_hash e,
     wo_chain_position = le_chain_position e, wo_written_ts_ms = timestamp_millis (le_written_ts e)\<rparr>"

fun write_attempts :: "'s LedgerRepository \<Rightarrow> AppConfig \<Rightarrow> WriteEntryInput \<Rightarrow> (nat \<Rightarrow> 's attempt_env) \<Rightarrow> nat list \<Rightarrow>
    's ImmutableLedgerService \<Rightarrow> (ServiceError + WriteEntryOutput) \<times> 's ImmutableLedgerService" where
  "write_attempts R cfg input env [] S = (Inl (SvcInternal ''chain integrity violation''), S)"
| "write_attempts R cfg input env (attempt # rest) S =
     (let a = env attempt; S1 = at_before a S
      in case previous_hash_of cfg (lr_get_chain_tip R (at_tip_fails a) (wi_entry_type input) (ls_repo S1)) of
           Inl err \<Rightarrow> (Inl err, S1)
         | Inr previous_hash \<Rightarrow>
             (let S2 = at_between a S1;
                  (r, repo') = lr_write R (at_write a (ls_repo S2))
                    (entry_write_input input (at_now a) (at_event_id a) previous_hash) (ls_repo S2);
                  S3 = S2\<lparr>ls_repo := repo'\<rparr>
              in case r of
                   Inr (entry, ob) \<Rightarrow> (Inr (write_output entry), S3)
                 | Inl ChainIntegrityViolation \<Rightarrow>
                     if attempt < 4 then write_attempts R cfg input env rest S3
                     else (Inl (SvcInternal ''chain integrity violation''),
                           S3\<lparr>ls_chain_halted := insert (wi_entry_type input) (ls_chain_halted S3)\<rparr>)
                 | Inl err \<Rightarrow> (Inl (map_repo err), S3)))"

definition write_entry_impl :: "'s LedgerRepository \<Rightarrow> AppConfig \<Rightarrow> bool \<Rightarrow> (nat \<Rightarrow> 's attempt_env) \<Rightarrow> WriteEntryInput \<Rightarrow>
    's ImmutableLedgerService \<Rightarrow> (ServiceError + WriteEntryOutput) \<times> 's ImmutableLedgerService" where
  "write_entry_impl R cfg find_fails env input S =
     (if wi_entry_type input = [] \<or> wi_agent_id input = [] \<or> wi_content_type input = [] \<or> wi_source_id input = []
      then (Inl (SvcInvalidArgument ''entry_type, agent_id, content_type and source_id are required''), S)
      else if int (length (wi_content input)) > lc_max_content_size_bytes cfg
      then (Inl (SvcInvalidArgument (''content exceeds max '' @ Itoa (lc_max_content_size_bytes cfg) @ '' bytes'')), S)
      else if wi_entry_type input \<in> ls_chain_halted S then (Inl SvcUnavailable, S)
      else
        (case wi_idempotency_key input of
           None \<Rightarrow> write_attempts R cfg input env [0..<5] S
         | Some key \<Rightarrow>
             (case lr_find_idempotent R find_fails (wi_entry_type input) key (ls_repo S) of
                Inl err \<Rightarrow> (Inl (map_repo err), S)
              | Inr (Some existing) \<Rightarrow> (Inr (write_output existing), S)
              | Inr None \<Rightarrow> write_attempts R cfg input env [0..<5] S)))"

definition inc_write :: "string \<Rightarrow> 's ImmutableLedgerService \<Rightarrow> 's ImmutableLedgerService" where
  "inc_write label S = S\<lparr>ls_write_total := (ls_write_total S)(label := ls_write_total S label + 1)\<rparr>"

definition ledger_write_entry :: "'s LedgerRepository \<Rightarrow> AppConfig \<Rightarrow> bool \<Rightarrow> (nat \<Rightarrow> 's attempt_env) \<Rightarrow> WriteEntryInput \<Rightarrow>
    's ImmutableLedgerService \<Rightarrow> (ServiceError + WriteEntryOutput) \<times> 's ImmutableLedgerService" where
  "ledger_write_entry R cfg find_fails env input S =
     (let (out, S') = write_entry_impl R cfg find_fails env input S;
          label = (case out of Inr _ \<Rightarrow> ''ok'' | Inl (SvcInvalidArgument _) \<Rightarrow> ''invalid'' | Inl _ \<Rightarrow> ''error'')
      in (out, inc_write label S'))"

section \<open>Reading\<close>

definition ledger_get_entry :: "'s LedgerRepository \<Rightarrow> bool \<Rightarrow> string \<Rightarrow> 's \<Rightarrow> ServiceError + LedgerEntryRecord" where
  "ledger_get_entry R fails entry_id repo = map_sum map_repo id (lr_get_entry R fails entry_id repo)"

definition passes :: "'a option \<Rightarrow> ('a \<Rightarrow> bool) \<Rightarrow> bool" where
  "passes f ok = (case f of None \<Rightarrow> True | Some v \<Rightarrow> ok v)"

definition matches_query :: "QueryEntriesInput \<Rightarrow> LedgerEntryRecord \<Rightarrow> bool" where
  "matches_query q e \<longleftrightarrow>
     passes (qi_entry_type q) (\<lambda>v. le_entry_type e = v) \<and>
     passes (qi_agent_id q) (\<lambda>v. le_agent_id e = v) \<and>
     passes (qi_source_id q) (\<lambda>v. le_source_id e = v) \<and>
     passes (qi_correlation_id q) (\<lambda>v. le_correlation_id e = Some v) \<and>
     passes (qi_from_ts q) (\<lambda>v. v \<le> timestamp_millis (le_written_ts e)) \<and>
     passes (qi_to_ts q) (\<lambda>v. timestamp_millis (le_written_ts e) \<le> v)"

definition page_size_of :: "int \<Rightarrow> nat" where
  "page_size_of n = (if n \<le> 0 then 100 else if n > 1000 then 1000 else nat n)"

definition page_offset :: "string option \<Rightarrow> nat" where
  "page_offset token =
     (case token of None \<Rightarrow> 0 | Some raw \<Rightarrow> (case parse_unsigned 64 raw of None \<Rightarrow> 0 | Some v \<Rightarrow> nat v))"

definition ledger_query_entries ::
  "'s LedgerRepository \<Rightarrow> bool \<Rightarrow> QueryEntriesInput \<Rightarrow> 's \<Rightarrow> ServiceError + LedgerEntryRecord list \<times> string option \<times> int" where
  "ledger_query_entries R fails q repo =
     (case lr_query_entries R fails repo of
        Inl err \<Rightarrow> Inl (map_repo err)
      | Inr all \<Rightarrow>
          (let entries = sort_key query_key (filter (matches_query q) all);
               offset = page_offset (qi_page_token q);
               page_entries = take (page_size_of (qi_page_size q)) (drop offset entries);
               next_offset = offset + length page_entries
           in Inr (page_entries, if next_offset < length entries then Some (Itoa (int next_offset)) else None,
                   int (length entries))))"

section \<open>Verifying\<close>

definition recomputed_hash :: "LedgerEntryRecord \<Rightarrow> string" where
  "recomputed_hash e = canonical_entry_hash (le_entry_type e) (le_agent_id e) (le_content e) (le_content_type e)
     (le_source_id e) (timestamp_millis (le_written_ts e)) (le_previous_hash e)"

definition ledger_verify_entry ::
  "'s LedgerRepository \<Rightarrow> AppConfig \<Rightarrow> bool \<Rightarrow> bool \<Rightarrow> string \<Rightarrow> 's \<Rightarrow> ServiceError + VerifyEntryOutput" where
  "ledger_verify_entry R cfg fails fails2 entry_id repo =
     case_sum (\<lambda>err. Inl (map_repo err)) (\<lambda>entry.
     case_sum (\<lambda>err. Inl (map_repo err)) (\<lambda>chain_link_valid.
       (let hash_valid = (recomputed_hash entry = le_entry_hash entry)
        in Inr \<lparr>veo_entry_id = entry_id, veo_hash_valid = hash_valid, veo_chain_link_valid = chain_link_valid,
             veo_failure_reason =
               (if hash_valid \<and> chain_link_valid then [] else if \<not> hash_valid then ''entry_hash_mismatch''
                else ''chain_link_mismatch'')\<rparr>))
     (if le_chain_position entry = 1 then Inr (le_previous_hash entry = genesis_hash cfg)
      else map_sum id
        (\<lambda>chain. case find (\<lambda>c. le_chain_position c = le_chain_position entry - 1) chain of
             Some prev \<Rightarrow> le_entry_hash prev = le_previous_hash entry
           | None \<Rightarrow> False)
        (lr_get_entries_by_type R fails2 (le_entry_type entry) repo)))
     (lr_get_entry R fails entry_id repo)"

definition invalid_at :: "nat \<Rightarrow> LedgerEntryRecord \<Rightarrow> string \<Rightarrow> VerifyChainOutput" where
  "invalid_at idx e reason = \<lparr>vco_chain_valid = False, vco_entries_checked = int idx + 1,
     vco_first_invalid_entry_id = Some (le_entry_id e), vco_failure_reason = reason\<rparr>"

text \<open>The loop over the entries in range; \<open>before\<close> is \<^verbatim>\<open>filtered[idx - 1]\<close>.\<close>

fun verify_loop :: "AppConfig \<Rightarrow> nat \<Rightarrow> LedgerEntryRecord option \<Rightarrow> LedgerEntryRecord list \<Rightarrow> VerifyChainOutput" where
  "verify_loop cfg idx before [] = \<lparr>vco_chain_valid = True, vco_entries_checked = int idx,
     vco_first_invalid_entry_id = None, vco_failure_reason = []\<rparr>"
| "verify_loop cfg idx before (e # es) =
     (let prev_hash = (case before of
            None \<Rightarrow> if le_chain_position e = 1 then genesis_hash cfg else le_previous_hash e
          | Some p \<Rightarrow> le_entry_hash p)
      in if le_previous_hash e \<noteq> prev_hash then invalid_at idx e ''chain_link_mismatch''
         else if le_entry_hash e \<noteq> recomputed_hash e then invalid_at idx e ''entry_hash_mismatch''
         else verify_loop cfg (idx + 1) (Some e) es)"

definition position_of :: "LedgerEntryRecord list \<Rightarrow> string option \<Rightarrow> int \<Rightarrow> ServiceError + int" where
  "position_of entries entry_id dflt =
     (case entry_id of
        None \<Rightarrow> Inr dflt
      | Some i \<Rightarrow> (case find (\<lambda>e. le_entry_id e = i) entries of
                     None \<Rightarrow> Inl SvcNotFound | Some e \<Rightarrow> Inr (le_chain_position e)))"

definition verify_entries :: "AppConfig \<Rightarrow> string option \<Rightarrow> string option \<Rightarrow> LedgerEntryRecord list \<Rightarrow> ServiceError + VerifyChainOutput" where
  "verify_entries cfg start_entry_id end_entry_id entries =
     (if entries = [] then Inr \<lparr>vco_chain_valid = True, vco_entries_checked = 0, vco_first_invalid_entry_id = None,
        vco_failure_reason = []\<rparr>
      else
        case_sum Inl (\<lambda>start_position.
        case_sum Inl (\<lambda>end_position.
          Inr (verify_loop cfg 0 None (sort_key le_chain_position
            (filter (\<lambda>e. start_position \<le> le_chain_position e \<and> le_chain_position e \<le> end_position) entries))))
        (position_of entries end_entry_id (Max (set (map le_chain_position entries)))))
        (position_of entries start_entry_id 1))"

definition ledger_verify_chain :: "'s LedgerRepository \<Rightarrow> AppConfig \<Rightarrow> bool \<Rightarrow> string \<Rightarrow> string option \<Rightarrow> string option \<Rightarrow>
    's ImmutableLedgerService \<Rightarrow> (ServiceError + VerifyChainOutput) \<times> 's ImmutableLedgerService" where
  "ledger_verify_chain R cfg fails entry_type start_entry_id end_entry_id S =
     (case lr_get_entries_by_type R fails entry_type (ls_repo S) of
        Inl err \<Rightarrow> (Inl (map_repo err), S)
      | Inr entries \<Rightarrow>
          (let out = verify_entries cfg start_entry_id end_entry_id entries
           in (out,
               (case out of
                  Inr o' \<Rightarrow> if vco_chain_valid o' then S
                    else S\<lparr>ls_chain_verify_failure_total := ls_chain_verify_failure_total S + 1\<rparr>
                | Inl _ \<Rightarrow> S))))"

definition ledger_get_chain_tip :: "'s LedgerRepository \<Rightarrow> bool \<Rightarrow> string \<Rightarrow> 's \<Rightarrow> ServiceError + ChainTip" where
  "ledger_get_chain_tip R fails entry_type repo = map_sum map_repo id (lr_get_chain_tip R fails entry_type repo)"

section \<open>The outbox\<close>

text \<open>
  A publisher sends a key and a payload, or fails. The one the program is started with does nothing and succeeds.
\<close>

type_synonym publisher = "string \<Rightarrow> any \<Rightarrow> (string + unit) \<times> (string \<times> any) list"

definition NoopEventPublisher :: publisher where
  "NoopEventPublisher key payload = (Inr (), [])"

definition publish_one :: "'s LedgerRepository \<Rightarrow> publisher \<Rightarrow> bool \<Rightarrow> OutboxRecord \<Rightarrow> 's \<Rightarrow>
    (ServiceError + unit) \<times> (string \<times> any) list \<times> 's" where
  "publish_one R publish fails r repo =
     (case publish (lo_entry_type r) (lo_payload r) of
        (Inl err, sent) \<Rightarrow> (Inl (SvcInternal err), sent, repo)
      | (Inr _, sent) \<Rightarrow>
          (let (res, repo') = lr_mark_outbox_delivered R fails (lo_outbox_id r) repo
           in (map_sum map_repo id res, sent, repo')))"

text \<open>One round of \<^verbatim>\<open>start_outbox_processor\<close>; \<open>fails\<close> are the failures of the marking, one for each record.\<close>

fun publish_all :: "'s LedgerRepository \<Rightarrow> publisher \<Rightarrow> (string \<Rightarrow> bool) \<Rightarrow> OutboxRecord list \<Rightarrow> 's ImmutableLedgerService \<Rightarrow>
    (string \<times> any) list \<times> 's ImmutableLedgerService" where
  "publish_all R publish fails [] S = ([], S)"
| "publish_all R publish fails (r # rs) S =
     (let (res, sent, repo') = publish_one R publish (fails (lo_outbox_id r)) r (ls_repo S);
          S' = S\<lparr>ls_repo := repo',
            ls_outbox_publish_failure_total := ls_outbox_publish_failure_total S + (if is_ok res then 0 else 1)\<rparr>;
          (sent', S'') = publish_all R publish fails rs S'
      in (sent @ sent', S''))"

definition outbox_round :: "'s LedgerRepository \<Rightarrow> publisher \<Rightarrow> bool \<Rightarrow> (string \<Rightarrow> bool) \<Rightarrow> 's ImmutableLedgerService \<Rightarrow>
    (string \<times> any) list \<times> 's ImmutableLedgerService" where
  "outbox_round R publish read_fails fails S =
     (case lr_pending_outbox R read_fails (ls_repo S) of
        Inl _ \<Rightarrow> ([], S)
      | Inr pending \<Rightarrow> publish_all R publish fails pending S)"

end
