(* ===== verification/Ledger_Grpc.thy ===== *)
theory Ledger_Grpc
  imports Ledger_Service
begin

text \<open>
  The gRPC handlers of the immutable ledger (\<^verbatim>\<open>s0/immutable-ledger/src/grpc\<close>), the check of the database role
  (\<^verbatim>\<open>src/db_permissions\<close>) and the start of the program (\<^verbatim>\<open>src/main.rs\<close>).

  The parser of identifiers belongs to the crate \<^verbatim>\<open>uuid\<close> and is the argument \<open>from_str\<close>: it gives the canonical text.
\<close>

section \<open>Messages\<close>

record LedgerEntryMsg =
  lm_entry_id :: string
  lm_entry_type :: string
  lm_agent_id :: string
  lm_content :: bytes
  lm_content_type :: string
  lm_source_id :: string
  lm_correlation_id :: string
  lm_entry_hash :: string
  lm_previous_hash :: string
  lm_chain_position :: int
  lm_written_ts :: int

record WriteEntryRequest =
  wr_entry_type :: string
  wr_agent_id :: string
  wr_content :: bytes
  wr_content_type :: string
  wr_source_id :: string
  wr_correlation_id :: string
  wr_idempotency_key :: string

record WriteEntryResponse =
  wp_entry_id :: string
  wp_entry_hash :: string
  wp_chain_position :: string
  wp_written_ts :: int

record QueryEntriesRequest =
  qr_entry_type :: string
  qr_agent_id :: string
  qr_source_id :: string
  qr_correlation_id :: string
  qr_from_ts :: int
  qr_to_ts :: int
  qr_page_size :: int
  qr_page_token :: string

record QueryEntriesResponse =
  qp_entries :: "LedgerEntryMsg list"
  qp_next_page_token :: string
  qp_total_count :: int

text \<open>The response of \<^verbatim>\<open>VerifyEntry\<close> has the fields of \<^typ>\<open>VerifyEntryOutput\<close>.\<close>

record VerifyChainResponse =
  vp_chain_valid :: bool
  vp_entries_checked :: int
  vp_first_invalid_entry_id :: string
  vp_failure_reason :: string

record GetChainTipResponse =
  tp_entry_id :: string
  tp_entry_hash :: string
  tp_chain_position :: int
  tp_written_ts :: int

definition empty_to_none :: "string \<Rightarrow> string option" where
  "empty_to_none v = (if v = [] then None else Some v)"

definition or_empty :: "string option \<Rightarrow> string" where
  "or_empty v = (case v of None \<Rightarrow> [] | Some s \<Rightarrow> s)"

fun map_err :: "ServiceError \<Rightarrow> code \<times> string" where
  "map_err SvcNotFound = (NotFound, ''not found'')"
| "map_err (SvcInvalidArgument message) = (InvalidArgument, message)"
| "map_err SvcUnavailable = (Unavailable, ''unavailable'')"
| "map_err (SvcInternal message) = (Internal, message)"

definition parse_uuid :: "(string \<Rightarrow> string option) \<Rightarrow> string \<Rightarrow> (string, string) rpc" where
  "parse_uuid from_str raw = (case from_str raw of None \<Rightarrow> Inl (InvalidArgument, ''must be valid UUID'') | Some i \<Rightarrow> Inr i)"

definition entry_msg :: "LedgerEntryRecord \<Rightarrow> LedgerEntryMsg" where
  "entry_msg e = \<lparr>lm_entry_id = le_entry_id e, lm_entry_type = le_entry_type e, lm_agent_id = le_agent_id e,
     lm_content = le_content e, lm_content_type = le_content_type e, lm_source_id = le_source_id e,
     lm_correlation_id = or_empty (le_correlation_id e), lm_entry_hash = le_entry_hash e,
     lm_previous_hash = le_previous_hash e, lm_chain_position = le_chain_position e,
     lm_written_ts = timestamp_millis (le_written_ts e)\<rparr>"

section \<open>Handlers\<close>

definition WriteEntry :: "'s LedgerRepository \<Rightarrow> AppConfig \<Rightarrow> bool \<Rightarrow> (nat \<Rightarrow> 's attempt_env) \<Rightarrow> WriteEntryRequest \<Rightarrow>
    's ImmutableLedgerService \<Rightarrow> (string, WriteEntryResponse) rpc \<times> 's ImmutableLedgerService" where
  "WriteEntry R cfg find_fails env input S =
     (let (out, S') = ledger_write_entry R cfg find_fails env
            \<lparr>wi_entry_type = wr_entry_type input, wi_agent_id = wr_agent_id input, wi_content = wr_content input,
             wi_content_type = wr_content_type input, wi_source_id = wr_source_id input,
             wi_correlation_id = empty_to_none (wr_correlation_id input),
             wi_idempotency_key = empty_to_none (wr_idempotency_key input)\<rparr> S
      in (map_sum map_err
            (\<lambda>w. \<lparr>wp_entry_id = wo_entry_id w, wp_entry_hash = wo_entry_hash w,
               wp_chain_position = Itoa (wo_chain_position w), wp_written_ts = wo_written_ts_ms w\<rparr>) out, S'))"

definition GetEntry :: "'s LedgerRepository \<Rightarrow> (string \<Rightarrow> string option) \<Rightarrow> bool \<Rightarrow> string \<Rightarrow> 's ImmutableLedgerService \<Rightarrow>
    (string, LedgerEntryMsg) rpc" where
  "GetEntry R from_str fails raw S =
     case_sum Inl (\<lambda>entry_id. map_sum map_err entry_msg (ledger_get_entry R fails entry_id (ls_repo S)))
       (parse_uuid from_str raw)"

definition QueryEntries :: "'s LedgerRepository \<Rightarrow> bool \<Rightarrow> QueryEntriesRequest \<Rightarrow> 's ImmutableLedgerService \<Rightarrow>
    (string, QueryEntriesResponse) rpc" where
  "QueryEntries R fails input S =
     map_sum map_err
       (\<lambda>(entries, next_token, total_count).
          \<lparr>qp_entries = map entry_msg entries, qp_next_page_token = or_empty next_token, qp_total_count = total_count\<rparr>)
       (ledger_query_entries R fails
          \<lparr>qi_entry_type = empty_to_none (qr_entry_type input), qi_agent_id = empty_to_none (qr_agent_id input),
           qi_source_id = empty_to_none (qr_source_id input), qi_correlation_id = empty_to_none (qr_correlation_id input),
           qi_from_ts = (if qr_from_ts input = 0 then None else Some (qr_from_ts input)),
           qi_to_ts = (if qr_to_ts input = 0 then None else Some (qr_to_ts input)),
           qi_page_size = qr_page_size input, qi_page_token = empty_to_none (qr_page_token input)\<rparr>
          (ls_repo S))"

definition VerifyEntry :: "'s LedgerRepository \<Rightarrow> AppConfig \<Rightarrow> (string \<Rightarrow> string option) \<Rightarrow> bool \<Rightarrow> bool \<Rightarrow> string \<Rightarrow>
    's ImmutableLedgerService \<Rightarrow> (string, VerifyEntryOutput) rpc" where
  "VerifyEntry R cfg from_str fails fails2 raw S =
     case_sum Inl (\<lambda>entry_id. map_sum map_err id (ledger_verify_entry R cfg fails fails2 entry_id (ls_repo S)))
       (parse_uuid from_str raw)"

definition optional_uuid :: "(string \<Rightarrow> string option) \<Rightarrow> string \<Rightarrow> (string, string option) rpc" where
  "optional_uuid from_str raw = (if raw = [] then Inr None else map_sum id Some (parse_uuid from_str raw))"

definition VerifyChain :: "'s LedgerRepository \<Rightarrow> AppConfig \<Rightarrow> (string \<Rightarrow> string option) \<Rightarrow> bool \<Rightarrow> string \<Rightarrow> string \<Rightarrow> string \<Rightarrow>
    's ImmutableLedgerService \<Rightarrow> (string, VerifyChainResponse) rpc \<times> 's ImmutableLedgerService" where
  "VerifyChain R cfg from_str fails entry_type start_entry_id end_entry_id S =
     (if entry_type = [] then (Inl (InvalidArgument, ''entry_type is required''), S)
      else
        case_sum (\<lambda>e. (Inl e, S)) (\<lambda>start'.
        case_sum (\<lambda>e. (Inl e, S)) (\<lambda>end'.
          map_prod
            (map_sum map_err
              (\<lambda>v. \<lparr>vp_chain_valid = vco_chain_valid v, vp_entries_checked = vco_entries_checked v,
                 vp_first_invalid_entry_id = or_empty (vco_first_invalid_entry_id v),
                 vp_failure_reason = vco_failure_reason v\<rparr>))
            id (ledger_verify_chain R cfg fails entry_type start' end' S))
        (optional_uuid from_str end_entry_id))
        (optional_uuid from_str start_entry_id))"

definition GetChainTip :: "'s LedgerRepository \<Rightarrow> bool \<Rightarrow> string \<Rightarrow> 's ImmutableLedgerService \<Rightarrow> (string, GetChainTipResponse) rpc" where
  "GetChainTip R fails entry_type S =
     (if entry_type = [] then Inl (InvalidArgument, ''entry_type is required'')
      else map_sum map_err
        (\<lambda>t. \<lparr>tp_entry_id = ct_entry_id t, tp_entry_hash = ct_hash t, tp_chain_position = ct_position t,
           tp_written_ts = timestamp_millis (ct_written_ts t)\<rparr>)
        (ledger_get_chain_tip R fails entry_type (ls_repo S)))"

section \<open>Start\<close>

datatype DbPermissionError =
    DbConnect string | DbQuery string | MissingReadWritePrivileges | LedgerEntriesMutable

definition evaluate_permissions :: "bool \<Rightarrow> bool \<Rightarrow> bool \<Rightarrow> bool \<Rightarrow> DbPermissionError + unit" where
  "evaluate_permissions can_insert can_select can_update can_delete =
     (if \<not> can_insert \<or> \<not> can_select then Inl MissingReadWritePrivileges
      else if can_update \<or> can_delete then Inl LedgerEntriesMutable
      else Inr ())"

text \<open>What the database answers: the connection, and the privileges of the role on the table of entries.\<close>

record role_db =
  rd_connect :: "string \<Rightarrow> string + unit"
  rd_privileges :: "string + bool \<times> bool \<times> bool \<times> bool"

definition verify_ledger_entries_immutable :: "role_db \<Rightarrow> string \<Rightarrow> DbPermissionError + unit" where
  "verify_ledger_entries_immutable db connection_string =
     (case rd_connect db connection_string of
        Inl err \<Rightarrow> Inl (DbConnect err)
      | Inr _ \<Rightarrow>
          (case rd_privileges db of
             Inl err \<Rightarrow> Inl (DbQuery err)
           | Inr (i, s, u, d) \<Rightarrow> evaluate_permissions i s u d))"

datatype ledger_start_error =
    StartConfig ConfigError | StartPermission DbPermissionError | StartConnect string | StartBind int

text \<open>
  \<^verbatim>\<open>main\<close> up to the servers: a second connection is opened for the repository, \<open>connect2\<close>, and the health and
  metrics ports are bound. The service starts with the publisher that does nothing.
\<close>

definition ledger_start :: "rust_env \<Rightarrow> role_db \<Rightarrow> (string \<Rightarrow> string + unit) \<Rightarrow> (int \<Rightarrow> bool) \<Rightarrow> 's \<Rightarrow>
    ledger_start_error + AppConfig \<times> publisher \<times> 's ImmutableLedgerService" where
  "ledger_start env db connect2 bind repo =
     (case from_env env of
        Inl err \<Rightarrow> Inl (StartConfig err)
      | Inr cfg \<Rightarrow>
          (case verify_ledger_entries_immutable db (lc_db_connection_string cfg) of
             Inl err \<Rightarrow> Inl (StartPermission err)
           | Inr _ \<Rightarrow>
               (case connect2 (lc_db_connection_string cfg) of
                  Inl err \<Rightarrow> Inl (StartConnect err)
                | Inr _ \<Rightarrow>
                    if \<not> bind (lc_health_port cfg) then Inl (StartBind (lc_health_port cfg))
                    else if \<not> bind (lc_metrics_port cfg) then Inl (StartBind (lc_metrics_port cfg))
                    else Inr (cfg, NoopEventPublisher, new_ledger_service repo))))"

end
