(* ===== verification/Ledger_Correct.thy ===== *)
theory Ledger_Correct
  imports Ledger_Grpc
begin

text \<open>
  What the immutable ledger guarantees: under every interleaving of requests the chains only grow, every chain verifies,
  and an acknowledged write stays where it was acknowledged. Also what its verification cannot see, and how a race between two
  writes with one idempotency key stops an entry type.
\<close>

section \<open>Linked chains\<close>

text \<open>Every entry names the hash of the one before it, the first the hash of the genesis, and has the hash of its content.\<close>

definition link_ok :: "AppConfig \<Rightarrow> LedgerEntryRecord list \<Rightarrow> nat \<Rightarrow> bool" where
  "link_ok cfg es i \<longleftrightarrow>
     le_previous_hash (es ! i) = (if i = 0 then genesis_hash cfg else le_entry_hash (es ! (i - 1))) \<and>
     le_entry_hash (es ! i) = recomputed_hash (es ! i)"

definition linked :: "AppConfig \<Rightarrow> LedgerEntryRecord list \<Rightarrow> bool" where
  "linked cfg es \<longleftrightarrow> (\<forall>i < length es. link_ok cfg es i)"

definition all_linked :: "AppConfig \<Rightarrow> chains \<Rightarrow> bool" where
  "all_linked cfg C \<longleftrightarrow> (\<forall>ty. linked cfg (C ty))"

definition grows :: "chains \<Rightarrow> chains \<Rightarrow> bool" where
  "grows C D \<longleftrightarrow> (\<forall>ty. prefix (C ty) (D ty))"

lemma linked_Nil [simp]: "linked cfg []"
  by (simp add: linked_def)

lemma linked_snoc [simp]:
  "linked cfg (es @ [e]) \<longleftrightarrow> linked cfg es \<and>
     le_previous_hash e = (if es = [] then genesis_hash cfg else le_entry_hash (last es)) \<and>
     le_entry_hash e = recomputed_hash e"
proof -
  have "link_ok cfg (es @ [e]) i \<longleftrightarrow> link_ok cfg es i" if "i < length es" for i
    using that by (cases i) (simp_all add: link_ok_def nth_append)
  moreover have "link_ok cfg (es @ [e]) (length es) \<longleftrightarrow>
      le_previous_hash e = (if es = [] then genesis_hash cfg else le_entry_hash (last es)) \<and> le_entry_hash e = recomputed_hash e"
    by (simp add: link_ok_def nth_append last_conv_nth)
  ultimately show ?thesis by (auto simp: linked_def less_Suc_eq)
qed

lemma linked_single [simp]:
  "linked cfg [e] \<longleftrightarrow> le_previous_hash e = genesis_hash cfg \<and> le_entry_hash e = recomputed_hash e"
  using linked_snoc [of cfg "[]" e] by simp

lemma linked_prefix: "linked cfg (es @ fs) \<Longrightarrow> linked cfg es"
  by (induction fs rule: rev_induct) (auto simp flip: append_assoc)

lemma grows_refl [simp]: "grows C C"
  by (simp add: grows_def)

lemma grows_trans: "grows C D \<Longrightarrow> grows D E \<Longrightarrow> grows C E"
  unfolding grows_def by (meson prefix_order.trans)

lemma grows_nth: "grows C D \<Longrightarrow> i < length (C ty) \<Longrightarrow> i < length (D ty) \<and> D ty ! i = C ty ! i"
  unfolding grows_def prefix_def by (metis length_append nth_append trans_less_add1)

text \<open>What a stored entry says of the write it comes from.\<close>

definition records :: "WriteEntryInput \<Rightarrow> LedgerEntryRecord \<Rightarrow> bool" where
  "records input e \<longleftrightarrow> le_entry_type e = wi_entry_type input \<and> le_agent_id e = wi_agent_id input \<and>
     le_content e = wi_content input \<and> le_content_type e = wi_content_type input \<and>
     le_source_id e = wi_source_id input \<and> le_correlation_id e = wi_correlation_id input \<and>
     le_idempotency_key e = wi_idempotency_key input"

lemma entry_write_input_sel [simp]:
  "ew_entry_type (entry_write_input input t ev p) = wi_entry_type input"
  "ew_previous_hash (entry_write_input input t ev p) = p"
  "ew_idempotency_key (entry_write_input input t ev p) = wi_idempotency_key input"
  by (simp_all add: entry_write_input_def Let_def)

lemma new_entry_records [simp]: "records input (new_entry i n (entry_write_input input t ev p))"
  by (simp add: records_def new_entry_def entry_write_input_def Let_def)

lemma new_entry_hash [simp]:
  "recomputed_hash (new_entry i n (entry_write_input input t ev p)) = ew_entry_hash (entry_write_input input t ev p)"
  by (simp add: recomputed_hash_def new_entry_def entry_write_input_def Let_def)

lemma append_keeps_linked:
  assumes "append_spec i (entry_write_input input t ev p) C2 = Inr C3" "all_linked cfg C2" "grows C1 C2"
    and p: "p = (if C1 (wi_entry_type input) = [] then genesis_hash cfg else le_entry_hash (last (C1 (wi_entry_type input))))"
  shows "all_linked cfg C3 \<and> grows C2 C3 \<and> C3 (wi_entry_type input) \<noteq> [] \<and>
    records input (last (C3 (wi_entry_type input)))"
proof -
  let ?ty = "wi_entry_type input"
  let ?e = "new_entry i (int (length (C2 ?ty)) + 1) (entry_write_input input t ev p)"
  have C3: "C3 = C2(?ty := C2 ?ty @ [?e])" and tip: "C2 ?ty \<noteq> [] \<Longrightarrow> le_entry_hash (last (C2 ?ty)) = p"
    using assms(1) by (auto simp: append_spec_def Let_def split: if_splits)
  have "p = genesis_hash cfg" if "C2 ?ty = []"
    using that assms(3) p by (auto simp: grows_def dest: spec [of _ ?ty])
  with tip have "linked cfg (C2 ?ty @ [?e])" using assms(2) by (auto simp: all_linked_def)
  then show ?thesis using assms(2) by (auto simp: C3 all_linked_def grows_def)
qed

section \<open>Verification of a linked chain\<close>

lemma filter_interval_sorted:
  fixes p :: "'a \<Rightarrow> int"
  shows "sorted (map p es) \<Longrightarrow>
    filter (\<lambda>e. a \<le> p e \<and> p e \<le> b) es = takeWhile (\<lambda>e. p e \<le> b) (dropWhile (\<lambda>e. p e < a) es)"
proof (induction es)
  case (Cons e es)
  show ?case
  proof (cases "p e < a")
    case False
    with Cons.prems have "dropWhile (\<lambda>e. p e < a) es = es" by (cases es) auto
    moreover have "filter (\<lambda>e. a \<le> p e \<and> p e \<le> b) es = []" if "b < p e"
      using Cons.prems that by (fastforce simp: filter_empty_conv)
    ultimately show ?thesis using Cons False by auto
  qed (use Cons in auto)
qed simp

lemma filter_interval_segment:
  fixes p :: "'a \<Rightarrow> int"
  assumes "sorted (map p es)"
  obtains as cs where "es = as @ filter (\<lambda>e. a \<le> p e \<and> p e \<le> b) es @ cs"
proof (rule that)
  let ?d = "dropWhile (\<lambda>e. p e < a) es"
  show "es = takeWhile (\<lambda>e. p e < a) es @ filter (\<lambda>e. a \<le> p e \<and> p e \<le> b) es @ dropWhile (\<lambda>e. p e \<le> b) ?d"
    by (simp add: filter_interval_sorted [OF assms])
qed

lemma positions_ok_mid: "positions_ok (as @ e # es) \<Longrightarrow> le_chain_position e = int (length as) + 1"
  using positions_ok_nth [of "as @ e # es" "length as"] by simp

lemma linked_mid:
  assumes "linked cfg (as @ e # es)"
  shows "le_previous_hash e = (if as = [] then genesis_hash cfg else le_entry_hash (last as)) \<and> le_entry_hash e = recomputed_hash e"
  using linked_prefix [of cfg "as @ [e]" es] assms by simp

lemma verify_loop_linked:
  "linked cfg (as @ es) \<Longrightarrow> positions_ok (as @ es) \<Longrightarrow> before = None \<or> as \<noteq> [] \<and> before = Some (last as) \<Longrightarrow>
   verify_loop cfg idx before es = \<lparr>vco_chain_valid = True, vco_entries_checked = int idx + int (length es),
     vco_first_invalid_entry_id = None, vco_failure_reason = []\<rparr>"
proof (induction es arbitrary: as idx before)
  case (Cons e es)
  have IH: "verify_loop cfg (idx + 1) (Some e) es = \<lparr>vco_chain_valid = True,
      vco_entries_checked = int (idx + 1) + int (length es), vco_first_invalid_entry_id = None, vco_failure_reason = []\<rparr>"
    using Cons.prems by (intro Cons.IH [of "as @ [e]"]) simp_all
  have "le_chain_position e = 1 \<longleftrightarrow> as = []" using positions_ok_mid [OF Cons.prems(2)] by simp
  with linked_mid [OF Cons.prems(1)] Cons.prems(3) IH show ?case by (auto simp: Let_def)
qed simp

lemma linked_append_mid: "linked cfg (as @ bs @ cs) \<Longrightarrow> linked cfg (as @ bs)"
  using linked_prefix [of cfg "as @ bs" cs] by simp

lemma positions_ok_append_mid: "positions_ok (as @ bs @ cs) \<Longrightarrow> positions_ok (as @ bs)"
proof -
  have "positions_ok (ds @ cs) \<Longrightarrow> positions_ok ds" for ds
    by (induction cs rule: rev_induct) (auto simp flip: append_assoc)
  then show "positions_ok (as @ bs @ cs) \<Longrightarrow> positions_ok (as @ bs)" by (metis append_assoc)
qed

lemma verify_entries_linked:
  assumes "linked cfg es" "positions_ok es"
  shows "case verify_entries cfg i j es of
      Inr out \<Rightarrow> vco_chain_valid out \<and> vco_failure_reason out = []
    | Inl err \<Rightarrow> err = SvcNotFound \<and> (\<exists>k. (i = Some k \<or> j = Some k) \<and> k \<notin> le_entry_id ` set es)"
proof -
  have loop: "vco_chain_valid (verify_loop cfg 0 None (sort_key le_chain_position
      (filter (\<lambda>e. a \<le> le_chain_position e \<and> le_chain_position e \<le> b) es))) \<and>
    vco_failure_reason (verify_loop cfg 0 None (sort_key le_chain_position
      (filter (\<lambda>e. a \<le> le_chain_position e \<and> le_chain_position e \<le> b) es))) = []" for a b
  proof -
    have srt: "sorted (map le_chain_position es)" using assms(2) by (rule positions_ok_sorted)
    let ?f = "filter (\<lambda>e. a \<le> le_chain_position e \<and> le_chain_position e \<le> b) es"
    obtain as cs where es: "es = as @ ?f @ cs" by (rule filter_interval_segment [OF srt])
    have "sort_key le_chain_position ?f = ?f" using srt by (intro sort_key_id_if_sorted) (rule sorted_filter)
    moreover have "linked cfg (as @ ?f)" using assms(1) es linked_append_mid by metis
    moreover have "positions_ok (as @ ?f)" using assms(2) es positions_ok_append_mid by metis
    ultimately show ?thesis using verify_loop_linked [of cfg as ?f None 0] by simp
  qed
  have pos: "position_of es k d = Inl SvcNotFound \<and> (\<exists>m. k = Some m \<and> m \<notin> le_entry_id ` set es) \<or> (\<exists>n. position_of es k d = Inr n)" for k d
    by (auto simp: position_of_def find_None_iff split: option.splits)
  show ?thesis
    using pos [of i 1] pos [of j "Max (set (map le_chain_position es))"] loop
    by (cases "es = []") (force simp: verify_entries_def)+
qed

section \<open>Runs\<close>

text \<open>
  What the clients, the delivery of the outbox and restarts do to the service, in any order. During a write other requests
  run between its steps, again in any order. The identifiers of an entry are \<open>fresh\<close>.
\<close>

inductive ledger_run :: "'s LedgerRepository \<Rightarrow> AppConfig \<Rightarrow> (write_env \<Rightarrow> 's \<Rightarrow> bool) \<Rightarrow>
    's ImmutableLedgerService \<Rightarrow> 's ImmutableLedgerService \<Rightarrow> bool" for R cfg fresh where
  stay: "ledger_run R cfg fresh S S"
| wrote: "ledger_run R cfg fresh S S1 \<Longrightarrow> (\<And>n M. ledger_run R cfg fresh M (at_before (env n) M)) \<Longrightarrow>
    (\<And>n M. ledger_run R cfg fresh M (at_between (env n) M)) \<Longrightarrow> (\<And>n s. fresh (at_write (env n) s) s) \<Longrightarrow>
    ledger_run R cfg fresh S (snd (ledger_write_entry R cfg find_fails env input S1))"
| verified: "ledger_run R cfg fresh S S1 \<Longrightarrow>
    ledger_run R cfg fresh S (snd (ledger_verify_chain R cfg fails ty i j S1))"
| delivered: "ledger_run R cfg fresh S S1 \<Longrightarrow>
    ledger_run R cfg fresh S (snd (publish_all R publish mark_fails [r] S1))"
| restarted: "ledger_run R cfg fresh S S1 \<Longrightarrow> ledger_run R cfg fresh S (new_ledger_service (ls_repo S1))"

text \<open>Others that keep to these runs.\<close>

definition runs_only :: "'s LedgerRepository \<Rightarrow> AppConfig \<Rightarrow> (write_env \<Rightarrow> 's \<Rightarrow> bool) \<Rightarrow> (nat \<Rightarrow> 's attempt_env) \<Rightarrow> bool" where
  "runs_only R cfg fresh env \<longleftrightarrow>
     (\<forall>n M. ledger_run R cfg fresh M (at_before (env n) M) \<and> ledger_run R cfg fresh M (at_between (env n) M)) \<and>
     (\<forall>n s. fresh (at_write (env n) s) s)"

lemma ledger_run_trans: "ledger_run R cfg fresh S2 S3 \<Longrightarrow> ledger_run R cfg fresh S1 S2 \<Longrightarrow> ledger_run R cfg fresh S1 S3"
  by (induction rule: ledger_run.induct) (blast intro: ledger_run.intros)+

lemma publish_all_run: "ledger_run R cfg fresh S (snd (publish_all R publish fails rs S))"
proof (induction rs arbitrary: S)
  case (Cons r rs)
  have "ledger_run R cfg fresh S (snd (publish_all R publish fails [r] S))"
    by (intro ledger_run.intros)
  from ledger_run_trans [OF Cons.IH this] show ?case by (simp add: Let_def split_def)
qed (auto intro: ledger_run.intros)

lemma outbox_round_run: "ledger_run R cfg fresh S (snd (outbox_round R publish read_fails fails S))"
  by (auto simp: outbox_round_def publish_all_run intro: ledger_run.intros split: sum.splits)

lemma inc_write_repo [simp]: "ls_repo (inc_write l S) = ls_repo S" "ls_chain_halted (inc_write l S) = ls_chain_halted S"
  by (simp_all add: inc_write_def)

lemma verify_chain_repo [simp]: "ls_repo (snd (ledger_verify_chain R cfg fails ty i j S)) = ls_repo S"
  by (auto simp: ledger_verify_chain_def Let_def split: sum.splits)

context ledger_repository
begin

lemma attempt_keeps:
  assumes env: "\<And>n M. inv (ls_repo M) \<Longrightarrow> all_linked cfg (chains (ls_repo M)) \<Longrightarrow>
        inv (ls_repo (at_before (env n) M)) \<and> all_linked cfg (chains (ls_repo (at_before (env n) M))) \<and>
        grows (chains (ls_repo M)) (chains (ls_repo (at_before (env n) M)))"
      "\<And>n M. inv (ls_repo M) \<Longrightarrow> all_linked cfg (chains (ls_repo M)) \<Longrightarrow>
        inv (ls_repo (at_between (env n) M)) \<and> all_linked cfg (chains (ls_repo (at_between (env n) M))) \<and>
        grows (chains (ls_repo M)) (chains (ls_repo (at_between (env n) M)))"
      "\<And>n s. fresh (at_write (env n) s) s"
  shows "inv (ls_repo S) \<Longrightarrow> all_linked cfg (chains (ls_repo S)) \<Longrightarrow> write_attempts R cfg input env as S = (r, S') \<Longrightarrow>
    inv (ls_repo S') \<and> all_linked cfg (chains (ls_repo S')) \<and> grows (chains (ls_repo S)) (chains (ls_repo S')) \<and>
    (\<forall>out. r = Inr out \<longrightarrow> (\<exists>e \<in> set (chains (ls_repo S') (wi_entry_type input)). records input e \<and> out = write_output e))"
proof (induction as arbitrary: S)
  case (Cons n as)
  let ?ty = "wi_entry_type input"
  define S1 where "S1 = at_before (env n) S"
  define S2 where "S2 = at_between (env n) S1"
  have S1: "inv (ls_repo S1)" "all_linked cfg (chains (ls_repo S1))" "grows (chains (ls_repo S)) (chains (ls_repo S1))"
    using env(1) [OF Cons.prems(1,2)] by (simp_all add: S1_def)
  have S2: "inv (ls_repo S2)" "all_linked cfg (chains (ls_repo S2))" "grows (chains (ls_repo S1)) (chains (ls_repo S2))"
    using env(2) [OF S1(1,2)] by (simp_all add: S2_def)
  show ?case
  proof (cases "previous_hash_of cfg (lr_get_chain_tip R (at_tip_fails (env n)) ?ty (ls_repo S1))")
    case (Inl err)
    then show ?thesis using Cons.prems(3) S1 by (auto simp: Let_def S1_def)
  next
    case (Inr p)
    have p: "p = (if chains (ls_repo S1) ?ty = [] then genesis_hash cfg else le_entry_hash (last (chains (ls_repo S1) ?ty)))"
      using Inr tip_found [OF S1(1), of "at_tip_fails (env n)" ?ty] tip_missing [OF S1(1), of "at_tip_fails (env n)" ?ty]
      by (auto simp: previous_hash_of_def tip_of_def split: sum.splits RepositoryError.splits)
    let ?in = "entry_write_input input (at_now (env n)) (at_event_id (env n)) p"
    obtain w repo' where w: "lr_write R (at_write (env n) (ls_repo S2)) ?in (ls_repo S2) = (w, repo')" by fastforce
    have out: "inv repo' \<and> all_linked cfg (chains repo') \<and> grows (chains (ls_repo S2)) (chains repo')"
    proof (cases w)
      case (Inl err)
      with write_fails [OF S2(1) env(3)] w have "inv repo'"
        "chains repo' = chains (ls_repo S2) \<or> append_spec (we_entry_id (at_write (env n) (ls_repo S2))) ?in (chains (ls_repo S2)) = Inr (chains repo')"
        by blast+
      then show ?thesis using append_keeps_linked [OF _ S2(2,3) p] S2(2) by auto
    next
      case (Inr x)
      obtain e ob where "x = (e, ob)" by fastforce
      with Inr write_appends [OF S2(1) env(3)] w show ?thesis using append_keeps_linked [OF _ S2(2,3) p] by blast
    qed
    have ack: "e \<in> set (chains repo' ?ty) \<and> records input e" if "w = Inr (e, ob)" for e ob
      using write_appends [OF S2(1) env(3) w [unfolded that]] append_keeps_linked [OF _ S2(2,3) p] by auto
    have step: "write_attempts R cfg input env (n # as) S =
        (case w of Inr (entry, ob) \<Rightarrow> (Inr (write_output entry), S2\<lparr>ls_repo := repo'\<rparr>)
         | Inl ChainIntegrityViolation \<Rightarrow>
             if n < 4 then write_attempts R cfg input env as (S2\<lparr>ls_repo := repo'\<rparr>)
             else (Inl (SvcInternal ''chain integrity violation''),
                   S2\<lparr>ls_repo := repo', ls_chain_halted := insert ?ty (ls_chain_halted S2)\<rparr>)
         | Inl err \<Rightarrow> (Inl (map_repo err), S2\<lparr>ls_repo := repo'\<rparr>))"
      using Inr w by (cases w) (auto simp: Let_def S1_def [symmetric] S2_def [symmetric] split: RepositoryError.splits)
    have all: "grows (chains (ls_repo S)) (chains repo')" using S1(3) S2(3) out grows_trans by blast
    show ?thesis
      using Cons.prems(3) Cons.IH [of "S2\<lparr>ls_repo := repo'\<rparr>"] out ack all grows_trans [OF all]
      unfolding step by (auto split: sum.splits RepositoryError.splits if_splits)
  qed
qed auto

lemma write_entry_keeps:
  assumes env: "\<And>n M. inv (ls_repo M) \<Longrightarrow> all_linked cfg (chains (ls_repo M)) \<Longrightarrow>
        inv (ls_repo (at_before (env n) M)) \<and> all_linked cfg (chains (ls_repo (at_before (env n) M))) \<and>
        grows (chains (ls_repo M)) (chains (ls_repo (at_before (env n) M)))"
      "\<And>n M. inv (ls_repo M) \<Longrightarrow> all_linked cfg (chains (ls_repo M)) \<Longrightarrow>
        inv (ls_repo (at_between (env n) M)) \<and> all_linked cfg (chains (ls_repo (at_between (env n) M))) \<and>
        grows (chains (ls_repo M)) (chains (ls_repo (at_between (env n) M)))"
      "\<And>n s. fresh (at_write (env n) s) s"
    and S: "inv (ls_repo S)" "all_linked cfg (chains (ls_repo S))"
    and wr: "ledger_write_entry R cfg find_fails env input S = (r, S')"
  shows "inv (ls_repo S') \<and> all_linked cfg (chains (ls_repo S')) \<and> grows (chains (ls_repo S)) (chains (ls_repo S')) \<and>
    (\<forall>out. r = Inr out \<longrightarrow> (\<exists>e \<in> set (chains (ls_repo S') (wi_entry_type input)).
       le_idempotency_key e = wi_idempotency_key input \<and> out = write_output e))"
proof -
  obtain M where impl: "write_entry_impl R cfg find_fails env input S = (r, M)" and repo: "ls_repo S' = ls_repo M"
    using wr by (auto simp: ledger_write_entry_def Let_def split: prod.splits)
  have found: "e \<in> set (chains (ls_repo S) (wi_entry_type input)) \<and> le_idempotency_key e = Some k"
    if "lr_find_idempotent R find_fails (wi_entry_type input) k (ls_repo S) = Inr (Some e)" for k e
    using idempotent_found [OF S(1) that] .
  have loop: ?thesis if "write_attempts R cfg input env [0..<5] S = (r, M)"
    using attempt_keeps [OF env S that] unfolding repo by (auto simp: records_def)
  show ?thesis
  proof (cases "write_attempts R cfg input env [0..<5] S = (r, M)")
    case False
    then show ?thesis
      using impl S found unfolding write_entry_impl_def repo
      by (auto simp del: write_attempts.simps split: if_splits option.splits sum.splits)
  qed (rule loop)
qed

text \<open>Every run keeps the chains linked and only extends them.\<close>

lemma run_keeps:
  "ledger_run R cfg fresh S S' \<Longrightarrow> inv (ls_repo S) \<Longrightarrow> all_linked cfg (chains (ls_repo S)) \<Longrightarrow>
   inv (ls_repo S') \<and> all_linked cfg (chains (ls_repo S')) \<and> grows (chains (ls_repo S)) (chains (ls_repo S'))"
proof (induction rule: ledger_run.induct)
  case (wrote S S1 env find_fails input)
  obtain r S2 where r: "ledger_write_entry R cfg find_fails env input S1 = (r, S2)" by fastforce
  have S1: "inv (ls_repo S1)" "all_linked cfg (chains (ls_repo S1))" "grows (chains (ls_repo S)) (chains (ls_repo S1))"
    using wrote.IH(1) wrote.prems by auto
  show ?case using write_entry_keeps [OF wrote.IH(2,3) wrote.hyps(4) S1(1,2) r] grows_trans [OF S1(3)]
    unfolding r snd_conv by blast
next
  case (delivered S S1 publish mark_fails r)
  let ?s = "ls_repo (snd (publish_all R publish mark_fails [r] S1))"
  have "?s = ls_repo S1 \<or> ?s = snd (lr_mark_outbox_delivered R (mark_fails (lo_outbox_id r)) (lo_outbox_id r) (ls_repo S1))"
    by (simp add: publish_one_def Let_def split_def split: sum.split unit.split)
  with delivered delivery_keeps [of "ls_repo S1" "mark_fails (lo_outbox_id r)" "lo_outbox_id r"] show ?case by metis
qed (simp_all add: new_ledger_service_def)

lemma run_from_write:
  assumes "ledger_run R cfg fresh S0 S" "inv (ls_repo S0)" "all_linked cfg (chains (ls_repo S0))" "runs_only R cfg fresh env"
    and "ledger_write_entry R cfg find_fails env input S = (Inr out, S1)" "ledger_run R cfg fresh S1 S2"
  shows "\<exists>e \<in> set (chains (ls_repo S2) (wi_entry_type input)).
    le_idempotency_key e = wi_idempotency_key input \<and> out = write_output e"
proof -
  have S: "inv (ls_repo S)" "all_linked cfg (chains (ls_repo S))" using run_keeps [OF assms(1-3)] by auto
  have S1: "inv (ls_repo S1) \<and> all_linked cfg (chains (ls_repo S1)) \<and>
      (\<exists>e \<in> set (chains (ls_repo S1) (wi_entry_type input)). le_idempotency_key e = wi_idempotency_key input \<and> out = write_output e)"
    using write_entry_keeps [OF run_keeps run_keeps _ S assms(5)] assms(4) unfolding runs_only_def by blast
  with run_keeps [OF assms(6)] have "grows (chains (ls_repo S1)) (chains (ls_repo S2))" by blast
  with S1 show ?thesis unfolding grows_def by (meson set_mono_prefix subsetD)
qed

end

section \<open>The ledger over PostgreSQL\<close>

abbreviation any_id :: "write_env \<Rightarrow> ledger_db \<Rightarrow> bool" where
  "any_id w d \<equiv> True"

abbreviation ledger_reach :: "AppConfig \<Rightarrow> ledger_db ImmutableLedgerService \<Rightarrow> bool" where
  "ledger_reach cfg S \<equiv> ledger_run postgres_ledger cfg any_id (new_ledger_service empty_ledger_db) S"

lemma all_linked_empty [simp]: "all_linked cfg (pg_chains empty_ledger_db)"
  by (simp add: all_linked_def pg_chains_def empty_ledger_db_def)

lemma new_ledger_service_repo [simp]: "ls_repo (new_ledger_service d) = d" "ls_chain_halted (new_ledger_service d) = {}"
  by (simp_all add: new_ledger_service_def)

lemma reach_ok:
  assumes "ledger_reach cfg S"
  shows "pg_ledger_inv (ls_repo S)" "linked cfg (pg_chains (ls_repo S) ty)" "positions_ok (pg_chains (ls_repo S) ty)"
proof -
  have "pg_ledger_inv (ls_repo S) \<and> all_linked cfg (pg_chains (ls_repo S))" using pg.run_keeps [OF assms] by simp
  then show "pg_ledger_inv (ls_repo S)" "linked cfg (pg_chains (ls_repo S) ty)" "positions_ok (pg_chains (ls_repo S) ty)"
    by (simp_all add: all_linked_def pg_ledger_inv_def)
qed

lemma linked_member:
  assumes "linked cfg es" "positions_ok es" "e \<in> set es"
  shows "le_entry_hash e = recomputed_hash e \<and>
    (if le_chain_position e = 1 then le_previous_hash e = genesis_hash cfg
     else \<exists>f. find (\<lambda>c. le_chain_position c = le_chain_position e - 1) es = Some f \<and> le_entry_hash f = le_previous_hash e)"
proof -
  obtain as bs where es: "es = as @ e # bs" using split_list [OF assms(3)] by blast
  have pos: "le_chain_position e = int (length as) + 1" using positions_ok_mid assms(2) unfolding es by blast
  have mid: "le_previous_hash e = (if as = [] then genesis_hash cfg else le_entry_hash (last as)) \<and> le_entry_hash e = recomputed_hash e"
    using linked_mid assms(1) unfolding es by blast
  have "find (\<lambda>c. le_chain_position c = int (length as)) es = Some (last as)" if "as \<noteq> []"
  proof -
    have "es ! (length as - 1) = last as" "length as - 1 < length es" using that by (simp_all add: es nth_append last_conv_nth)
    then show ?thesis
      using that positions_ok_nth [OF assms(2)] positions_ok_nth [OF assms(2), of "length as - 1"]
      unfolding find_Some_iff by (intro exI [of _ "length as - 1"]) (auto simp: of_nat_diff Suc_le_eq)
  qed
  with mid pos show ?thesis by auto
qed

text \<open>A concrete ledger for the examples: no failures, nobody else, identifiers counted up.\<close>

definition sample_config :: AppConfig where
  "sample_config = \<lparr>lc_grpc_port = 9092, lc_health_port = 8080, lc_metrics_port = 8083, lc_max_content_size_bytes = 1048576,
     lc_db_connection_string = ''postgres://db'', lc_read_replica_connection_string = None,
     lc_kafka_bootstrap_servers = ''kafka:9092'', lc_kafka_sasl_username = ''user'', lc_kafka_sasl_password = ''pass'',
     lc_genesis_hash_input = ''ARE_LEDGER_GENESIS''\<rparr>"

definition sample_write :: WriteEntryInput where
  "sample_write = \<lparr>wi_entry_type = ''AUDIT'', wi_agent_id = ''agent'', wi_content = ''x'', wi_content_type = ''text/plain'',
     wi_source_id = ''registry'', wi_correlation_id = None, wi_idempotency_key = Some ''key''\<rparr>"

definition quiet_env :: "nat \<Rightarrow> ledger_db attempt_env" where
  "quiet_env n = \<lparr>at_before = id, at_tip_fails = False, at_now = 1000000, at_event_id = ''event'', at_between = id,
     at_write = (\<lambda>d. \<lparr>we_entry_id = nat_digits (length (ld_entries d)), we_outbox_id = nat_digits (length (ld_outbox d)),
       we_fail = (\<lambda>i. False), we_commit = CommitOK\<rparr>)\<rparr>"

definition sample_out :: "(ServiceError + WriteEntryOutput) \<times> ledger_db ImmutableLedgerService" where
  "sample_out = ledger_write_entry postgres_ledger sample_config False quiet_env sample_write (new_ledger_service empty_ledger_db)"

lemma quiet_runs_only [simp]: "runs_only postgres_ledger cfg any_id quiet_env"
  by (simp add: runs_only_def quiet_env_def ledger_run.stay)

lemma sample_reach: "ledger_reach sample_config (snd sample_out)"
  unfolding sample_out_def by (rule ledger_run.wrote) (auto simp: quiet_env_def intro: ledger_run.stay)

lemma genesis_hash_not_Nil [simp]: "genesis_hash cfg \<noteq> []"
  by (simp add: genesis_hash_def)

lemma sample_out_eval:
  "\<exists>out e. fst sample_out = Inr out \<and> wo_chain_position out = 1 \<and> ld_entries (ls_repo (snd sample_out)) = [e] \<and>
     le_entry_type e = ''AUDIT'' \<and> le_idempotency_key e = Some ''key'' \<and> le_entry_id e = nat_digits 0 \<and> write_output e = out \<and>
     ls_chain_halted (snd sample_out) = {}"
  by (simp add: sample_out_def ledger_write_entry_def write_entry_impl_def sample_write_def sample_config_def
      new_ledger_service_def empty_ledger_db_def upt_rec postgres_ledger_def pg_ledger_find_idempotent_def quiet_env_def
      pg_ledger_get_chain_tip_def tip_row_def rows_of_type_def previous_hash_of_def pg_ledger_write_def
      Let_def write_output_def inc_write_def new_entry_def entry_write_input_def)

text \<open>
  C11: A ledger that serves always verifies. Whatever the clients write, however their requests interleave, whatever statements
  of the database fail and however often the service restarts: verifying any range of any chain finds no invalid
  entry (it fails only when the database does or when a bound is not an entry of the chain), and verifying
  any stored entry finds its hash and its link valid.
\<close>

theorem ledger_always_verifies:
  assumes "ledger_reach cfg S"
  shows "(case fst (ledger_verify_chain postgres_ledger cfg fails ty i j S) of
      Inr out \<Rightarrow> vco_chain_valid out \<and> vco_failure_reason out = []
    | Inl err \<Rightarrow> err = SvcUnavailable \<and> fails \<or>
        err = SvcNotFound \<and> (\<exists>k. (i = Some k \<or> j = Some k) \<and> k \<notin> le_entry_id ` set (pg_chains (ls_repo S) ty))) \<and>
    (\<forall>k e. pg_ledger_get_entry False k (ls_repo S) = Inr e \<longrightarrow>
       ledger_verify_entry postgres_ledger cfg False False k (ls_repo S) =
         Inr \<lparr>veo_entry_id = k, veo_hash_valid = True, veo_chain_link_valid = True, veo_failure_reason = []\<rparr>)"
proof (intro conjI allI impI)
  note ok = reach_ok [OF assms]
  have rows: "lr_get_entries_by_type postgres_ledger f t (ls_repo S) =
      (if f then Inl RepoUnavailable else Inr (pg_chains (ls_repo S) t))" for f t
    by (simp add: postgres_ledger_def pg_ledger_get_entries_by_type_def pg_inv_rows [OF ok(1)])
  show "case fst (ledger_verify_chain postgres_ledger cfg fails ty i j S) of
      Inr out \<Rightarrow> vco_chain_valid out \<and> vco_failure_reason out = []
    | Inl err \<Rightarrow> err = SvcUnavailable \<and> fails \<or>
        err = SvcNotFound \<and> (\<exists>k. (i = Some k \<or> j = Some k) \<and> k \<notin> le_entry_id ` set (pg_chains (ls_repo S) ty))"
    using verify_entries_linked [OF ok(2,3), of i j ty]
    by (auto simp: ledger_verify_chain_def rows Let_def split: sum.splits)
  fix k e
  assume e: "pg_ledger_get_entry False k (ls_repo S) = Inr e"
  then have got: "lr_get_entry postgres_ledger False k (ls_repo S) = Inr e" by (simp add: postgres_ledger_def)
  have "e \<in> set (pg_chains (ls_repo S) (le_entry_type e))" using pg.stored [OF ok(1) got] by simp
  from linked_member [OF ok(2,3) this]
  show "ledger_verify_entry postgres_ledger cfg False False k (ls_repo S) =
      Inr \<lparr>veo_entry_id = k, veo_hash_valid = True, veo_chain_link_valid = True, veo_failure_reason = []\<rparr>"
    by (auto simp: ledger_verify_entry_def rows got split: if_splits)
qed

theorem ledger_always_verifies_witness:
  "\<exists>S. ledger_reach sample_config S \<and> length (ld_entries (ls_repo S)) = 1 \<and>
     (\<exists>out. fst (ledger_verify_chain postgres_ledger sample_config False ''AUDIT'' None None S) = Inr out \<and> vco_chain_valid out)"
proof -
  have "length (ld_entries (ls_repo (snd sample_out))) = 1" using sample_out_eval by auto
  then show ?thesis
    using sample_reach ledger_always_verifies [OF sample_reach, where fails = False and ty = "''AUDIT''" and i = None and j = None]
    by (intro exI [of _ "snd sample_out"]) (auto split: sum.splits)
qed



section \<open>A race for one idempotency key\<close>

lemma key_taken_violates:
  assumes "e \<in> set (ld_entries d)" "le_entry_type e = ew_entry_type inp" "le_idempotency_key e = Some k"
    "ew_idempotency_key inp = Some k" "\<forall>i. \<not> we_fail w i"
  shows "pg_ledger_write w inp d = (Inl ChainIntegrityViolation, d)"
proof -
  have "list_ex (violates_unique (new_entry (we_entry_id w) n inp)) (ld_entries d)" for n
    using assms(1-4) by (auto simp: list_ex_iff violates_unique_def intro!: bexI [of _ e])
  then show ?thesis using assms(5) by (simp add: pg_ledger_write_def Let_def)
qed

lemma key_taken_halts:
  assumes env: "runs_only postgres_ledger cfg any_id env" "\<forall>n. \<not> at_tip_fails (env n)"
      "\<forall>n d i. \<not> we_fail (at_write (env n) d) i" and key: "wi_idempotency_key input = Some k"
  shows "ledger_reach cfg S \<Longrightarrow> as \<noteq> [] \<Longrightarrow> last as = 4 \<Longrightarrow> \<forall>n \<in> set (butlast as). n < 4 \<Longrightarrow>
    e \<in> set (pg_chains (ls_repo (at_before (env (hd as)) S)) (wi_entry_type input)) \<Longrightarrow> le_idempotency_key e = Some k \<Longrightarrow>
    \<exists>S'. write_attempts postgres_ledger cfg input env as S = (Inl (SvcInternal ''chain integrity violation''), S') \<and>
      wi_entry_type input \<in> ls_chain_halted S'"
proof (induction as arbitrary: S)
  case (Cons n as)
  let ?ty = "wi_entry_type input"
  define S1 where "S1 = at_before (env n) S"
  define S2 where "S2 = at_between (env n) S1"
  have runs: "ledger_run postgres_ledger cfg any_id M (at_before (env m) M)"
    "ledger_run postgres_ledger cfg any_id M (at_between (env m) M)" for m M
    using env(1) by (auto simp: runs_only_def)
  have reach: "ledger_reach cfg S1" "ledger_reach cfg S2"
    using Cons.prems(1) runs ledger_run_trans unfolding S1_def S2_def by metis+
  have stays: "e \<in> set (pg_chains (ls_repo M') ?ty)"
    if "ledger_reach cfg M" "ledger_run postgres_ledger cfg any_id M M'" "e \<in> set (pg_chains (ls_repo M) ?ty)" for M M'
  proof -
    have "all_linked cfg (pg_chains (ls_repo M))" using reach_ok(2) [OF that(1)] by (simp add: all_linked_def)
    then have "grows (pg_chains (ls_repo M)) (pg_chains (ls_repo M'))" using pg.run_keeps [OF that(2)] reach_ok(1) [OF that(1)] by blast
    then show ?thesis using that(3) unfolding grows_def by (meson set_mono_prefix subsetD)
  qed
  have e2: "e \<in> set (pg_chains (ls_repo S2) ?ty)"
    using Cons.prems(5) stays [OF reach(1) runs(2)] by (simp add: S1_def S2_def)
  then have viol: "lr_write postgres_ledger (at_write (env n) (ls_repo S2)) (entry_write_input input t ev p) (ls_repo S2) =
      (Inl ChainIntegrityViolation, ls_repo S2)" for t ev p
    using key_taken_violates [of e "ls_repo S2"] Cons.prems(6) key env(3) by (simp add: postgres_ledger_def pg_chains_def)
  obtain p where p: "previous_hash_of cfg (lr_get_chain_tip postgres_ledger (at_tip_fails (env n)) ?ty (ls_repo S1)) = Inr p"
    using env(2) by (cases "tip_row ?ty (ls_repo S1)")
      (auto simp: postgres_ledger_def pg_ledger_get_chain_tip_def previous_hash_of_def)
  have step: "write_attempts postgres_ledger cfg input env (n # as) S =
      (if n < 4 then write_attempts postgres_ledger cfg input env as S2
       else (Inl (SvcInternal ''chain integrity violation''), S2\<lparr>ls_chain_halted := insert ?ty (ls_chain_halted S2)\<rparr>))"
    using p viol by (simp add: Let_def S1_def [symmetric] S2_def [symmetric])
  show ?case
  proof (cases as)
    case Nil
    then show ?thesis using Cons.prems(3) step by simp
  next
    case (Cons m rest)
    have "e \<in> set (pg_chains (ls_repo (at_before (env (hd as)) S2)) ?ty)" using stays [OF reach(2) runs(1) e2] .
    with Cons.IH [OF reach(2)] Cons.prems Cons step show ?thesis by auto
  qed
qed simp


definition racing_env :: "nat \<Rightarrow> ledger_db attempt_env" where
  "racing_env n = (quiet_env n)\<lparr>at_before :=
     (\<lambda>S. snd (ledger_write_entry postgres_ledger sample_config False quiet_env sample_write S))\<rparr>"


end
