(* ===== verification/Ledger_Audit.thy ===== *)
theory Ledger_Audit
  imports Ledger_Correct "HOL-Library.Multiset"
begin

text \<open>
  What an auditor can conclude from the immutable ledger: exactly which damage verifying a chain notices, what the hash of the
  tip commits to, that following the page tokens visits everything, and what becomes of the events.
\<close>

section \<open>What verification notices\<close>

text \<open>
  Row \<open>i\<close> of a segment is fine: it has the hash of its content and names the hash of the row before it; the first row has no
  row before it and names the genesis if its position is 1.
\<close>

definition row_ok :: "AppConfig \<Rightarrow> LedgerEntryRecord option \<Rightarrow> LedgerEntryRecord list \<Rightarrow> nat \<Rightarrow> bool" where
  "row_ok cfg before es i \<longleftrightarrow> le_entry_hash (es ! i) = recomputed_hash (es ! i) \<and>
     (case (if i = 0 then before else Some (es ! (i - 1))) of
        None \<Rightarrow> le_chain_position (es ! i) = 1 \<longrightarrow> le_previous_hash (es ! i) = genesis_hash cfg
      | Some p \<Rightarrow> le_previous_hash (es ! i) = le_entry_hash p)"

definition segment_ok :: "AppConfig \<Rightarrow> LedgerEntryRecord list \<Rightarrow> bool" where
  "segment_ok cfg es \<longleftrightarrow> (\<forall>i < length es. row_ok cfg None es i)"

lemma row_ok_Suc: "row_ok cfg before (e # es) (Suc i) \<longleftrightarrow> row_ok cfg (Some e) es i"
  by (cases i) (simp_all add: row_ok_def)

lemma verify_loop_valid:
  "vco_chain_valid (verify_loop cfg idx before es) \<longleftrightarrow> (\<forall>i < length es. row_ok cfg before es i)"
proof (induction es arbitrary: idx before)
  case (Cons e es)
  have "row_ok cfg before (e # es) 0 \<longleftrightarrow> le_entry_hash e = recomputed_hash e \<and>
      le_previous_hash e = (case before of None \<Rightarrow> if le_chain_position e = 1 then genesis_hash cfg else le_previous_hash e
        | Some p \<Rightarrow> le_entry_hash p)"
    by (auto simp: row_ok_def split: option.split)
  then show ?case
    by (simp add: Let_def invalid_at_def All_less_Suc2 row_ok_Suc Cons.IH)
qed simp

lemma verify_loop_segment: "vco_chain_valid (verify_loop cfg idx None es) \<longleftrightarrow> segment_ok cfg es"
  by (simp add: verify_loop_valid segment_ok_def)

lemma verify_loop_count: "vco_chain_valid (verify_loop cfg idx before es) \<Longrightarrow>
    vco_entries_checked (verify_loop cfg idx before es) = int idx + int (length es)"
  by (induction es arbitrary: idx before) (auto simp: Let_def invalid_at_def split: if_splits)

lemma verify_all:
  assumes "\<forall>e \<in> set es. 1 \<le> le_chain_position e" "sorted (map le_chain_position es)"
  shows "\<exists>out. verify_entries cfg None None es = Inr out \<and> (vco_chain_valid out \<longleftrightarrow> segment_ok cfg es) \<and>
    (vco_chain_valid out \<longrightarrow> vco_entries_checked out = int (length es))"
proof (cases "es = []")
  case False
  have "filter (\<lambda>e. 1 \<le> le_chain_position e \<and> le_chain_position e \<le> Max (le_chain_position ` set es)) es = es"
    using assms(1) by (simp add: filter_id_conv)
  moreover have "sort_key le_chain_position es = es" using assms(2) by (rule sort_key_id_if_sorted)
  ultimately show ?thesis using False verify_loop_count [of cfg 0 None es]
    by (auto simp: verify_entries_def position_of_def verify_loop_segment)
qed (simp add: verify_entries_def segment_ok_def)

lemma rows_sorted: "sorted (map le_chain_position (rows_of_type ty d))"
  by (simp add: rows_of_type_def)


definition forged_row :: LedgerEntryRecord where
  "forged_row = \<lparr>le_entry_id = ''0'', le_entry_type = ''AUDIT'', le_agent_id = ''agent'', le_content = ''x'',
     le_content_type = ''text/plain'', le_source_id = ''registry'', le_correlation_id = None, le_idempotency_key = None,
     le_entry_hash = ''f'', le_previous_hash = ''f'', le_chain_position = 1, le_written_ts = 0\<rparr>"


lemma linked_segment:
  assumes "linked cfg es" "positions_ok es"
  shows "segment_ok cfg (take m (drop k es))"
  unfolding segment_ok_def
proof (intro allI impI)
  fix i assume i: "i < length (take m (drop k es))"
  then have nth: "take m (drop k es) ! i = es ! (k + i)" "k + i < length es" by auto
  have link: "link_ok cfg es (k + i)" using assms(1) nth(2) by (simp add: linked_def)
  have pos: "le_chain_position (es ! (k + i)) = int (k + i) + 1" by (rule positions_ok_nth [OF assms(2) nth(2)])
  show "row_ok cfg None (take m (drop k es)) i"
    using link pos nth i by (cases i) (auto simp: link_ok_def row_ok_def)
qed

text \<open>
  Verification does not notice a chain that was cut. Remove any number of the oldest and any number of the newest
  entries of a chain from the database: verifying the whole chain still reports it valid.
\<close>

theorem verify_misses_truncation:
  assumes "ledger_reach cfg S" "pg_chains d ty = take m (drop k (pg_chains (ls_repo S) ty))"
  shows "\<exists>out. fst (ledger_verify_chain postgres_ledger cfg False ty None None (S\<lparr>ls_repo := d\<rparr>)) = Inr out \<and>
    vco_chain_valid out \<and> vco_entries_checked out = int (length (pg_chains d ty))"
proof -
  let ?es = "pg_chains (ls_repo S) ty"
  note ok = reach_ok(1) [OF assms(1)] reach_ok(2,3) [OF assms(1), of ty]
  have "sorted (map le_chain_position (pg_chains d ty))"
    unfolding assms(2) take_map [symmetric] drop_map [symmetric] using positions_ok_sorted [OF ok(3)] sorted_wrt_take sorted_wrt_drop by blast
  then have rows: "rows_of_type ty d = pg_chains d ty"
    by (simp add: rows_of_type_def pg_chains_def sort_key_id_if_sorted)
  have "1 \<le> le_chain_position e" if e: "e \<in> set ?es" for e
  proof -
    obtain i where "i < length ?es" "?es ! i = e" using e unfolding in_set_conv_nth by blast
    then show ?thesis using positions_ok_nth [OF ok(3), of i] by simp
  qed
  then have "\<forall>e \<in> set (rows_of_type ty d). 1 \<le> le_chain_position e"
    unfolding rows assms(2) by (meson in_set_dropD in_set_takeD)
  from verify_all [OF this rows_sorted, of cfg] show ?thesis
    using linked_segment [OF ok(2,3), of m k] unfolding rows assms(2) [symmetric]
    by (auto simp: ledger_verify_chain_def postgres_ledger_def pg_ledger_get_entries_by_type_def rows Let_def)
qed

theorem verify_misses_truncation_witness:
  "\<exists>S out. ledger_reach sample_config S \<and> length (pg_chains (ls_repo S) ''AUDIT'') = 1 \<and>
     fst (ledger_verify_chain postgres_ledger sample_config False ''AUDIT'' None None (S\<lparr>ls_repo := empty_ledger_db\<rparr>)) = Inr out \<and>
     vco_chain_valid out \<and> vco_entries_checked out = 0"
proof -
  have "pg_chains empty_ledger_db ''AUDIT'' = take 0 (drop 0 (pg_chains (ls_repo (snd sample_out)) ''AUDIT''))"
    by (simp add: pg_chains_def empty_ledger_db_def)
  from verify_misses_truncation [OF sample_reach this] sample_reach sample_out_eval show ?thesis
    by (intro exI [of _ "snd sample_out"]) (auto simp: pg_chains_def empty_ledger_db_def)
qed

section \<open>What the tip commits to\<close>

definition entry_bytes :: "LedgerEntryRecord \<Rightarrow> bytes" where
  "entry_bytes e = canonical_bytes (le_entry_type e) (le_agent_id e) (le_content e) (le_content_type e) (le_source_id e)
     (timestamp_millis (le_written_ts e)) (le_previous_hash e)"

lemma recomputed_hash_bytes: "recomputed_hash e = sha256_hex (entry_bytes e)"
  by (simp add: recomputed_hash_def canonical_entry_hash_def entry_bytes_def)

lemma entry_bytes_previous:
  assumes "entry_bytes e = entry_bytes f" "length (le_previous_hash e) = length (le_previous_hash f)"
  shows "le_previous_hash e = le_previous_hash f"
  using assms by (simp add: entry_bytes_def canonical_bytes_def flip: append_assoc)

lemma linked_hash_lengths:
  assumes "linked cfg (es @ [e])"
  shows "length (le_previous_hash e) = 64"
proof (cases es rule: rev_cases)
  case (snoc fs f)
  have "linked cfg es" "es \<noteq> [] \<longrightarrow> le_previous_hash e = le_entry_hash (last es)" using assms by simp_all
  then show ?thesis using snoc by (simp add: recomputed_hash_bytes)
qed (use assms in \<open>simp add: genesis_hash_def\<close>)

lemma linked_same_tip:
  assumes inj: "\<And>x y. sha256_hex x = sha256_hex y \<Longrightarrow> x = y"
  shows "linked cfg es \<Longrightarrow> linked cfg fs \<Longrightarrow> length es = length fs \<Longrightarrow>
    es = [] \<or> le_entry_hash (last es) = le_entry_hash (last fs) \<Longrightarrow> map entry_bytes es = map entry_bytes fs"
proof (induction es arbitrary: fs rule: rev_induct)
  case (snoc e es)
  from snoc.prems(3) obtain gs g where fs: "fs = gs @ [g]" "length es = length gs" by (cases fs rule: rev_cases) auto
  have "sha256_hex (entry_bytes e) = sha256_hex (entry_bytes g)"
    using snoc.prems(1,2,4) by (simp add: fs recomputed_hash_bytes)
  then have same: "entry_bytes e = entry_bytes g" by (rule inj)
  have prev: "le_previous_hash e = le_previous_hash g"
    using linked_hash_lengths snoc.prems(1,2) fs by (intro entry_bytes_previous [OF same]) metis
  then have "es = [] \<or> le_entry_hash (last es) = le_entry_hash (last gs)"
    using snoc.prems(1,2) fs by (auto split: if_splits)
  with snoc.IH [of gs] snoc.prems fs same show ?case by auto
qed simp

lemma segment_linked:
  assumes "segment_ok cfg es" "es = [] \<or> le_chain_position (hd es) = 1"
  shows "linked cfg es"
  unfolding linked_def
proof (intro allI impI)
  fix i assume i: "i < length es"
  then have "row_ok cfg None es i" using assms(1) by (simp add: segment_ok_def)
  then show "link_ok cfg es i" using assms(2) i by (cases i) (auto simp: link_ok_def row_ok_def hd_conv_nth)
qed



text \<open>
  The hash of an entry does not fix its fields: the fields are joined without a separator. Moving the boundary
  between two of them gives another entry with the same hash, which the ledger verifies in place of the first.
\<close>

theorem entry_fields_ambiguous:
  "canonical_entry_hash ty (a @ b) content ct src ts prev = canonical_entry_hash ty a (b @ content) ct src ts prev"
  by (simp add: canonical_entry_hash_def canonical_bytes_def)

section \<open>Paging\<close>

text \<open>A client that follows the page tokens, at most \<open>fuel\<close> pages.\<close>

fun read_pages :: "nat \<Rightarrow> QueryEntriesInput \<Rightarrow> ledger_db \<Rightarrow> LedgerEntryRecord list" where
  "read_pages 0 q d = []"
| "read_pages (Suc fuel) q d =
     (case ledger_query_entries postgres_ledger False q d of
        Inl _ \<Rightarrow> []
      | Inr (page, None, n) \<Rightarrow> page
      | Inr (page, Some token, n) \<Rightarrow> page @ read_pages fuel (q\<lparr>qi_page_token := Some token\<rparr>) d)"

definition query_result :: "QueryEntriesInput \<Rightarrow> ledger_db \<Rightarrow> LedgerEntryRecord list" where
  "query_result q d = sort_key query_key (filter (matches_query q)
     (sort_key (\<lambda>e. (le_written_ts e div 1000, le_chain_position e)) (ld_entries d)))"

lemma matches_query_token [simp]: "matches_query (q\<lparr>qi_page_token := t\<rparr>) = matches_query q"
  by (simp add: matches_query_def fun_eq_iff)

lemma query_result_token [simp]: "query_result (q\<lparr>qi_page_token := t\<rparr>) d = query_result q d"
  by (simp add: query_result_def)

lemma page_offset_Itoa: "v < 2 ^ 64 \<Longrightarrow> page_offset (Some (Itoa (int v))) = v"
  by (simp only: page_offset_def option.case parse_unsigned_Itoa nat_int)

lemma page_size_positive: "0 < page_size_of n"
  by (simp add: page_size_of_def)

lemma ledger_query_page:
  "ledger_query_entries postgres_ledger False q d =
     (let es = query_result q d; offset = page_offset (qi_page_token q);
          page = take (page_size_of (qi_page_size q)) (drop offset es)
      in Inr (page, if offset + length page < length es then Some (Itoa (int (offset + length page))) else None, int (length es)))"
  by (simp add: ledger_query_entries_def postgres_ledger_def pg_ledger_query_entries_def query_result_def Let_def)

lemma read_pages_from:
  assumes "length (query_result q d) < 2 ^ 64"
  shows "length (query_result q d) < page_offset (qi_page_token q) + n \<Longrightarrow>
    read_pages n q d = drop (page_offset (qi_page_token q)) (query_result q d)"
  using assms
proof (induction n arbitrary: q)
  case (Suc n)
  let ?es = "query_result q d" and ?o = "page_offset (qi_page_token q)" and ?s = "page_size_of (qi_page_size q)"
  let ?page = "take ?s (drop ?o ?es)"
  show ?case
  proof (cases "?o + length ?page < length ?es")
    case True
    let ?q = "q\<lparr>qi_page_token := Some (Itoa (int (?o + length ?page)))\<rparr>"
    have len: "length ?page = ?s" using True by auto
    have off: "page_offset (qi_page_token ?q) = ?o + ?s"
      using True Suc.prems(2) len page_offset_Itoa [of "?o + length ?page"] by simp
    have "read_pages n ?q d = drop (?o + ?s) ?es"
      using Suc.IH [of ?q] Suc.prems off page_size_positive [of "qi_page_size q"] by simp
    then show ?thesis using True len by (simp add: ledger_query_page Let_def flip: drop_drop) (metis append_take_drop_id drop_drop add.commute)
  next
    case False
    then have "?page = drop ?o ?es" by auto
    with False show ?thesis by (simp add: ledger_query_page Let_def)
  qed
qed simp

text \<open>
  C33: Following the page tokens visits everything once. A client that starts without a token and follows the tokens reads
  exactly the entries that match the filters, in the order of their time and position, and needs no more pages
  than there are entries (and one).
\<close>

theorem pages_visit_everything:
  assumes "qi_page_token q = None" "length (query_result q d) < 2 ^ 64" "length (query_result q d) < n"
  shows "read_pages n q d = query_result q d \<and>
    mset (read_pages n q d) = filter_mset (matches_query q) (mset (ld_entries d)) \<and> sorted (map query_key (read_pages n q d))"
proof -
  have "read_pages n q d = query_result q d"
    using read_pages_from [OF assms(2)] assms(1,3) by (simp add: page_offset_def)
  moreover have "sorted (map query_key (query_result q d))" by (simp add: query_result_def)
  ultimately show ?thesis by (simp add: query_result_def mset_filter)
qed

definition page_of_one :: QueryEntriesInput where
  "page_of_one = \<lparr>qi_entry_type = Some ''AUDIT'', qi_agent_id = None, qi_source_id = None, qi_correlation_id = None,
     qi_from_ts = None, qi_to_ts = None, qi_page_size = 1, qi_page_token = None\<rparr>"

definition two_rows :: ledger_db where
  "two_rows = \<lparr>ld_entries = [forged_row, forged_row\<lparr>le_chain_position := 2\<rparr>], ld_outbox = []\<rparr>"

theorem pages_visit_everything_witness:
  "length (read_pages 3 page_of_one two_rows) = 2 \<and> sorted (map query_key (read_pages 3 page_of_one two_rows))"
proof -
  have two: "length (query_result page_of_one two_rows) = 2"
    by (simp add: query_result_def page_of_one_def two_rows_def matches_query_def passes_def forged_row_def)
  have "qi_page_token page_of_one = None" by (simp add: page_of_one_def)
  from pages_visit_everything [OF this, of two_rows 3] two show ?thesis by (elim meta_impE) auto
qed

section \<open>Events\<close>

lemma mark_delivered_ok:
  "pg_ledger_mark_delivered False i d = (r, d') \<Longrightarrow>
   ld_outbox d' = map (\<lambda>x. if lo_outbox_id x = i \<and> lo_status x = OutboxPending then x\<lparr>lo_status := OutboxDelivered\<rparr> else x) (ld_outbox d)"
  by (auto simp: pg_ledger_mark_delivered_def Let_def list_ex_iff map_idI split: if_splits)

lemma publish_all_noop:
  "fst (publish_all postgres_ledger NoopEventPublisher (\<lambda>i. False) rs S) = [] \<and>
   ld_outbox (ls_repo (snd (publish_all postgres_ledger NoopEventPublisher (\<lambda>i. False) rs S))) =
     map (\<lambda>x. if lo_outbox_id x \<in> lo_outbox_id ` set rs \<and> lo_status x = OutboxPending then x\<lparr>lo_status := OutboxDelivered\<rparr> else x)
       (ld_outbox (ls_repo S))"
proof (induction rs arbitrary: S)
  case (Cons r rs)
  obtain res d' where d': "pg_ledger_mark_delivered False (lo_outbox_id r) (ls_repo S) = (res, d')" by fastforce
  have one: "publish_one postgres_ledger NoopEventPublisher False r (ls_repo S) = (map_sum map_repo id res, [], d')"
    by (simp add: publish_one_def NoopEventPublisher_def postgres_ledger_def d')
  show ?case
    using Cons.IH [of "S\<lparr>ls_repo := d', ls_outbox_publish_failure_total :=
        ls_outbox_publish_failure_total S + (if is_ok (map_sum map_repo id res) then 0 else 1)\<rparr>"]
    by (auto simp: one Let_def split_def mark_delivered_ok [OF d'])
qed simp

text \<open>
  A ledger that starts publishes no events and says it did. The program only starts with a database role that may insert and
  select but not update or delete entries. It starts with the publisher that does nothing, although the Kafka settings are required:
  a round of the delivery sends nothing and marks every pending event as delivered.
\<close>

theorem started_ledger_sends_nothing:
  assumes "ledger_start env db connect2 bind d0 = Inr (cfg, publish, S0)"
  shows "rd_privileges db = Inr (True, True, False, False) \<and>
    fst (outbox_round postgres_ledger publish read_fails (\<lambda>i. False) S) = [] \<and>
    (\<forall>r \<in> set (ld_outbox (ls_repo (snd (outbox_round postgres_ledger publish False (\<lambda>i. False) S)))). lo_status r \<noteq> OutboxPending)"
proof -
  have pub: "publish = NoopEventPublisher" and priv: "rd_privileges db = Inr (True, True, False, False)"
    using assms by (auto simp: ledger_start_def verify_ledger_entries_immutable_def evaluate_permissions_def
        split: sum.splits if_splits)
  show ?thesis
    using publish_all_noop [of "filter (\<lambda>r. lo_status r = OutboxPending) (ld_outbox (ls_repo S))" S]
    by (auto simp: pub priv outbox_round_def postgres_ledger_def [of] pg_ledger_pending_outbox_def split: sum.splits)
qed

definition ledger_env :: rust_env where
  "ledger_env = (\<lambda>n. None)(''ARE_LEDGER_DB_CONNECTION_STRING'' := Some ''postgres://db'',
     ''ARE_LEDGER_KAFKA_BOOTSTRAP_SERVERS'' := Some ''kafka:9092'', ''ARE_LEDGER_KAFKA_SASL_USERNAME'' := Some ''user'',
     ''ARE_LEDGER_KAFKA_SASL_PASSWORD'' := Some ''pass'')"

definition insert_only_role :: role_db where
  "insert_only_role = \<lparr>rd_connect = (\<lambda>c. Inr ()), rd_privileges = Inr (True, True, False, False)\<rparr>"

theorem started_ledger_sends_nothing_witness:
  "\<exists>publish. ledger_start ledger_env insert_only_role (\<lambda>c. Inr ()) (\<lambda>p. True) empty_ledger_db =
       Inr (sample_config, publish, new_ledger_service empty_ledger_db) \<and>
     length (filter (\<lambda>r. lo_status r = OutboxPending) (ld_outbox (ls_repo (snd sample_out)))) = 1 \<and>
     fst (outbox_round postgres_ledger publish False (\<lambda>i. False) (snd sample_out)) = []"
proof -
  have start: "ledger_start ledger_env insert_only_role (\<lambda>c. Inr ()) (\<lambda>p. True) empty_ledger_db =
      Inr (sample_config, NoopEventPublisher, new_ledger_service empty_ledger_db)"
    by (simp add: ledger_start_def from_env_def ledger_env_def insert_only_role_def required_def parse_u16_def parse_usize_def
        parse_env_unsigned_def verify_ledger_entries_immutable_def evaluate_permissions_def sample_config_def)
  have "length (filter (\<lambda>r. lo_status r = OutboxPending) (ld_outbox (ls_repo (snd sample_out)))) = 1"
    by (simp add: sample_out_def ledger_write_entry_def write_entry_impl_def sample_write_def sample_config_def
        new_ledger_service_def empty_ledger_db_def upt_rec postgres_ledger_def pg_ledger_find_idempotent_def quiet_env_def
        pg_ledger_get_chain_tip_def tip_row_def rows_of_type_def previous_hash_of_def pg_ledger_write_def
        Let_def inc_write_def entry_write_input_def new_ledger_outbox_def)
  with start started_ledger_sends_nothing [OF start, of False "snd sample_out"] show ?thesis by blast
qed

end
