(* ===== verification/Scope_Glob.thy ===== *)
theory Scope_Glob
  imports RustStd
begin

text \<open>
  The resource patterns of the scope evaluator (\<^verbatim>\<open>s1/scope-evaluator-runtime/src/glob_match.rs\<close>): \<open>?\<close> stands for one
  character, \<open>*\<close> for any characters of a segment and the segment \<open>**\<close> for any segments.

  The matcher has a budget of work; \<open>burn_work\<close> threads what is left of it. It is compared with the declarative
  meaning of patterns, and shown to stay in the budget for patterns of the usual form.
\<close>

section \<open>The matcher\<close>

datatype GlobError = InvalidPattern | PatternTooComplex

definition MAX_DOUBLE_STAR_DEPTH :: nat where "MAX_DOUBLE_STAR_DEPTH = 48"
definition MAX_GLOB_WORK :: int where "MAX_GLOB_WORK = 65536"

definition burn_work :: "int \<Rightarrow> int \<Rightarrow> GlobError + int" where
  "burn_work work cost = (if work < cost then Inl PatternTooComplex else Inr (work - cost))"

text \<open>
  \<open>segment_loop\<close> is the loop over the characters of the pattern and \<open>star_loop\<close> the loop over the suffixes of the text
  after a \<open>*\<close>.
\<close>

function match_segment :: "rchar list \<Rightarrow> rchar list \<Rightarrow> int \<Rightarrow> GlobError + bool \<times> int"
  and segment_loop :: "rchar list \<Rightarrow> rchar list \<Rightarrow> int \<Rightarrow> GlobError + bool \<times> int"
  and star_loop :: "rchar list \<Rightarrow> rchar list \<Rightarrow> int \<Rightarrow> GlobError + bool \<times> int" where
  "match_segment p t work = (case burn_work work 1 of Inl e \<Rightarrow> Inl e | Inr w \<Rightarrow> segment_loop p t w)"
| "segment_loop [] t work = Inr (t = [], work)"
| "segment_loop (c # p) t work =
     (if c = ''*'' then star_loop p t work
      else if c = ''?'' then (case t of [] \<Rightarrow> Inr (False, work) | _ # t' \<Rightarrow> segment_loop p t' work)
      else if c = ''['' \<or> c = '']'' \<or> c = ''{'' \<or> c = ''}'' then Inl InvalidPattern
      else (case t of [] \<Rightarrow> Inr (False, work) | x # t' \<Rightarrow> if x \<noteq> c then Inr (False, work) else segment_loop p t' work))"
| "star_loop p [] work = Inr (p = [], work)"
| "star_loop p (x # t) work =
     (case burn_work work 1 of
        Inl e \<Rightarrow> Inl e
      | Inr w \<Rightarrow>
          (case match_segment p (x # t) w of
             Inl e \<Rightarrow> Inl e
           | Inr (True, w') \<Rightarrow> Inr (True, w')
           | Inr (False, w') \<Rightarrow> star_loop p t w'))"
  by pat_completeness auto

termination
  by (relation "inv_image (less_than <*lex*> less_than <*lex*> less_than)
      (case_sum (\<lambda>(p, t, w). (length p, length t, 1)) (case_sum (\<lambda>(p, t, w). (length p, length t, 0)) (\<lambda>(p, t, w). (length p, length t, 2::nat))))")
    (auto split: sum.splits)

function match_segments :: "string list \<Rightarrow> string list \<Rightarrow> nat \<Rightarrow> int \<Rightarrow> GlobError + bool \<times> int"
  and double_star_loop :: "string list \<Rightarrow> string list \<Rightarrow> nat \<Rightarrow> int \<Rightarrow> GlobError + bool \<times> int" where
  "match_segments pattern resource depth work =
     (case burn_work work 1 of
        Inl e \<Rightarrow> Inl e
      | Inr w \<Rightarrow>
          (case pattern of
             [] \<Rightarrow> Inr (resource = [], w)
           | s # ps \<Rightarrow>
               if s = ''**''
               then if MAX_DOUBLE_STAR_DEPTH \<le> depth then Inl PatternTooComplex
                    else if ps = [] then Inr (True, w)
                    else double_star_loop ps resource depth w
               else
                 (case resource of
                    [] \<Rightarrow> Inr (False, w)
                  | r # rs \<Rightarrow>
                      (case match_segment (rchars s) (rchars r) w of
                         Inl e \<Rightarrow> Inl e
                       | Inr (False, w') \<Rightarrow> Inr (False, w')
                       | Inr (True, w') \<Rightarrow> match_segments ps rs depth w'))))"
| "double_star_loop ps resource depth work =
     (case burn_work work 1 of
        Inl e \<Rightarrow> Inl e
      | Inr w \<Rightarrow>
          (case match_segments ps resource (depth + 1) w of
             Inl e \<Rightarrow> Inl e
           | Inr (True, w') \<Rightarrow> Inr (True, w')
           | Inr (False, w') \<Rightarrow> (case resource of [] \<Rightarrow> Inr (False, w') | r # rs \<Rightarrow> double_star_loop ps rs depth w')))"
  by pat_completeness auto

termination
  by (relation "inv_image (less_than <*lex*> less_than <*lex*> less_than)
      (case_sum (\<lambda>(p, r, d, w). (length p, length r, 0)) (\<lambda>(p, r, d, w). (length p, length r, 1::nat)))")
    (auto split: sum.splits)

declare match_segment.simps [simp del] match_segments.simps [simp del] double_star_loop.simps [simp del]

definition glob_match :: "string \<Rightarrow> string \<Rightarrow> GlobError + bool" where
  "glob_match pattern resource =
     (if pattern = [] then Inr False
      else map_sum id fst (match_segments (Split pattern (CHR ''/''))
        (if resource = [] then [] else Split resource (CHR ''/'')) 0 MAX_GLOB_WORK))"

section \<open>What a pattern means\<close>

primrec wild :: "rchar list \<Rightarrow> rchar list \<Rightarrow> bool" where
  "wild [] t \<longleftrightarrow> t = []"
| "wild (c # p) t \<longleftrightarrow>
     (if c = ''*'' then \<exists>k \<le> length t. wild p (drop k t)
      else t \<noteq> [] \<and> (c = ''?'' \<or> hd t = c) \<and> wild p (tl t))"

primrec glob_spec :: "string list \<Rightarrow> string list \<Rightarrow> bool" where
  "glob_spec [] rs \<longleftrightarrow> rs = []"
| "glob_spec (s # ps) rs \<longleftrightarrow>
     (if s = ''**'' then \<exists>k \<le> length rs. glob_spec ps (drop k rs)
      else rs \<noteq> [] \<and> wild (rchars s) (rchars (hd rs)) \<and> glob_spec ps (tl rs))"

definition resource_segments :: "string \<Rightarrow> string list" where
  "resource_segments r = (if r = [] then [] else Split r (CHR ''/''))"

text \<open>No two stars next to each other.\<close>

fun stars_apart :: "rchar list \<Rightarrow> bool" where
  "stars_apart (c # d # p) \<longleftrightarrow> \<not> (c = ''*'' \<and> d = ''*'') \<and> stars_apart (d # p)"
| "stars_apart p \<longleftrightarrow> True"

lemma ex_drop_Nil: "(\<exists>k \<le> length []. P (drop k [])) \<longleftrightarrow> P []"
  by simp

lemma ex_drop_Cons: "(\<exists>k \<le> length (x # t). P (drop k (x # t))) \<longleftrightarrow> P (x # t) \<or> (\<exists>k \<le> length t. P (drop k t))"
proof -
  have "(\<exists>k \<le> Suc n. Q k) \<longleftrightarrow> Q 0 \<or> (\<exists>k \<le> n. Q (Suc k))" for Q and n :: nat
    by (metis Suc_le_mono le0 not0_implies_Suc)
  from this [of "length t" "\<lambda>k. P (drop k (x # t))"] show ?thesis by simp
qed

lemma stars_apart_tail: "stars_apart (c # p) \<Longrightarrow> stars_apart p"
  by (cases p) auto

lemma wild_Nil_apart: "stars_apart (''*'' # p) \<Longrightarrow> wild p [] \<longleftrightarrow> p = []"
  by (cases p) auto

lemma match_segment_sound:
  "match_segment p t w = Inr (True, w') \<Longrightarrow> wild p t"
  "segment_loop p t w = Inr (True, w') \<Longrightarrow> wild p t"
  "star_loop p t w = Inr (True, w') \<Longrightarrow> \<exists>k \<le> length t. wild p (drop k t)"
proof (induction p t w and p t w and p t w arbitrary: w' and w' and w' rule: match_segment_segment_loop_star_loop.induct)
  case (1 p t work)
  then show ?case by (auto simp: match_segment.simps split: sum.splits)
next
  case (3 c p t work)
  then show ?case by (cases t) (auto split: if_splits)
next
  case (5 p x t work)
  from 5 show ?case
    unfolding ex_drop_Cons by (auto split: sum.splits bool.splits prod.splits)
qed auto

lemma match_segment_exact:
  "match_segment p t w = Inr (b, w') \<Longrightarrow> stars_apart p \<Longrightarrow> b = wild p t"
  "segment_loop p t w = Inr (b, w') \<Longrightarrow> stars_apart p \<Longrightarrow> b = wild p t"
  "star_loop p t w = Inr (b, w') \<Longrightarrow> stars_apart (''*'' # p) \<Longrightarrow> b = (\<exists>k \<le> length t. wild p (drop k t))"
proof (induction p t w and p t w and p t w arbitrary: b w' and b w' and b w' rule: match_segment_segment_loop_star_loop.induct)
  case (1 p t work)
  then show ?case by (auto simp: match_segment.simps split: sum.splits)
next
  case (3 c p t work)
  have "stars_apart p" using stars_apart_tail [OF 3(5)] .
  with 3 show ?case by (cases t) (auto split: if_splits)
next
  case (4 p work)
  then show ?case by (auto simp: wild_Nil_apart)
next
  case (5 p x t work)
  have "stars_apart p" using stars_apart_tail [OF 5(4)] .
  with 5 show ?case
    unfolding ex_drop_Cons by (auto split: sum.splits bool.splits prod.splits)
qed auto

text \<open>
  The verdict of a matcher against the meaning: it never accepts wrongly, and is exact where the stars are apart.
\<close>

definition agrees :: "bool \<Rightarrow> bool \<Rightarrow> bool \<Rightarrow> bool" where
  "agrees apart b meaning \<longleftrightarrow> (b \<longrightarrow> meaning) \<and> (apart \<longrightarrow> b = meaning)"

definition segment_apart :: "string \<Rightarrow> bool" where
  "segment_apart s \<longleftrightarrow> s = ''**'' \<or> stars_apart (rchars s)"

lemma segment_apart_simps [simp]:
  "segment_apart ''**''" "s \<noteq> ''**'' \<Longrightarrow> segment_apart s \<longleftrightarrow> stars_apart (rchars s)"
  by (auto simp: segment_apart_def)

lemma match_segment_agrees: "match_segment p t w = Inr (b, w') \<Longrightarrow> agrees (stars_apart p) b (wild p t)"
  using match_segment_sound(1) match_segment_exact(1) by (cases b) (auto simp: agrees_def)

lemma double_star_loop_agrees:
  assumes "\<And>rs d w b w'. match_segments ps rs d w = Inr (b, w') \<Longrightarrow> agrees ok b (glob_spec ps rs)"
  shows "double_star_loop ps rs d w = Inr (b, w') \<Longrightarrow> agrees ok b (\<exists>k \<le> length rs. glob_spec ps (drop k rs))"
proof (induction rs arbitrary: w b w')
  case Nil
  from Nil assms [of "[]" "d + 1"] show ?case
    by (subst (asm) double_star_loop.simps) (fastforce split: sum.splits prod.splits bool.splits)
next
  case (Cons r rs)
  obtain w1 b1 w2 where m: "match_segments ps (r # rs) (d + 1) w1 = Inr (b1, w2)"
      "b1 \<and> b \<or> \<not> b1 \<and> double_star_loop ps rs d w2 = Inr (b, w')"
    using Cons.prems by (subst (asm) double_star_loop.simps) (fastforce split: sum.splits prod.splits bool.splits)
  from assms [OF m(1)] m(2) Cons.IH show ?case unfolding ex_drop_Cons by (auto simp: agrees_def)
qed

lemma match_segments_agrees:
  "match_segments ps rs d w = Inr (b, w') \<Longrightarrow> agrees (list_all segment_apart ps) b (glob_spec ps rs)"
proof (induction ps arbitrary: rs d w b w')
  case Nil
  then show ?case by (subst (asm) match_segments.simps) (auto simp: agrees_def split: sum.splits)
next
  case (Cons s ps)
  show ?case
  proof (cases "s = ''**''")
    case True
    have "ps = [] \<and> b \<or> (\<exists>w1. double_star_loop ps rs d w1 = Inr (b, w'))"
      using Cons.prems True by (subst (asm) match_segments.simps) (auto split: sum.splits if_splits)
    moreover have "\<exists>k \<le> length rs. drop k rs = []" by (rule exI [of _ "length rs"]) simp
    moreover have "agrees (list_all segment_apart ps) b (\<exists>k \<le> length rs. glob_spec ps (drop k rs))"
      if "double_star_loop ps rs d w1 = Inr (b, w')" for w1
      by (rule double_star_loop_agrees [OF Cons.IH that])
    ultimately show ?thesis using True by (auto simp: agrees_def)
  next
    case False
    show ?thesis
    proof (cases rs)
      case Nil
      then show ?thesis using Cons.prems False by (subst (asm) match_segments.simps) (auto simp: agrees_def split: sum.splits)
    next
      case (Cons r rs')
      obtain w1 b1 w2 where m: "match_segment (rchars s) (rchars r) w1 = Inr (b1, w2)"
          "\<not> b1 \<and> \<not> b \<or> b1 \<and> match_segments ps rs' d w2 = Inr (b, w')"
        using Cons.prems Cons False by (subst (asm) match_segments.simps) (fastforce split: sum.splits prod.splits bool.splits)
      from match_segment_agrees [OF m(1)] m(2) Cons.IH Cons False show ?thesis by (auto simp: agrees_def)
    qed
  qed
qed

text \<open>
  C19: The patterns of scopes. Whatever the pattern, when the matcher accepts a resource the pattern means it, so no pattern
  grants more than it says; and where no segment has two stars next to each other, a verdict of the matcher
  is exactly the meaning.
\<close>

theorem glob_match_meaning:
  assumes "glob_match pattern resource = Inr b"
  shows "(b \<longrightarrow> glob_spec (Split pattern (CHR ''/'')) (resource_segments resource)) \<and>
    (pattern \<noteq> [] \<longrightarrow> list_all segment_apart (Split pattern (CHR ''/'')) \<longrightarrow>
       b = glob_spec (Split pattern (CHR ''/'')) (resource_segments resource))"
proof (cases "pattern = []")
  case False
  then obtain w' where "match_segments (Split pattern (CHR ''/'')) (resource_segments resource) 0 MAX_GLOB_WORK = Inr (b, w')"
    using assms by (auto simp: glob_match_def resource_segments_def map_sum_def split: sum.splits if_splits)
  from match_segments_agrees [OF this] show ?thesis by (simp add: agrees_def)
qed (use assms in \<open>simp add: glob_match_def\<close>)

lemma glob_match_examples:
  "glob_match ''data/*'' ''data/users'' = Inr True" "glob_match ''data/*'' ''data/users/1'' = Inr False"
  "glob_match ''a/**/c'' ''a/b/d/c'' = Inr True" "glob_match ''data/[ab]'' ''data/a'' = Inl InvalidPattern"
  by code_simp+

text \<open>Two stars at the end of a segment do not match the empty rest, although their meaning does.\<close>

lemma adjacent_stars_miss: "glob_match ''log**'' ''log'' = Inr False" "glob_spec [''log**''] [''log'']"
  by code_simp+

theorem glob_match_meaning_witness:
  "glob_match ''a/**/c'' ''a/b/d/c'' = Inr True \<and> glob_spec (Split ''a/**/c'' (CHR ''/'')) (resource_segments ''a/b/d/c'')"
  using glob_match_meaning [OF glob_match_examples(3)] glob_match_examples(3) by blast

section \<open>The budget\<close>

definition no_brackets :: "rchar list \<Rightarrow> bool" where
  "no_brackets p \<longleftrightarrow> list_all (\<lambda>c. c \<notin> set [''['', '']'', ''{'', ''}'']) p"

definition usual_segment :: "string \<Rightarrow> bool" where
  "usual_segment s \<longleftrightarrow> s = ''**'' \<or> no_brackets (rchars s) \<and> count_list (rchars s) ''*'' \<le> 1"

definition usual_pattern :: "string \<Rightarrow> bool" where
  "usual_pattern pattern \<longleftrightarrow> list_all usual_segment (Split pattern (CHR ''/'')) \<and> count_list (Split pattern (CHR ''/'')) ''**'' \<le> 1"

text \<open>A matcher answers, at a cost of at most \<open>n\<close>.\<close>

definition answers :: "GlobError + bool \<times> int \<Rightarrow> int \<Rightarrow> nat \<Rightarrow> bool" where
  "answers r w n \<longleftrightarrow> (\<exists>b w'. r = Inr (b, w') \<and> w \<le> w' + n)"

lemma answers_mono: "answers r w m \<Longrightarrow> m \<le> n \<Longrightarrow> answers r w n"
  by (fastforce simp: answers_def)

lemma no_brackets_Cons [simp]: "no_brackets (c # p) \<longleftrightarrow> c \<notin> set [''['', '']'', ''{'', ''}''] \<and> no_brackets p"
  by (simp add: no_brackets_def)

lemma segment_loop_starless:
  "no_brackets p \<Longrightarrow> ''*'' \<notin> set p \<Longrightarrow> \<exists>b. segment_loop p t w = Inr (b, w)"
  by (induction p arbitrary: t) (auto split: list.splits)

lemma star_loop_answers:
  assumes "no_brackets p" "''*'' \<notin> set p"
  shows "int (2 * length t) \<le> w \<Longrightarrow> answers (star_loop p t w) w (2 * length t)"
proof (induction t arbitrary: w)
  case (Cons x t)
  obtain b where "segment_loop p (x # t) (w - 2) = Inr (b, w - 2)" using segment_loop_starless [OF assms] by blast
  then have "match_segment p (x # t) (w - 1) = Inr (b, w - 2)"
    using Cons.prems by (auto simp: match_segment.simps burn_work_def)
  moreover have "answers (star_loop p t (w - 2)) (w - 2) (2 * length t)" using Cons.IH [of "w - 2"] Cons.prems by simp
  ultimately show ?case using Cons.prems by (cases b) (auto simp: burn_work_def answers_def)
qed (simp add: answers_def)

lemma segment_loop_answers:
  "no_brackets p \<Longrightarrow> count_list p ''*'' \<le> 1 \<Longrightarrow> int (2 * length t) \<le> w \<Longrightarrow> answers (segment_loop p t w) w (2 * length t)"
proof (induction p arbitrary: t)
  case (Cons c p)
  show ?case
  proof (cases "c = ''*''")
    case True
    then have "''*'' \<notin> set p" using Cons.prems(2) by (simp add: count_list_0_iff)
    then show ?thesis using True Cons.prems star_loop_answers [of p t w] by simp
  next
    case False
    have "answers (segment_loop p t' w) w (2 * length t)" if "t = x # t'" for x t'
      using Cons.IH [of t'] Cons.prems False that by (auto intro: answers_mono)
    then show ?thesis using False Cons.prems by (cases t) (auto simp: answers_def)
  qed
qed (simp add: answers_def)

lemma match_segment_answers:
  "no_brackets p \<Longrightarrow> count_list p ''*'' \<le> 1 \<Longrightarrow> int (2 * length t + 1) \<le> w \<Longrightarrow> answers (match_segment p t w) w (2 * length t + 1)"
  using segment_loop_answers [of p t "w - 1"] by (auto simp: match_segment.simps burn_work_def answers_def)

text \<open>The costs of matching segments without \<open>**\<close>, of the loop after a \<open>**\<close>, and of both.\<close>

fun cost_plain :: "string list \<Rightarrow> nat" where
  "cost_plain [] = 1"
| "cost_plain (r # rs) = 2 + 2 * length (rchars r) + cost_plain rs"

fun cost_loop :: "string list \<Rightarrow> nat" where
  "cost_loop [] = 1 + cost_plain []"
| "cost_loop (r # rs) = 1 + cost_plain (r # rs) + cost_loop rs"

lemma cost_plain_positive: "1 \<le> cost_plain rs"
  by (induction rs) auto

lemma plain_answers:
  "list_all usual_segment ps \<Longrightarrow> ''**'' \<notin> set ps \<Longrightarrow> int (cost_plain rs) \<le> w \<Longrightarrow> answers (match_segments ps rs d w) w (cost_plain rs)"
proof (induction ps arbitrary: rs w)
  case Nil
  then show ?case using cost_plain_positive [of rs]
    by (subst match_segments.simps) (auto simp: burn_work_def answers_def)
next
  case (Cons s ps)
  have s: "no_brackets (rchars s)" "count_list (rchars s) ''*'' \<le> 1" "s \<noteq> ''**''" using Cons.prems by (auto simp: usual_segment_def)
  show ?case
  proof (cases rs)
    case Nil
    then show ?thesis using Cons.prems s(3) by (subst match_segments.simps) (auto simp: burn_work_def answers_def)
  next
    case (Cons r rs')
    have w: "2 + 2 * int (length (rchars r)) + int (cost_plain rs') \<le> w" using \<open>int (cost_plain rs) \<le> w\<close> Cons by simp
    then obtain b w1 where m: "match_segment (rchars s) (rchars r) (w - 1) = Inr (b, w1)" "w - 1 \<le> w1 + (2 * int (length (rchars r)) + 1)"
      using match_segment_answers [OF s(1,2), of "rchars r" "w - 1"] by (auto simp: answers_def)
    have "answers (match_segments ps rs' d w1) w1 (cost_plain rs')" using Cons.IH [of rs' w1] Cons.prems m(2) w by auto
    then show ?thesis using m w s(3) Cons by (subst match_segments.simps) (cases b; auto simp: burn_work_def answers_def)
  qed
qed

lemma double_star_loop_answers:
  assumes "list_all usual_segment ps" "''**'' \<notin> set ps"
  shows "int (cost_loop rs) \<le> w \<Longrightarrow> answers (double_star_loop ps rs d w) w (cost_loop rs)"
proof (induction rs arbitrary: w)
  case Nil
  then have "answers (match_segments ps [] (d + 1) (w - 1)) (w - 1) 1" using plain_answers [OF assms, of "[]" "w - 1"] by simp
  then show ?case using Nil by (subst double_star_loop.simps) (auto simp: burn_work_def answers_def split: bool.splits)
next
  case (Cons r rs)
  have "answers (match_segments ps (r # rs) (d + 1) (w - 1)) (w - 1) (cost_plain (r # rs))"
    using plain_answers [OF assms, of "r # rs" "w - 1"] Cons.prems by simp
  then obtain b w1 where m: "match_segments ps (r # rs) (d + 1) (w - 1) = Inr (b, w1)" "w - 1 \<le> w1 + int (cost_plain (r # rs))"
    by (auto simp: answers_def)
  have "answers (double_star_loop ps rs d w1) w1 (cost_loop rs)" using Cons.IH [of w1] m(2) Cons.prems by simp
  then show ?case using m Cons.prems by (subst double_star_loop.simps) (cases b; auto simp: burn_work_def answers_def)
qed

definition cost_all :: "string list \<Rightarrow> nat" where
  "cost_all rs = 1 + cost_plain rs + cost_loop rs"

lemma segments_answer:
  "list_all usual_segment ps \<Longrightarrow> count_list ps ''**'' \<le> 1 \<Longrightarrow> d < MAX_DOUBLE_STAR_DEPTH \<Longrightarrow> int (cost_all rs) \<le> w \<Longrightarrow>
   answers (match_segments ps rs d w) w (cost_all rs)"
proof (induction ps arbitrary: rs w)
  case Nil
  then show ?case using plain_answers [of "[]" rs w d] by (auto simp: cost_all_def intro: answers_mono)
next
  case (Cons s ps)
  show ?case
  proof (cases "s = ''**''")
    case True
    have "''**'' \<notin> set ps" using Cons.prems(2) True by (simp add: count_list_0_iff)
    then have "answers (double_star_loop ps rs d (w - 1)) (w - 1) (cost_loop rs)"
      using double_star_loop_answers [of ps rs "w - 1" d] Cons.prems by (simp add: cost_all_def)
    then show ?thesis using True Cons.prems by (subst match_segments.simps) (auto simp: burn_work_def answers_def cost_all_def)
  next
    case s: False
    then have u: "no_brackets (rchars s)" "count_list (rchars s) ''*'' \<le> 1" using Cons.prems by (auto simp: usual_segment_def)
    show ?thesis
    proof (cases rs)
      case Nil
      then show ?thesis using Cons.prems s by (subst match_segments.simps) (auto simp: burn_work_def answers_def cost_all_def)
    next
      case (Cons r rs')
      have w: "2 + 2 * int (length (rchars r)) + int (cost_all rs') \<le> w" using \<open>int (cost_all rs) \<le> w\<close> Cons by (simp add: cost_all_def)
      then obtain b w1 where m: "match_segment (rchars s) (rchars r) (w - 1) = Inr (b, w1)" "w - 1 \<le> w1 + (2 * int (length (rchars r)) + 1)"
        using match_segment_answers [OF u, of "rchars r" "w - 1"] by (auto simp: answers_def)
      have "answers (match_segments ps rs' d w1) w1 (cost_all rs')" using Cons.IH [of rs' w1] Cons.prems s m(2) w by auto
      then show ?thesis using m w s Cons by (subst match_segments.simps) (cases b; auto simp: burn_work_def answers_def cost_all_def)
    qed
  qed
qed

lemma cost_plain_bound: "cost_plain rs \<le> 1 + 2 * length rs + 2 * sum_list (map length rs)"
proof (induction rs)
  case (Cons r rs)
  with rchars_length [of r] show ?case by simp
qed simp

lemma cost_loop_bound: "cost_loop rs \<le> (length rs + 1) * (1 + cost_plain rs)"
proof (induction rs)
  case (Cons r rs)
  have "(length rs + 1) * (1 + cost_plain rs) \<le> (length rs + 1) * (1 + cost_plain (r # rs))" by (intro mult_le_mono) simp_all
  with Cons show ?case by simp
qed simp

lemma Split_lengths: "length (Split s c) + sum_list (map length (Split s c)) = length s + 1"
proof (induction s)
  case (Cons x s)
  then show ?case by (cases "Split s c") auto
qed simp

lemma cost_all_bound:
  assumes "length r \<le> 178"
  shows "int (cost_all (resource_segments r)) \<le> MAX_GLOB_WORK"
proof -
  let ?rs = "resource_segments r"
  have total: "length ?rs + sum_list (map length ?rs) \<le> 179"
    using Split_lengths [of r "CHR ''/''"] assms by (simp add: resource_segments_def)
  then have plain: "cost_plain ?rs \<le> 359" using cost_plain_bound [of ?rs] by simp
  have "(length ?rs + 1) * (1 + cost_plain ?rs) \<le> 180 * 360" using total plain by (intro mult_le_mono) simp_all
  then have "cost_loop ?rs \<le> 180 * 360" using cost_loop_bound [of ?rs] by simp
  then show ?thesis using plain by (simp add: cost_all_def MAX_GLOB_WORK_def)
qed

lemma usual_segment_apart: "usual_segment s \<Longrightarrow> segment_apart s"
proof -
  have "count_list p ''*'' \<le> 1 \<Longrightarrow> stars_apart p" for p by (induction p rule: stars_apart.induct) (auto split: if_splits)
  then show "usual_segment s \<Longrightarrow> segment_apart s" by (auto simp: usual_segment_def segment_apart_def)
qed

text \<open>
  C35: The budget is enough for the usual patterns. A pattern without brackets, with at most one star in a segment and at most one
  segment \<open>**\<close>, is decided for every resource of up to 178 bytes, and the answer is its meaning.
\<close>

theorem glob_match_decides:
  assumes "pattern \<noteq> []" "usual_pattern pattern" "length resource \<le> 178"
  shows "glob_match pattern resource = Inr (glob_spec (Split pattern (CHR ''/'')) (resource_segments resource))"
proof -
  have usual: "list_all usual_segment (Split pattern (CHR ''/''))" "count_list (Split pattern (CHR ''/'')) ''**'' \<le> 1"
    using assms(2) by (auto simp: usual_pattern_def)
  obtain b w' where m: "match_segments (Split pattern (CHR ''/'')) (resource_segments resource) 0 MAX_GLOB_WORK = Inr (b, w')"
    using segments_answer [OF usual _ cost_all_bound [OF assms(3)], of 0] by (auto simp: answers_def MAX_DOUBLE_STAR_DEPTH_def)
  have "b = glob_spec (Split pattern (CHR ''/'')) (resource_segments resource)"
    using match_segments_agrees [OF m] usual(1) by (auto simp: agrees_def list_all_iff usual_segment_apart)
  then show ?thesis using m assms(1) by (simp add: glob_match_def resource_segments_def)
qed

theorem glob_match_decides_witness:
  "usual_pattern ''tenant/*/**/log-?'' \<and>
   glob_match ''tenant/*/**/log-?'' ''tenant/a/x/y/log-1'' =
     Inr (glob_spec (Split ''tenant/*/**/log-?'' (CHR ''/'')) (resource_segments ''tenant/a/x/y/log-1''))"
proof -
  have "usual_pattern ''tenant/*/**/log-?''" by code_simp
  then show ?thesis using glob_match_decides [of "''tenant/*/**/log-?''" "''tenant/a/x/y/log-1''"] by simp
qed

end
