(* ===== verification/Scope_Service.thy ===== *)
theory Scope_Service
  imports Scope_Glob Passport_Grpc
begin

text \<open>
  The scope evaluator (\<^verbatim>\<open>s1/scope-evaluator-runtime/src\<close>): the cache of passports, the evaluation of scopes with its circuit
  breaker, the client of the passport service, the gRPC handlers and the start.

  Other requests run between the steps of a lookup, while no lock is held: \<open>fe_between\<close>, \<open>fe_during\<close> and \<open>fe_after\<close>.
\<close>

section \<open>Types\<close>

record ScopeEntry =
  se_scope_id :: string
  se_action_class :: string
  se_resource_pattern :: string
  se_context_constraints :: strmap
  se_expires_ts :: int
  se_is_escalation :: bool

record ScopePassport =
  sp_passport_id :: string
  sp_passport_type :: string
  sp_expires_ts :: int
  sp_scopes :: "ScopeEntry list"

record EvaluateScopeRequest =
  er_evaluation_id :: string
  er_agent_id :: string
  er_action_class :: string
  er_resource :: string
  er_context :: strmap

record ScopeCheck =
  ck_evaluation_id :: string
  ck_action_class :: string
  ck_resource :: string
  ck_context :: strmap

record ScopeMatch =
  sm_scope_id :: string
  sm_action_class :: string
  sm_resource_pattern :: string
  sm_is_escalation :: bool
  sm_scope_expires_ts :: int

record ScopeMiss =
  ss_scope_id :: string
  ss_action_class :: string
  ss_miss_reason :: string

record EvaluateScopeResponse =
  ep_evaluation_id :: string
  ep_agent_id :: string
  ep_in_scope :: bool
  ep_matches :: "ScopeMatch list"
  ep_misses :: "ScopeMiss list"
  ep_passport_id :: string
  ep_passport_type :: string
  ep_passport_expires_ts :: int
  ep_passport_expired :: bool
  ep_cache_hit :: bool
  ep_evaluated_ts :: int

record GetAgentScopeSetResponse =
  gs_agent_id :: string
  gs_passport_id :: string
  gs_passport_type :: string
  gs_scopes :: "ScopeEntry list"
  gs_cache_hit :: bool
  gs_passport_expires_ts :: int

section \<open>The cache\<close>

text \<open>Instants of the monotonic clock are nanoseconds. The hash map is an association list.\<close>

record CachedPassport =
  cp_passport :: ScopePassport
  cp_cached_at :: instant

record PassportCache =
  pc_entries :: "(string \<times> CachedPassport) list"
  pc_lru :: "string list"
  pc_max_entries :: nat
  pc_ttl :: duration

definition new_passport_cache :: "nat \<Rightarrow> int \<Rightarrow> PassportCache" where
  "new_passport_cache max_entries ttl_seconds =
     \<lparr>pc_entries = [], pc_lru = [], pc_max_entries = max_entries, pc_ttl = ttl_seconds * Second\<rparr>"

definition cache_remove :: "string \<Rightarrow> PassportCache \<Rightarrow> bool \<times> PassportCache" where
  "cache_remove agent_id c =
     (if alist_get (pc_entries c) agent_id = None then (False, c)
      else (True, c\<lparr>pc_entries := alist_remove (pc_entries c) agent_id, pc_lru := filter (\<lambda>k. k \<noteq> agent_id) (pc_lru c)\<rparr>))"

definition cache_touch :: "string \<Rightarrow> PassportCache \<Rightarrow> PassportCache" where
  "cache_touch agent_id c = c\<lparr>pc_lru := filter (\<lambda>k. k \<noteq> agent_id) (pc_lru c) @ [agent_id]\<rparr>"

definition cache_get :: "instant \<Rightarrow> string \<Rightarrow> PassportCache \<Rightarrow> ScopePassport option \<times> PassportCache" where
  "cache_get now agent_id c =
     (case alist_get (pc_entries c) agent_id of
        None \<Rightarrow> (None, c)
      | Some entry \<Rightarrow>
          if now - cp_cached_at entry > pc_ttl c then (None, snd (cache_remove agent_id c))
          else (Some (cp_passport entry), cache_touch agent_id c))"

text \<open>The loop that drops the oldest entries; it ends because it shortens the queue.\<close>

fun evict :: "nat \<Rightarrow> (string \<times> CachedPassport) list \<Rightarrow> string list \<Rightarrow> (string \<times> CachedPassport) list \<times> string list" where
  "evict max_entries entries [] = (entries, [])"
| "evict max_entries entries (oldest # lru) =
     (if length entries > max_entries then evict max_entries (alist_remove entries oldest) lru
      else (entries, oldest # lru))"

definition cache_insert :: "instant \<Rightarrow> string \<Rightarrow> ScopePassport \<Rightarrow> PassportCache \<Rightarrow> PassportCache" where
  "cache_insert now agent_id passport c =
     (let c1 = (if alist_get (pc_entries c) agent_id \<noteq> None then snd (cache_remove agent_id c) else c);
          (entries, lru) = evict (pc_max_entries c1)
            (alist_put (pc_entries c1) agent_id \<lparr>cp_passport = passport, cp_cached_at = now\<rparr>) (pc_lru c1 @ [agent_id])
      in c1\<lparr>pc_entries := entries, pc_lru := lru\<rparr>)"

definition cache_invalidate :: "string \<Rightarrow> PassportCache \<Rightarrow> bool \<times> PassportCache" where
  "cache_invalidate agent_id c = cache_remove agent_id c"

definition cache_len :: "PassportCache \<Rightarrow> nat" where
  "cache_len c = length (pc_entries c)"

section \<open>The service\<close>

datatype ScopeError = ScopeInvalidArgument | ScopeNotFound | ScopeUnavailable

record ScopeEvaluatorService =
  sv_cache :: PassportCache
  sv_consecutive_failures :: nat
  sv_is_open :: bool

definition new_scope_service :: "nat \<Rightarrow> int \<Rightarrow> ScopeEvaluatorService" where
  "new_scope_service cache_max_entries cache_ttl_seconds =
     \<lparr>sv_cache = new_passport_cache cache_max_entries cache_ttl_seconds, sv_consecutive_failures = 0, sv_is_open = False\<rparr>"

text \<open>What one lookup meets: the clock, the other requests, and the answer of the passport client.\<close>

record fetch_env =
  fe_now :: instant
  fe_between :: "ScopeEvaluatorService \<Rightarrow> ScopeEvaluatorService"
  fe_during :: "ScopeEvaluatorService \<Rightarrow> ScopeEvaluatorService"
  fe_reply :: "ScopeError + ScopePassport"
  fe_after :: "ScopeEvaluatorService \<Rightarrow> ScopeEvaluatorService"
  fe_inserted :: instant

definition get_or_fetch_passport :: "nat \<Rightarrow> fetch_env \<Rightarrow> string \<Rightarrow> ScopeEvaluatorService \<Rightarrow>
    (ScopeError + ScopePassport \<times> bool) \<times> ScopeEvaluatorService" where
  "get_or_fetch_passport threshold e agent_id S =
     (case cache_get (fe_now e) agent_id (sv_cache S) of
        (Some p, c) \<Rightarrow> (Inr (p, True), S\<lparr>sv_cache := c\<rparr>)
      | (None, c) \<Rightarrow>
          (let S1 = fe_between e (S\<lparr>sv_cache := c\<rparr>)
           in if sv_is_open S1 then (Inl ScopeUnavailable, S1)
              else
                (let S2 = fe_during e S1
                 in case fe_reply e of
                      Inr passport \<Rightarrow>
                        (let S3 = fe_after e (S2\<lparr>sv_consecutive_failures := 0, sv_is_open := False\<rparr>)
                         in (Inr (passport, False), S3\<lparr>sv_cache := cache_insert (fe_inserted e) agent_id passport (sv_cache S3)\<rparr>))
                    | Inl err \<Rightarrow>
                        (let failures = sv_consecutive_failures S2 + 1
                         in (Inl (if err = ScopeNotFound then ScopeNotFound else ScopeUnavailable),
                             S2\<lparr>sv_consecutive_failures := failures,
                                sv_is_open := (if failures \<ge> threshold then True else sv_is_open S2)\<rparr>)))))"

definition context_matches :: "strmap \<Rightarrow> strmap \<Rightarrow> bool" where
  "context_matches constraints request =
     (if constraints = [] then True
      else if length request \<noteq> length constraints then False
      else list_all (\<lambda>(k, v). alist_get request k = Some v) constraints)"

definition miss :: "ScopeEntry \<Rightarrow> string \<Rightarrow> ScopeMiss" where
  "miss scope reason = \<lparr>ss_scope_id = se_scope_id scope, ss_action_class = se_action_class scope, ss_miss_reason = reason\<rparr>"

text \<open>The body of the loop: the scope matches, or misses for a reason.\<close>

definition check_scope :: "int \<Rightarrow> EvaluateScopeRequest \<Rightarrow> ScopeEntry \<Rightarrow> ScopeMiss + ScopeMatch" where
  "check_scope now request scope =
     (if se_expires_ts scope \<le> now then Inl (miss scope ''SCOPE_EXPIRED'')
      else if se_action_class scope \<noteq> er_action_class request then Inl (miss scope ''ACTION_CLASS_MISMATCH'')
      else
        (case glob_match (se_resource_pattern scope) (er_resource request) of
           Inr False \<Rightarrow> Inl (miss scope ''RESOURCE_PATTERN_NO_MATCH'')
         | Inl _ \<Rightarrow> Inl (miss scope ''INVALID_PATTERN'')
         | Inr True \<Rightarrow>
             if \<not> context_matches (se_context_constraints scope) (er_context request)
             then Inl (miss scope ''CONTEXT_CONSTRAINT_FAILED'')
             else Inr \<lparr>sm_scope_id = se_scope_id scope, sm_action_class = se_action_class scope,
               sm_resource_pattern = se_resource_pattern scope, sm_is_escalation = se_is_escalation scope,
               sm_scope_expires_ts = se_expires_ts scope\<rparr>))"

fun check_scopes :: "int \<Rightarrow> EvaluateScopeRequest \<Rightarrow> ScopeEntry list \<Rightarrow> ScopeMatch list \<times> ScopeMiss list" where
  "check_scopes now request [] = ([], [])"
| "check_scopes now request (scope # scopes) =
     (let (matches, misses) = check_scopes now request scopes
      in case check_scope now request scope of
           Inr m \<Rightarrow> (m # matches, misses)
         | Inl m \<Rightarrow> (matches, m # misses))"

definition evaluate_scope :: "nat \<Rightarrow> int \<Rightarrow> fetch_env \<Rightarrow> EvaluateScopeRequest \<Rightarrow> ScopeEvaluatorService \<Rightarrow>
    (ScopeError + EvaluateScopeResponse) \<times> ScopeEvaluatorService" where
  "evaluate_scope threshold now e request S =
     (if er_evaluation_id request = [] \<or> er_agent_id request = [] \<or> er_action_class request = [] \<or> er_resource request = []
      then (Inl ScopeInvalidArgument, S)
      else
        (case get_or_fetch_passport threshold e (er_agent_id request) S of
           (Inl err, S') \<Rightarrow> (Inl err, S')
         | (Inr (passport, cache_hit), S') \<Rightarrow>
             (let passport_expired = (sp_expires_ts passport \<le> now);
                  (matches, misses) = check_scopes now request (sp_scopes passport)
              in (Inr \<lparr>ep_evaluation_id = er_evaluation_id request, ep_agent_id = er_agent_id request,
                   ep_in_scope = (\<not> passport_expired \<and> matches \<noteq> []), ep_matches = matches, ep_misses = misses,
                   ep_passport_id = sp_passport_id passport, ep_passport_type = sp_passport_type passport,
                   ep_passport_expires_ts = sp_expires_ts passport, ep_passport_expired = passport_expired,
                   ep_cache_hit = cache_hit, ep_evaluated_ts = now\<rparr>, S'))))"

text \<open>The \<open>n\<close>-th check of a batch reads its own clock and meets its own answers.\<close>

fun evaluate_checks :: "nat \<Rightarrow> (nat \<Rightarrow> int \<times> fetch_env) \<Rightarrow> nat \<Rightarrow> string \<Rightarrow> ScopeCheck list \<Rightarrow> ScopeEvaluatorService \<Rightarrow>
    (ScopeError + EvaluateScopeResponse list) \<times> ScopeEvaluatorService" where
  "evaluate_checks threshold env n agent_id [] S = (Inr [], S)"
| "evaluate_checks threshold env n agent_id (check # checks) S =
     (case evaluate_scope threshold (fst (env n)) (snd (env n))
        \<lparr>er_evaluation_id = ck_evaluation_id check, er_agent_id = agent_id, er_action_class = ck_action_class check,
         er_resource = ck_resource check, er_context = ck_context check\<rparr> S of
        (Inl err, S') \<Rightarrow> (Inl err, S')
      | (Inr r, S') \<Rightarrow>
          (case evaluate_checks threshold env (n + 1) agent_id checks S' of
             (Inl err, S'') \<Rightarrow> (Inl err, S'')
           | (Inr rs, S'') \<Rightarrow> (Inr (r # rs), S'')))"

definition evaluate_scope_batch :: "nat \<Rightarrow> (nat \<Rightarrow> int \<times> fetch_env) \<Rightarrow> string \<Rightarrow> ScopeCheck list \<Rightarrow> ScopeEvaluatorService \<Rightarrow>
    (ScopeError + EvaluateScopeResponse list) \<times> ScopeEvaluatorService" where
  "evaluate_scope_batch threshold env agent_id checks S =
     (if agent_id = [] then (Inl ScopeInvalidArgument, S) else evaluate_checks threshold env 0 agent_id checks S)"

definition get_agent_scope_set :: "nat \<Rightarrow> fetch_env \<Rightarrow> string \<Rightarrow> ScopeEvaluatorService \<Rightarrow>
    (ScopeError + GetAgentScopeSetResponse) \<times> ScopeEvaluatorService" where
  "get_agent_scope_set threshold e agent_id S =
     (if agent_id = [] then (Inl ScopeInvalidArgument, S)
      else
        (case get_or_fetch_passport threshold e agent_id S of
           (Inl err, S') \<Rightarrow> (Inl err, S')
         | (Inr (passport, cache_hit), S') \<Rightarrow>
             (Inr \<lparr>gs_agent_id = agent_id, gs_passport_id = sp_passport_id passport, gs_passport_type = sp_passport_type passport,
                gs_scopes = sp_scopes passport, gs_cache_hit = cache_hit, gs_passport_expires_ts = sp_expires_ts passport\<rparr>, S')))"

definition invalidate_cache :: "string \<Rightarrow> ScopeEvaluatorService \<Rightarrow> (ScopeError + bool) \<times> ScopeEvaluatorService" where
  "invalidate_cache agent_id S =
     (if agent_id = [] then (Inl ScopeInvalidArgument, S)
      else (let (removed, c) = cache_invalidate agent_id (sv_cache S) in (Inr removed, S\<lparr>sv_cache := c\<rparr>)))"

definition cache_size :: "ScopeEvaluatorService \<Rightarrow> nat" where
  "cache_size S = cache_len (sv_cache S)"

section \<open>The client of the passport service\<close>

definition passport_from_proto :: "pbPassport \<Rightarrow> ScopePassport" where
  "passport_from_proto p = \<lparr>sp_passport_id = pb_PassportId p, sp_passport_type = pb_PassportType p, sp_expires_ts = pb_ExpiresTs p,
     sp_scopes = map (\<lambda>s. \<lparr>se_scope_id = px_ScopeId s, se_action_class = px_ActionClass s,
       se_resource_pattern = px_ResourcePattern s,
       se_context_constraints = (case px_ContextConstraints s of None \<Rightarrow> [] | Some m \<Rightarrow> m),
       se_expires_ts = px_ExpiresTs s, se_is_escalation = px_IsEscalation s\<rparr>) (pb_ScopeSet p)\<rparr>"

text \<open>The answer of the service is a status, or a message whose passport may be missing.\<close>

definition grpc_get_agent_passport :: "('m, pbPassport option) rpc \<Rightarrow> ScopeError + ScopePassport" where
  "grpc_get_agent_passport resp =
     (case resp of
        Inl (c, m) \<Rightarrow> Inl (if c = NotFound then ScopeNotFound else ScopeUnavailable)
      | Inr None \<Rightarrow> Inl ScopeNotFound
      | Inr (Some p) \<Rightarrow> Inr (passport_from_proto p))"

definition stub_get_agent_passport :: "string \<Rightarrow> ScopeError + ScopePassport" where
  "stub_get_agent_passport agent_id = Inl ScopeNotFound"

section \<open>Handlers and start\<close>

text \<open>Handlers return the labels under which they count evaluations; durations are not modelled.\<close>

fun map_scope_err :: "ScopeError \<Rightarrow> code \<times> string" where
  "map_scope_err ScopeInvalidArgument = (InvalidArgument, ''invalid_argument'')"
| "map_scope_err ScopeNotFound = (NotFound, ''not_found'')"
| "map_scope_err ScopeUnavailable = (Unavailable, ''unavailable'')"

definition eval_label :: "EvaluateScopeResponse \<Rightarrow> string" where
  "eval_label r = (if ep_in_scope r then ''permit'' else ''deny'')"

definition record_eval :: "ScopeError + EvaluateScopeResponse \<Rightarrow> string list" where
  "record_eval out = (case out of Inr r \<Rightarrow> [eval_label r] | Inl _ \<Rightarrow> [''deny''])"

definition rpc_EvaluateScope :: "nat \<Rightarrow> int \<Rightarrow> fetch_env \<Rightarrow> EvaluateScopeRequest \<Rightarrow> ScopeEvaluatorService \<Rightarrow>
    string list \<times> (string, EvaluateScopeResponse) rpc \<times> ScopeEvaluatorService" where
  "rpc_EvaluateScope threshold now e r S =
     (let (out, S') = evaluate_scope threshold now e r S in (record_eval out, map_sum map_scope_err id out, S'))"

definition rpc_EvaluateScopeBatch :: "nat \<Rightarrow> (nat \<Rightarrow> int \<times> fetch_env) \<Rightarrow> string \<Rightarrow> ScopeCheck list \<Rightarrow> ScopeEvaluatorService \<Rightarrow>
    string list \<times> (string, string \<times> EvaluateScopeResponse list) rpc \<times> ScopeEvaluatorService" where
  "rpc_EvaluateScopeBatch threshold env agent_id checks S =
     (let (out, S') = evaluate_scope_batch threshold env agent_id checks S
      in (case out of Inr rows \<Rightarrow> map eval_label rows | Inl _ \<Rightarrow> [''deny''], map_sum map_scope_err (Pair agent_id) out, S'))"

definition rpc_GetAgentScopeSet :: "nat \<Rightarrow> fetch_env \<Rightarrow> string \<Rightarrow> ScopeEvaluatorService \<Rightarrow>
    (string, GetAgentScopeSetResponse) rpc \<times> ScopeEvaluatorService" where
  "rpc_GetAgentScopeSet threshold e agent_id S = map_prod (map_sum map_scope_err id) id (get_agent_scope_set threshold e agent_id S)"

definition rpc_InvalidateCache :: "string \<Rightarrow> ScopeEvaluatorService \<Rightarrow> (string, string \<times> bool) rpc \<times> ScopeEvaluatorService" where
  "rpc_InvalidateCache agent_id S = map_prod (map_sum map_scope_err (Pair agent_id)) id (invalidate_cache agent_id S)"

definition parse_or :: "nat \<Rightarrow> rust_env \<Rightarrow> string \<Rightarrow> int \<Rightarrow> int" where
  "parse_or w env key dflt =
     (case env key of None \<Rightarrow> dflt | Some v \<Rightarrow> (case parse_unsigned w v of None \<Rightarrow> dflt | Some n \<Rightarrow> n))"

text \<open>The passport client of the process: connected to an address, or the stub.\<close>

datatype passport_backend = GrpcBackend string | StubBackend

record scope_process =
  sx_grpc_port :: int
  sx_health_port :: int
  sx_metrics_port :: int
  sx_threshold :: nat
  sx_backend :: passport_backend
  sx_service :: ScopeEvaluatorService

definition choose_backend :: "rust_env \<Rightarrow> (string \<Rightarrow> bool) \<Rightarrow> passport_backend" where
  "choose_backend env connects =
     (case env ''ARE_SCOPE_PASSPORT_GRPC_ADDR'' of
        None \<Rightarrow> StubBackend
      | Some addr \<Rightarrow>
          if TrimSpace addr \<noteq> [] \<and> connects (TrimSpace addr) then GrpcBackend (TrimSpace addr) else StubBackend)"

definition scope_start :: "rust_env \<Rightarrow> (string \<Rightarrow> bool) \<Rightarrow> scope_process" where
  "scope_start env connects = \<lparr>
     sx_grpc_port = parse_or 16 env ''ARE_SCOPE_GRPC_PORT'' 9097,
     sx_health_port = parse_or 16 env ''ARE_SCOPE_HEALTH_PORT'' 8080,
     sx_metrics_port = parse_or 16 env ''ARE_SCOPE_METRICS_PORT'' 8088,
     sx_threshold = nat (parse_or 32 env ''ARE_SCOPE_PASSPORT_CIRCUIT_THRESHOLD'' 5),
     sx_backend = choose_backend env connects,
     sx_service = new_scope_service (nat (parse_or 64 env ''ARE_SCOPE_CACHE_MAX_ENTRIES'' 500))
       (parse_or 64 env ''ARE_SCOPE_CACHE_TTL_SECONDS'' 60)\<rparr>"

end
