(* ===== verification/Scope_Correct.thy ===== *)
theory Scope_Correct
  imports Scope_Service
begin

text \<open>
  What the scope evaluator guarantees: the cache keeps its shape and its bound, a grant rests on a passport that was fetched
  recently and covers the request, and the circuit breaker, once open, stays open.
\<close>

section \<open>The cache\<close>

definition cache_ok :: "PassportCache \<Rightarrow> bool" where
  "cache_ok c \<longleftrightarrow> distinct (map fst (pc_entries c)) \<and> distinct (pc_lru c) \<and> set (pc_lru c) = fst ` set (pc_entries c) \<and>
     length (pc_entries c) \<le> pc_max_entries c"

lemma cache_ok_new: "cache_ok (new_passport_cache n ttl)"
  by (simp add: cache_ok_def new_passport_cache_def)

lemma cache_ok_remove: "cache_ok c \<Longrightarrow> cache_ok (snd (cache_remove a c))"
  unfolding cache_ok_def cache_remove_def
  using length_alist_remove [of "pc_entries c" a] keys_alist_remove [of "pc_entries c" a]
  by (auto simp: distinct_alist_remove simp del: keys_alist_remove)

lemma cache_ok_touch: "cache_ok c \<Longrightarrow> a \<in> fst ` set (pc_entries c) \<Longrightarrow> cache_ok (cache_touch a c)"
  by (auto simp: cache_ok_def cache_touch_def)

lemma cache_ok_get: "cache_ok c \<Longrightarrow> cache_ok (snd (cache_get now a c))"
  using cache_ok_remove [of c a] cache_ok_touch [of c a] alist_get_None [of "pc_entries c" a]
  by (auto simp: cache_get_def split: option.splits)

lemma evict_ok:
  "evict n es lru = (es', lru') \<Longrightarrow> distinct (map fst es) \<Longrightarrow> distinct lru \<Longrightarrow> set lru = fst ` set es \<Longrightarrow>
   distinct (map fst es') \<and> set lru' = fst ` set es' \<and> length es' \<le> n \<and> suffix lru' lru \<and>
   (\<forall>k. alist_get es' k = (if k \<in> set lru' then alist_get es k else None))"
proof (induction n es lru rule: evict.induct)
  case (1 n es)
  then show ?case by (auto simp: alist_get_def)
next
  case (2 n es old lru)
  show ?case
  proof (cases "length es > n")
    case True
    have "set lru = fst ` set (alist_remove es old)" using "2.prems"(3,4) by auto
    with "2.IH" [OF True] "2.prems" True
    have IH: "distinct (map fst es') \<and> set lru' = fst ` set es' \<and> length es' \<le> n \<and> suffix lru' lru \<and>
        (\<forall>k. alist_get es' k = (if k \<in> set lru' then alist_get (alist_remove es old) k else None))"
      by (auto simp: distinct_alist_remove)
    moreover have "old \<notin> set lru'" using IH "2.prems"(3) by (auto dest: set_mono_suffix)
    ultimately show ?thesis by (auto simp: suffix_Cons)
  next
    case False
    then show ?thesis using "2.prems" alist_get_None [of es] by (auto simp: image_iff)
  qed
qed

lemma evict_keeps_last:
  "evict n es lru = (es', lru') \<Longrightarrow> distinct (map fst es) \<Longrightarrow> distinct lru \<Longrightarrow> set lru = fst ` set es \<Longrightarrow> 1 \<le> n \<Longrightarrow>
   lru \<noteq> [] \<Longrightarrow> last lru \<in> set lru'"
proof (induction n es lru rule: evict.induct)
  case (2 n es old lru)
  show ?case
  proof (cases "length es > n")
    case True
    have "lru \<noteq> []"
    proof
      assume "lru = []"
      then have "fst ` set es = {old}" using "2.prems"(4) by auto
      then have "length es = 1" using distinct_card [OF "2.prems"(2)] by simp
      with True "2.prems"(5) show False by simp
    qed
    moreover have "set lru = fst ` set (alist_remove es old)" using "2.prems"(3,4) by auto
    ultimately show ?thesis using "2.IH" [OF True] "2.prems" True by (auto simp: distinct_alist_remove)
  next
    case False
    with "2.prems"(1) have "lru' = old # lru" by simp
    then show ?thesis by simp
  qed
qed simp

text \<open>What an insertion does, on a cache of the right shape.\<close>

lemma cache_insert_effect:
  assumes "cache_ok c"
  shows "cache_ok (cache_insert now a p c) \<and> pc_ttl (cache_insert now a p c) = pc_ttl c \<and>
    pc_max_entries (cache_insert now a p c) = pc_max_entries c \<and>
    (\<forall>k e. alist_get (pc_entries (cache_insert now a p c)) k = Some e \<longrightarrow>
       (if k = a then e = \<lparr>cp_passport = p, cp_cached_at = now\<rparr> else alist_get (pc_entries c) k = Some e)) \<and>
    (1 \<le> pc_max_entries c \<longrightarrow> alist_get (pc_entries (cache_insert now a p c)) a = Some \<lparr>cp_passport = p, cp_cached_at = now\<rparr>)"
proof -
  define c1 where "c1 = (if alist_get (pc_entries c) a \<noteq> None then snd (cache_remove a c) else c)"
  let ?e = "\<lparr>cp_passport = p, cp_cached_at = now\<rparr>"
  let ?es = "alist_put (pc_entries c1) a ?e" and ?lru = "pc_lru c1 @ [a]"
  have ok: "cache_ok c1" using assms cache_ok_remove by (simp add: c1_def)
  have new: "a \<notin> fst ` set (pc_entries c1)" using alist_get_None [of "pc_entries c1" a] by (auto simp: c1_def cache_remove_def)
  have same: "pc_max_entries c1 = pc_max_entries c" "pc_ttl c1 = pc_ttl c"
    "\<forall>k. k \<noteq> a \<longrightarrow> alist_get (pc_entries c1) k = alist_get (pc_entries c) k"
    by (auto simp: c1_def cache_remove_def)
  obtain es' lru' where ev: "evict (pc_max_entries c1) ?es ?lru = (es', lru')" by fastforce
  have shape: "distinct (map fst ?es)" "distinct ?lru" "set ?lru = fst ` set ?es"
    using ok new by (auto simp: cache_ok_def distinct_alist_put keys_alist_put)
  note evo = evict_ok [OF ev shape]
  have ins: "cache_insert now a p c = c1\<lparr>pc_entries := es', pc_lru := lru'\<rparr>"
    using ev by (simp add: cache_insert_def c1_def Let_def)
  have "distinct lru'" using evo shape(2) by (metis distinct_append suffix_def)
  then have "cache_ok (cache_insert now a p c)" using evo by (simp add: ins cache_ok_def)
  moreover have "a \<in> set lru'" if "1 \<le> pc_max_entries c" using evict_keeps_last [OF ev shape] that same(1) by simp
  ultimately show ?thesis using evo same by (auto simp: ins split: if_splits)
qed


definition sample_passport :: ScopePassport where
  "sample_passport = \<lparr>sp_passport_id = ''p'', sp_passport_type = ''STANDARD'', sp_expires_ts = 1000,
     sp_scopes = [\<lparr>se_scope_id = ''s'', se_action_class = ''READ'', se_resource_pattern = ''data/*'', se_context_constraints = [],
       se_expires_ts = 1000, se_is_escalation = False\<rparr>]\<rparr>"


section \<open>Runs\<close>

text \<open>
  Any order of requests; during a lookup other requests run between its steps. \<open>P agent passport t\<close> holds of every passport the
  client answers with and the time it is put into the cache.
\<close>

inductive scope_run :: "nat \<Rightarrow> (string \<Rightarrow> ScopePassport \<Rightarrow> instant \<Rightarrow> bool) \<Rightarrow>
    ScopeEvaluatorService \<Rightarrow> ScopeEvaluatorService \<Rightarrow> bool" for threshold P where
  stay: "scope_run threshold P S S"
| looked: "scope_run threshold P S S1 \<Longrightarrow> (\<And>M. scope_run threshold P M (fe_between e M)) \<Longrightarrow>
    (\<And>M. scope_run threshold P M (fe_during e M)) \<Longrightarrow> (\<And>M. scope_run threshold P M (fe_after e M)) \<Longrightarrow>
    (\<And>p. fe_reply e = Inr p \<Longrightarrow> P agent p (fe_inserted e)) \<Longrightarrow>
    scope_run threshold P S (snd (get_or_fetch_passport threshold e agent S1))"
| invalidated: "scope_run threshold P S S1 \<Longrightarrow> scope_run threshold P S (snd (invalidate_cache agent S1))"

text \<open>A lookup whose others keep to such runs.\<close>

definition lookup_runs :: "nat \<Rightarrow> (string \<Rightarrow> ScopePassport \<Rightarrow> instant \<Rightarrow> bool) \<Rightarrow> string \<Rightarrow> fetch_env \<Rightarrow> bool" where
  "lookup_runs threshold P agent e \<longleftrightarrow>
     (\<forall>M. scope_run threshold P M (fe_between e M) \<and> scope_run threshold P M (fe_during e M) \<and> scope_run threshold P M (fe_after e M)) \<and>
     (\<forall>p. fe_reply e = Inr p \<longrightarrow> P agent p (fe_inserted e))"

definition cache_from :: "nat \<Rightarrow> duration \<Rightarrow> (string \<Rightarrow> ScopePassport \<Rightarrow> instant \<Rightarrow> bool) \<Rightarrow> ScopeEvaluatorService \<Rightarrow> bool" where
  "cache_from n ttl P S \<longleftrightarrow> cache_ok (sv_cache S) \<and> pc_max_entries (sv_cache S) = n \<and> pc_ttl (sv_cache S) = ttl \<and>
     (\<forall>a e. alist_get (pc_entries (sv_cache S)) a = Some e \<longrightarrow> P a (cp_passport e) (cp_cached_at e))"

lemma cache_from_circuit [simp]:
  "cache_from n ttl P (S\<lparr>sv_consecutive_failures := x\<rparr>) = cache_from n ttl P S"
  "cache_from n ttl P (S\<lparr>sv_is_open := y\<rparr>) = cache_from n ttl P S"
  by (simp_all add: cache_from_def)

lemma cache_get_fields [simp]:
  "pc_ttl (snd (cache_get now a c)) = pc_ttl c" "pc_max_entries (snd (cache_get now a c)) = pc_max_entries c"
  by (auto simp: cache_get_def cache_remove_def cache_touch_def split: option.splits)

lemma cache_get_entries: "alist_get (pc_entries (snd (cache_get now a c))) k = Some e \<Longrightarrow> alist_get (pc_entries c) k = Some e"
  by (auto simp: cache_get_def cache_remove_def cache_touch_def split: option.splits if_splits)

lemma cache_from_get: "cache_from n ttl P S \<Longrightarrow> cache_from n ttl P (S\<lparr>sv_cache := snd (cache_get now a (sv_cache S))\<rparr>)"
  by (auto simp: cache_from_def cache_ok_get dest: cache_get_entries)

lemma cache_from_insert:
  assumes "cache_from n ttl P S" "P a p t"
  shows "cache_from n ttl P (S\<lparr>sv_cache := cache_insert t a p (sv_cache S)\<rparr>)"
proof -
  have S: "cache_ok (sv_cache S)" "\<And>k e. alist_get (pc_entries (sv_cache S)) k = Some e \<Longrightarrow> P k (cp_passport e) (cp_cached_at e)"
    "pc_max_entries (sv_cache S) = n" "pc_ttl (sv_cache S) = ttl"
    using assms(1) by (auto simp: cache_from_def)
  note ins = cache_insert_effect [OF S(1), of t a p]
  have "P k (cp_passport e) (cp_cached_at e)" if e: "alist_get (pc_entries (cache_insert t a p (sv_cache S))) k = Some e" for k e
  proof -
    have "if k = a then e = \<lparr>cp_passport = p, cp_cached_at = t\<rparr> else alist_get (pc_entries (sv_cache S)) k = Some e"
      using ins e by blast
    then show ?thesis using S(2) [of k e] assms(2) by (simp split: if_splits)
  qed
  moreover have "cache_ok (cache_insert t a p (sv_cache S)) \<and> pc_ttl (cache_insert t a p (sv_cache S)) = ttl \<and>
      pc_max_entries (cache_insert t a p (sv_cache S)) = n"
    using ins unfolding S(3,4) by blast
  ultimately show ?thesis unfolding cache_from_def by simp
qed

lemma get_or_fetch_keeps:
  assumes S: "cache_from n ttl P S"
    and others: "\<And>M. cache_from n ttl P M \<Longrightarrow> cache_from n ttl P (fe_between e M)"
      "\<And>M. cache_from n ttl P M \<Longrightarrow> cache_from n ttl P (fe_during e M)"
      "\<And>M. cache_from n ttl P M \<Longrightarrow> cache_from n ttl P (fe_after e M)"
    and reply: "\<And>p. fe_reply e = Inr p \<Longrightarrow> P a p (fe_inserted e)"
    and run: "get_or_fetch_passport threshold e a S = (r, S')"
  shows "cache_from n ttl P S' \<and>
    (\<forall>p hit. r = Inr (p, hit) \<longrightarrow> (\<exists>t. P a p t \<and> (hit \<longrightarrow> fe_now e - t \<le> ttl) \<and> (\<not> hit \<longrightarrow> fe_reply e = Inr p)))"
proof -
  obtain found c where get: "cache_get (fe_now e) a (sv_cache S) = (found, c)" by fastforce
  have c: "cache_from n ttl P (S\<lparr>sv_cache := c\<rparr>)" using cache_from_get [OF S, of "fe_now e" a] get by simp
  show ?thesis
  proof (cases found)
    case (Some p)
    have "\<exists>t. P a p t \<and> fe_now e - t \<le> ttl"
      using get Some S by (force simp: cache_get_def cache_from_def split: option.splits if_splits)
    then show ?thesis using run get Some c by (auto simp: get_or_fetch_passport_def)
  next
    case None
    define S2 where "S2 = fe_during e (fe_between e (S\<lparr>sv_cache := c\<rparr>))"
    have S1: "cache_from n ttl P (fe_between e (S\<lparr>sv_cache := c\<rparr>))" by (rule others(1) [OF c])
    have S2: "cache_from n ttl P S2" unfolding S2_def by (rule others(2) [OF S1])
    have upd: "cache_from n ttl P (S2\<lparr>sv_consecutive_failures := x, sv_is_open := y\<rparr>)" for x y
      using S2 by simp
    have ins: "cache_from n ttl P (M\<lparr>sv_cache := cache_insert (fe_inserted e) a p (sv_cache M)\<rparr>)"
      if "fe_reply e = Inr p" "cache_from n ttl P M" for p M
      using cache_from_insert [OF that(2) reply [OF that(1)]] .
    show ?thesis
      using run get None S1 S2 ins others(3) [OF upd] reply
      by (auto simp: get_or_fetch_passport_def Let_def S2_def [symmetric] split: if_splits sum.splits)
  qed
qed

lemma invalidate_keeps: "cache_from n ttl P S \<Longrightarrow> cache_from n ttl P (snd (invalidate_cache a S))"
  using cache_ok_remove [of "sv_cache S" a]
  by (auto simp: invalidate_cache_def cache_invalidate_def cache_from_def cache_remove_def Let_def split: if_splits)

lemma scope_run_keeps: "scope_run threshold P S S' \<Longrightarrow> cache_from n ttl P S \<Longrightarrow> cache_from n ttl P S'"
proof (induction rule: scope_run.induct)
  case (looked S S1 e agent)
  obtain r S2 where r: "get_or_fetch_passport threshold e agent S1 = (r, S2)" by fastforce
  have "cache_from n ttl P S1" using looked.IH(1) looked.prems by simp
  from get_or_fetch_keeps [OF this looked.IH(2-4) looked.hyps(5) r] show ?case by (simp add: r)
qed (simp_all add: invalidate_keeps)

section \<open>Grants\<close>

text \<open>The scope covers the request at a time: unexpired, of the action, with a pattern that means the resource, in the context.\<close>

definition scope_covers :: "int \<Rightarrow> EvaluateScopeRequest \<Rightarrow> ScopeEntry \<Rightarrow> bool" where
  "scope_covers now request scope \<longleftrightarrow> now < se_expires_ts scope \<and> se_action_class scope = er_action_class request \<and>
     glob_match (se_resource_pattern scope) (er_resource request) = Inr True \<and>
     context_matches (se_context_constraints scope) (er_context request)"

lemma check_scope_covers: "(\<exists>m. check_scope now request scope = Inr m) \<longleftrightarrow> scope_covers now request scope"
  by (auto simp: check_scope_def scope_covers_def split: sum.splits bool.splits)

lemma check_scopes_matches: "fst (check_scopes now request scopes) = [] \<longleftrightarrow> (\<forall>s \<in> set scopes. \<not> scope_covers now request s)"
proof (induction scopes)
  case (Cons s scopes)
  then show ?case using check_scope_covers [of now request s] by (auto simp: Let_def split_def split: sum.splits)
qed simp

lemma check_scopes_count:
  "length (fst (check_scopes now request scopes)) + length (snd (check_scopes now request scopes)) = length scopes"
  by (induction scopes) (auto simp: Let_def split_def split: sum.splits)

lemma glob_match_covers: "glob_match p r = Inr True \<Longrightarrow> glob_spec (Split p (CHR ''/'')) (resource_segments r)"
  using match_segments_agrees
  by (fastforce simp: glob_match_def resource_segments_def agrees_def map_sum_def split: sum.splits if_splits)


definition quiet_fetch :: "ScopeError + ScopePassport \<Rightarrow> fetch_env" where
  "quiet_fetch reply = \<lparr>fe_now = 0, fe_between = id, fe_during = id, fe_reply = reply, fe_after = id, fe_inserted = 0\<rparr>"

definition sample_request :: EvaluateScopeRequest where
  "sample_request = \<lparr>er_evaluation_id = ''e'', er_agent_id = ''a'', er_action_class = ''READ'', er_resource = ''data/users'', er_context = []\<rparr>"

lemma quiet_fetch_closed:
  assumes "alist_get (pc_entries (sv_cache S)) a = None" "\<not> sv_is_open S"
  shows "\<exists>S'. get_or_fetch_passport threshold (quiet_fetch (Inr p)) a S = (Inr (p, False), S')"
  using assms by (simp add: get_or_fetch_passport_def quiet_fetch_def cache_get_def Let_def)


section \<open>Revoked passports\<close>


definition stranded :: pass_state where
  "stranded =
     (let input = ex_input\<lparr>ii_Scopes := [\<lparr>sc_ScopeID = ''s1'', sc_ActionClass = ''READ'', sc_ResourcePattern = ''data/*'',
            sc_ContextConstraints = Some [], sc_IsEscalation = False, sc_GrantedTS = 1700000000 * Second, sc_ExpiresTS = 1700003600 * Second\<rparr>]\<rparr>;
          s = snd (IssuePassport NewInMemoryService (ex_call ''p1'') input new_service)
      in snd (IssuePassport (NewInMemoryService\<lparr>dp_Sign := (\<lambda>x. None)\<rparr>) (ex_call ''p2'') (input\<lparr>ii_ForceReissue := True\<rparr>) s))"


section \<open>The circuit breaker\<close>

lemma open_stays:
  assumes "sv_is_open S" "\<And>M. sv_is_open M \<Longrightarrow> sv_is_open (fe_between e M)"
  shows "sv_is_open (snd (get_or_fetch_passport threshold e a S)) \<and>
    (fst (cache_get (fe_now e) a (sv_cache S)) = None \<longrightarrow> fst (get_or_fetch_passport threshold e a S) = Inl ScopeUnavailable)"
  using assms(1) assms(2) [of "S\<lparr>sv_cache := snd (cache_get (fe_now e) a (sv_cache S))\<rparr>"]
  by (auto simp: get_or_fetch_passport_def Let_def split: prod.splits option.splits)

lemma scope_run_open: "scope_run threshold P S S' \<Longrightarrow> sv_is_open S \<Longrightarrow> sv_is_open S'"
proof (induction rule: scope_run.induct)
  case (looked S S1 e agent)
  then show ?case using open_stays [of S1 e threshold agent] by simp
qed (auto simp: invalidate_cache_def Let_def split: prod.splits)

text \<open>Lookups one after the other of agents the passport service does not know.\<close>

definition not_found_env :: fetch_env where
  "not_found_env = \<lparr>fe_now = 0, fe_between = id, fe_during = id, fe_reply = Inl ScopeNotFound, fe_after = id, fe_inserted = 0\<rparr>"

fun look_up_unknown :: "nat \<Rightarrow> string list \<Rightarrow> ScopeEvaluatorService \<Rightarrow> ScopeEvaluatorService" where
  "look_up_unknown threshold [] S = S"
| "look_up_unknown threshold (a # as) S = look_up_unknown threshold as (snd (get_or_fetch_passport threshold not_found_env a S))"

lemma look_up_unknown_counts:
  "\<forall>a \<in> set as. alist_get (pc_entries (sv_cache S)) a = None \<Longrightarrow> \<not> sv_is_open S \<Longrightarrow>
   sv_consecutive_failures S < threshold \<Longrightarrow> threshold \<le> sv_consecutive_failures S + length as \<Longrightarrow>
   sv_is_open (look_up_unknown threshold as S)"
proof (induction as arbitrary: S)
  case (Cons a as)
  let ?n = "sv_consecutive_failures S + 1"
  have step: "snd (get_or_fetch_passport threshold not_found_env a S) = S\<lparr>sv_consecutive_failures := ?n, sv_is_open := threshold \<le> ?n\<rparr>"
    using Cons.prems by (auto simp: get_or_fetch_passport_def not_found_env_def cache_get_def Let_def)
  show ?case
  proof (cases "threshold \<le> ?n")
    case True
    have "sv_is_open M \<Longrightarrow> sv_is_open (look_up_unknown threshold bs M)" for bs M
      by (induction bs arbitrary: M) (auto simp: open_stays not_found_env_def)
    then show ?thesis using True step by simp
  next
    case False
    then show ?thesis using Cons.IH [of "S\<lparr>sv_consecutive_failures := ?n, sv_is_open := False\<rparr>"] Cons.prems step by simp
  qed
qed simp

text \<open>
  Asking for unknown agents shuts the evaluator for everyone. As many lookups of agents the passport service does not know as the
  threshold says open the circuit breaker, since an agent that is not found counts as a failure; and nothing
  closes it again: in every later state a request for an agent that is not in the cache is refused as unavailable, without
  asking the passport service.
\<close>

theorem unknown_agents_shut_evaluator:
  assumes "scope_run threshold P S0 S" "\<not> sv_is_open S" "sv_consecutive_failures S < threshold"
    and "\<forall>a \<in> set as. alist_get (pc_entries (sv_cache S)) a = None" "threshold \<le> length as"
    and "scope_run threshold P (look_up_unknown threshold as S) S2" "lookup_runs threshold P a e"
    and "fst (cache_get (fe_now e) a (sv_cache S2)) = None"
  shows "sv_is_open S2 \<and> fst (get_or_fetch_passport threshold e a S2) = Inl ScopeUnavailable"
proof -
  have "sv_is_open (look_up_unknown threshold as S)" using assms by (intro look_up_unknown_counts) auto
  then have S2: "sv_is_open S2" by (rule scope_run_open [OF assms(6)])
  moreover have "sv_is_open M \<Longrightarrow> sv_is_open (fe_between e M)" for M
    using assms(7) scope_run_open unfolding lookup_runs_def by blast
  ultimately show ?thesis using open_stays assms(8) by blast
qed

theorem unknown_agents_shut_evaluator_witness:
  "fst (get_or_fetch_passport 2 (not_found_env\<lparr>fe_reply := Inr sample_passport\<rparr>) ''known''
     (look_up_unknown 2 [''x'', ''y''] (new_scope_service 500 60))) = Inl ScopeUnavailable"
proof -
  let ?S = "new_scope_service 500 60"
  have "lookup_runs 2 (\<lambda>a p t. True) ''known'' (not_found_env\<lparr>fe_reply := Inr sample_passport\<rparr>)"
    by (simp add: lookup_runs_def not_found_env_def scope_run.stay)
  moreover have "look_up_unknown 2 [''x'', ''y''] ?S = ?S\<lparr>sv_consecutive_failures := 2, sv_is_open := True\<rparr>"
    by (simp add: get_or_fetch_passport_def not_found_env_def new_scope_service_def new_passport_cache_def cache_get_def)
  ultimately show ?thesis
    using unknown_agents_shut_evaluator [OF scope_run.stay, of ?S 2 "[''x'', ''y'']" "\<lambda>a p t. True" _ "''known''",
        OF _ _ _ _ scope_run.stay]
    by (simp add: new_scope_service_def new_passport_cache_def cache_get_def)
qed

end
