(* ===== verification/Binary64.thy ===== *)
theory Binary64
  imports Complex_Main "HOL-Library.Log_Nat"
begin

text \<open>
  Double precision numbers as the languages of the services compute with them: finite ones are rational numbers, and
  \<open>round64\<close> rounds a rational number to the nearest double, ties to the even one, with gradual underflow and overflow to
  infinity. The sign of zero is not kept: no comparison depends on it.
\<close>

datatype f64 = NaN | Inf bool | Fin rat

text \<open>\<open>Inf True\<close> is the negative infinity. Comparisons with a NaN are false.\<close>

fun f64_le :: "f64 \<Rightarrow> f64 \<Rightarrow> bool" where
  "f64_le NaN y = False"
| "f64_le (Inf neg) y = (if neg then y \<noteq> NaN else y = Inf False)"
| "f64_le (Fin q) y = (case y of NaN \<Rightarrow> False | Inf neg \<Rightarrow> \<not> neg | Fin r \<Rightarrow> q \<le> r)"

fun f64_less :: "f64 \<Rightarrow> f64 \<Rightarrow> bool" where
  "f64_less NaN y = False"
| "f64_less (Inf neg) y = (neg \<and> y \<noteq> NaN \<and> y \<noteq> Inf True)"
| "f64_less (Fin q) y = (case y of NaN \<Rightarrow> False | Inf neg \<Rightarrow> \<not> neg | Fin r \<Rightarrow> q < r)"

section \<open>Rounding\<close>

definition pow2 :: "int \<Rightarrow> rat" where
  "pow2 k = (if 0 \<le> k then 2 ^ nat k else 1 / 2 ^ nat (- k))"

text \<open>The exponent of a positive number: the greatest \<open>e\<close> with \<open>pow2 e \<le> q\<close>.\<close>

definition expo :: "rat \<Rightarrow> int" where
  "expo q = (let (n, d) = quotient_of q; k = bitlen n - bitlen d in if pow2 k \<le> q then k else k - 1)"

definition round_even :: "rat \<Rightarrow> int" where
  "round_even q =
     (let n = \<lfloor>q\<rfloor>; f = q - of_int n
      in if f < 1 / 2 then n else if 1 / 2 < f then n + 1 else if even n then n else n + 1)"

definition scale_of :: "rat \<Rightarrow> int" where
  "scale_of q = max (expo q) (- 1022) - 52"

definition round_pos :: "rat \<Rightarrow> rat" where
  "round_pos q = of_int (round_even (q / pow2 (scale_of q))) * pow2 (scale_of q)"

definition round64 :: "rat \<Rightarrow> f64" where
  "round64 q =
     (if q = 0 then Fin 0
      else let v = round_pos \<bar>q\<bar> in if 2 ^ 1024 \<le> v then Inf (q < 0) else Fin (if q < 0 then - v else v))"

section \<open>Rounding is monotone\<close>

lemma pow2_positive [simp]: "0 < pow2 k"
  by (simp add: pow2_def)

lemma pow2_nonzero [simp]: "pow2 k \<noteq> 0"
  using pow2_positive [of k] by linarith

lemma pow2_powi: "pow2 k = 2 powi k"
  by (simp add: pow2_def power_int_def field_simps)

lemma pow2_add: "pow2 (j + k) = pow2 j * pow2 k"
  by (simp add: pow2_powi power_int_add)

lemma pow2_strict: "j < k \<Longrightarrow> pow2 j < pow2 k"
  by (simp add: pow2_powi power_int_strict_increasing)

lemma pow2_le_iff [simp]: "pow2 j \<le> pow2 k \<longleftrightarrow> j \<le> k"
  by (cases j k rule: linorder_cases) (auto dest: pow2_strict)

lemma pow2_less_iff [simp]: "pow2 j < pow2 k \<longleftrightarrow> j < k"
  by (simp add: not_le [symmetric])

lemma pow2_nat: "pow2 (int n) = 2 ^ n"
  by (simp add: pow2_def)

lemma bitlen_pow2:
  assumes "0 < n"
  shows "pow2 (bitlen n - 1) \<le> of_int n" "of_int n < pow2 (bitlen n)"
proof -
  have b: "0 < bitlen n" using assms by (simp add: bitlen_def compute_floorlog)
  have "2 ^ nat (bitlen n - 1) \<le> n" "n < 2 ^ nat (bitlen n)" using bitlen_bounds [OF assms] by auto
  then have "(of_int (2 ^ nat (bitlen n - 1)) :: rat) \<le> of_int n" "(of_int n :: rat) < of_int (2 ^ nat (bitlen n))"
    by (simp_all only: of_int_le_iff of_int_less_iff)
  with b show "pow2 (bitlen n - 1) \<le> of_int n" "of_int n < pow2 (bitlen n)" by (simp_all add: pow2_def)
qed

lemma expo_bounds:
  assumes "0 < q"
  shows "pow2 (expo q) \<le> q" "q < pow2 (expo q + 1)"
proof -
  obtain n d where nd: "quotient_of q = (n, d)" by (cases "quotient_of q")
  then have d: "0 < d" and q: "q = of_int n / of_int d"
    using quotient_of_denom_pos quotient_of_div by blast+
  with assms have n: "0 < n" by (simp add: zero_less_divide_iff)
  let ?k = "bitlen n - bitlen d"
  have "pow2 (?k - 1) * of_int d \<le> pow2 (bitlen n - 1)"
  proof -
    have "pow2 (?k - 1) * of_int d \<le> pow2 (?k - 1) * pow2 (bitlen d)"
      using bitlen_pow2(2) [OF d] by (intro mult_left_mono) (simp_all add: less_imp_le)
    also have "\<dots> = pow2 (bitlen n - 1)" by (simp flip: pow2_add add: algebra_simps)
    finally show ?thesis .
  qed
  then have low: "pow2 (?k - 1) \<le> q"
    using bitlen_pow2(1) [OF n] d by (simp add: q pos_le_divide_eq)
  have "pow2 (bitlen n) \<le> pow2 (?k + 1) * of_int d"
  proof -
    have "pow2 (bitlen n) = pow2 (?k + 1) * pow2 (bitlen d - 1)" by (simp flip: pow2_add add: algebra_simps)
    also have "\<dots> \<le> pow2 (?k + 1) * of_int d"
      using bitlen_pow2(1) [OF d] by (intro mult_left_mono) (simp_all add: less_imp_le)
    finally show ?thesis .
  qed
  then have "q < pow2 (?k + 1)"
    using bitlen_pow2(2) [OF n] d by (simp add: q pos_divide_less_eq)
  with low show "pow2 (expo q) \<le> q" "q < pow2 (expo q + 1)" by (simp_all add: expo_def nd Let_def)
qed

lemma expo_mono: "0 < q \<Longrightarrow> q \<le> r \<Longrightarrow> expo q \<le> expo r"
  using expo_bounds [of q] expo_bounds [of r] pow2_less_iff [of "expo q" "expo r + 1"] by linarith

lemma round_even_near: "of_int (round_even q) - 1 / 2 \<le> q" "q \<le> of_int (round_even q) + 1 / 2"
proof -
  define n where "n = \<lfloor>q\<rfloor>"
  have "of_int n \<le> q" "q < of_int n + 1" unfolding n_def by linarith+
  then show "of_int (round_even q) - 1 / 2 \<le> q" "q \<le> of_int (round_even q) + 1 / 2"
    unfolding round_even_def Let_def n_def [symmetric] by simp_all
qed

lemma round_even_of_int [simp]: "round_even (of_int n) = n"
  by (simp add: round_even_def)

lemma round_even_mono:
  assumes "q \<le> r"
  shows "round_even q \<le> round_even r"
proof (rule ccontr)
  assume "\<not> ?thesis"
  then have gt: "round_even r + 1 \<le> round_even q" by simp
  then have "(of_int (round_even r + 1) :: rat) \<le> of_int (round_even q)" by (simp only: of_int_le_iff)
  with round_even_near [of q] round_even_near [of r] assms have "q = r" by auto
  with gt show False by simp
qed

definition round_at :: "int \<Rightarrow> rat \<Rightarrow> rat" where
  "round_at s q = of_int (round_even (q / pow2 s)) * pow2 s"

lemma round_at_mono: "q \<le> r \<Longrightarrow> round_at s q \<le> round_at s r"
  by (simp add: round_at_def round_even_mono divide_right_mono less_imp_le)

lemma round_at_pow2: "round_at s (pow2 (s + int n)) = pow2 (s + int n)"
proof -
  have "pow2 (s + int n) / pow2 s = of_int (2 ^ n)" by (simp add: pow2_add pow2_nat)
  then have "round_even (pow2 (s + int n) / pow2 s) = 2 ^ n" by (simp only: round_even_of_int)
  then show ?thesis by (simp add: round_at_def pow2_add pow2_nat)
qed

lemma round_pos_at: "round_pos q = round_at (scale_of q) q"
  by (simp add: round_pos_def round_at_def)

lemma round_pos_mono:
  assumes "0 < q" "q \<le> r"
  shows "round_pos q \<le> round_pos r"
proof (cases "scale_of q = scale_of r")
  case True
  then show ?thesis using assms(2) by (simp add: round_pos_at round_at_mono)
next
  case False
  with expo_mono [OF assms] have less: "scale_of q < scale_of r" and er: "scale_of r + 52 = expo r"
    by (auto simp: scale_of_def max_def split: if_splits)
  have "expo q + 1 \<le> scale_of q + 53" by (simp add: scale_of_def)
  then have "q \<le> pow2 (scale_of q + 53)"
    using expo_bounds(2) [OF assms(1)] pow2_le_iff [of "expo q + 1" "scale_of q + 53"] by linarith
  then have "round_pos q \<le> round_at (scale_of q) (pow2 (scale_of q + int 53))"
    by (simp add: round_pos_at round_at_mono)
  also have "\<dots> = pow2 (scale_of q + 53)" by (simp only: round_at_pow2) simp
  also have "\<dots> \<le> pow2 (scale_of r + int 52)" using less by simp
  also have "\<dots> = round_at (scale_of r) (pow2 (scale_of r + int 52))" by (simp only: round_at_pow2)
  also have "\<dots> \<le> round_pos r"
    using expo_bounds(1) [of r] assms er by (simp add: round_pos_at round_at_mono)
  finally show ?thesis .
qed

lemma round_pos_nonneg: "0 < q \<Longrightarrow> 0 \<le> round_pos q"
  using round_even_mono [of 0 "q / pow2 (scale_of q)"] round_even_of_int [of 0] by (simp add: round_pos_def less_imp_le)

lemma round64_mono: "q \<le> r \<Longrightarrow> f64_le (round64 q) (round64 r)"
  using round_pos_mono [of q r] round_pos_mono [of "- r" "- q"] round_pos_nonneg [of r] round_pos_nonneg [of "- q"]
  by (cases "q < 0"; cases "r < 0"; cases "q = 0"; cases "r = 0") (auto simp: round64_def Let_def)

text \<open>A double is a value that rounding keeps.\<close>

definition is_double :: "rat \<Rightarrow> bool" where
  "is_double c \<longleftrightarrow> round64 c = Fin c"

lemma round64_exceeds: "is_double c \<Longrightarrow> f64_less (Fin c) (round64 q) \<Longrightarrow> c < q"
  using round64_mono [of q c] by (cases "round64 q"; cases "c < q") (auto simp: is_double_def not_less split: if_splits)

text \<open>Integers of at most 53 bits are doubles.\<close>

lemma expo_less: "0 < q \<Longrightarrow> q < pow2 k \<Longrightarrow> expo q < k"
  using expo_bounds(1) [of q] pow2_less_iff [of "expo q" k] by linarith

lemma round_at_int:
  assumes "s \<le> 0"
  shows "round_at s (of_int n) = of_int n"
proof -
  have "pow2 s * 2 ^ nat (- s) = 1" using assms by (simp add: pow2_def)
  then have "of_int n / pow2 s = of_int (n * 2 ^ nat (- s))" by (simp add: field_simps)
  then have "round_even (of_int n / pow2 s) = n * 2 ^ nat (- s)" by (simp only: round_even_of_int)
  then show ?thesis using \<open>pow2 s * 2 ^ nat (- s) = 1\<close> by (simp add: round_at_def algebra_simps)
qed

lemma round64_int:
  assumes "\<bar>n\<bar> < 2 ^ 53"
  shows "round64 (of_int n) = Fin (of_int n)"
proof (cases "n = 0")
  case False
  have abs: "\<bar>of_int n :: rat\<bar> = of_int \<bar>n\<bar>" by simp
  have less: "(of_int \<bar>n\<bar> :: rat) < of_int (2 ^ 53)" using assms by (simp only: of_int_less_iff)
  then have "expo (of_int \<bar>n\<bar>) < 53" using False by (intro expo_less) (simp_all add: pow2_def)
  then have "scale_of (of_int \<bar>n\<bar>) \<le> 0" by (simp add: scale_of_def)
  then have "round_pos (of_int \<bar>n\<bar>) = of_int \<bar>n\<bar>" by (simp only: round_pos_at round_at_int)
  moreover have "\<not> (2 ^ 1024 :: rat) \<le> of_int \<bar>n\<bar>"
  proof -
    have "(2 ^ 53 :: rat) \<le> 2 ^ 1024" by (rule power_increasing) simp_all
    with less show ?thesis by simp
  qed
  ultimately show ?thesis using False by (simp only: round64_def abs Let_def of_int_eq_0_iff) auto
qed (simp add: round64_def)

lemma is_double_int: "\<bar>n\<bar> < 2 ^ 53 \<Longrightarrow> is_double (of_int n)"
  by (simp only: is_double_def round64_int)

end
