(* ===== verification/JsStd.thy ===== *)
theory JsStd
  imports GoStrings Binary64 "HOL-Library.List_Lexorder" "HOL-Library.Multiset"
begin

text \<open>
  The parts of the JavaScript library that the policy layer uses. A string is the UTF-8 encoding of its code points, as for the other
  services; where the language counts UTF-16 units the model spells out what that means on the encoding. A
  \<^verbatim>\<open>Record\<close> or \<^verbatim>\<open>Map\<close> is the list of its entries in the order in which the language enumerates them.
\<close>

section \<open>White space\<close>

text \<open>
  The white space of \<^verbatim>\<open>trim\<close> and of \<^verbatim>\<open>\s\<close>: that of Go without U+0085, and the byte order mark.
\<close>

fun js_space_len :: "string \<Rightarrow> nat" where
  "js_space_len (c # d # e # s) =
     (if space1 c then 1 else if c = CHR 0xC2 \<and> d = CHR 0xA0 then 2
      else if space3 c d e \<or> c = CHR 0xEF \<and> d = CHR 0xBB \<and> e = CHR 0xBF then 3 else 0)"
| "js_space_len [c, d] = (if space1 c then 1 else if c = CHR 0xC2 \<and> d = CHR 0xA0 then 2 else 0)"
| "js_space_len [c] = (if space1 c then 1 else 0)"
| "js_space_len [] = 0"

fun js_space_len_rev :: "string \<Rightarrow> nat" where
  "js_space_len_rev (c # d # e # s) =
     (if space1 c then 1 else if d = CHR 0xC2 \<and> c = CHR 0xA0 then 2
      else if space3 e d c \<or> e = CHR 0xEF \<and> d = CHR 0xBB \<and> c = CHR 0xBF then 3 else 0)"
| "js_space_len_rev [c, d] = (if space1 c then 1 else if d = CHR 0xC2 \<and> c = CHR 0xA0 then 2 else 0)"
| "js_space_len_rev [c] = (if space1 c then 1 else 0)"
| "js_space_len_rev [] = 0"

definition js_trim :: "string \<Rightarrow> string" where
  "js_trim s = rev (trim_front js_space_len_rev (rev (trim_front js_space_len s)))"

text \<open>\<^verbatim>\<open>s.split(/\s+/)\<close>; \<open>acc\<close> is the current field, reversed.\<close>

function js_fields :: "string \<Rightarrow> string \<Rightarrow> string list" where
  "js_fields acc [] = [rev acc]"
| "js_fields acc (c # s) =
     (if js_space_len (c # s) = 0 then js_fields (c # acc) s
      else rev acc # js_fields [] (trim_front js_space_len (c # s)))"
  by pat_completeness auto
termination
proof (relation "measure (\<lambda>(acc, s). length s)")
  fix acc c s
  assume ne: "js_space_len (c # s) \<noteq> 0"
  have "length (trim_front js_space_len (drop (js_space_len (c # s)) (c # s))) \<le> length (drop (js_space_len (c # s)) (c # s))"
    by (intro suffix_length_le trim_front_suffix)
  also have "\<dots> < length (c # s)" using ne by (cases "js_space_len (c # s)") auto
  finally show "(([], trim_front js_space_len (c # s)), (acc, c # s)) \<in> measure (\<lambda>(acc, s). length s)"
    using trim_front_step [of js_space_len, OF ne] by simp
qed auto

definition split_spaces :: "string \<Rightarrow> string list" where
  "split_spaces s = js_fields [] s"

section \<open>Words\<close>

text \<open>The word characters of \<^verbatim>\<open>\b\<close>.\<close>

definition is_word :: "char \<Rightarrow> bool" where
  "is_word c \<longleftrightarrow> (let n = of_char c :: nat in 48 \<le> n \<and> n \<le> 57 \<or> 65 \<le> n \<and> n \<le> 90 \<or> 97 \<le> n \<and> n \<le> 122 \<or> n = 95)"

definition starts_word :: "string \<Rightarrow> bool" where
  "starts_word s = (case s of [] \<Rightarrow> False | c # _ \<Rightarrow> is_word c)"

section \<open>Order of strings\<close>

text \<open>
  The default order of \<^verbatim>\<open>sort\<close> compares UTF-16 units: code points beyond U+FFFF, whose first unit is a surrogate, come before
  U+E000 to U+FFFF. On the encoding this is the order of the bytes with the first bytes EE and EF after F0 to F4.
\<close>

definition utf16_rank :: "char \<Rightarrow> nat" where
  "utf16_rank c = (let n = of_char c in if n = 0xEE \<or> n = 0xEF then n + 5 else if 0xF0 \<le> n \<and> n \<le> 0xF4 then n - 2 else n)"

definition js_sort :: "string list \<Rightarrow> string list" where
  "js_sort ss = sort_key (map utf16_rank) ss"

section \<open>Numbers\<close>

definition pow10 :: "int \<Rightarrow> rat" where
  "pow10 k = (if 0 \<le> k then 10 ^ nat k else 1 / 10 ^ nat (- k))"

fun radix_value :: "nat \<Rightarrow> string \<Rightarrow> nat \<Rightarrow> nat option" where
  "radix_value r [] acc = Some acc"
| "radix_value r (c # s) acc =
     (if is_hex c \<and> hex_value c < r then radix_value r s (acc * r + hex_value c) else None)"

definition exponent_part :: "string \<Rightarrow> int option" where
  "exponent_part s =
     (case s of
        [] \<Rightarrow> Some 0
      | c # t \<Rightarrow>
          if c \<noteq> CHR ''e'' \<and> c \<noteq> CHR ''E'' then None
          else
            (let neg = (t \<noteq> [] \<and> hd t = CHR ''-''); u = (if t \<noteq> [] \<and> hd t \<in> set ''+-'' then tl t else t)
             in if u = [] \<or> \<not> list_all is_digit u then None
                else Some (if neg then - int (digits_value u) else int (digits_value u))))"

text \<open>An unsigned decimal literal, with its exact value.\<close>

definition decimal_literal :: "string \<Rightarrow> rat option" where
  "decimal_literal s =
     (let ip = takeWhile is_digit s; r = dropWhile is_digit s; dot = (r \<noteq> [] \<and> hd r = CHR ''.'');
          fp = (if dot then takeWhile is_digit (tl r) else []); r2 = (if dot then dropWhile is_digit (tl r) else r)
      in if ip = [] \<and> fp = [] then None
         else map_option (\<lambda>e. of_nat (digits_value (ip @ fp)) * pow10 (e - int (length fp))) (exponent_part r2))"

definition js_Number :: "string \<Rightarrow> f64" where
  "js_Number s =
     (let t = js_trim s; radix = (\<lambda>r. if length t = 2 then NaN
                                      else case radix_value r (drop 2 t) 0 of None \<Rightarrow> NaN | Some n \<Rightarrow> round64 (of_nat n));
          neg = (t \<noteq> [] \<and> hd t = CHR ''-''); u = (if t \<noteq> [] \<and> hd t \<in> set ''+-'' then tl t else t)
      in if t = [] then Fin 0
         else if HasPrefix t ''0x'' \<or> HasPrefix t ''0X'' then radix 16
         else if HasPrefix t ''0o'' \<or> HasPrefix t ''0O'' then radix 8
         else if HasPrefix t ''0b'' \<or> HasPrefix t ''0B'' then radix 2
         else if u = ''Infinity'' then Inf neg
         else case decimal_literal u of None \<Rightarrow> NaN | Some q \<Rightarrow> round64 (if neg then - q else q))"

section \<open>Properties of objects\<close>

text \<open>An object enumerates the keys that are array indices first, in their order, and then the others as they were inserted.\<close>

definition array_index :: "string \<Rightarrow> nat option" where
  "array_index k =
     (if k \<noteq> [] \<and> list_all is_digit k \<and> (k = ''0'' \<or> hd k \<noteq> CHR ''0'') \<and> digits_value k < 4294967295 then Some (digits_value k) else None)"

definition js_entries :: "(string \<times> 'a) list \<Rightarrow> (string \<times> 'a) list" where
  "js_entries m = sort_key (\<lambda>e. the (array_index (fst e))) (filter (\<lambda>e. array_index (fst e) \<noteq> None) m)
     @ filter (\<lambda>e. array_index (fst e) = None) m"

text \<open>
  Reading a property by name: the object's own, or one that every object inherits; the inherited ones are functions or
  objects, which convert to NaN.
\<close>

datatype js_prop = Undefined | Own string | Inherited

definition object_prototype :: "string list" where
  "object_prototype = [''constructor'', ''__defineGetter__'', ''__defineSetter__'', ''hasOwnProperty'', ''__lookupGetter__'',
     ''__lookupSetter__'', ''isPrototypeOf'', ''propertyIsEnumerable'', ''toString'', ''valueOf'', ''__proto__'', ''toLocaleString'']"

definition js_property :: "(string \<times> string) list \<Rightarrow> string \<Rightarrow> js_prop" where
  "js_property m k =
     (case alist_get m k of Some v \<Rightarrow> Own v | None \<Rightarrow> if k \<in> set object_prototype then Inherited else Undefined)"

section \<open>Lemmas\<close>

lemma js_space_len_graphic: "graphic c \<Longrightarrow> js_space_len (c # s) = 0"
  by (cases s rule: remdups_adj.cases) (auto simp: graphic_not_space graphic_def)

lemma js_space_len_rev_graphic: "graphic c \<Longrightarrow> js_space_len_rev (c # s) = 0"
  by (cases s rule: remdups_adj.cases) (auto simp: graphic_not_space graphic_def)

lemma js_trim_graphic:
  assumes "graphic (hd s)" "graphic (last s)"
  shows "js_trim s = s"
proof (cases s rule: rev_cases)
  case (snoc t c)
  from snoc obtain d u where s: "s = d # u" by (cases t) auto
  with assms have "trim_front js_space_len s = s" by (simp add: trim_front_stop js_space_len_graphic)
  moreover have "trim_front js_space_len_rev (rev s) = rev s"
    using assms snoc by (simp add: trim_front_stop js_space_len_rev_graphic)
  ultimately show ?thesis by (simp add: js_trim_def)
qed (simp add: js_trim_def)

lemma js_fields_graphic: "list_all graphic s \<Longrightarrow> js_fields acc s = [rev acc @ s]"
  by (induction s arbitrary: acc) (simp_all add: js_space_len_graphic)

lemma js_fields_word:
  "list_all graphic w \<Longrightarrow> js_fields acc (w @ CHR '' '' # s) = (rev acc @ w) # js_fields [] (trim_front js_space_len s)"
proof (induction w arbitrary: acc)
  case Nil
  have "js_space_len (CHR '' '' # s) = 1" by (cases s rule: remdups_adj.cases) (simp_all add: space1_def)
  then show ?case using trim_front_step [of js_space_len "CHR '' '' # s"] by simp
qed (simp add: js_space_len_graphic)

text \<open>Words of printable characters, with one blank between them, are the fields.\<close>

lemma split_spaces_words:
  assumes "ws \<noteq> []" "\<forall>w \<in> set ws. w \<noteq> [] \<and> list_all graphic w"
  shows "split_spaces (Join ws '' '') = ws"
  unfolding split_spaces_def using assms
proof (induction ws rule: induct_list012)
  case (3 w v ws)
  have "\<exists>c u. Join (v # ws) '' '' = c # u \<and> graphic c"
    using "3.prems"(2) by (cases v; cases ws) auto
  then obtain c u where "Join (v # ws) '' '' = c # u" "graphic c" by blast
  then have "trim_front js_space_len (Join (v # ws) '' '') = Join (v # ws) '' ''"
    by (simp add: trim_front_stop js_space_len_graphic)
  with 3 show ?case by (simp add: js_fields_word)
qed (simp_all add: js_fields_graphic)

lemma set_js_entries [simp]: "set (js_entries m) = set m"
  by (auto simp: js_entries_def)

lemma js_sort_perm: "mset (js_sort ss) = mset ss"
  by (simp add: js_sort_def)

end
