(* ===== verification/Opa_Evaluator.thy ===== *)
theory Opa_Evaluator
  imports JsStd
begin

text \<open>
  The evaluator of the policy layer (\<^verbatim>\<open>s1/opa-integration-layer/src/evaluator.ts\<close>, \<^verbatim>\<open>types.ts\<close>): admission checks, the compiler of
  the line-oriented rule language, and the evaluation of a request against the loaded bundles.
\<close>

section \<open>Types\<close>

datatype PolicyEffect = ALLOW | DENY | ESCALATE

record ContextScope =
  cs_actionClass :: string
  cs_resourcePattern :: string
  cs_expiresTs :: int

record OpaEnvelope =
  ae_envelopeId :: string
  ae_agentId :: string
  ae_policyId :: string
  ae_policyVer :: string
  ae_admittedScopes :: "string list"
  ae_admittedBehavioralCaps :: "(string \<times> f64) list"
  ae_admittedTsMs :: f64
  ae_issuingAuthority :: string
  ae_signature :: bytes

record EvaluationContext =
  cx_passportId :: string
  cx_passportType :: string
  cx_activeScopes :: "ContextScope list"
  cx_environment :: "(string \<times> string) list"
  cx_agentMetadata :: "(string \<times> string) list"
  cx_actionMetadata :: "(string \<times> string) list"
  cx_requestTs :: int
  cx_admissionEnvelope :: "OpaEnvelope option"

record EvaluateRequest =
  eq_evaluationId :: string
  eq_agentId :: string
  eq_actionClass :: string
  eq_resource :: string
  eq_context :: EvaluationContext
  eq_bundleNames :: "string list option"

record RuleMatch =
  rm_ruleName :: string
  rm_bundleName :: string
  rm_actionClass :: string
  rm_effect :: PolicyEffect
  rm_fired :: bool
  rm_matchReason :: string

record PolicyRule =
  ru_ruleName :: string
  ru_actionClass :: string
  ru_effect :: PolicyEffect
  ru_resourcePrefix :: "string option"

record LoadedBundle =
  lb_bundleName :: string
  lb_bundleId :: string
  lb_version :: string
  lb_loadedTs :: int
  lb_ruleCount :: nat
  lb_compileValid :: bool
  lb_rules :: "PolicyRule list"

section \<open>Admission\<close>

definition scope_admits :: "string \<Rightarrow> string \<Rightarrow> bool" where
  "scope_admits ac pat =
     (if HasSuffix pat ''*'' then (let pre = butlast pat in ac = pre \<or> HasPrefix ac pre) else ac = pat)"

text \<open>The check of one cap: nothing, or the reason of the refusal.\<close>

definition check_cap :: "(string \<times> string) list \<Rightarrow> string \<times> f64 \<Rightarrow> string option" where
  "check_cap meta = (\<lambda>(metric, cap).
     (case js_property meta metric of
        Undefined \<Rightarrow> None
      | Inherited \<Rightarrow> Some (''admission_cap_invalid_numeric:'' @ metric)
      | Own raw \<Rightarrow>
          if raw = [] then None
          else
            (let val = js_Number raw
             in if val = NaN then Some (''admission_cap_invalid_numeric:'' @ metric)
                else if f64_less cap val then Some (''admission_cap_exceeded:'' @ metric)
                else None)))"

fun check_caps :: "(string \<times> string) list \<Rightarrow> (string \<times> f64) list \<Rightarrow> string option" where
  "check_caps meta [] = None"
| "check_caps meta (mc # caps) = (case check_cap meta mc of None \<Rightarrow> check_caps meta caps | Some reason \<Rightarrow> Some reason)"

definition assertAdmissionEnvelope :: "EvaluateRequest \<Rightarrow> string option" where
  "assertAdmissionEnvelope request =
     (case cx_admissionEnvelope (eq_context request) of
        None \<Rightarrow> None
      | Some env \<Rightarrow>
          if ae_admittedScopes env \<noteq> [] \<and> \<not> list_ex (scope_admits (eq_actionClass request)) (ae_admittedScopes env)
          then Some ''admission_scope_violation''
          else check_caps (cx_actionMetadata (eq_context request)) (ae_admittedBehavioralCaps env))"

section \<open>The rule compiler\<close>

definition effect_name :: "PolicyEffect \<Rightarrow> string" where
  "effect_name e = (case e of ALLOW \<Rightarrow> ''ALLOW'' | DENY \<Rightarrow> ''DENY'' | ESCALATE \<Rightarrow> ''ESCALATE'')"

definition effects :: "PolicyEffect list" where
  "effects = [ALLOW, DENY, ESCALATE]"

text \<open>The expressions compare without regard to the case of ASCII letters only.\<close>

definition effect_at :: "string \<Rightarrow> PolicyEffect option" where
  "effect_at s = find (\<lambda>e. map upper_byte (take (length (effect_name e)) s) = effect_name e \<and>
     \<not> starts_word (drop (length (effect_name e)) s)) effects"

text \<open>The number of matches of \<^verbatim>\<open>/\b(ALLOW|DENY|ESCALATE)\b/gi\<close>; \<open>w\<close> is whether the character before is one of a word.\<close>

function count_effects :: "bool \<Rightarrow> string \<Rightarrow> nat" where
  "count_effects w [] = 0"
| "count_effects w (c # s) =
     (case (if w then None else effect_at (c # s)) of
        None \<Rightarrow> count_effects (is_word c) s
      | Some e \<Rightarrow> Suc (count_effects True (drop (length (effect_name e)) (c # s))))"
  by pat_completeness auto
termination
  by (relation "measure (\<lambda>(w, s). length s)") (auto simp: effect_name_def split: PolicyEffect.splits)

text \<open>Whether \<^verbatim>\<open>/\baction=\S+/\<close> matches.\<close>

fun has_action :: "bool \<Rightarrow> string \<Rightarrow> bool" where
  "has_action w [] = False"
| "has_action w (c # s) =
     (\<not> w \<and> HasPrefix (c # s) ''action='' \<and> drop 7 (c # s) \<noteq> [] \<and> js_space_len (drop 7 (c # s)) = 0 \<or> has_action (is_word c) s)"

definition compile_line :: "nat \<Rightarrow> string \<Rightarrow> PolicyRule option" where
  "compile_line idx line =
     (if effect_at line = None then None
      else if count_effects False line \<noteq> 1 then None
      else if \<not> has_action False line then None
      else
        (let parts = split_spaces line
         in if length parts < 3 then None
            else
              (case find (\<lambda>e. effect_name e = map upper_byte (hd parts)) effects of
                 None \<Rightarrow> None
               | Some effect \<Rightarrow>
                   (case find (\<lambda>p. HasPrefix p ''action='') parts of
                      None \<Rightarrow> None
                    | Some actionToken \<Rightarrow> Some \<lparr>
                        ru_ruleName = map lower_byte (effect_name effect) @ ''_rule_'' @ Itoa (int idx + 1),
                        ru_actionClass = drop 7 actionToken, ru_effect = effect,
                        ru_resourcePrefix = map_option (drop 7) (find (\<lambda>p. HasPrefix p ''prefix='') parts)\<rparr>))))"

fun compile_lines :: "nat \<Rightarrow> string list \<Rightarrow> PolicyRule list option" where
  "compile_lines idx [] = Some []"
| "compile_lines idx (line # ls) =
     (case compile_line idx line of None \<Rightarrow> None | Some r \<Rightarrow> map_option (Cons r) (compile_lines (Suc idx) ls))"

definition compileRegoLikeSource :: "string \<Rightarrow> PolicyRule list option" where
  "compileRegoLikeSource regoSource =
     (let trimmed = js_trim regoSource
      in if trimmed = [] \<or> Contains trimmed ''invalid_rego'' then None
         else compile_lines 0 (filter (\<lambda>line. line \<noteq> [] \<and> \<not> HasPrefix line ''#'') (map js_trim (Split trimmed CHR 0x0A))))"

section \<open>Evaluation\<close>

record decision =
  de_effect :: PolicyEffect
  de_denyReason :: string
  de_matchedRules :: "RuleMatch list"
  de_firedRules :: "string list"

record evaluation =
  ev_matched :: "RuleMatch list"
  ev_allow :: bool
  ev_escalate :: bool
  ev_deny :: bool
  ev_covered :: bool

definition resource_match :: "EvaluateRequest \<Rightarrow> PolicyRule \<Rightarrow> bool" where
  "resource_match request rule =
     (case ru_resourcePrefix rule of None \<Rightarrow> True | Some p \<Rightarrow> p = [] \<or> HasPrefix (eq_resource request) p)"

definition eval_rule :: "EvaluateRequest \<Rightarrow> LoadedBundle \<Rightarrow> PolicyRule \<Rightarrow> evaluation \<Rightarrow> evaluation" where
  "eval_rule request bundle rule ev =
     (if ru_actionClass rule \<noteq> eq_actionClass request then ev
      else
        (let fired = resource_match request rule
         in \<lparr>ev_matched = ev_matched ev @ [\<lparr>rm_ruleName = ru_ruleName rule, rm_bundleName = lb_bundleName bundle,
                rm_actionClass = ru_actionClass rule, rm_effect = ru_effect rule, rm_fired = fired,
                rm_matchReason = (if fired then ''resource_match'' else ''resource_mismatch'')\<rparr>],
             ev_allow = (ev_allow ev \<or> fired \<and> ru_effect rule = ALLOW),
             ev_escalate = (ev_escalate ev \<or> fired \<and> ru_effect rule = ESCALATE),
             ev_deny = (ev_deny ev \<or> fired \<and> ru_effect rule = DENY), ev_covered = True\<rparr>))"

definition eval_bundles :: "EvaluateRequest \<Rightarrow> LoadedBundle list \<Rightarrow> evaluation" where
  "eval_bundles request bundles =
     fold (\<lambda>b. fold (eval_rule request b) (lb_rules b)) bundles
       \<lparr>ev_matched = [], ev_allow = False, ev_escalate = False, ev_deny = False, ev_covered = False\<rparr>"

definition fired_names :: "PolicyEffect \<Rightarrow> RuleMatch list \<Rightarrow> string list" where
  "fired_names e ms = map rm_ruleName (filter (\<lambda>m. rm_fired m \<and> rm_effect m = e) ms)"

definition evaluateWithBundles :: "EvaluateRequest \<Rightarrow> LoadedBundle list \<Rightarrow> decision" where
  "evaluateWithBundles request bundles =
     (case assertAdmissionEnvelope request of
        Some reason \<Rightarrow> \<lparr>de_effect = DENY, de_denyReason = reason, de_matchedRules = [], de_firedRules = []\<rparr>
      | None \<Rightarrow>
          (let ev = eval_bundles request bundles; ms = ev_matched ev;
               answer = (\<lambda>e reason fired. \<lparr>de_effect = e, de_denyReason = reason, de_matchedRules = ms, de_firedRules = fired\<rparr>)
           in if \<not> ev_covered ev then answer DENY ''no_policy_covers_action_class'' []
              else if ev_deny ev then answer DENY ''deny_rule_fired'' (fired_names DENY ms)
              else if ev_escalate ev then answer ESCALATE [] (fired_names ESCALATE ms)
              else if ev_allow ev then answer ALLOW [] (fired_names ALLOW ms)
              else answer DENY ''no_rule_fired'' []))"

section \<open>What a decision means\<close>

definition rule_fires :: "EvaluateRequest \<Rightarrow> PolicyRule \<Rightarrow> bool" where
  "rule_fires request rule \<longleftrightarrow> ru_actionClass rule = eq_actionClass request \<and> resource_match request rule"

definition fires :: "EvaluateRequest \<Rightarrow> LoadedBundle list \<Rightarrow> PolicyEffect \<Rightarrow> bool" where
  "fires request bundles e \<longleftrightarrow> (\<exists>b \<in> set bundles. \<exists>r \<in> set (lb_rules b). rule_fires request r \<and> ru_effect r = e)"

definition scope_covers_action :: "string \<Rightarrow> string \<Rightarrow> bool" where
  "scope_covers_action ac pat \<longleftrightarrow> ac = pat \<or> (\<exists>pre. pat = pre @ ''*'' \<and> prefix pre ac)"

definition cap_kept :: "(string \<times> string) list \<Rightarrow> string \<Rightarrow> f64 \<Rightarrow> bool" where
  "cap_kept meta metric cap \<longleftrightarrow>
     (case js_property meta metric of
        Undefined \<Rightarrow> True | Inherited \<Rightarrow> False
      | Own raw \<Rightarrow> raw = [] \<or> js_Number raw \<noteq> NaN \<and> \<not> f64_less cap (js_Number raw))"

definition within_envelope :: "EvaluateRequest \<Rightarrow> OpaEnvelope \<Rightarrow> bool" where
  "within_envelope request env \<longleftrightarrow>
     (ae_admittedScopes env = [] \<or> (\<exists>pat \<in> set (ae_admittedScopes env). scope_covers_action (eq_actionClass request) pat)) \<and>
     (\<forall>(metric, cap) \<in> set (ae_admittedBehavioralCaps env). cap_kept (cx_actionMetadata (eq_context request)) metric cap)"

definition admitted_request :: "EvaluateRequest \<Rightarrow> bool" where
  "admitted_request request \<longleftrightarrow>
     (case cx_admissionEnvelope (eq_context request) of None \<Rightarrow> True | Some env \<Rightarrow> within_envelope request env)"

definition rule_match :: "EvaluateRequest \<Rightarrow> LoadedBundle \<Rightarrow> PolicyRule \<Rightarrow> RuleMatch" where
  "rule_match request bundle rule = \<lparr>rm_ruleName = ru_ruleName rule, rm_bundleName = lb_bundleName bundle,
     rm_actionClass = ru_actionClass rule, rm_effect = ru_effect rule, rm_fired = resource_match request rule,
     rm_matchReason = (if resource_match request rule then ''resource_match'' else ''resource_mismatch'')\<rparr>"

definition evidence :: "EvaluateRequest \<Rightarrow> LoadedBundle list \<Rightarrow> RuleMatch list" where
  "evidence request bundles =
     concat (map (\<lambda>b. map (rule_match request b) (filter (\<lambda>r. ru_actionClass r = eq_actionClass request) (lb_rules b))) bundles)"

lemma scope_admits_iff: "scope_admits ac pat \<longleftrightarrow> scope_covers_action ac pat"
proof (cases "HasSuffix pat ''*''")
  case True
  then obtain pre where "pat = pre @ ''*''" by (auto simp: HasSuffix_def suffix_def)
  then show ?thesis by (auto simp: scope_admits_def scope_covers_action_def HasSuffix_def suffix_def HasPrefix_def)
qed (auto simp: scope_admits_def scope_covers_action_def HasSuffix_def suffix_def)

lemma check_cap_None: "check_cap meta (metric, cap) = None \<longleftrightarrow> cap_kept meta metric cap"
  by (auto simp: check_cap_def cap_kept_def Let_def split: js_prop.split)

lemma check_caps_None: "check_caps meta caps = None \<longleftrightarrow> (\<forall>(metric, cap) \<in> set caps. cap_kept meta metric cap)"
  by (induction caps) (auto simp: check_cap_None [symmetric] split: option.split prod.split)

lemma check_caps_reason: "check_caps meta caps = Some reason \<Longrightarrow> HasPrefix reason ''admission_''"
  by (induction caps)
    (auto simp: check_cap_def Let_def HasPrefix_def split: option.splits js_prop.splits if_splits prod.splits)

lemma assertAdmissionEnvelope_None: "assertAdmissionEnvelope request = None \<longleftrightarrow> admitted_request request"
  by (auto simp: assertAdmissionEnvelope_def admitted_request_def within_envelope_def check_caps_None list_ex_iff scope_admits_iff
      split: option.split)

lemma assertAdmissionEnvelope_reason: "assertAdmissionEnvelope request = Some reason \<Longrightarrow> HasPrefix reason ''admission_''"
  by (auto simp: assertAdmissionEnvelope_def HasPrefix_def dest: check_caps_reason split: option.splits if_splits)

lemma eval_rules_step:
  "fold (eval_rule request b) rs ev = \<lparr>
     ev_matched = ev_matched ev @ map (rule_match request b) (filter (\<lambda>r. ru_actionClass r = eq_actionClass request) rs),
     ev_allow = (ev_allow ev \<or> (\<exists>r \<in> set rs. rule_fires request r \<and> ru_effect r = ALLOW)),
     ev_escalate = (ev_escalate ev \<or> (\<exists>r \<in> set rs. rule_fires request r \<and> ru_effect r = ESCALATE)),
     ev_deny = (ev_deny ev \<or> (\<exists>r \<in> set rs. rule_fires request r \<and> ru_effect r = DENY)),
     ev_covered = (ev_covered ev \<or> (\<exists>r \<in> set rs. ru_actionClass r = eq_actionClass request))\<rparr>"
proof (induction rs arbitrary: ev)
  case (Cons r rs)
  then show ?case
    by (cases "ru_actionClass r = eq_actionClass request")
      (auto simp: eval_rule_def rule_match_def rule_fires_def Let_def)
qed simp

lemma eval_bundles_step:
  "fold (\<lambda>b. fold (eval_rule request b) (lb_rules b)) bs ev = \<lparr>
     ev_matched = ev_matched ev @ evidence request bs,
     ev_allow = (ev_allow ev \<or> fires request bs ALLOW), ev_escalate = (ev_escalate ev \<or> fires request bs ESCALATE),
     ev_deny = (ev_deny ev \<or> fires request bs DENY), ev_covered = (ev_covered ev \<or> evidence request bs \<noteq> [])\<rparr>"
  by (induction bs arbitrary: ev) (auto simp: eval_rules_step evidence_def fires_def filter_empty_conv)

lemma fires_evidence: "fires request bs e \<longleftrightarrow> (\<exists>m \<in> set (evidence request bs). rm_fired m \<and> rm_effect m = e)"
  by (fastforce simp: fires_def evidence_def rule_fires_def rule_match_def)

lemma decision_effect:
  "de_effect (evaluateWithBundles request bundles) =
     (if admitted_request request
      then if fires request bundles DENY then DENY
        else if fires request bundles ESCALATE then ESCALATE else if fires request bundles ALLOW then ALLOW else DENY
      else DENY)"
  "de_matchedRules (evaluateWithBundles request bundles) = (if admitted_request request then evidence request bundles else [])"
proof -
  have "evidence request bundles \<noteq> []" if "fires request bundles e" for e
    using that by (auto simp: fires_evidence)
  then show "de_effect (evaluateWithBundles request bundles) =
     (if admitted_request request
      then if fires request bundles DENY then DENY
        else if fires request bundles ESCALATE then ESCALATE else if fires request bundles ALLOW then ALLOW else DENY
      else DENY)"
    "de_matchedRules (evaluateWithBundles request bundles) = (if admitted_request request then evidence request bundles else [])"
    by (cases "assertAdmissionEnvelope request",
        auto simp: evaluateWithBundles_def eval_bundles_def eval_bundles_step Let_def assertAdmissionEnvelope_None [symmetric])
qed

text \<open>
  C20: The decision of the policy evaluator is exactly deny over escalate over allow. A request outside its admission envelope is
  denied before any rule is looked at; otherwise a fired deny rule denies, else a fired escalate rule escalates, else a
  fired allow rule allows, and a request for which no rule fires is denied. The evidence is every rule for the
  action class in order, a reason is given exactly for a denial, and the rules reported as fired are those with the effect
  decided.
\<close>

theorem policy_decision_exact:
  "de_effect (evaluateWithBundles request bundles) =
     (if admitted_request request
      then if fires request bundles DENY then DENY
        else if fires request bundles ESCALATE then ESCALATE else if fires request bundles ALLOW then ALLOW else DENY
      else DENY) \<and>
   de_matchedRules (evaluateWithBundles request bundles) = (if admitted_request request then evidence request bundles else []) \<and>
   (de_denyReason (evaluateWithBundles request bundles) = [] \<longleftrightarrow> de_effect (evaluateWithBundles request bundles) \<noteq> DENY) \<and>
   de_firedRules (evaluateWithBundles request bundles) =
     fired_names (de_effect (evaluateWithBundles request bundles)) (de_matchedRules (evaluateWithBundles request bundles))"
proof -
  have fired: "fired_names DENY (evidence request bundles) = []" if "\<not> fires request bundles DENY"
    using that by (auto simp: fired_names_def fires_evidence filter_empty_conv)
  have "(de_denyReason (evaluateWithBundles request bundles) = [] \<longleftrightarrow> de_effect (evaluateWithBundles request bundles) \<noteq> DENY) \<and>
    de_firedRules (evaluateWithBundles request bundles) =
      fired_names (de_effect (evaluateWithBundles request bundles)) (de_matchedRules (evaluateWithBundles request bundles))"
    using fired assertAdmissionEnvelope_reason [of request]
    by (auto simp: evaluateWithBundles_def eval_bundles_def eval_bundles_step Let_def fired_names_def HasPrefix_def split: option.split)
  with decision_effect show ?thesis by blast
qed

section \<open>Printing and compiling\<close>

definition rule_text :: "PolicyRule \<Rightarrow> string" where
  "rule_text r = Join [effect_name (ru_effect r), ''action='' @ ru_actionClass r,
     ''prefix='' @ (case ru_resourcePrefix r of None \<Rightarrow> [] | Some p \<Rightarrow> p)] '' ''"

definition rules_text :: "PolicyRule list \<Rightarrow> string" where
  "rules_text rs = Join (map rule_text rs) [CHR 0x0A]"

text \<open>The words of a text, and the texts that contain no effect as a word.\<close>

function wordlist :: "string \<Rightarrow> string list" where
  "wordlist [] = []"
| "wordlist (c # s) = (if is_word c then (c # takeWhile is_word s) # wordlist (dropWhile is_word s) else wordlist s)"
  by pat_completeness auto
termination
  by (relation "measure length") (auto simp: less_Suc_eq_le length_dropWhile_le)

definition names_effect :: "string \<Rightarrow> bool" where
  "names_effect w \<longleftrightarrow> map upper_byte w \<in> set (map effect_name effects)"

definition printable_rule :: "PolicyRule \<Rightarrow> bool" where
  "printable_rule r \<longleftrightarrow> ru_actionClass r \<noteq> [] \<and> list_all graphic (ru_actionClass r) \<and>
     \<not> list_ex names_effect (wordlist (''action='' @ ru_actionClass r)) \<and>
     (case ru_resourcePrefix r of None \<Rightarrow> False
      | Some p \<Rightarrow> list_all graphic p \<and> \<not> list_ex names_effect (wordlist (''prefix='' @ p)))"

definition numbered_rule :: "nat \<Rightarrow> PolicyRule \<Rightarrow> PolicyRule" where
  "numbered_rule i r = r\<lparr>ru_ruleName := map lower_byte (effect_name (ru_effect r)) @ ''_rule_'' @ Itoa (int i + 1)\<rparr>"

lemma effect_name_word: "list_all is_word (effect_name e)" "list_all graphic (effect_name e)" "effect_name e \<noteq> []"
  "map upper_byte (effect_name e) = effect_name e"
  by (simp_all add: effect_name_def is_word_def graphic_def upper_byte_def split: PolicyEffect.split)

lemma is_word_upper [simp]: "is_word (upper_byte c) \<longleftrightarrow> is_word c"
  by (auto simp: is_word_def upper_byte_def Let_def of_char_of)

lemma starts_word_iff: "starts_word s \<longleftrightarrow> s \<noteq> [] \<and> is_word (hd s)"
  by (auto simp: starts_word_def split: list.split)

lemma take_word:
  assumes "map upper_byte (take n s) = w" "length w = n" "list_all is_word w" "\<not> starts_word (drop n s)"
  shows "takeWhile is_word s = take n s" "dropWhile is_word s = drop n s"
proof -
  have all: "\<forall>c \<in> set (take n s). is_word c" using assms(1,3) by (auto simp: list_all_iff)
  have "s = take n s @ drop n s" by simp
  moreover have "takeWhile is_word (drop n s) = []" "dropWhile is_word (drop n s) = drop n s"
    using assms(4) by (cases "drop n s"; simp add: starts_word_iff)+
  ultimately show "takeWhile is_word s = take n s" "dropWhile is_word s = drop n s"
    using all by (metis append_Nil2 takeWhile_append2, metis dropWhile_append2)
qed

lemma effect_name_inj: "effect_name e = effect_name e' \<longleftrightarrow> e = e'"
  by (cases e; cases e') (simp_all add: effect_name_def)

lemma find_unique:
  assumes "x \<in> set xs" "P x" "\<And>y. P y \<Longrightarrow> y = x"
  shows "find P xs = Some x"
proof (cases "find P xs")
  case None
  then show ?thesis using assms(1,2) by (simp add: find_None_iff)
next
  case (Some y)
  then have "P y" by (auto simp: find_Some_iff)
  then have "y = x" by (rule assms(3))
  with Some show ?thesis by simp
qed

lemma in_effects: "e \<in> set effects"
  by (cases e) (simp_all add: effects_def)

lemma effect_at_iff: "effect_at s = Some e \<longleftrightarrow> map upper_byte (takeWhile is_word s) = effect_name e"
proof -
  let ?P = "\<lambda>e. map upper_byte (take (length (effect_name e)) s) = effect_name e \<and> \<not> starts_word (drop (length (effect_name e)) s)"
  have iff: "?P e \<longleftrightarrow> map upper_byte (takeWhile is_word s) = effect_name e" for e
  proof
    assume P: "?P e"
    then show "map upper_byte (takeWhile is_word s) = effect_name e"
      using take_word [of "length (effect_name e)" s "effect_name e"] effect_name_word(1) by auto
  next
    assume eq: "map upper_byte (takeWhile is_word s) = effect_name e"
    then have n: "length (effect_name e) = length (takeWhile is_word s)" by (metis length_map)
    have "\<not> starts_word (dropWhile is_word s)" by (metis hd_dropWhile starts_word_iff)
    with eq show "?P e" unfolding n by (simp add: takeWhile_eq_take [symmetric] dropWhile_eq_drop [symmetric])
  qed
  show ?thesis
  proof
    assume "effect_at s = Some e"
    then show "map upper_byte (takeWhile is_word s) = effect_name e" unfolding effect_at_def iff by (auto simp: find_Some_iff)
  next
    assume "map upper_byte (takeWhile is_word s) = effect_name e"
    then show "effect_at s = Some e" unfolding effect_at_def iff by (intro find_unique) (auto simp: in_effects effect_name_inj)
  qed
qed

lemma names_effect_iff: "names_effect w \<longleftrightarrow> (\<exists>e. map upper_byte w = effect_name e)"
  using in_effects by (auto simp: names_effect_def)

text \<open>The global match counts the words that name an effect.\<close>

lemma count_effects_words:
  "count_effects w s = length (filter names_effect (wordlist (if w then dropWhile is_word s else s)))"
proof (induction w s rule: count_effects.induct)
  case (2 w c s)
  show ?case
  proof (cases "if w then None else effect_at (c # s)")
    case None
    have word: "\<not> names_effect (c # takeWhile is_word s)" if "\<not> w" "is_word c"
      using None that effect_at_iff [of "c # s"] by (auto simp: names_effect_iff)
    show ?thesis using "2.IH"(1) [OF None] None word by auto
  next
    case (Some e)
    then have w: "\<not> w" and eff: "map upper_byte (takeWhile is_word (c # s)) = effect_name e"
      by (auto simp: effect_at_iff split: if_splits)
    then have c: "is_word c" using effect_name_word(3) [of e] by (auto split: if_splits)
    have "length (effect_name e) = length (takeWhile is_word (c # s))" using eff by (metis length_map)
    then have rest: "drop (length (effect_name e)) (c # s) = dropWhile is_word s"
      using c by (simp add: dropWhile_eq_drop)
    have "names_effect (c # takeWhile is_word s)" using eff c by (auto simp: names_effect_iff)
    with "2.IH"(2) [OF Some] Some w c rest show ?thesis by (simp add: dropWhile_idem)
  qed
qed simp

lemma wordlist_blank: "wordlist (s @ CHR '' '' # t) = wordlist s @ wordlist t"
proof (induction s rule: wordlist.induct)
  case 1
  then show ?case by (simp add: is_word_def)
next
  case (2 c s)
  have blank: "\<not> is_word CHR '' ''" by (simp add: is_word_def)
  then have "takeWhile is_word (s @ CHR '' '' # t) = takeWhile is_word s"
    "dropWhile is_word (s @ CHR '' '' # t) = dropWhile is_word s @ CHR '' '' # t"
    by (induction s) auto
  with 2 show ?case by simp
qed

lemma has_action_later: "has_action False t \<Longrightarrow> has_action w (s @ CHR '' '' # t)"
  by (induction s arbitrary: w) (simp_all add: is_word_def)

lemma has_action_here:
  assumes "list_all graphic a" "a \<noteq> []"
  shows "has_action False (''action='' @ a @ t)"
proof -
  obtain c u where "a = c # u" "graphic c" using assms by (cases a) auto
  then show ?thesis by (simp add: HasPrefix_def js_space_len_graphic)
qed

lemma wordlist_word: "list_all is_word w \<Longrightarrow> w \<noteq> [] \<Longrightarrow> wordlist w = [w]"
  by (cases w) (auto simp: takeWhile_eq_all_conv list_all_iff dropWhile_eq_Nil_conv [THEN iffD2])

declare wordlist.simps [simp del] count_effects.simps [simp del] has_action.simps [simp del]

lemma compile_printed_line:
  assumes "printable_rule r"
  shows "compile_line i (rule_text r) = Some (numbered_rule i r)"
proof -
  obtain p where p: "ru_resourcePrefix r = Some p" "list_all graphic p" "\<not> list_ex names_effect (wordlist (''prefix='' @ p))"
    using assms unfolding printable_rule_def by (cases "ru_resourcePrefix r") simp_all
  let ?e = "effect_name (ru_effect r)" and ?a = "''action='' @ ru_actionClass r" and ?p = "''prefix='' @ p"
  have a: "ru_actionClass r \<noteq> []" "list_all graphic (ru_actionClass r)" "\<not> list_ex names_effect (wordlist ?a)"
    using assms unfolding printable_rule_def by blast+
  have line: "rule_text r = ?e @ CHR '' '' # ?a @ CHR '' '' # ?p" by (simp add: rule_text_def p)
  have blank: "\<not> is_word CHR '' ''" by (simp add: is_word_def)
  have tw: "takeWhile is_word (?e @ CHR '' '' # t) = ?e" for t
    using effect_name_word(1) [of "ru_effect r"] blank by (simp add: list_all_iff takeWhile_append2)
  have eff: "effect_at (rule_text r) = Some (ru_effect r)"
    unfolding line effect_at_iff tw by (rule effect_name_word(4))
  have "names_effect ?e" using effect_name_word(4) by (auto simp: names_effect_iff)
  moreover have "filter names_effect (wordlist ?a) = []" "filter names_effect (wordlist ?p) = []"
    using a(3) p(3) by (auto simp: list_ex_iff filter_empty_conv)
  ultimately have one: "count_effects False (rule_text r) = 1"
    unfolding line count_effects_words
    by (simp only: if_False wordlist_blank wordlist_word [OF effect_name_word(1,3)] filter_append) simp
  have act: "has_action False (rule_text r)"
    unfolding line using has_action_later [OF has_action_here [OF a(2,1), of "CHR '' '' # ?p"]] by simp
  have parts: "split_spaces (rule_text r) = [?e, ?a, ?p]"
    unfolding rule_text_def p option.case
    by (intro split_spaces_words) (simp_all add: a p effect_name_word graphic_def)
  have e: "find (\<lambda>e. effect_name e = map upper_byte ?e) effects = Some (ru_effect r)"
    unfolding effect_name_word(4) by (intro find_unique) (auto simp: in_effects effect_name_inj)
  have no: "\<not> HasPrefix ?e ''action=''" "\<not> HasPrefix ?e ''prefix=''"
    by (simp_all add: effect_name_def HasPrefix_def split: PolicyEffect.split)
  have "find (\<lambda>q. HasPrefix q ''action='') [?e, ?a, ?p] = Some ?a" "find (\<lambda>q. HasPrefix q ''prefix='') [?e, ?a, ?p] = Some ?p"
    using no by (simp_all add: HasPrefix_def)
  then show ?thesis
    unfolding compile_line_def eff one parts Let_def
    by (simp add: act e numbered_rule_def p)
qed

lemma Join_ends:
  assumes "ws \<noteq> []" "\<forall>w \<in> set ws. w \<noteq> [] \<and> graphic (hd w) \<and> graphic (last w)"
  shows "graphic (hd (Join ws sep))" "graphic (last (Join ws sep))" "Join ws sep \<noteq> []"
  using assms by (induction ws rule: induct_list012) auto

lemma Split_Join: "ws \<noteq> [] \<Longrightarrow> \<forall>w \<in> set ws. c \<notin> set w \<Longrightarrow> Split (Join ws [c]) c = ws"
  by (induction ws rule: induct_list012) (simp_all add: Split_plain Split_append)

lemma rule_text_shape:
  assumes "printable_rule r"
  shows "rule_text r \<noteq> []" "graphic (hd (rule_text r))" "graphic (last (rule_text r))" "CHR 0x0A \<notin> set (rule_text r)"
    "\<not> HasPrefix (rule_text r) ''#''"
proof -
  obtain p where p: "ru_resourcePrefix r = Some p" "list_all graphic p"
    using assms unfolding printable_rule_def by (cases "ru_resourcePrefix r") simp_all
  have a: "list_all graphic (ru_actionClass r)" using assms unfolding printable_rule_def by blast
  have nl: "\<not> graphic CHR 0x0A" by (simp add: graphic_def)
  show "CHR 0x0A \<notin> set (rule_text r)"
    using p a nl effect_name_word(2) [of "ru_effect r"] by (auto simp: rule_text_def list_all_iff)
  have "graphic (last (''prefix='' @ p))" using p(2) by (cases p rule: rev_cases) (simp_all add: graphic_def)
  then show "graphic (last (rule_text r))" by (simp add: rule_text_def p)
  show "rule_text r \<noteq> []" "graphic (hd (rule_text r))" "\<not> HasPrefix (rule_text r) ''#''"
    by (simp_all add: rule_text_def effect_name_def HasPrefix_def graphic_def split: PolicyEffect.split)
qed

lemma compile_printed_lines:
  "list_all printable_rule rs \<Longrightarrow> compile_lines i (map rule_text rs) = Some (map2 numbered_rule [i..<i + length rs] rs)"
proof (induction rs arbitrary: i)
  case (Cons r rs)
  have "[i..<i + length (r # rs)] = i # [Suc i..<Suc i + length rs]" by (simp add: upt_conv_Cons del: upt_Suc)
  with Cons show ?case by (simp add: compile_printed_line)
qed simp


definition default_source :: string where
  "default_source = ''ALLOW action=READ prefix=resource/'' @ [CHR 0x0A] @ ''DENY action=DELETE prefix=resource/protected''"

definition default_rules :: "PolicyRule list" where
  "default_rules = [\<lparr>ru_ruleName = ''allow_rule_1'', ru_actionClass = ''READ'', ru_effect = ALLOW, ru_resourcePrefix = Some ''resource/''\<rparr>,
     \<lparr>ru_ruleName = ''deny_rule_2'', ru_actionClass = ''DELETE'', ru_effect = DENY, ru_resourcePrefix = Some ''resource/protected''\<rparr>]"


end
