(* ===== verification/Opa_Service.thy ===== *)
theory Opa_Service
  imports Opa_Evaluator Registry_Service
begin

text \<open>
  The service of the policy layer (\<^verbatim>\<open>s1/opa-integration-layer/src/service.ts\<close>), its cache of decisions (\<^verbatim>\<open>cache.ts\<close>), the client of
  the registry for admission envelopes (\<^verbatim>\<open>grpc-admission-envelope-client.ts\<close>), and the start (\<^verbatim>\<open>main.ts\<close>).

  The code runs on one thread: an operation is interrupted only where it awaits. What runs meanwhile is an argument: \<open>oc_during\<close>
  while the registry is asked for an envelope, \<open>oc_after\<close> between its reply and the continuation.
\<close>

section \<open>The cache of decisions\<close>

record EvaluateResponse =
  re_evaluationId :: string
  re_effect :: PolicyEffect
  re_decisionReason :: string
  re_matchedRules :: "RuleMatch list"
  re_firedRules :: "string list"
  re_activeBundleNames :: "string list"
  re_activeBundleVersions :: "string list"
  re_evaluatedTs :: int
  re_cacheHit :: bool
  re_denyReason :: string

record CacheEntry =
  ce_value :: EvaluateResponse
  ce_cachedTs :: int

record EvaluationCache =
  ec_ttlMs :: int
  ec_maxEntries :: int
  ec_map :: "(string \<times> CacheEntry) list"

definition new_evaluation_cache :: "int \<Rightarrow> int \<Rightarrow> EvaluationCache" where
  "new_evaluation_cache ttlSeconds maxEntries = \<lparr>ec_ttlMs = ttlSeconds * 1000, ec_maxEntries = maxEntries, ec_map = []\<rparr>"

definition ec_get :: "string \<Rightarrow> int \<Rightarrow> EvaluationCache \<Rightarrow> EvaluateResponse option \<times> EvaluationCache" where
  "ec_get key nowMs c =
     (case alist_get (ec_map c) key of
        None \<Rightarrow> (None, c)
      | Some entry \<Rightarrow>
          if nowMs - ce_cachedTs entry > ec_ttlMs c then (None, c\<lparr>ec_map := alist_remove (ec_map c) key\<rparr>)
          else (Some ((ce_value entry)\<lparr>re_cacheHit := True, re_evaluatedTs := nowMs\<rparr>),
                c\<lparr>ec_map := alist_put (alist_remove (ec_map c) key) key entry\<rparr>))"

definition ec_set :: "string \<Rightarrow> EvaluateResponse \<Rightarrow> int \<Rightarrow> EvaluationCache \<Rightarrow> EvaluationCache" where
  "ec_set key value nowMs c =
     (let m = alist_put (alist_remove (ec_map c) key) key \<lparr>ce_value = value\<lparr>re_cacheHit := False\<rparr>, ce_cachedTs = nowMs\<rparr>
      in c\<lparr>ec_map := (if int (length m) > ec_maxEntries c then alist_remove m (fst (hd m)) else m)\<rparr>)"

definition ec_clear :: "EvaluationCache \<Rightarrow> EvaluationCache" where
  "ec_clear c = c\<lparr>ec_map := []\<rparr>"

definition invalidateForBundle :: "string \<Rightarrow> EvaluationCache \<Rightarrow> EvaluationCache" where
  "invalidateForBundle bundleName c =
     (let toDelete = map fst (filter (\<lambda>(key, entry). bundleName \<in> set (re_activeBundleNames (ce_value entry))) (ec_map c))
      in c\<lparr>ec_map := fold (\<lambda>key m. alist_remove m key) toDelete (ec_map c)\<rparr>)"

definition ec_size :: "EvaluationCache \<Rightarrow> nat" where
  "ec_size c = length (ec_map c)"

section \<open>State\<close>

record BundlePayload =
  bp_bundleId :: string
  bp_bundleName :: string
  bp_version :: string
  bp_regoSource :: string
  bp_integritySha256 :: "string option"
  bp_bundleSignatureEd25519 :: "string option"

record PolicyLifecycleEvent =
  le_eventType :: string
  le_bundleName :: string
  le_bundleVersion :: "string option"

datatype opa_error =
    InvalidArgumentError | NoActiveBundles | IntegrityMismatch | SignatureRequiresIntegrity | SignatureRequiresKey | BadKey
  | SignatureLength | SignatureVerifyFailed | RegoCompileError | BundleNotFound | RegistryFailed string | EnvelopeFailed code

record opa_options =
  oo_client :: bool
  oo_ttlSeconds :: "int option"

record opa_state =
  os_cache :: EvaluationCache
  os_loaded :: "(string \<times> LoadedBundle) list"
  os_errors :: "(string \<times> nat) list"
  os_admission :: "(string \<times> OpaEnvelope option \<times> int) list"
  os_inflight :: "string list"
  os_lastReloadTs :: int

definition new_opa_service :: "int \<Rightarrow> int \<Rightarrow> opa_state" where
  "new_opa_service cacheTtlSeconds cacheMaxEntries = \<lparr>os_cache = new_evaluation_cache cacheTtlSeconds cacheMaxEntries,
     os_loaded = [], os_errors = [], os_admission = [], os_inflight = [], os_lastReloadTs = 0\<rparr>"

section \<open>Loading bundles\<close>

text \<open>
  What the process and its libraries answer: the configured key, whether it is one, the decoding of base64 and the
  verification of a signature.
\<close>

record opa_crypto =
  ox_pem :: "string option"
  ox_key_ok :: "string \<Rightarrow> bool"
  ox_base64 :: "string \<Rightarrow> bytes"
  ox_verify :: "string \<Rightarrow> bytes \<Rightarrow> bytes \<Rightarrow> bool"

definition trimmed :: "string option \<Rightarrow> string" where
  "trimmed v = (case v of None \<Rightarrow> [] | Some s \<Rightarrow> js_trim s)"

definition verifyBundlePayload :: "opa_crypto \<Rightarrow> BundlePayload \<Rightarrow> opa_error option" where
  "verifyBundlePayload ox payload =
     (let expected = ToLower (trimmed (bp_integritySha256 payload)); sigB64 = trimmed (bp_bundleSignatureEd25519 payload);
          pem = trimmed (ox_pem ox)
      in if expected \<noteq> [] \<and> HexEncode (sha256 (bp_regoSource payload)) \<noteq> expected then Some IntegrityMismatch
         else if sigB64 = [] then None
         else if expected = [] then Some SignatureRequiresIntegrity
         else if pem = [] then Some SignatureRequiresKey
         else if \<not> ox_key_ok ox pem then Some BadKey
         else
           (let msg = bp_bundleId payload @ [CHR 0x0A] @ bp_version payload @ [CHR 0x0A] @ expected; sig = ox_base64 ox sigB64
            in if length sig \<noteq> 64 then Some SignatureLength
               else if \<not> ox_verify ox pem msg sig then Some SignatureVerifyFailed
               else None))"

definition compile_payload :: "opa_crypto \<Rightarrow> BundlePayload \<Rightarrow> opa_error + PolicyRule list" where
  "compile_payload ox payload =
     (case verifyBundlePayload ox payload of
        Some err \<Rightarrow> Inl err
      | None \<Rightarrow> (case compileRegoLikeSource (bp_regoSource payload) of None \<Rightarrow> Inl RegoCompileError | Some rules \<Rightarrow> Inr rules))"

definition bundle_of :: "BundlePayload \<Rightarrow> int \<Rightarrow> bool \<Rightarrow> PolicyRule list \<Rightarrow> LoadedBundle" where
  "bundle_of payload ts valid rules = \<lparr>lb_bundleName = bp_bundleName payload, lb_bundleId = bp_bundleId payload,
     lb_version = bp_version payload, lb_loadedTs = ts, lb_ruleCount = length rules, lb_compileValid = valid, lb_rules = rules\<rparr>"

text \<open>\<open>ts\<close> is the clock when the bundle is made, \<open>ts2\<close> when the reload is noted.\<close>

definition loadBundleFromPayload :: "opa_crypto \<Rightarrow> int \<Rightarrow> int \<Rightarrow> BundlePayload \<Rightarrow> bool \<Rightarrow> opa_state \<Rightarrow>
    (opa_error + LoadedBundle) \<times> opa_state" where
  "loadBundleFromPayload ox ts ts2 payload startupStrict s =
     (case compile_payload ox payload of
        Inr rules \<Rightarrow>
          (let loaded = bundle_of payload ts True rules
           in (Inr loaded, s\<lparr>os_loaded := alist_put (os_loaded s) (bp_bundleName payload) loaded,
                 os_cache := invalidateForBundle (bp_bundleName payload) (os_cache s), os_lastReloadTs := ts2\<rparr>))
      | Inl err \<Rightarrow>
          if startupStrict then (Inl err, s)
          else (Inr (case alist_get (os_loaded s) (bp_bundleName payload) of
                       Some old \<Rightarrow> old | None \<Rightarrow> bundle_of payload ts False []), s))"

text \<open>
  The registry of policies as it answers at the time of a call; \<open>others\<close> is what runs until its answer.
\<close>

record PolicyRegistryClient =
  pr_getActiveBundles :: "opa_error + BundlePayload list"
  pr_getActiveBundle :: "string \<Rightarrow> opa_error + BundlePayload"
  pr_getBundle :: "string \<Rightarrow> string \<Rightarrow> opa_error + BundlePayload"

fun load_all :: "opa_crypto \<Rightarrow> (nat \<Rightarrow> int) \<Rightarrow> nat \<Rightarrow> BundlePayload list \<Rightarrow> opa_state \<Rightarrow> opa_error option \<times> opa_state" where
  "load_all ox clock i [] s = (None, s)"
| "load_all ox clock i (p # ps) s =
     (case loadBundleFromPayload ox (clock (2 * i)) (clock (2 * i + 1)) p True s of
        (Inl err, s') \<Rightarrow> (Some err, s')
      | (Inr _, s') \<Rightarrow> load_all ox clock (Suc i) ps s')"

definition startupLoadBundles :: "opa_crypto \<Rightarrow> (nat \<Rightarrow> int) \<Rightarrow> PolicyRegistryClient \<Rightarrow> (opa_state \<Rightarrow> opa_state) \<Rightarrow> opa_state \<Rightarrow>
    opa_error option \<times> opa_state" where
  "startupLoadBundles ox clock reg others s =
     (case pr_getActiveBundles reg of
        Inl err \<Rightarrow> (Some err, others s)
      | Inr active \<Rightarrow> if active = [] then (Some NoActiveBundles, others s) else load_all ox clock 0 active (others s))"

definition reloadBundle :: "opa_crypto \<Rightarrow> int \<Rightarrow> int \<Rightarrow> PolicyRegistryClient \<Rightarrow> (opa_state \<Rightarrow> opa_state) \<Rightarrow> string \<Rightarrow> opa_state \<Rightarrow>
    (opa_error + LoadedBundle \<times> bool \<times> string) \<times> opa_state" where
  "reloadBundle ox ts ts2 reg others bundleName s =
     (if bundleName = [] then (Inl InvalidArgumentError, s)
      else
        (case pr_getActiveBundle reg bundleName of
           Inl err \<Rightarrow> (Inl err, others s)
         | Inr active \<Rightarrow>
             (let s1 = others s; load = loadBundleFromPayload ox ts ts2 active False s1;
                  reloaded = (map_sum id (\<lambda>b. (b, True, ''bundle reloaded'')) (fst load), snd load)
              in case alist_get (os_loaded s1) bundleName of
                   Some existing \<Rightarrow>
                     if lb_version existing = bp_version active
                     then (Inr (existing, False, ''no-op, already current version''), s1) else reloaded
                 | None \<Rightarrow> reloaded)))"

definition deprecate :: "int \<Rightarrow> string \<Rightarrow> opa_state \<Rightarrow> opa_state" where
  "deprecate ts bundleName s = s\<lparr>os_loaded := alist_remove (os_loaded s) bundleName,
     os_cache := invalidateForBundle bundleName (os_cache s), os_lastReloadTs := ts\<rparr>"

definition handleLifecycleEvent :: "opa_crypto \<Rightarrow> int \<Rightarrow> int \<Rightarrow> PolicyRegistryClient \<Rightarrow> (opa_state \<Rightarrow> opa_state) \<Rightarrow>
    PolicyLifecycleEvent \<Rightarrow> opa_state \<Rightarrow> opa_error option \<times> opa_state" where
  "handleLifecycleEvent ox ts ts2 reg others event s =
     (if le_eventType event = ''BUNDLE_ACTIVATED'' then
        (case (case le_bundleVersion event of
                 Some v \<Rightarrow> if v = [] then pr_getActiveBundle reg (le_bundleName event) else pr_getBundle reg (le_bundleName event) v
               | None \<Rightarrow> pr_getActiveBundle reg (le_bundleName event)) of
           Inl err \<Rightarrow> (Some err, others s)
         | Inr payload \<Rightarrow> (None, snd (loadBundleFromPayload ox ts ts2 payload False (others s))))
      else if le_eventType event = ''BUNDLE_DEPRECATED'' then (None, deprecate ts (le_bundleName event) s)
      else (None, s))"

text \<open>The order of the listing is that of the locale of the process.\<close>

definition getLoadedBundles :: "(LoadedBundle list \<Rightarrow> LoadedBundle list) \<Rightarrow> opa_state \<Rightarrow> LoadedBundle list \<times> int" where
  "getLoadedBundles by_locale s = (by_locale (map snd (os_loaded s)), os_lastReloadTs s)"

section \<open>Evaluation\<close>

definition selectBundles :: "string list option \<Rightarrow> opa_state \<Rightarrow> LoadedBundle list" where
  "selectBundles bundleNames s =
     (let loaded = map snd (os_loaded s)
      in case bundleNames of
           None \<Rightarrow> loaded
         | Some names \<Rightarrow> if names = [] then loaded else filter (\<lambda>b. lb_bundleName b \<in> set names) loaded)"

definition flattenMetadata :: "(string \<times> string) list \<Rightarrow> string" where
  "flattenMetadata meta =
     Join (map (\<lambda>k. k @ ''='' @ (case alist_get meta k of None \<Rightarrow> [] | Some v \<Rightarrow> v)) (js_sort (map fst meta))) ''&''"

definition key_bytes :: "string \<Rightarrow> string \<Rightarrow> string \<Rightarrow> string \<Rightarrow> string list \<Rightarrow> string \<Rightarrow> string \<Rightarrow> bytes" where
  "key_bytes agentId actionClass resource passportId sortedBundleVersions envelopeId actionMetadataKey =
     Join [agentId, actionClass, resource, passportId, Join sortedBundleVersions '','', envelopeId, actionMetadataKey] ''|''"

definition buildCacheKey :: "string \<Rightarrow> string \<Rightarrow> string \<Rightarrow> string \<Rightarrow> string list \<Rightarrow> string \<Rightarrow> string \<Rightarrow> string" where
  "buildCacheKey agentId actionClass resource passportId sortedBundleVersions envelopeId actionMetadataKey =
     HexEncode (sha256 (key_bytes agentId actionClass resource passportId sortedBundleVersions envelopeId actionMetadataKey))"

definition denyResponse :: "EvaluateRequest \<Rightarrow> int \<Rightarrow> string list \<Rightarrow> string list \<Rightarrow> string \<Rightarrow> EvaluateResponse" where
  "denyResponse request now bundleNames bundleVersions denyReason = \<lparr>
     re_evaluationId = eq_evaluationId request, re_effect = DENY, re_decisionReason = ''deny_by_default'', re_matchedRules = [],
     re_firedRules = [], re_activeBundleNames = bundleNames, re_activeBundleVersions = bundleVersions, re_evaluatedTs = now,
     re_cacheHit = False, re_denyReason = denyReason\<rparr>"

definition decision_response :: "EvaluateRequest \<Rightarrow> LoadedBundle list \<Rightarrow> int \<Rightarrow> decision \<Rightarrow> EvaluateResponse" where
  "decision_response request selected now d = \<lparr>
     re_evaluationId = eq_evaluationId request, re_effect = de_effect d,
     re_decisionReason = (if de_effect d = DENY \<and> HasPrefix (de_denyReason d) ''admission_'' then ''admission_envelope''
                          else if de_effect d = DENY then ''deny_by_default'' else ''policy_decision''),
     re_matchedRules = de_matchedRules d, re_firedRules = de_firedRules d, re_activeBundleNames = map lb_bundleName selected,
     re_activeBundleVersions = map lb_version selected, re_evaluatedTs = now, re_cacheHit = False, re_denyReason = de_denyReason d\<rparr>"

definition request_key_bytes :: "EvaluateRequest \<Rightarrow> LoadedBundle list \<Rightarrow> bytes" where
  "request_key_bytes request selected =
     key_bytes (eq_agentId request) (eq_actionClass request) (eq_resource request) (cx_passportId (eq_context request))
       (js_sort (map (\<lambda>b. lb_bundleName b @ '':'' @ lb_version b) selected))
       (case cx_admissionEnvelope (eq_context request) of None \<Rightarrow> ''none'' | Some env \<Rightarrow> ae_envelopeId env)
       (flattenMetadata (cx_actionMetadata (eq_context request)))"

definition request_key :: "EvaluateRequest \<Rightarrow> LoadedBundle list \<Rightarrow> string" where
  "request_key request selected = HexEncode (sha256 (request_key_bytes request selected))"

text \<open>The counter of consecutive errors of a bundle; the tenth unloads it.\<close>

definition count_error :: "LoadedBundle \<Rightarrow> opa_state \<Rightarrow> opa_state" where
  "count_error b s =
     (let errors = (case alist_get (os_errors s) (lb_bundleName b) of None \<Rightarrow> 0 | Some n \<Rightarrow> n) + 1;
          s1 = s\<lparr>os_errors := alist_put (os_errors s) (lb_bundleName b) errors\<rparr>
      in if errors \<ge> 10 then s1\<lparr>os_loaded := alist_remove (os_loaded s1) (lb_bundleName b)\<rparr> else s1)"

text \<open>
  The part of an evaluation after the envelope is known; it runs without interruption. \<open>evaluator\<close> is the evaluator the service was
  made with, which may throw.
\<close>

definition opa_decide :: "(EvaluateRequest \<Rightarrow> LoadedBundle list \<Rightarrow> decision option) \<Rightarrow> int \<Rightarrow> EvaluateRequest \<Rightarrow> opa_state \<Rightarrow>
    EvaluateResponse \<times> opa_state" where
  "opa_decide evaluator now request s =
     (let selected = selectBundles (eq_bundleNames request) s; cacheKey = request_key request selected
      in case ec_get cacheKey now (os_cache s) of
           (Some cached, c) \<Rightarrow> (cached, s\<lparr>os_cache := c\<rparr>)
         | (None, c) \<Rightarrow>
             (let s1 = s\<lparr>os_cache := c\<rparr>
              in if selected = [] then
                   (let deny = denyResponse request now [] [] ''no_policy_covers_action_class''
                    in (deny, s1\<lparr>os_cache := ec_set cacheKey deny now c\<rparr>))
                 else
                   (case evaluator request selected of
                      Some d \<Rightarrow>
                        (let response = decision_response request selected now d
                         in (response, s1\<lparr>os_cache := ec_set cacheKey response now c,
                              os_errors := fold (\<lambda>b m. alist_put m (lb_bundleName b) 0) selected (os_errors s1)\<rparr>))
                    | None \<Rightarrow>
                        (denyResponse request now (map lb_bundleName selected) (map lb_version selected) ''evaluation_error'',
                         fold count_error selected s1))))"

record opa_call =
  oc_now :: int
  oc_reply :: "opa_error + OpaEnvelope option"
  oc_replied :: int
  oc_during :: "opa_state \<Rightarrow> opa_state"
  oc_after :: "opa_state \<Rightarrow> opa_state"

text \<open>
  One request for the envelope of an agent is made at a time; whoever asks meanwhile gets its reply. The first one stores the
  reply and removes the mark; a failure is not stored.
\<close>

definition fetch_begin :: "string \<Rightarrow> opa_state \<Rightarrow> opa_state" where
  "fetch_begin agentId s = s\<lparr>os_inflight := agentId # os_inflight s\<rparr>"

definition fetch_end :: "string \<Rightarrow> opa_error + OpaEnvelope option \<Rightarrow> int \<Rightarrow> opa_state \<Rightarrow> opa_state" where
  "fetch_end agentId reply ts s =
     s\<lparr>os_admission := (case reply of Inl _ \<Rightarrow> os_admission s | Inr env \<Rightarrow> alist_put (os_admission s) agentId (env, ts)),
       os_inflight := filter (\<lambda>a. a \<noteq> agentId) (os_inflight s)\<rparr>"

definition resolveAdmissionEnvelope :: "opa_options \<Rightarrow> opa_call \<Rightarrow> string \<Rightarrow> int \<Rightarrow> opa_state \<Rightarrow>
    (opa_error + OpaEnvelope option) \<times> opa_state" where
  "resolveAdmissionEnvelope opts call agentId nowMs s =
     (if \<not> oo_client opts then (Inr None, s)
      else
        (let ttlMs = (case oo_ttlSeconds opts of None \<Rightarrow> 30 | Some t \<Rightarrow> t) * 1000;
             fetched = (if agentId \<in> set (os_inflight s) then (oc_reply call, oc_during call s)
                        else (oc_reply call, fetch_end agentId (oc_reply call) (oc_replied call) (oc_during call (fetch_begin agentId s))))
         in case alist_get (os_admission s) agentId of
              Some (env, ts) \<Rightarrow> if nowMs - ts < ttlMs then (Inr env, s) else fetched
            | None \<Rightarrow> fetched))"

definition with_envelope :: "EvaluateRequest \<Rightarrow> OpaEnvelope option \<Rightarrow> EvaluateRequest" where
  "with_envelope request fetched =
     (case fetched of None \<Rightarrow> request
      | Some env \<Rightarrow> request\<lparr>eq_context := (eq_context request)\<lparr>cx_admissionEnvelope := Some env\<rparr>\<rparr>)"

definition valid_request :: "EvaluateRequest \<Rightarrow> bool" where
  "valid_request r \<longleftrightarrow> eq_evaluationId r \<noteq> [] \<and> eq_agentId r \<noteq> [] \<and> eq_actionClass r \<noteq> [] \<and> eq_resource r \<noteq> [] \<and>
     cx_passportId (eq_context r) \<noteq> []"

definition opa_evaluate :: "(EvaluateRequest \<Rightarrow> LoadedBundle list \<Rightarrow> decision option) \<Rightarrow> opa_options \<Rightarrow> opa_call \<Rightarrow> EvaluateRequest \<Rightarrow>
    opa_state \<Rightarrow> (opa_error + EvaluateResponse) \<times> opa_state" where
  "opa_evaluate evaluator opts call request s =
     (let now = oc_now call
      in if \<not> valid_request request then (Inl InvalidArgumentError, s)
         else if cx_admissionEnvelope (eq_context request) = None \<and> oo_client opts then
           (case resolveAdmissionEnvelope opts call (eq_agentId request) now s of
              (Inl err, s1) \<Rightarrow> (Inl err, oc_after call s1)
            | (Inr fetched, s1) \<Rightarrow>
                (case opa_decide evaluator now (with_envelope request fetched) (oc_after call s1) of (r, s2) \<Rightarrow> (Inr r, s2)))
         else (case opa_decide evaluator now request s of (r, s1) \<Rightarrow> (Inr r, s1)))"

text \<open>The evaluator of the repository never throws.\<close>

definition default_evaluator :: "EvaluateRequest \<Rightarrow> LoadedBundle list \<Rightarrow> decision option" where
  "default_evaluator request bundles = Some (evaluateWithBundles request bundles)"

section \<open>The client of the registry\<close>

definition envelope_from_proto :: "pbAdmissionEnvelope \<Rightarrow> OpaEnvelope" where
  "envelope_from_proto e = \<lparr>ae_envelopeId = pe_EnvelopeId e, ae_agentId = pe_AgentId e, ae_policyId = pe_PolicyId e,
     ae_policyVer = pe_PolicyVer e, ae_admittedScopes = pe_AdmittedScopes e,
     ae_admittedBehavioralCaps = js_entries (map (\<lambda>(k, v). (k, Fin v)) (pe_AdmittedBehavioralCaps e)),
     ae_admittedTsMs = js_Number (Itoa (pe_AdmittedTsMs e)), ae_issuingAuthority = pe_IssuingAuthority e, ae_signature = pe_Signature e\<rparr>"

definition client_getAdmissionEnvelope :: "('m, pbAdmissionEnvelope option) rpc \<Rightarrow> opa_error + OpaEnvelope option" where
  "client_getAdmissionEnvelope reply =
     (case reply of
        Inl (c, _) \<Rightarrow> if c = NotFound then Inr None else Inl (EnvelopeFailed c)
      | Inr envelope \<Rightarrow> Inr (map_option envelope_from_proto envelope))"

section \<open>Start\<close>

definition StaticRegistry :: "(string \<Rightarrow> string option) \<Rightarrow> BundlePayload list" where
  "StaticRegistry env =
     (let raw = env ''ARE_OPA_DEFAULT_BUNDLE_NAME'';
          bundleName = (if trimmed raw \<noteq> [] then trimmed raw else ''default-policy'')
      in [\<lparr>bp_bundleId = ''bundle-default-1'', bp_bundleName = bundleName, bp_version = ''1.0.0'', bp_regoSource = default_source,
           bp_integritySha256 = None, bp_bundleSignatureEd25519 = None\<rparr>])"

definition static_getActiveBundle :: "BundlePayload list \<Rightarrow> string \<Rightarrow> opa_error + BundlePayload" where
  "static_getActiveBundle bundles bundleName =
     (case find (\<lambda>b. bp_bundleName b = bundleName) bundles of None \<Rightarrow> Inl BundleNotFound | Some b \<Rightarrow> Inr b)"

definition static_getBundle :: "BundlePayload list \<Rightarrow> string \<Rightarrow> string \<Rightarrow> opa_error + BundlePayload" where
  "static_getBundle bundles bundleName version =
     (case find (\<lambda>b. bp_bundleName b = bundleName \<and> bp_version b = version) bundles of None \<Rightarrow> Inl BundleNotFound | Some b \<Rightarrow> Inr b)"

definition static_registry :: "(string \<Rightarrow> string option) \<Rightarrow> PolicyRegistryClient" where
  "static_registry env = \<lparr>pr_getActiveBundles = Inr (StaticRegistry env), pr_getActiveBundle = static_getActiveBundle (StaticRegistry env),
     pr_getBundle = static_getBundle (StaticRegistry env)\<rparr>"

text \<open>The service, its options with the address of the registry, and the port of the health server.\<close>

record opa_process =
  op_state :: opa_state
  op_options :: opa_options
  op_registryAddr :: "string option"
  op_healthPort :: f64

definition bootstrap :: "opa_crypto \<Rightarrow> (nat \<Rightarrow> int) \<Rightarrow> (string \<Rightarrow> string option) \<Rightarrow> opa_error + opa_process" where
  "bootstrap ox clock env =
     (let addr = trimmed (env ''ARE_AGENT_REGISTRY_GRPC_ADDR'');
          port = js_Number (case env ''ARE_OPA_HEALTH_PORT'' of None \<Rightarrow> ''8080'' | Some v \<Rightarrow> v)
      in case startupLoadBundles ox clock (static_registry env) id (new_opa_service 30 10000) of
           (Some err, _) \<Rightarrow> Inl err
         | (None, s) \<Rightarrow> Inr \<lparr>op_state = s, op_options = \<lparr>oo_client = (addr \<noteq> []), oo_ttlSeconds = None\<rparr>,
             op_registryAddr = (if addr = [] then None else Some addr), op_healthPort = port\<rparr>)"

text \<open>The endpoints of the health server with a fixed answer, the one that looks at the bundles, and the value of the gauge.\<close>

definition opa_readyz :: "opa_state \<Rightarrow> nat \<times> string" where
  "opa_readyz s = (if length (os_loaded s) < 1 then (503, ''not_ready'') else (200, ''ready''))"

definition opa_health :: "opa_state \<Rightarrow> string \<Rightarrow> (nat \<times> string) option" where
  "opa_health s path = (if path = ''/healthz'' then Some (200, ''ok'') else if path = ''/readyz'' then Some (opa_readyz s) else None)"

definition bundles_gauge :: "(LoadedBundle list \<Rightarrow> LoadedBundle list) \<Rightarrow> opa_state \<Rightarrow> nat" where
  "bundles_gauge by_locale s = length (fst (getLoadedBundles by_locale s))"

text \<open>The key under which a decision is cached is the one the service builds from the parts of the request.\<close>

lemma request_key_built:
  "request_key request selected =
     buildCacheKey (eq_agentId request) (eq_actionClass request) (eq_resource request) (cx_passportId (eq_context request))
       (js_sort (map (\<lambda>b. lb_bundleName b @ '':'' @ lb_version b) selected))
       (case cx_admissionEnvelope (eq_context request) of None \<Rightarrow> ''none'' | Some env \<Rightarrow> ae_envelopeId env)
       (flattenMetadata (cx_actionMetadata (eq_context request)))"
  by (simp add: request_key_def request_key_bytes_def buildCacheKey_def)

end
