(* ===== verification/Opa_Correct.thy ===== *)
theory Opa_Correct
  imports Opa_Service Registry_Correct
begin

text \<open>
  The correctness properties of the policy layer: its state along every interleaving of loads, deprecations, requests for
  envelopes and decisions; what a cached decision is worth; on what an approval rests; and the admission envelope of
  the registry, from the registration of an agent to the denial of its request.
\<close>

section \<open>Interleavings\<close>

text \<open>
  The steps between two points at which the code waits. \<open>W\<close> has the questions that are decided, each a request with the bundles
  selected for it, and \<open>P\<close> the payloads that the registry of policies offers.
\<close>

inductive opa_step :: "opa_crypto \<Rightarrow> (EvaluateRequest \<Rightarrow> LoadedBundle list \<Rightarrow> decision option) \<Rightarrow>
    (EvaluateRequest \<times> LoadedBundle list) set \<Rightarrow> BundlePayload set \<Rightarrow> opa_state \<Rightarrow> opa_state \<Rightarrow> bool"
  for ox evaluator W P where
  step_load: "p \<in> P \<Longrightarrow> opa_step ox evaluator W P s (snd (loadBundleFromPayload ox ts ts2 p strict s))"
| step_deprecate: "opa_step ox evaluator W P s (deprecate ts bundleName s)"
| step_fetch: "opa_step ox evaluator W P s (fetch_begin agentId s)"
| step_fetched: "opa_step ox evaluator W P s (fetch_end agentId reply ts s)"
| step_decide: "(request, selectBundles (eq_bundleNames request) s) \<in> W \<Longrightarrow>
    opa_step ox evaluator W P s (snd (opa_decide evaluator now request s))"

definition opa_reaches :: "opa_crypto \<Rightarrow> (EvaluateRequest \<Rightarrow> LoadedBundle list \<Rightarrow> decision option) \<Rightarrow>
    (EvaluateRequest \<times> LoadedBundle list) set \<Rightarrow> BundlePayload set \<Rightarrow> opa_state \<Rightarrow> opa_state \<Rightarrow> bool" where
  "opa_reaches ox evaluator W P = (opa_step ox evaluator W P)\<^sup>*\<^sup>*"

definition opa_run :: "opa_crypto \<Rightarrow> (EvaluateRequest \<Rightarrow> LoadedBundle list \<Rightarrow> decision option) \<Rightarrow>
    (EvaluateRequest \<times> LoadedBundle list) set \<Rightarrow> BundlePayload set \<Rightarrow> opa_state \<Rightarrow> bool" where
  "opa_run ox evaluator W P s \<longleftrightarrow> (\<exists>ttl capacity. opa_reaches ox evaluator W P (new_opa_service ttl capacity) s)"

lemma opa_reaches_refl [simp]: "opa_reaches ox ev W P s s"
  by (simp add: opa_reaches_def)

lemma opa_reaches_step: "opa_reaches ox ev W P s t \<Longrightarrow> opa_step ox ev W P t u \<Longrightarrow> opa_reaches ox ev W P s u"
  by (auto simp: opa_reaches_def)

lemma opa_reaches_trans: "opa_reaches ox ev W P s t \<Longrightarrow> opa_reaches ox ev W P t u \<Longrightarrow> opa_reaches ox ev W P s u"
  by (auto simp: opa_reaches_def)

lemma opa_run_reaches: "opa_run ox ev W P s \<Longrightarrow> opa_reaches ox ev W P s t \<Longrightarrow> opa_run ox ev W P t"
  by (auto simp: opa_run_def intro: opa_reaches_trans)

lemma opa_run_induct [consumes 1, case_names start step]:
  assumes "opa_run ox ev W P s" "\<And>ttl capacity. Q (new_opa_service ttl capacity)"
    "\<And>s t. Q s \<Longrightarrow> opa_step ox ev W P s t \<Longrightarrow> Q t"
  shows "Q s"
proof -
  from assms(1) obtain ttl capacity where "(opa_step ox ev W P)\<^sup>*\<^sup>* (new_opa_service ttl capacity) s"
    by (auto simp: opa_run_def opa_reaches_def)
  then show ?thesis by (induction rule: rtranclp_induct) (auto intro: assms(2,3))
qed

text \<open>Every operation of the service is such a sequence of steps, when the code that runs while it waits is.\<close>

lemma load_all_steps: "set ps \<subseteq> P \<Longrightarrow> opa_reaches ox ev W P s (snd (load_all ox clock i ps s))"
proof (induction ps arbitrary: i s)
  case (Cons p ps)
  let ?l = "loadBundleFromPayload ox (clock (2 * i)) (clock (2 * i + 1)) p True s"
  have "opa_reaches ox ev W P s (snd ?l)"
    by (rule opa_reaches_step [OF opa_reaches_refl step_load]) (use Cons.prems in simp)
  then show ?case using opa_reaches_trans [OF _ Cons.IH [of "snd ?l" "Suc i"]] Cons.prems
    by (cases ?l) (simp split: sum.split)
qed simp

definition quiet :: "opa_crypto \<Rightarrow> (EvaluateRequest \<Rightarrow> LoadedBundle list \<Rightarrow> decision option) \<Rightarrow>
    (EvaluateRequest \<times> LoadedBundle list) set \<Rightarrow> BundlePayload set \<Rightarrow> (opa_state \<Rightarrow> opa_state) \<Rightarrow> bool" where
  "quiet ox ev W P others \<longleftrightarrow> (\<forall>s. opa_reaches ox ev W P s (others s))"

definition registry_offers :: "PolicyRegistryClient \<Rightarrow> BundlePayload set \<Rightarrow> bool" where
  "registry_offers reg P \<longleftrightarrow> (\<forall>ps. pr_getActiveBundles reg = Inr ps \<longrightarrow> set ps \<subseteq> P) \<and>
     (\<forall>n p. pr_getActiveBundle reg n = Inr p \<longrightarrow> p \<in> P) \<and> (\<forall>n v p. pr_getBundle reg n v = Inr p \<longrightarrow> p \<in> P)"

lemma load_steps: "opa_reaches ox ev W P s t \<Longrightarrow> p \<in> P \<Longrightarrow> opa_reaches ox ev W P s (snd (loadBundleFromPayload ox ts ts2 p strict t))"
  by (blast intro: opa_reaches_step step_load)

lemma startup_steps:
  assumes "quiet ox ev W P others" "registry_offers reg P"
  shows "opa_reaches ox ev W P s (snd (startupLoadBundles ox clock reg others s))"
proof -
  have "opa_reaches ox ev W P s (others s)" using assms(1) by (simp add: quiet_def)
  moreover have "opa_reaches ox ev W P s (snd (load_all ox clock 0 ps (others s)))" if "pr_getActiveBundles reg = Inr ps" for ps
    using opa_reaches_trans [OF calculation load_all_steps] assms(2) that by (simp add: registry_offers_def)
  ultimately show ?thesis by (simp add: startupLoadBundles_def split: sum.split)
qed

lemma reload_steps:
  assumes "quiet ox ev W P others" "registry_offers reg P"
  shows "opa_reaches ox ev W P s (snd (reloadBundle ox ts ts2 reg others bundleName s))"
proof -
  have "opa_reaches ox ev W P s (others s)" using assms(1) by (simp add: quiet_def)
  moreover have "opa_reaches ox ev W P s (snd (loadBundleFromPayload ox ts ts2 p False (others s)))"
    if "pr_getActiveBundle reg n = Inr p" for n p
    using load_steps [OF calculation] assms(2) that by (auto simp: registry_offers_def)
  ultimately show ?thesis by (simp add: reloadBundle_def Let_def split: sum.split option.split)
qed

lemma lifecycle_steps:
  assumes "quiet ox ev W P others" "registry_offers reg P"
  shows "opa_reaches ox ev W P s (snd (handleLifecycleEvent ox ts ts2 reg others event s))"
proof -
  have "opa_reaches ox ev W P s (others s)" using assms(1) by (simp add: quiet_def)
  moreover have "opa_reaches ox ev W P s (snd (loadBundleFromPayload ox ts ts2 p False (others s)))"
    if "pr_getActiveBundle reg n = Inr p \<or> pr_getBundle reg n v = Inr p" for n v p
    using load_steps [OF calculation] assms(2) that by (auto simp: registry_offers_def)
  moreover have "opa_reaches ox ev W P s (deprecate ts n s)" for n
    by (rule opa_reaches_step [OF opa_reaches_refl step_deprecate])
  ultimately show ?thesis by (simp add: handleLifecycleEvent_def split: sum.split option.split) blast
qed

lemma resolve_steps:
  assumes "quiet ox ev W P (oc_during call)"
  shows "opa_reaches ox ev W P s (snd (resolveAdmissionEnvelope opts call agentId now s))"
proof -
  have "opa_reaches ox ev W P s (oc_during call s)"
    "opa_reaches ox ev W P (fetch_begin agentId s) (oc_during call (fetch_begin agentId s))"
    using assms by (simp_all add: quiet_def)
  moreover from opa_reaches_step [OF opa_reaches_trans [OF opa_reaches_step [OF opa_reaches_refl step_fetch] this(2)] step_fetched]
  have "opa_reaches ox ev W P s (fetch_end agentId (oc_reply call) (oc_replied call) (oc_during call (fetch_begin agentId s)))" .
  ultimately show ?thesis by (simp add: resolveAdmissionEnvelope_def Let_def split: option.split prod.split)
qed

text \<open>
  An evaluation: the request is refused, the registry fails, or the decision is made in a state that the service reaches,
  on the request with its own envelope or with the one found.
\<close>

lemma opa_evaluate_invalid: "\<not> valid_request request \<Longrightarrow> opa_evaluate ev opts call request s = (Inl InvalidArgumentError, s)"
  by (simp add: opa_evaluate_def)

lemma opa_evaluate_direct:
  assumes "valid_request request" "\<not> (cx_admissionEnvelope (eq_context request) = None \<and> oo_client opts)"
  shows "opa_evaluate ev opts call request s = apfst Inr (opa_decide ev (oc_now call) request s)"
  unfolding opa_evaluate_def Let_def if_not_P [OF assms(2)] using assms(1)
  by (cases "opa_decide ev (oc_now call) request s") simp

lemma opa_evaluate_asks:
  assumes "valid_request request" "cx_admissionEnvelope (eq_context request) = None \<and> oo_client opts"
    "resolveAdmissionEnvelope opts call (eq_agentId request) (oc_now call) s = (reply, t)"
  shows "opa_evaluate ev opts call request s = (case reply of Inl err \<Rightarrow> (Inl err, oc_after call t)
    | Inr fetched \<Rightarrow> apfst Inr (opa_decide ev (oc_now call) (with_envelope request fetched) (oc_after call t)))"
  unfolding opa_evaluate_def Let_def if_P [OF assms(2)] assms(3) using assms(1)
  by (cases reply; cases "opa_decide ev (oc_now call) (with_envelope request (projr reply)) (oc_after call t)") simp_all

lemma evaluate_decides:
  assumes "quiet ox ev W P (oc_during call)" "quiet ox ev W P (oc_after call)"
    "fst (opa_evaluate ev opts call request s) = Inr response"
  obtains t request' where "opa_reaches ox ev W P s t" "response = fst (opa_decide ev (oc_now call) request' t)"
    "snd (opa_evaluate ev opts call request s) = snd (opa_decide ev (oc_now call) request' t)"
    "request' = request \<or> cx_admissionEnvelope (eq_context request) = None \<and> (\<exists>env. request' = with_envelope request (Some env))"
proof -
  have valid: "valid_request request" using assms(3) by (cases "valid_request request") (simp_all add: opa_evaluate_invalid)
  show thesis
  proof (cases "cx_admissionEnvelope (eq_context request) = None \<and> oo_client opts")
    case True
    obtain reply t where r: "resolveAdmissionEnvelope opts call (eq_agentId request) (oc_now call) s = (reply, t)" by force
    have reach: "opa_reaches ox ev W P s (oc_after call t)"
      using opa_reaches_trans [of ox ev W P s t] resolve_steps [OF assms(1), of s opts "eq_agentId request" "oc_now call"] assms(2) r
      by (simp add: quiet_def)
    note eq = opa_evaluate_asks [OF valid True r, of ev]
    from assms(3) obtain fetched where "reply = Inr fetched" by (cases reply) (simp_all add: eq)
    then have d: "opa_evaluate ev opts call request s =
        apfst Inr (opa_decide ev (oc_now call) (with_envelope request fetched) (oc_after call t))"
      by (simp add: eq)
    show thesis
    proof (rule that [OF reach])
      show "response = fst (opa_decide ev (oc_now call) (with_envelope request fetched) (oc_after call t))"
        using assms(3) by (simp add: d)
      show "with_envelope request fetched = request \<or>
          cx_admissionEnvelope (eq_context request) = None \<and> (\<exists>env. with_envelope request fetched = with_envelope request (Some env))"
        using True by (cases fetched) (simp add: with_envelope_def, blast)
    qed (simp add: d)
  next
    case False
    note d = opa_evaluate_direct [OF valid False, of ev call s]
    show thesis by (rule that [OF opa_reaches_refl, of request]) (use assms(3) d in simp_all)
  qed
qed

section \<open>The state along every run\<close>

text \<open>
  A bundle is loaded under its own name, from a payload of the registry that passed verification and compiled. The cache has one
  entry for a key and no more than its capacity.
\<close>

definition from_payload :: "opa_crypto \<Rightarrow> BundlePayload set \<Rightarrow> string \<Rightarrow> LoadedBundle \<Rightarrow> bool" where
  "from_payload ox P n b \<longleftrightarrow> (\<exists>p \<in> P. \<exists>ts rules. n = bp_bundleName p \<and> verifyBundlePayload ox p = None \<and>
     compileRegoLikeSource (bp_regoSource p) = Some rules \<and> b = bundle_of p ts True rules)"

definition loaded_ok :: "opa_crypto \<Rightarrow> BundlePayload set \<Rightarrow> (string \<times> LoadedBundle) list \<Rightarrow> bool" where
  "loaded_ok ox P m \<longleftrightarrow> distinct (map fst m) \<and> (\<forall>(n, b) \<in> set m. from_payload ox P n b)"

definition opa_cache_ok :: "EvaluationCache \<Rightarrow> bool" where
  "opa_cache_ok c \<longleftrightarrow> distinct (map fst (ec_map c)) \<and> int (length (ec_map c)) \<le> max 0 (ec_maxEntries c)"

lemma set_alist_put: "set (alist_put m k v) \<subseteq> insert (k, v) (set m)"
  by (induction m k v rule: alist_put.induct) auto

lemma alist_put_fresh: "k \<notin> fst ` set m \<Longrightarrow> alist_put m k v = m @ [(k, v)]"
  by (induction m k v rule: alist_put.induct) auto

lemma put_at_end: "alist_put (alist_remove m k) k v = alist_remove m k @ [(k, v)]"
  by (rule alist_put_fresh) simp

lemma loaded_ok_put: "loaded_ok ox P m \<Longrightarrow> from_payload ox P n b \<Longrightarrow> loaded_ok ox P (alist_put m n b)"
  using set_alist_put [of m n b] by (auto simp: loaded_ok_def distinct_alist_put)

lemma loaded_ok_remove: "loaded_ok ox P m \<Longrightarrow> loaded_ok ox P (alist_remove m n)"
  by (auto simp: loaded_ok_def distinct_alist_remove) (auto simp: alist_remove_def)

lemma from_payload_name: "from_payload ox P n b \<Longrightarrow> lb_bundleName b = n"
  by (auto simp: from_payload_def bundle_of_def)

lemma loaded_name: "loaded_ok ox P m \<Longrightarrow> (n, b) \<in> set m \<Longrightarrow> lb_bundleName b = n"
  by (auto simp: loaded_ok_def dest: from_payload_name)

lemma loaded_lookup: "loaded_ok ox P m \<Longrightarrow> b \<in> snd ` set m \<Longrightarrow> alist_get m (lb_bundleName b) = Some b"
  by (auto simp: loaded_ok_def alist_get_def dest!: bspec from_payload_name)

lemma fold_alist_remove: "fold (\<lambda>k m. alist_remove m k) ks m = filter (\<lambda>(k, v). k \<notin> set ks) m"
  by (induction ks arbitrary: m) (auto simp: alist_remove_def intro: filter_cong)

lemma ec_map_get: "ec_get key now c = (r, c') \<Longrightarrow> set (ec_map c') \<subseteq> set (ec_map c)"
  by (auto simp: ec_get_def put_at_end alist_get_def split: option.splits if_splits dest!: map_of_SomeD)
    (auto simp: alist_remove_def)

lemma ec_map_invalidate:
  "set (ec_map (invalidateForBundle n c)) \<subseteq> {(k, e) \<in> set (ec_map c). n \<notin> set (re_activeBundleNames (ce_value e))}"
  by (auto simp: invalidateForBundle_def Let_def fold_alist_remove image_iff split: prod.splits)

lemma ec_map_set:
  "set (ec_map (ec_set key v now c)) \<subseteq> insert (key, \<lparr>ce_value = v\<lparr>re_cacheHit := False\<rparr>, ce_cachedTs = now\<rparr>) (set (ec_map c))"
  by (auto simp: ec_set_def Let_def put_at_end) (auto simp: alist_remove_def split: if_splits)

lemma opa_cache_ok_get:
  assumes "opa_cache_ok c" "ec_get key now c = (r, c')"
  shows "opa_cache_ok c'"
proof (cases "alist_get (ec_map c) key")
  case (Some entry)
  then have "key \<in> fst ` set (ec_map c)" using alist_get_None [of "ec_map c" key] by simp
  then have "length (alist_remove (ec_map c) key) = length (ec_map c) - 1" "0 < length (ec_map c)"
    using length_alist_remove_in [of "ec_map c" key] assms(1) unfolding opa_cache_ok_def by (simp, force)
  then show ?thesis
    using assms Some by (auto simp: opa_cache_ok_def ec_get_def put_at_end distinct_alist_remove split: if_splits)
qed (use assms in \<open>simp add: ec_get_def\<close>)

lemma opa_cache_ok_set: "opa_cache_ok c \<Longrightarrow> opa_cache_ok (ec_set key v now c)"
proof -
  assume ok: "opa_cache_ok c"
  let ?m = "alist_put (alist_remove (ec_map c) key) key \<lparr>ce_value = v\<lparr>re_cacheHit := False\<rparr>, ce_cachedTs = now\<rparr>"
  have d: "distinct (map fst ?m)" using ok by (simp add: opa_cache_ok_def distinct_alist_remove distinct_alist_put)
  have "length (alist_remove ?m (fst (hd ?m))) = length ?m - 1"
    by (rule length_alist_remove_in [OF d]) (rule imageI, rule hd_in_set, simp add: put_at_end)
  then show ?thesis
    using ok d length_alist_remove [of "ec_map c" key] distinct_alist_remove [OF d]
    by (auto simp: opa_cache_ok_def ec_set_def Let_def put_at_end)
qed

lemma opa_cache_ok_filter: "opa_cache_ok c \<Longrightarrow> opa_cache_ok (c\<lparr>ec_map := filter Q (ec_map c)\<rparr>)"
  by (auto simp: opa_cache_ok_def distinct_map_filter intro: order_trans [OF of_nat_mono [OF length_filter_le]])

lemma opa_cache_ok_invalidate: "opa_cache_ok c \<Longrightarrow> opa_cache_ok (invalidateForBundle n c)"
  by (simp add: invalidateForBundle_def Let_def fold_alist_remove opa_cache_ok_filter)

text \<open>The answer to a question without the cache.\<close>

definition fresh_response :: "(EvaluateRequest \<Rightarrow> LoadedBundle list \<Rightarrow> decision option) \<Rightarrow> EvaluateRequest \<Rightarrow> LoadedBundle list \<Rightarrow> int \<Rightarrow>
    EvaluateResponse" where
  "fresh_response ev request selected now =
     (if selected = [] then denyResponse request now [] [] ''no_policy_covers_action_class''
      else
        (case ev request selected of
           Some d \<Rightarrow> decision_response request selected now d
         | None \<Rightarrow> denyResponse request now (map lb_bundleName selected) (map lb_version selected) ''evaluation_error''))"

text \<open>
  An entry of the cache answers a question that was asked; every bundle of that question is still loaded as it was or is not loaded
  at all, and those that are loaded stand in the same order.
\<close>

definition still_loaded :: "LoadedBundle list \<Rightarrow> (string \<times> LoadedBundle) list \<Rightarrow> bool" where
  "still_loaded sel m \<longleftrightarrow> (\<forall>b \<in> set sel. alist_get m (lb_bundleName b) \<in> {None, Some b}) \<and>
     subseq (filter (\<lambda>b. b \<in> set sel) (map snd m)) sel"

definition entry_ok :: "(EvaluateRequest \<Rightarrow> LoadedBundle list \<Rightarrow> decision option) \<Rightarrow> (EvaluateRequest \<times> LoadedBundle list) set \<Rightarrow>
    (string \<times> LoadedBundle) list \<Rightarrow> string \<Rightarrow> CacheEntry \<Rightarrow> bool" where
  "entry_ok ev W m k e \<longleftrightarrow> (\<exists>request sel. (request, sel) \<in> W \<and> k = request_key request sel \<and>
     ce_value e = fresh_response ev request sel (ce_cachedTs e) \<and> still_loaded sel m)"

definition opa_inv :: "opa_crypto \<Rightarrow> (EvaluateRequest \<Rightarrow> LoadedBundle list \<Rightarrow> decision option) \<Rightarrow>
    (EvaluateRequest \<times> LoadedBundle list) set \<Rightarrow> BundlePayload set \<Rightarrow> opa_state \<Rightarrow> bool" where
  "opa_inv ox ev W P s \<longleftrightarrow> loaded_ok ox P (os_loaded s) \<and> opa_cache_ok (os_cache s) \<and>
     (\<forall>(k, e) \<in> set (ec_map (os_cache s)). entry_ok ev W (os_loaded s) k e)"

lemma fresh_names: "re_activeBundleNames (fresh_response ev request sel now) = map lb_bundleName sel"
  by (simp add: fresh_response_def denyResponse_def decision_response_def split: option.split)

lemma fresh_no_hit: "(fresh_response ev request sel now)\<lparr>re_cacheHit := False\<rparr> = fresh_response ev request sel now"
  by (simp add: fresh_response_def denyResponse_def decision_response_def split: option.split)

lemma still_loaded_remove: "still_loaded sel m \<Longrightarrow> still_loaded sel (alist_remove m n)"
proof -
  assume ok: "still_loaded sel m"
  have "subseq (filter (\<lambda>b. b \<in> set sel) (map snd (alist_remove m n))) (filter (\<lambda>b. b \<in> set sel) (map snd m))"
    unfolding alist_remove_def by (intro subseq_filter subseq_map subseq_filter_left)
  with ok show ?thesis unfolding still_loaded_def by (auto intro: subseq_order.trans)
qed

lemma filter_snd_put:
  assumes "\<not> Q v" "\<And>v'. (k, v') \<in> set m \<Longrightarrow> \<not> Q v'"
  shows "filter Q (map snd (alist_put m k v)) = filter Q (map snd m)"
  using assms by (induction m k v rule: alist_put.induct) auto

lemma still_loaded_put:
  assumes "still_loaded sel m" "loaded_ok ox P m" "lb_bundleName b = n" "n \<notin> lb_bundleName ` set sel"
  shows "still_loaded sel (alist_put m n b)"
proof -
  have "filter (\<lambda>b. b \<in> set sel) (map snd (alist_put m n b)) = filter (\<lambda>b. b \<in> set sel) (map snd m)"
    using assms(3,4) loaded_name [OF assms(2)] by (intro filter_snd_put) (auto simp: image_iff)
  with assms show ?thesis by (force simp: still_loaded_def image_iff)
qed

definition wanted :: "string list option \<Rightarrow> LoadedBundle \<Rightarrow> bool" where
  "wanted names b = (case names of None \<Rightarrow> True | Some ns \<Rightarrow> ns = [] \<or> lb_bundleName b \<in> set ns)"

lemma selectBundles_eq: "selectBundles names s = filter (wanted names) (map snd (os_loaded s))"
  by (auto simp: selectBundles_def Let_def wanted_def fun_eq_iff split: option.split intro!: filter_cong)

lemma filter_selected:
  assumes "set sel = set (selectBundles names s)"
  shows "filter (\<lambda>b. b \<in> set sel) (map snd (os_loaded s)) = selectBundles names s"
  unfolding assms selectBundles_eq by (rule filter_cong) auto

lemma still_loaded_selected:
  assumes "loaded_ok ox P (os_loaded s)"
  shows "still_loaded (selectBundles names s) (os_loaded s)"
  using loaded_lookup [OF assms] filter_selected [of "selectBundles names s" names s]
  by (auto simp: still_loaded_def) (auto simp: selectBundles_eq)

lemma opa_inv_start: "opa_inv ox ev W P (new_opa_service ttl capacity)"
  by (simp add: opa_inv_def new_opa_service_def new_evaluation_cache_def loaded_ok_def opa_cache_ok_def)

lemma opa_inv_mono:
  assumes "opa_inv ox ev W P s" "loaded_ok ox P (os_loaded t)" "opa_cache_ok (os_cache t)"
    "\<And>k e. (k, e) \<in> set (ec_map (os_cache t)) \<Longrightarrow> (k, e) \<in> set (ec_map (os_cache s)) \<and>
       (\<forall>sel. still_loaded sel (os_loaded s) \<and> re_activeBundleNames (ce_value e) = map lb_bundleName sel \<longrightarrow> still_loaded sel (os_loaded t))"
  shows "opa_inv ox ev W P t"
proof -
  have "entry_ok ev W (os_loaded t) k e" if "(k, e) \<in> set (ec_map (os_cache t))" for k e
    using assms(1) assms(4) [OF that] by (fastforce simp: opa_inv_def entry_ok_def fresh_names)
  with assms(2,3) show ?thesis by (auto simp: opa_inv_def)
qed

lemma opa_inv_load:
  assumes "opa_inv ox ev W P s" "p \<in> P"
  shows "opa_inv ox ev W P (snd (loadBundleFromPayload ox ts ts2 p strict s))"
proof (cases "compile_payload ox p")
  case (Inr rules)
  let ?b = "bundle_of p ts True rules"
  have ok: "loaded_ok ox P (os_loaded s)" "opa_cache_ok (os_cache s)" using assms(1) by (simp_all add: opa_inv_def)
  have from_p: "from_payload ox P (bp_bundleName p) ?b"
    using Inr assms(2) by (auto simp: from_payload_def compile_payload_def split: option.splits)
  show ?thesis
    by (rule opa_inv_mono [OF assms(1)])
      (use Inr ok from_p ec_map_invalidate [of "bp_bundleName p" "os_cache s"] in
        \<open>auto simp: loadBundleFromPayload_def Let_def loaded_ok_put opa_cache_ok_invalidate bundle_of_def
           intro!: still_loaded_put [OF _ ok(1)]\<close>)
qed (use assms in \<open>simp add: loadBundleFromPayload_def\<close>)

lemma opa_inv_deprecate:
  assumes "opa_inv ox ev W P s"
  shows "opa_inv ox ev W P (deprecate ts n s)"
  by (rule opa_inv_mono [OF assms])
    (use assms ec_map_invalidate [of n "os_cache s"] in
      \<open>auto simp: opa_inv_def deprecate_def loaded_ok_remove opa_cache_ok_invalidate still_loaded_remove\<close>)

lemma count_error_sel:
  "os_loaded (count_error b s) = os_loaded s \<or> os_loaded (count_error b s) = alist_remove (os_loaded s) (lb_bundleName b)"
  "os_cache (count_error b s) = os_cache s"
  by (simp_all add: count_error_def Let_def)

lemma count_errors_cache [simp]: "os_cache (fold count_error bs s) = os_cache s"
  by (induction bs arbitrary: s) (simp_all add: count_error_sel(2))

lemma count_errors_loaded:
  assumes "\<And>m n. Q m \<Longrightarrow> Q (alist_remove m n)" "Q (os_loaded s)"
  shows "Q (os_loaded (fold count_error bs s))"
  using assms(2)
proof (induction bs arbitrary: s)
  case (Cons b bs)
  then have "Q (os_loaded (count_error b s))" using count_error_sel(1) [of b s] assms(1) by auto
  with Cons.IH show ?case by simp
qed simp

text \<open>The outcome of a decision: the cached one, a fresh one that is stored, or that of an evaluator that threw.\<close>

lemma opa_decide_cases:
  fixes ev now request s
  defines "sel \<equiv> selectBundles (eq_bundleNames request) s"
  obtains (hit) cached c where "ec_get (request_key request sel) now (os_cache s) = (Some cached, c)"
      "opa_decide ev now request s = (cached, s\<lparr>os_cache := c\<rparr>)"
  | (stored) c errors where "ec_get (request_key request sel) now (os_cache s) = (None, c)"
      "opa_decide ev now request s = (fresh_response ev request sel now,
         s\<lparr>os_cache := ec_set (request_key request sel) (fresh_response ev request sel now) now c, os_errors := errors\<rparr>)"
  | (threw) c where "ec_get (request_key request sel) now (os_cache s) = (None, c)" "sel \<noteq> []" "ev request sel = None"
      "opa_decide ev now request s = (fresh_response ev request sel now, fold count_error sel (s\<lparr>os_cache := c\<rparr>))"
proof (cases "ec_get (request_key request sel) now (os_cache s)")
  case (Pair r c)
  show thesis
  proof (cases r)
    case None
    show thesis
    proof (cases "sel \<noteq> [] \<and> ev request sel = None")
      case True
      with Pair None show thesis
        by (intro threw) (auto simp: opa_decide_def Let_def fresh_response_def simp flip: sel_def)
    next
      case False
      with Pair None show thesis
        by (intro stored [of c "if sel = [] then os_errors s else fold (\<lambda>b m. alist_put m (lb_bundleName b) 0) sel (os_errors s)"])
          (auto simp: opa_decide_def Let_def fresh_response_def simp flip: sel_def)
    qed
  qed (use Pair hit in \<open>simp add: opa_decide_def Let_def flip: sel_def\<close>)
qed

lemma opa_inv_decide:
  assumes "opa_inv ox ev W P s" "(request, selectBundles (eq_bundleNames request) s) \<in> W"
  shows "opa_inv ox ev W P (snd (opa_decide ev now request s))"
proof -
  let ?sel = "selectBundles (eq_bundleNames request) s"
  have ok: "loaded_ok ox P (os_loaded s)" "opa_cache_ok (os_cache s)" using assms(1) by (simp_all add: opa_inv_def)
  show ?thesis
  proof (cases rule: opa_decide_cases [of request s now ev])
    case (hit cached c)
    show ?thesis
      by (rule opa_inv_mono [OF assms(1)]) (use hit ok opa_cache_ok_get [OF ok(2) hit(1)] ec_map_get [OF hit(1)] in auto)
  next
    case (stored c errors)
    let ?e = "\<lparr>ce_value = fresh_response ev request ?sel now, ce_cachedTs = now\<rparr>"
      and ?c = "ec_set (request_key request ?sel) (fresh_response ev request ?sel now) now c"
    have new: "entry_ok ev W (os_loaded s) (request_key request ?sel) ?e"
      using assms(2) still_loaded_selected [OF ok(1)] by (auto simp: entry_ok_def)
    have "set (ec_map ?c) \<subseteq> insert (request_key request ?sel, ?e) (set (ec_map (os_cache s)))"
      using ec_map_set [of "request_key request ?sel" "fresh_response ev request ?sel now" now c] ec_map_get [OF stored(1)]
      unfolding fresh_no_hit by blast
    moreover have "\<forall>(k, e) \<in> insert (request_key request ?sel, ?e) (set (ec_map (os_cache s))). entry_ok ev W (os_loaded s) k e"
      using new assms(1) by (simp add: opa_inv_def)
    ultimately have "\<forall>(k, e) \<in> set (ec_map ?c). entry_ok ev W (os_loaded s) k e" by blast
    then show ?thesis
      using ok(1) opa_cache_ok_set [OF opa_cache_ok_get [OF ok(2) stored(1)]] by (simp add: opa_inv_def stored(2))
  next
    case (threw c)
    have "loaded_ok ox P (os_loaded (fold count_error ?sel (s\<lparr>os_cache := c\<rparr>)))"
      using ok(1) by (intro count_errors_loaded [where Q = "loaded_ok ox P"]) (simp_all add: loaded_ok_remove)
    moreover have "still_loaded sel (os_loaded (fold count_error ?sel (s\<lparr>os_cache := c\<rparr>)))" if "still_loaded sel (os_loaded s)" for sel
      using that by (intro count_errors_loaded [where Q = "still_loaded sel"]) (simp_all add: still_loaded_remove)
    ultimately show ?thesis
      by (intro opa_inv_mono [OF assms(1)])
        (use threw(4) opa_cache_ok_get [OF ok(2) threw(1)] ec_map_get [OF threw(1)] in auto)
  qed
qed

lemma opa_step_inv: "opa_inv ox ev W P s \<Longrightarrow> opa_step ox ev W P s t \<Longrightarrow> opa_inv ox ev W P t"
  by (erule opa_step.cases)
    (simp_all add: opa_inv_load opa_inv_deprecate opa_inv_decide, simp_all add: opa_inv_def fetch_begin_def fetch_end_def)

lemma opa_run_inv: "opa_run ox ev W P s \<Longrightarrow> opa_inv ox ev W P s"
  by (induction rule: opa_run_induct) (simp_all add: opa_inv_start opa_step_inv)

section \<open>What the key of the cache distinguishes\<close>

text \<open>
  The key joins its parts with bars, commas, colons, ampersands and equality signs, and it has the identifier of the envelope, not
  the envelope. It tells questions apart when no part contains the signs that follow it, and an identifier names one
  envelope.
\<close>

definition lacks :: "string \<Rightarrow> string \<Rightarrow> bool" where
  "lacks cs s \<longleftrightarrow> set s \<inter> set cs = {}"

definition plain_meta :: "(string \<times> string) list \<Rightarrow> bool" where
  "plain_meta m \<longleftrightarrow> (\<forall>(k, v) \<in> set m. lacks ''|&='' k \<and> lacks ''|&'' v)"

definition plain_request :: "EvaluateRequest \<Rightarrow> bool" where
  "plain_request r \<longleftrightarrow> (\<forall>f \<in> {eq_agentId r, eq_actionClass r, eq_resource r, cx_passportId (eq_context r)}. lacks ''|'' f) \<and>
     (\<forall>env. cx_admissionEnvelope (eq_context r) = Some env \<longrightarrow> lacks ''|'' (ae_envelopeId env) \<and> ae_envelopeId env \<noteq> ''none'') \<and>
     plain_meta (cx_actionMetadata (eq_context r))"

definition plain_bundle :: "LoadedBundle \<Rightarrow> bool" where
  "plain_bundle b \<longleftrightarrow> lacks ''|,:'' (lb_bundleName b) \<and> lacks ''|,'' (lb_version b)"

definition keys_sound :: "(EvaluateRequest \<times> LoadedBundle list) set \<Rightarrow> bool" where
  "keys_sound W \<longleftrightarrow> (\<forall>r sel. (r, sel) \<in> W \<longrightarrow> plain_request r \<and> (\<forall>b \<in> set sel. plain_bundle b)) \<and>
     (\<forall>r sel r' sel'. (r, sel) \<in> W \<and> (r', sel') \<in> W \<longrightarrow>
        (sha256 (request_key_bytes r sel) = sha256 (request_key_bytes r' sel') \<longrightarrow> request_key_bytes r sel = request_key_bytes r' sel') \<and>
        (\<forall>env env'. cx_admissionEnvelope (eq_context r) = Some env \<and> cx_admissionEnvelope (eq_context r') = Some env' \<and>
           ae_envelopeId env = ae_envelopeId env' \<longrightarrow> env = env'))"

text \<open>Two requests that put the same question to the rules.\<close>

definition same_question :: "EvaluateRequest \<Rightarrow> EvaluateRequest \<Rightarrow> bool" where
  "same_question r r' \<longleftrightarrow> eq_actionClass r = eq_actionClass r' \<and> eq_resource r = eq_resource r' \<and>
     cx_admissionEnvelope (eq_context r) = cx_admissionEnvelope (eq_context r') \<and>
     alist_get (cx_actionMetadata (eq_context r)) = alist_get (cx_actionMetadata (eq_context r'))"

lemma hex_char_inj: "inj_on hex_char {..<16}"
proof -
  have "distinct ''0123456789abcdef''" "length ''0123456789abcdef'' = 16" by simp_all
  then show ?thesis unfolding inj_on_def hex_char_def by (metis lessThan_iff nth_eq_iff_index_eq)
qed

lemma HexEncode_inj: "HexEncode bs = HexEncode cs \<Longrightarrow> bs = cs"
proof (induction bs arbitrary: cs)
  case (Cons b bs)
  then obtain c cs' where cs: "cs = c # cs'" by (cases cs) auto
  have "of_char b < (256 :: nat)" "of_char c < (256 :: nat)" by (rule nat_of_char_less_256)+
  then have "of_char b div 16 < (16 :: nat)" "of_char c div 16 < (16 :: nat)" by linarith+
  with Cons.prems cs have "of_char b div 16 = (of_char c div 16 :: nat)" "of_char b mod 16 = (of_char c mod 16 :: nat)"
    by (auto intro!: inj_onD [OF hex_char_inj])
  then have "of_char b = (of_char c :: nat)" by (metis div_mult_mod_eq)
  with Cons cs show ?case by simp
qed (metis HexEncode.simps(1) length_0_conv length_HexEncode mult_eq_0_iff zero_neq_numeral)

lemma Join_eq_Nil: "\<forall>w \<in> set ws. w \<noteq> [] \<Longrightarrow> Join ws s = [] \<longleftrightarrow> ws = []"
  by (cases "(ws, s)" rule: Join.cases) auto

lemma Join_inject:
  assumes "\<forall>w \<in> set ws \<union> set vs. w \<noteq> [] \<and> c \<notin> set w" "Join ws [c] = Join vs [c]"
  shows "ws = vs"
proof (cases "ws = [] \<or> vs = []")
  case True
  have "Join ws [c] = [] \<longleftrightarrow> ws = []" "Join vs [c] = [] \<longleftrightarrow> vs = []" using assms(1) by (intro Join_eq_Nil; blast)+
  with True assms(2) show ?thesis by metis
next
  case False
  have "Split (Join ws [c]) c = ws" "Split (Join vs [c]) c = vs" using assms(1) False by (intro Split_Join; blast)+
  with assms(2) show ?thesis by metis
qed

lemma list_all2_eq_and: "list_all2 (\<lambda>x y. x = y \<and> Q x y) xs ys \<Longrightarrow> xs = ys \<and> (\<forall>x \<in> set xs. Q x x)"
  by (induction rule: list_all2_induct) auto

lemma split_at_first: "c \<notin> set a \<Longrightarrow> c \<notin> set a' \<Longrightarrow> a @ c # b = a' @ c # b' \<Longrightarrow> a = a' \<and> b = b'"
proof (induction a arbitrary: a')
  case Nil
  then show ?case by (cases a') auto
next
  case (Cons x a)
  then show ?case by (cases a') auto
qed

lemma set_Join: "set (Join ws s) \<subseteq> \<Union> (set ` set ws) \<union> set s"
  by (induction ws s rule: Join.induct) auto

lemma key_bytes_inject:
  assumes "key_bytes a1 a2 a3 a4 vs a5 a6 = key_bytes b1 b2 b3 b4 ws b5 b6"
    "\<forall>f \<in> set [a1, a2, a3, a4, Join vs '','', a5, a6, b1, b2, b3, b4, Join ws '','', b5, b6]. lacks ''|'' f"
  shows "a1 = b1 \<and> a2 = b2 \<and> a3 = b3 \<and> a4 = b4 \<and> Join vs '','' = Join ws '','' \<and> a5 = b5 \<and> a6 = b6"
proof -
  have "Split (key_bytes a1 a2 a3 a4 vs a5 a6) CHR ''|'' = [a1, a2, a3, a4, Join vs '','', a5, a6]"
    "Split (key_bytes b1 b2 b3 b4 ws b5 b6) CHR ''|'' = [b1, b2, b3, b4, Join ws '','', b5, b6]"
    unfolding key_bytes_def using assms(2) by (intro Split_Join; simp add: lacks_def)+
  with assms(1) show ?thesis by simp
qed

definition meta_item :: "(string \<times> string) list \<Rightarrow> string \<Rightarrow> string" where
  "meta_item m k = k @ ''='' @ (case alist_get m k of None \<Rightarrow> [] | Some v \<Rightarrow> v)"

lemma flattenMetadata_items: "flattenMetadata m = Join (map (meta_item m) (js_sort (map fst m))) ''&''"
  by (simp add: flattenMetadata_def meta_item_def [abs_def])

lemma set_js_sort [simp]: "set (js_sort ss) = set ss"
  by (simp add: js_sort_def)

lemma meta_item_plain:
  assumes "plain_meta m" "k \<in> fst ` set m"
  obtains v where "alist_get m k = Some v" "meta_item m k = k @ CHR ''='' # v" "CHR ''='' \<notin> set k"
    "CHR ''&'' \<notin> set (meta_item m k)" "CHR ''|'' \<notin> set (meta_item m k)"
proof -
  obtain v where v: "alist_get m k = Some v" using assms(2) alist_get_None [of m k] by auto
  then have "(k, v) \<in> set m" by (simp add: alist_get_def map_of_SomeD)
  with assms(1) v show thesis by (intro that [OF v]) (auto simp: plain_meta_def lacks_def meta_item_def)
qed

lemma flatten_inject:
  assumes "flattenMetadata m = flattenMetadata m'" "plain_meta m" "plain_meta m'"
  shows "alist_get m = alist_get m'"
proof -
  have plain: "meta_item n k \<noteq> [] \<and> CHR ''&'' \<notin> set (meta_item n k)" if "plain_meta n" "k \<in> fst ` set n" for n k
    by (rule meta_item_plain [OF that]) simp
  have "map (meta_item m) (js_sort (map fst m)) = map (meta_item m') (js_sort (map fst m'))"
    by (rule Join_inject [of _ _ "CHR ''&''"])
      (use assms(1) plain [OF assms(2)] plain [OF assms(3)] in \<open>auto simp: flattenMetadata_items\<close>)
  then have "list_all2 (\<lambda>k k'. meta_item m k = meta_item m' k') (js_sort (map fst m)) (js_sort (map fst m'))"
    by (simp add: list_eq_iff_nth_eq list_all2_conv_all_nth)
  then have "list_all2 (\<lambda>k k'. k = k' \<and> alist_get m k = alist_get m' k') (js_sort (map fst m)) (js_sort (map fst m'))"
  proof (rule list.rel_mono_strong)
    fix k k'
    assume keys: "k \<in> set (js_sort (map fst m))" "k' \<in> set (js_sort (map fst m'))" and eq: "meta_item m k = meta_item m' k'"
    from keys have "k \<in> fst ` set m" "k' \<in> fst ` set m'" by simp_all
    with assms(2,3) obtain v v' where "alist_get m k = Some v" "meta_item m k = k @ CHR ''='' # v" "CHR ''='' \<notin> set k"
      "alist_get m' k' = Some v'" "meta_item m' k' = k' @ CHR ''='' # v'" "CHR ''='' \<notin> set k'"
      by (metis meta_item_plain)
    with eq split_at_first [of "CHR ''=''" k k' v v'] show "k = k' \<and> alist_get m k = alist_get m' k'" by simp
  qed
  note both = list_all2_eq_and [OF this]
  then have keys: "fst ` set m = fst ` set m'" by (metis set_js_sort set_map)
  have "alist_get m k = alist_get m' k" for k
    using alist_get_None [of m k] alist_get_None [of m' k] keys both by (cases "k \<in> fst ` set m") (simp_all, blast)
  then show ?thesis by (rule ext)
qed

definition named_version :: "LoadedBundle \<Rightarrow> string" where
  "named_version b = lb_bundleName b @ '':'' @ lb_version b"

definition envelope_key :: "EvaluateRequest \<Rightarrow> string" where
  "envelope_key r = (case cx_admissionEnvelope (eq_context r) of None \<Rightarrow> ''none'' | Some env \<Rightarrow> ae_envelopeId env)"

lemma request_key_bytes_eq:
  "request_key_bytes r sel = key_bytes (eq_agentId r) (eq_actionClass r) (eq_resource r) (cx_passportId (eq_context r))
     (js_sort (map named_version sel)) (envelope_key r) (flattenMetadata (cx_actionMetadata (eq_context r)))"
  by (simp add: request_key_bytes_def named_version_def [abs_def] envelope_key_def)

lemma named_version_plain: "plain_bundle b \<Longrightarrow> named_version b \<noteq> [] \<and> CHR '','' \<notin> set (named_version b) \<and> CHR ''|'' \<notin> set (named_version b)"
  by (simp add: plain_bundle_def lacks_def named_version_def)

lemma named_version_inject:
  "plain_bundle b \<Longrightarrow> plain_bundle b' \<Longrightarrow> named_version b = named_version b' \<Longrightarrow> lb_bundleName b = lb_bundleName b'"
  using split_at_first [of "CHR '':''" "lb_bundleName b" "lb_bundleName b'" "lb_version b" "lb_version b'"]
  by (simp add: plain_bundle_def lacks_def named_version_def)

lemma Join_lacks: "\<forall>w \<in> set ws. CHR ''|'' \<notin> set w \<Longrightarrow> CHR ''|'' \<notin> set s \<Longrightarrow> lacks ''|'' (Join ws s)"
  using set_Join [of ws s] by (auto simp: lacks_def)

lemma plain_fields:
  assumes "plain_request r" "\<forall>b \<in> set sel. plain_bundle b"
  shows "\<forall>f \<in> set [eq_agentId r, eq_actionClass r, eq_resource r, cx_passportId (eq_context r),
      Join (js_sort (map named_version sel)) '','', envelope_key r, flattenMetadata (cx_actionMetadata (eq_context r))]. lacks ''|'' f"
proof -
  have "CHR ''|'' \<notin> set (meta_item (cx_actionMetadata (eq_context r)) k)" if "k \<in> fst ` set (cx_actionMetadata (eq_context r))" for k
    using assms(1) that by (metis meta_item_plain plain_request_def)
  then have "lacks ''|'' (flattenMetadata (cx_actionMetadata (eq_context r)))"
    unfolding flattenMetadata_items by (intro Join_lacks) auto
  moreover have "lacks ''|'' (Join (js_sort (map named_version sel)) '','')"
    using assms(2) named_version_plain by (intro Join_lacks) auto
  moreover have "lacks ''|'' (envelope_key r)"
    using assms(1) by (auto simp: plain_request_def envelope_key_def lacks_def split: option.split)
  ultimately show ?thesis using assms(1) by (simp add: plain_request_def)
qed

lemma same_key:
  assumes "keys_sound W" "(r, sel) \<in> W" "(r', sel') \<in> W" "request_key r sel = request_key r' sel'"
  shows "same_question r r'" "mset (map named_version sel) = mset (map named_version sel')"
proof -
  from assms have plain: "plain_request r" "\<forall>b \<in> set sel. plain_bundle b" "plain_request r'" "\<forall>b \<in> set sel'. plain_bundle b"
    unfolding keys_sound_def by blast+
  have "request_key_bytes r sel = request_key_bytes r' sel'"
    using assms HexEncode_inj [OF assms(4) [unfolded request_key_def]] unfolding keys_sound_def by blast
  note fields = key_bytes_inject [OF this [unfolded request_key_bytes_eq]]
  have eq: "eq_actionClass r = eq_actionClass r'" "eq_resource r = eq_resource r'"
    "Join (js_sort (map named_version sel)) '','' = Join (js_sort (map named_version sel')) '',''"
    "envelope_key r = envelope_key r'" "flattenMetadata (cx_actionMetadata (eq_context r)) = flattenMetadata (cx_actionMetadata (eq_context r'))"
    using fields plain_fields [OF plain(1,2)] plain_fields [OF plain(3,4)] by simp_all
  have "cx_admissionEnvelope (eq_context r) = cx_admissionEnvelope (eq_context r')"
  proof (cases "cx_admissionEnvelope (eq_context r) = None \<or> cx_admissionEnvelope (eq_context r') = None")
    case True
    with eq(4) plain(1,3) show ?thesis by (auto simp: envelope_key_def plain_request_def split: option.splits)
  next
    case False
    then obtain env env' where "cx_admissionEnvelope (eq_context r) = Some env" "cx_admissionEnvelope (eq_context r') = Some env'" by auto
    moreover from this eq(4) have "ae_envelopeId env = ae_envelopeId env'" by (simp add: envelope_key_def)
    ultimately show ?thesis using assms(1-3) unfolding keys_sound_def by metis
  qed
  moreover have "alist_get (cx_actionMetadata (eq_context r)) = alist_get (cx_actionMetadata (eq_context r'))"
    using flatten_inject [OF eq(5)] plain(1,3) by (simp add: plain_request_def)
  ultimately show "same_question r r'" using eq(1,2) by (simp add: same_question_def)
  have "js_sort (map named_version sel) = js_sort (map named_version sel')"
    using plain(2,4) named_version_plain by (intro Join_inject [OF _ eq(3)]) auto
  then show "mset (map named_version sel) = mset (map named_version sel')" by (metis js_sort_perm)
qed

lemma same_selection:
  assumes "loaded_ok ox P (os_loaded s)" "still_loaded sel (os_loaded s)"
    "mset (map named_version sel) = mset (map named_version (selectBundles names s))"
    "\<forall>b \<in> set sel \<union> set (selectBundles names s). plain_bundle b"
  shows "sel = selectBundles names s"
proof -
  let ?sel = "selectBundles names s"
  have same: "b = b'" if "b \<in> set sel" "b' \<in> set ?sel" "named_version b = named_version b'" for b b'
  proof -
    from that assms(4) have "lb_bundleName b = lb_bundleName b'" by (blast intro: named_version_inject)
    moreover have "alist_get (os_loaded s) (lb_bundleName b') = Some b'"
      using that(2) by (intro loaded_lookup [OF assms(1)]) (auto simp: selectBundles_eq)
    ultimately show ?thesis using assms(2) that(1) by (force simp: still_loaded_def)
  qed
  have "named_version ` set sel = named_version ` set ?sel" using arg_cong [OF assms(3), of set_mset] by simp
  then have "set sel = set ?sel" using same by (auto simp: set_eq_iff image_iff) (metis+)
  then have "subseq ?sel sel" using assms(2) filter_selected [of sel names s] by (simp add: still_loaded_def)
  moreover have "length ?sel = length sel" using arg_cong [OF assms(3), of size] by simp
  ultimately show ?thesis by (metis subseq_same_length)
qed

section \<open>Cached decisions\<close>

text \<open>
  What the cache relies on: the evaluator answers the question of a request, whatever the identifiers of the request are.
\<close>

locale question_evaluator =
  fixes evaluator :: "EvaluateRequest \<Rightarrow> LoadedBundle list \<Rightarrow> decision option"
  assumes answers_question: "same_question r r' \<Longrightarrow> evaluator r bs = evaluator r' bs"
begin

lemma fresh_same_question:
  "same_question r r' \<Longrightarrow> fresh_response evaluator r bs now = (fresh_response evaluator r' bs now)\<lparr>re_evaluationId := eq_evaluationId r\<rparr>"
  using answers_question [of r r' bs] by (simp add: fresh_response_def denyResponse_def decision_response_def split: option.split)

lemma decide_fresh:
  assumes "opa_run ox evaluator W P s" "keys_sound W" "(request, selectBundles (eq_bundleNames request) s) \<in> W"
  shows "\<exists>r hit. (r, selectBundles (eq_bundleNames request) s) \<in> W \<and> same_question r request \<and> (hit \<or> r = request) \<and>
    fst (opa_decide evaluator now request s) =
      (fresh_response evaluator request (selectBundles (eq_bundleNames request) s) now)\<lparr>re_evaluationId := eq_evaluationId r, re_cacheHit := hit\<rparr>"
proof -
  let ?sel = "selectBundles (eq_bundleNames request) s"
  have inv: "loaded_ok ox P (os_loaded s)" "\<forall>(k, e) \<in> set (ec_map (os_cache s)). entry_ok evaluator W (os_loaded s) k e"
    using opa_run_inv [OF assms(1)] by (simp_all add: opa_inv_def)
  have miss: "fresh_response evaluator request ?sel now =
      (fresh_response evaluator request ?sel now)\<lparr>re_evaluationId := eq_evaluationId request, re_cacheHit := False\<rparr>"
    by (simp add: fresh_response_def denyResponse_def decision_response_def split: option.split)
  show ?thesis
  proof (cases rule: opa_decide_cases [of request s now evaluator])
    case (hit cached c)
    then obtain e where e: "(request_key request ?sel, e) \<in> set (ec_map (os_cache s))"
      "cached = (ce_value e)\<lparr>re_cacheHit := True, re_evaluatedTs := now\<rparr>"
      by (auto simp: ec_get_def alist_get_def split: option.splits if_splits dest!: map_of_SomeD)
    with inv(2) obtain r sel where r: "(r, sel) \<in> W" "request_key request ?sel = request_key r sel"
      "ce_value e = fresh_response evaluator r sel (ce_cachedTs e)" "still_loaded sel (os_loaded s)"
      by (auto simp: entry_ok_def)
    note key = same_key [OF assms(2) r(1) assms(3) r(2) [symmetric]]
    have "sel = ?sel"
      using assms(2,3) r(1) by (intro same_selection [OF inv(1) r(4) key(2)]) (auto simp: keys_sound_def)
    moreover have "(fresh_response evaluator r ?sel (ce_cachedTs e))\<lparr>re_cacheHit := True, re_evaluatedTs := now\<rparr> =
        (fresh_response evaluator request ?sel now)\<lparr>re_evaluationId := eq_evaluationId r, re_cacheHit := True\<rparr>"
      unfolding fresh_same_question [OF key(1)]
      by (simp add: fresh_response_def denyResponse_def decision_response_def split: option.split)
    ultimately show ?thesis using r(1,3) e(2) key(1) hit(2) by (intro exI [of _ r] exI [of _ True]) simp
  next
    case (stored c errors)
    then show ?thesis using miss assms(3) by (intro exI [of _ request] exI [of _ False]) (simp add: same_question_def)
  next
    case (threw c)
    then show ?thesis using miss assms(3) by (intro exI [of _ request] exI [of _ False]) (simp add: same_question_def)
  qed
qed

end

lemma check_caps_cong:
  assumes "alist_get m = alist_get m'"
  shows "check_caps m caps = check_caps m' caps"
proof -
  have "check_cap m = check_cap m'" using assms by (simp add: check_cap_def js_property_def)
  then show ?thesis by (induction caps) (simp_all split: option.split)
qed

lemma evaluate_same_question:
  assumes "same_question r r'"
  shows "evaluateWithBundles r bs = evaluateWithBundles r' bs"
proof -
  have "assertAdmissionEnvelope r = assertAdmissionEnvelope r'"
    using assms check_caps_cong [of "cx_actionMetadata (eq_context r)" "cx_actionMetadata (eq_context r')"]
    unfolding same_question_def assertAdmissionEnvelope_def by (simp split: option.split)
  moreover have "eval_rule r = eval_rule r'"
  proof (intro ext)
    fix b rule ev
    have "resource_match r rule = resource_match r' rule" 
      using assms by (simp add: resource_match_def same_question_def cong: option.case_cong)
    then show "eval_rule r b rule ev = eval_rule r' b rule ev" using assms by (simp add: eval_rule_def same_question_def)
  qed
  moreover from this have "eval_bundles r bs = eval_bundles r' bs" by (simp add: eval_bundles_def)
  ultimately show ?thesis by (simp only: evaluateWithBundles_def)
qed

interpretation shipped: question_evaluator default_evaluator
  by unfold_locales (simp add: default_evaluator_def evaluate_same_question)

text \<open>
  C14: A cached decision is the one that an evaluation now would give. Along every interleaving of loads, failed loads,
  deprecations, fetches and evaluations, the answer of the policy service to a question is the fresh evaluation of the request over the
  bundles selected now, up to the mark that it comes from the cache and the evaluation identifier, which is then that of an earlier
  request with the same question. It needs that the parts of keys lack the separators, that an envelope identifier names one
  envelope, and that SHA-256 has no collision among the questions asked.
\<close>

theorem cached_decision_is_fresh:
  assumes "opa_run ox default_evaluator W P s" "keys_sound W" "(request, selectBundles (eq_bundleNames request) s) \<in> W"
  shows "\<exists>r hit. (r, selectBundles (eq_bundleNames request) s) \<in> W \<and> same_question r request \<and> (hit \<or> r = request) \<and>
    fst (opa_decide default_evaluator now request s) =
      (fresh_response default_evaluator request (selectBundles (eq_bundleNames request) s) now)
        \<lparr>re_evaluationId := eq_evaluationId r, re_cacheHit := hit\<rparr>"
  by (rule shipped.decide_fresh [OF assms])

text \<open>The service as \<^verbatim>\<open>main.ts\<close> starts it, with one request.\<close>

definition ex_crypto :: opa_crypto where
  "ex_crypto = \<lparr>ox_pem = None, ox_key_ok = (\<lambda>_. True), ox_base64 = (\<lambda>_. []), ox_verify = (\<lambda>_ _ _. True)\<rparr>"

definition ex_payload :: BundlePayload where
  "ex_payload = \<lparr>bp_bundleId = ''bundle-default-1'', bp_bundleName = ''default-policy'', bp_version = ''1.0.0'',
     bp_regoSource = default_source, bp_integritySha256 = None, bp_bundleSignatureEd25519 = None\<rparr>"

definition ex_question :: "string \<Rightarrow> string \<Rightarrow> string \<Rightarrow> OpaEnvelope option \<Rightarrow> EvaluateRequest" where
  "ex_question evaluationId agentId actionClass env = \<lparr>eq_evaluationId = evaluationId, eq_agentId = agentId, eq_actionClass = actionClass,
     eq_resource = ''resource/x'', eq_context = \<lparr>cx_passportId = ''p'', cx_passportType = ''T'', cx_activeScopes = [],
       cx_environment = [], cx_agentMetadata = [], cx_actionMetadata = [(''rows'', ''3'')], cx_requestTs = 0,
       cx_admissionEnvelope = env\<rparr>, eq_bundleNames = None\<rparr>"

definition ex_bundle :: LoadedBundle where
  "ex_bundle = bundle_of ex_payload 5 True default_rules"

definition ex_opa :: opa_state where
  "ex_opa = snd (loadBundleFromPayload ex_crypto 5 6 ex_payload True (new_opa_service 30 10000))"

definition ex_W :: "OpaEnvelope option \<Rightarrow> (EvaluateRequest \<times> LoadedBundle list) set" where
  "ex_W env = {(ex_question ''e1'' ''a0'' ''READ'' env, [ex_bundle]), (ex_question ''e2'' ''a0'' ''READ'' env, [ex_bundle])}"

lemma default_compiles: "compileRegoLikeSource default_source = Some default_rules"
  by code_simp

lemma ex_payload_ok: "verifyBundlePayload ex_crypto ex_payload = None"
  by code_simp

lemma ex_opa_loaded: "os_loaded ex_opa = [(''default-policy'', ex_bundle)]"
  using ex_payload_ok default_compiles
  by (simp add: ex_opa_def loadBundleFromPayload_def compile_payload_def new_opa_service_def ex_bundle_def ex_payload_def Let_def)

lemma ex_opa_run: "opa_run ex_crypto ev W {ex_payload} ex_opa"
  unfolding opa_run_def ex_opa_def by (intro exI, rule load_steps [OF opa_reaches_refl]) simp

lemma default_keeps_loaded: "os_loaded (snd (opa_decide default_evaluator now request s)) = os_loaded s"
  by (cases rule: opa_decide_cases [of request s now default_evaluator]) (simp_all add: default_evaluator_def)

lemma ex_W_sound:
  assumes "\<forall>e. env = Some e \<longrightarrow> lacks ''|'' (ae_envelopeId e) \<and> ae_envelopeId e \<noteq> ''none''"
  shows "keys_sound (ex_W env)"
proof -
  have "plain_request (ex_question ev ''a0'' ''READ'' env)" for ev
    using assms by (simp add: plain_request_def ex_question_def plain_meta_def lacks_def)
  moreover have "plain_bundle ex_bundle" by (simp add: plain_bundle_def ex_bundle_def bundle_of_def ex_payload_def lacks_def)
  moreover have "request_key_bytes (ex_question ev ''a0'' ''READ'' env) bs = request_key_bytes (ex_question ev' ''a0'' ''READ'' env) bs" for ev ev' bs
    by (simp add: request_key_bytes_def ex_question_def)
  moreover have "cx_admissionEnvelope (eq_context (ex_question ev ''a0'' ''READ'' env)) = env" for ev by (simp add: ex_question_def)
  ultimately show ?thesis unfolding keys_sound_def ex_W_def by auto
qed

definition ex_asked :: "OpaEnvelope option \<Rightarrow> opa_state" where
  "ex_asked env = snd (opa_decide default_evaluator 10 (ex_question ''e1'' ''a0'' ''READ'' env) ex_opa)"

lemma ex_selected:
  "os_loaded t = os_loaded ex_opa \<Longrightarrow> selectBundles (eq_bundleNames (ex_question ev ''a0'' ''READ'' env)) t = [ex_bundle]"
  by (simp add: selectBundles_def ex_opa_loaded ex_question_def)

lemma ex_asked_loaded: "os_loaded (ex_asked env) = os_loaded ex_opa"
  by (simp add: ex_asked_def default_keeps_loaded)

lemma ex_asked_run: "opa_run ex_crypto default_evaluator (ex_W env) {ex_payload} (ex_asked env)"
  unfolding ex_asked_def
  by (intro opa_run_reaches [OF ex_opa_run] opa_reaches_step [OF opa_reaches_refl step_decide]) (simp add: ex_W_def ex_selected)

lemma ex_asks:
  "(ex_question ''e2'' ''a0'' ''READ'' env, selectBundles (eq_bundleNames (ex_question ''e2'' ''a0'' ''READ'' env)) (ex_asked env)) \<in> ex_W env"
  by (simp add: ex_W_def ex_selected ex_asked_loaded)

lemma ex_effect: "de_effect (evaluateWithBundles (ex_question ''e2'' ''a0'' ''READ'' None) [ex_bundle]) = ALLOW"
  by code_simp

theorem cached_decision_is_fresh_witness:
  "re_effect (fst (opa_decide default_evaluator 20 (ex_question ''e2'' ''a0'' ''READ'' None) (ex_asked None))) = ALLOW"
  using cached_decision_is_fresh [OF ex_asked_run ex_W_sound ex_asks, of None 20] ex_effect
  by (auto simp: ex_selected ex_asked_loaded fresh_response_def default_evaluator_def decision_response_def)

section \<open>Approvals\<close>

lemma fresh_effect:
  "re_effect (fresh_response default_evaluator request sel now) = (if sel = [] then DENY else de_effect (evaluateWithBundles request sel))"
  by (simp add: fresh_response_def default_evaluator_def denyResponse_def decision_response_def)

lemma decide_effect:
  assumes "opa_run ox default_evaluator W P s" "keys_sound W" "(request, selectBundles (eq_bundleNames request) s) \<in> W"
  shows "re_effect (fst (opa_decide default_evaluator now request s)) =
    re_effect (fresh_response default_evaluator request (selectBundles (eq_bundleNames request) s) now)"
  using shipped.decide_fresh [OF assms, of now] by auto



text \<open>
  C22: Along every run of the policy service, with any evaluator, a bundle is loaded under its own name and once, and it was compiled from
  a payload of the registry of policies that passed the check of digest and signature; the cache of decisions has one entry for
  a key and stays within its capacity.
\<close>

theorem policy_state_well_formed:
  assumes "opa_run ox evaluator W P s"
  shows "distinct (map fst (os_loaded s)) \<and> distinct (map fst (ec_map (os_cache s))) \<and>
    int (ec_size (os_cache s)) \<le> max 0 (ec_maxEntries (os_cache s)) \<and>
    (\<forall>(n, b) \<in> set (os_loaded s). \<exists>p \<in> P. \<exists>ts rules. n = bp_bundleName p \<and> verifyBundlePayload ox p = None \<and>
       compileRegoLikeSource (bp_regoSource p) = Some rules \<and> b = bundle_of p ts True rules)"
  using opa_run_inv [OF assms] by (auto simp: opa_inv_def loaded_ok_def opa_cache_ok_def from_payload_def ec_size_def)

theorem policy_state_well_formed_witness:
  "os_loaded (ex_asked None) = [(''default-policy'', ex_bundle)] \<and> distinct (map fst (ec_map (os_cache (ex_asked None)))) \<and>
    (\<exists>ts rules. compileRegoLikeSource (bp_regoSource ex_payload) = Some rules \<and> ex_bundle = bundle_of ex_payload ts True rules)"
  using policy_state_well_formed [OF ex_asked_run [of None]] by (auto simp: ex_asked_loaded ex_opa_loaded)

section \<open>The admission envelope of the registry\<close>

lemma with_envelope_sel [simp]:
  "eq_bundleNames (with_envelope request env) = eq_bundleNames request"
  "eq_actionClass (with_envelope request env) = eq_actionClass request"
  "cx_admissionEnvelope (eq_context (with_envelope request (Some e))) = Some e"
  by (simp_all add: with_envelope_def split: option.split)

lemma scopes_refuse:
  assumes "ae_admittedScopes env \<noteq> []" "\<forall>pat \<in> set (ae_admittedScopes env). \<not> scope_covers_action (eq_actionClass request) pat"
  shows "\<not> admitted_request (with_envelope request (Some env))"
  using assms by (auto simp: admitted_request_def within_envelope_def)

lemma resolve_asks:
  assumes "oo_client opts" "alist_get (os_admission s) agentId = None"
  shows "fst (resolveAdmissionEnvelope opts call agentId now s) = oc_reply call"
  using assms by (simp add: resolveAdmissionEnvelope_def Let_def)


definition ex_opa_call :: opa_call where
  "ex_opa_call = \<lparr>oc_now = 20, oc_reply = client_getAdmissionEnvelope (map_sum id Some (srv_GetAdmissionEnvelope None ''a0'' ex_db1)),
     oc_replied = 21, oc_during = id, oc_after = id\<rparr>"

definition ex_options :: opa_options where
  "ex_options = \<lparr>oo_client = True, oo_ttlSeconds = None\<rparr>"

lemma quiet_id: "quiet ox ev W P id"
  by (simp add: quiet_def)

lemma ex_opa_call_reply: "\<exists>env. oc_reply ex_opa_call = Inr (Some env) \<and> ae_envelopeId env = ''a1''"
proof -
  have "case srv_GetAdmissionEnvelope None ''a0'' ex_db1 of Inl _ \<Rightarrow> False | Inr e \<Rightarrow> pe_EnvelopeId e = ''a1''" by code_simp
  then show ?thesis by (auto simp: ex_opa_call_def client_getAdmissionEnvelope_def envelope_from_proto_def split: sum.splits)
qed


section \<open>Evaluations that throw\<close>

definition err_count :: "opa_state \<Rightarrow> string \<Rightarrow> nat" where
  "err_count s n = (case alist_get (os_errors s) n of None \<Rightarrow> 0 | Some k \<Rightarrow> k)"

lemma count_error_step:
  "err_count (count_error b s) n = (if n = lb_bundleName b then Suc (err_count s n) else err_count s n)"
  "os_loaded (count_error b s) = filter (\<lambda>(n, _). n = lb_bundleName b \<longrightarrow> err_count s n < 9) (os_loaded s)"
  by (auto simp: count_error_def Let_def err_count_def alist_remove_def intro!: filter_cong filter_True [symmetric])

lemma count_errors_step:
  assumes "distinct (map lb_bundleName bs)"
  shows "err_count (fold count_error bs s) n = (if n \<in> lb_bundleName ` set bs then Suc (err_count s n) else err_count s n)"
    "os_loaded (fold count_error bs s) = filter (\<lambda>(n, _). n \<in> lb_bundleName ` set bs \<longrightarrow> err_count s n < 9) (os_loaded s)"
  using assms
proof (induction bs arbitrary: s)
  case (Cons b bs)
  {
    case 1
    with Cons.IH(1) [of "count_error b s"] show ?case by (auto simp: count_error_step(1))
  next
    case 2
    then have new: "lb_bundleName b \<notin> lb_bundleName ` set bs" "distinct (map lb_bundleName bs)" by simp_all
    show ?case unfolding fold_simps Cons.IH(2) [OF new(2)] count_error_step(2) filter_filter
      by (rule filter_cong) (use new(1) in \<open>auto simp: count_error_step(1) image_iff split: if_splits\<close>)
  }
qed simp_all

lemma failing_decide:
  fixes now
  assumes "\<forall>sel. ev request sel = None" "loaded_ok ox P (os_loaded s)" "selectBundles (eq_bundleNames request) s \<noteq> []"
    "ec_map (os_cache s) = []"
  defines "t \<equiv> snd (opa_decide ev now request s)"
  shows "ec_map (os_cache t) = []"
    "os_loaded t = filter (\<lambda>(n, b). wanted (eq_bundleNames request) b \<longrightarrow> err_count s n < 9) (os_loaded s)"
    "\<forall>(n, b) \<in> set (os_loaded t). wanted (eq_bundleNames request) b \<longrightarrow> err_count t n = Suc (err_count s n)"
proof -
  let ?sel = "selectBundles (eq_bundleNames request) s"
  have "t = fold count_error ?sel s"
    using assms(1,3,4) by (simp add: t_def opa_decide_def Let_def ec_get_def)
  moreover have "map (lb_bundleName \<circ> snd) (os_loaded s) = map fst (os_loaded s)"
    using loaded_name [OF assms(2)] by (auto intro!: map_cong)
  then have "distinct (map lb_bundleName (map snd (os_loaded s)))" using assms(2) by (simp add: loaded_ok_def del: map_eq_conv)
  then have "distinct (map lb_bundleName ?sel)" by (simp add: selectBundles_eq distinct_map_filter)
  note step = count_errors_step [OF this, of s]
  have mem: "n \<in> lb_bundleName ` set ?sel \<longleftrightarrow> wanted (eq_bundleNames request) b" if nb: "(n, b) \<in> set (os_loaded s)" for n b
  proof -
    have b: "b \<in> snd ` set (os_loaded s)" "lb_bundleName b = n" using nb loaded_name [OF assms(2) nb] by force+
    have "b' = b" if "b' \<in> snd ` set (os_loaded s)" "lb_bundleName b' = n" for b'
      using loaded_lookup [OF assms(2) that(1)] loaded_lookup [OF assms(2) b(1)] b(2) that(2) by simp
    moreover have "set ?sel \<subseteq> snd ` set (os_loaded s)" by (auto simp: selectBundles_eq)
    ultimately have "b \<in> set ?sel \<longleftrightarrow> n \<in> lb_bundleName ` set ?sel" using b(2) by blast
    with b(1) show ?thesis by (simp add: selectBundles_eq)
  qed
  ultimately show "ec_map (os_cache t) = []" using assms(4) by simp
  show loaded: "os_loaded t = filter (\<lambda>(n, b). wanted (eq_bundleNames request) b \<longrightarrow> err_count s n < 9) (os_loaded s)"
    unfolding \<open>t = fold count_error ?sel s\<close> step(2) by (rule filter_cong [OF refl]) (simp add: split_paired_all mem)
  show "\<forall>(n, b) \<in> set (os_loaded t). wanted (eq_bundleNames request) b \<longrightarrow> err_count t n = Suc (err_count s n)"
  proof clarify
    fix n b
    assume "(n, b) \<in> set (os_loaded t)" and want: "wanted (eq_bundleNames request) b"
    then have "(n, b) \<in> set (os_loaded s)" by (auto simp: loaded)
    with want show "err_count t n = Suc (err_count s n)" by (simp add: \<open>t = fold count_error ?sel s\<close> step(1) mem)
  qed
qed

lemma idle_decide:
  assumes "selectBundles (eq_bundleNames request) s = []"
  shows "os_loaded (snd (opa_decide ev now request s)) = os_loaded s"
  using assms by (cases rule: opa_decide_cases [of request s now ev]) simp_all

lemma loaded_ok_filter: "loaded_ok ox P m \<Longrightarrow> loaded_ok ox P (filter Q m)"
  by (auto simp: loaded_ok_def distinct_map_filter)

lemma failing_decides:
  fixes now
  assumes "\<forall>sel. ev request sel = None" "loaded_ok ox P (os_loaded s)" "ec_map (os_cache s) = []"
  defines "t k \<equiv> ((\<lambda>u. snd (opa_decide ev now request u)) ^^ k) s"
  shows "os_loaded (t k) = filter (\<lambda>(n, b). wanted (eq_bundleNames request) b \<longrightarrow> err_count s n + k < 10 \<or> k = 0) (os_loaded s) \<and>
    (selectBundles (eq_bundleNames request) (t k) \<noteq> [] \<longrightarrow> ec_map (os_cache (t k)) = [] \<and>
       (\<forall>(n, b) \<in> set (os_loaded (t k)). wanted (eq_bundleNames request) b \<longrightarrow> err_count (t k) n = err_count s n + k))"
proof (induction k)
  case (Suc k)
  have tS: "t (Suc k) = snd (opa_decide ev now request (t k))" by (simp add: t_def)
  have ok: "loaded_ok ox P (os_loaded (t k))" using Suc assms(2) by (simp add: loaded_ok_filter)
  show ?case
  proof (cases "selectBundles (eq_bundleNames request) (t k) = []")
    case True
    then have "\<forall>(n, b) \<in> set (os_loaded (t k)). \<not> wanted (eq_bundleNames request) b"
      by (auto simp: selectBundles_eq filter_empty_conv)
    then have "\<forall>(n, b) \<in> set (os_loaded s). wanted (eq_bundleNames request) b \<longrightarrow> \<not> (err_count s n + k < 10 \<or> k = 0)"
      unfolding Suc.IH [THEN conjunct1] by auto
    then have "filter (\<lambda>(n, b). wanted (eq_bundleNames request) b \<longrightarrow> err_count s n + Suc k < 10 \<or> Suc k = 0) (os_loaded s) = os_loaded (t k)"
      unfolding Suc.IH [THEN conjunct1] by (intro filter_cong) (auto split: prod.split)
    with True show ?thesis by (simp add: tS idle_decide selectBundles_eq)
  next
    case False
    note IH = Suc.IH [THEN conjunct1] Suc.IH [THEN conjunct2, rule_format, OF False, THEN conjunct1]
      Suc.IH [THEN conjunct2, rule_format, OF False, THEN conjunct2]
    note step = failing_decide [where ev = ev and request = request and s = "t k" and now = now, OF assms(1) ok False IH(2), folded tS]
    have err: "err_count (t k) n = err_count s n + k" if "(n, b) \<in> set (os_loaded (t k))" "wanted (eq_bundleNames request) b" for n b
      using IH(3) that by auto
    have "os_loaded (t (Suc k)) = filter (\<lambda>(n, b). wanted (eq_bundleNames request) b \<longrightarrow> err_count s n + k < 9) (os_loaded (t k))"
      unfolding step(2) by (rule filter_cong) (auto simp: err split: prod.split)
    also have "\<dots> = filter (\<lambda>(n, b). wanted (eq_bundleNames request) b \<longrightarrow> err_count s n + Suc k < 10 \<or> Suc k = 0) (os_loaded s)"
      unfolding IH(1) filter_filter by (rule filter_cong) (auto split: prod.split)
    finally have loaded: "os_loaded (t (Suc k)) =
        filter (\<lambda>(n, b). wanted (eq_bundleNames request) b \<longrightarrow> err_count s n + Suc k < 10 \<or> Suc k = 0) (os_loaded s)" .
    have "set (os_loaded (t (Suc k))) \<subseteq> set (os_loaded (t k))" unfolding step(2) by auto
    with step(1,3) err loaded show ?thesis by fastforce
  qed
qed (use assms(3) in \<open>auto simp: t_def\<close>)

text \<open>
  C38: Ten evaluations of a request that throw unload the bundles the request selects, and no other. From an empty cache, after the tenth
  failing evaluation exactly the bundles that the request does not name are left; a request that names none leaves nothing loaded, and
  the readiness probe fails.
\<close>

theorem failing_evaluations_unload:
  assumes "opa_run ox evaluator W P s" "ec_map (os_cache s) = []" "\<forall>sel. evaluator request sel = None"
  shows "os_loaded (((\<lambda>u. snd (opa_decide evaluator now request u)) ^^ 10) s) =
      filter (\<lambda>(n, b). case eq_bundleNames request of None \<Rightarrow> False | Some names \<Rightarrow> names \<noteq> [] \<and> n \<notin> set names) (os_loaded s) \<and>
    (eq_bundleNames request = None \<longrightarrow> opa_readyz (((\<lambda>u. snd (opa_decide evaluator now request u)) ^^ 10) s) = (503, ''not_ready''))"
proof -
  have ok: "loaded_ok ox P (os_loaded s)" using opa_run_inv [OF assms(1)] by (simp add: opa_inv_def)
  have "os_loaded (((\<lambda>u. snd (opa_decide evaluator now request u)) ^^ 10) s) =
      filter (\<lambda>(n, b). wanted (eq_bundleNames request) b \<longrightarrow> err_count s n + 10 < 10 \<or> (10 :: nat) = 0) (os_loaded s)"
    using failing_decides [where ev = evaluator and request = request and s = s and now = now and k = 10, OF assms(3) ok assms(2)] by blast
  also have "\<dots> = filter (\<lambda>(n, b). case eq_bundleNames request of None \<Rightarrow> False | Some names \<Rightarrow> names \<noteq> [] \<and> n \<notin> set names) (os_loaded s)"
    by (rule filter_cong [OF refl]) (auto simp: wanted_def loaded_name [OF ok] split: option.splits)
  finally show ?thesis by (simp add: opa_readyz_def)
qed

theorem failing_evaluations_unload_witness:
  "opa_readyz (((\<lambda>u. snd (opa_decide (\<lambda>_ _. None) 10 (ex_question ''e1'' ''a0'' ''READ'' None) u)) ^^ 10) ex_opa) = (503, ''not_ready'') \<and>
   opa_readyz ex_opa = (200, ''ready'')"
proof -
  have "ec_map (os_cache ex_opa) = []"
    by (simp add: ex_opa_def loadBundleFromPayload_def Let_def new_opa_service_def new_evaluation_cache_def invalidateForBundle_def
        split: sum.split option.split)
  moreover have "eq_bundleNames (ex_question ''e1'' ''a0'' ''READ'' None) = None" by (simp add: ex_question_def)
  ultimately show ?thesis
    using failing_evaluations_unload [OF ex_opa_run, of "\<lambda>_ _. None" "ex_question ''e1'' ''a0'' ''READ'' None" 10]
    by (simp add: opa_readyz_def ex_opa_loaded)
qed

section \<open>Where the layer falls short\<close>

text \<open>A bar in an identifier makes the keys of different questions equal, and so does an envelope that is called \<^verbatim>\<open>none\<close>.\<close>

lemma bars_confuse_keys:
  "request_key (ex_question e ''a0|DELETE'' ''READ'' env) sel = request_key (ex_question e ''a0'' ''DELETE|READ'' env) sel \<and>
   \<not> same_question (ex_question e ''a0|DELETE'' ''READ'' env) (ex_question e ''a0'' ''DELETE|READ'' env)"
  by (simp add: request_key_def request_key_bytes_def key_bytes_def same_question_def ex_question_def)

lemma none_envelope_confuses_keys:
  "ae_envelopeId env = ''none'' \<Longrightarrow> request_key (ex_question e a c (Some env)) sel = request_key (ex_question e a c None) sel"
  by (simp add: request_key_def request_key_bytes_def ex_question_def)

text \<open>A reload whose payload is refused is reported as done, and nothing has changed.\<close>

lemma refused_reload_reported:
  assumes "pr_getActiveBundle reg n = Inr p" "n \<noteq> []" "compile_payload ox p = Inl err" "\<forall>b. alist_get (os_loaded (others s)) n = Some b \<longrightarrow> lb_version b \<noteq> bp_version p"
  shows "\<exists>b. reloadBundle ox ts ts2 reg others n s = (Inr (b, True, ''bundle reloaded''), others s)"
  using assms by (simp add: reloadBundle_def Let_def loadBundleFromPayload_def split: option.split)

text \<open>The envelope that the caller put into the request is not replaced by that of the registry.\<close>

lemma caller_envelope_wins:
  assumes "valid_request request" "cx_admissionEnvelope (eq_context request) = Some env"
  shows "opa_evaluate ev opts call request s = apfst Inr (opa_decide ev (oc_now call) request s)"
  using opa_evaluate_direct [OF assms(1)] assms(2) by simp

text \<open>A rule with an effect as a word of its prefix is refused, and so is a rule without a prefix.\<close>

lemma compiler_refuses:
  "compileRegoLikeSource ''ALLOW action=READ prefix=resource/deny/'' = None"
  "compileRegoLikeSource ''ALLOW action=READ'' = None"
  by code_simp+

end
