(* ===== verification/Spec2Isabelle.thy ===== *)
theory Spec2Isabelle
  imports Registry_Listing Registry_Process Passport_Process Bff_Startup Ledger_Audit Scope_Correct Opa_Correct
begin

text \<open>
  A verification of the ARE Foundation platform: the Go services that register agents, issue passports to them,
  and serve both over REST behind a gateway, the Rust services that keep a ledger and evaluate scopes, and the
  TypeScript service that decides by policies.

  \<^bold>\<open>The parts and how they interact.\<close> A client talks to the API gateway (\<^verbatim>\<open>sx/are-api-gateway\<close>). The gateway checks
  request id, idempotency key, agent id and bearer token, and hands the request to its upstream: the HTTP proxy
  to the REST front end, or a local simulator. The front end (\<^verbatim>\<open>sx/s0s1-rest-bff\<close>) keeps responses by
  idempotency key in memory or in PostgreSQL and may delegate to two gRPC services: the agent registry
  (\<^verbatim>\<open>s0/agent-registry-service\<close>), with its PostgreSQL tables and the outbox processor that announces changes
  on Kafka, and the passport engine (\<^verbatim>\<open>s0/passport-issuance-engine\<close>), with its in-memory store. The scope evaluator
  (\<^verbatim>\<open>s1/scope-evaluator-runtime\<close>) fetches passports from the engine, caches them, and answers whether an agent may
  act on a resource. The ledger (\<^verbatim>\<open>s0/immutable-ledger\<close>) keeps a chain of hashes for each type of entry in PostgreSQL. The policy layer
  (\<^verbatim>\<open>s1/opa-integration-layer\<close>) loads bundles of rules, fetches the admission envelope of an agent from the agent registry and
  decides, with a cache of decisions.

  \<^bold>\<open>Conventions.\<close> A Go error is the left side of a sum. Strings and byte slices are lists of characters; a JSON text
  is a value of type \<open>body\<close>, either unreadable or a document of type \<open>any\<close>. Durations and instants are integers of
  nanoseconds, and a product that may overflow is reduced to 64 bits by \<open>wrap64\<close>. What is not in the
  repository is an argument: clock, random identifiers, which database statement fails, broker, policy agent,
  JWT library, credential store, files and ports. Other requests that run while an operation holds no lock or
  transaction are an argument \<open>others\<close> on the state, and the run relations let it be any run.

  \<^bold>\<open>Shared theories.\<close>
  \<^item> \<open>Prelude\<close>: sums, association lists, 64-bit integers.
  \<^item> \<open>GoStrings\<close>, \<open>GoTime\<close>, \<open>GoJson\<close>, \<open>GoGrpc\<close>: the parts of the Go library the sources use, among them
    trimming, splitting, case folding, numerals, time formats, SHA-256, JSON values and gRPC codes; \<open>GoBase64\<close>: base64 and
    its round trip; \<open>Errgroup\<close>: groups of tasks with a common context; \<open>RustStd\<close>: integers and characters of Rust strings;
    \<open>Binary64\<close>: IEEE double precision numbers as exact rationals with rounding; \<open>JsStd\<close>: white space, words, order and
    conversion to numbers of JavaScript strings, and the properties of its objects.

  \<^bold>\<open>Agent registry.\<close>
  \<^item> \<open>Registry_Domain\<close> (\<^verbatim>\<open>internal/domain\<close>), \<open>Registry_Repo\<close> (\<^verbatim>\<open>repository.go\<close>, each statement over the tables of
    the migrations), \<open>Registry_Service\<close> (\<^verbatim>\<open>service/registry.go\<close>, \<^verbatim>\<open>grpc/server.go\<close>), \<open>Registry_Outbox\<close>
    (\<^verbatim>\<open>outbox/processor.go\<close>), \<open>Registry_Config\<close> (\<^verbatim>\<open>config\<close>, \<^verbatim>\<open>health\<close>).
  \<^item> \<open>Registry_Run\<close> is the relation of all interleavings; \<open>Registry_Correct\<close> shows that the tables agree and only
    grow, and what the handlers answer; \<open>Registry_Listing\<close> what pagination returns and skips. The lemmas on
    the outbox bound the attempts and show that it drains.
  \<^item> \<open>Registry_Process\<close> (\<^verbatim>\<open>main.go\<close>, \<^verbatim>\<open>kafka/producer.go\<close>): start, and the tasks of the process as a step relation around
    the handlers and the outbox; what a failing listener does to the others.

  \<^bold>\<open>Passport engine.\<close>
  \<^item> \<open>Passport_Service\<close> (\<^verbatim>\<open>service.go\<close>, \<^verbatim>\<open>wiring.go\<close>), \<open>Passport_Grpc\<close> (\<^verbatim>\<open>grpc/server.go\<close>, \<^verbatim>\<open>config.go\<close>).
  \<^item> \<open>Passport_Run\<close>: one active passport for an agent, revocation for good, the round trip of issue, verify and
    revoke over any store of the locale \<open>credential_store\<close>, and where the code falls short.
  \<^item> \<open>Passport_Process\<close> (both \<^verbatim>\<open>main.go\<close>): the process, whose runs are runs of the service, and the probe; the started
    process never asks the registry.

  \<^bold>\<open>REST front end.\<close>
  \<^item> \<open>Bff_Repo\<close> (\<^verbatim>\<open>internal/repo\<close>) has both repositories and their contract, the locale \<open>repository\<close>; \<open>Bff_Policy\<close>,
    \<open>Bff_Delegate\<close> (\<^verbatim>\<open>internal/s0delegate\<close>), \<open>Bff_Api\<close> (\<^verbatim>\<open>internal/api\<close>).
  \<^item> \<open>Bff_Correct\<close>: idempotency over the contract and what a passport issued by the front end grants.
  \<^item> \<open>Bff_Startup\<close> (\<^verbatim>\<open>main.go\<close>, \<^verbatim>\<open>s0delegate/dial.go\<close>): start-up, migration, connections and their credentials, request
    log; what a started front end guarantees.

  \<^bold>\<open>Gateway.\<close>
  \<^item> \<open>Gateway_Routes\<close>, \<open>Gateway_Trace\<close>, \<open>Gateway_Static\<close> (\<^verbatim>\<open>upstream.go\<close>, \<^verbatim>\<open>opa_evaluate.go\<close>), \<open>Gateway_Proxy\<close>
    (\<^verbatim>\<open>s0s1_http_proxy.go\<close>), \<open>Gateway_Handle\<close> (\<^verbatim>\<open>gateway.go\<close>, \<^verbatim>\<open>auth.go\<close>, \<^verbatim>\<open>readiness.go\<close>,
    \<^verbatim>\<open>grpc_conformance.go\<close>), \<open>Gateway_Startup\<close> (\<^verbatim>\<open>main.go\<close>).
  \<^item> \<open>Gateway_Simulator\<close> has the invariant of the simulator and its idempotency with and without a concurrent
    request. The lemmas on the handler show what passes the gateway, those on start-up what can start.

  \<^bold>\<open>Ledger.\<close>
  \<^item> \<open>Ledger_Repo\<close> (\<^verbatim>\<open>crypto\<close>, \<^verbatim>\<open>repository\<close>) has both repositories as values of one record of operations. The locale
    \<open>ledger_repository\<close> says that an implementation keeps one list of entries for each type, grown at the end by
    entries that name the hash of the last; both repositories are interpretations, and the one in PostgreSQL also
    keeps keys unique (\<open>keyed_ledger\<close>).
  \<^item> \<open>Ledger_Service\<close> (\<^verbatim>\<open>service\<close>, \<^verbatim>\<open>config\<close>), \<open>Ledger_Grpc\<close> (\<^verbatim>\<open>grpc\<close>, \<^verbatim>\<open>db_permissions\<close>, \<^verbatim>\<open>main.rs\<close>).
  \<^item> \<open>Ledger_Correct\<close>: along every interleaving of writers each chain is linked and verifies, and what was written stays;
    \<open>Ledger_Audit\<close>: what verification and the hash of the last entry say about a table that somebody else changed, and
    that reading page by page visits everything once.

  \<^bold>\<open>Scope evaluator.\<close>
  \<^item> \<open>Scope_Glob\<close> (\<^verbatim>\<open>glob_match.rs\<close>): the matcher, that every answer it gives is the meaning of the pattern, and patterns for
    which its budget is enough.
  \<^item> \<open>Scope_Service\<close> (the other files) and \<open>Scope_Correct\<close>: the cache stays well formed, a grant rests on a passport that the
    engine returned within the lifetime of the cache, and what the evaluator does with revoked and missing passports.

  \<^bold>\<open>Policy layer.\<close>
  \<^item> \<open>Opa_Evaluator\<close> (\<^verbatim>\<open>evaluator.ts\<close>, \<^verbatim>\<open>types.ts\<close>): admission checks, compiler and evaluation; a decision is deny over escalate
    over allow within the envelope, and printed rules compile to themselves.
  \<^item> \<open>Opa_Service\<close> (\<^verbatim>\<open>service.ts\<close>, \<^verbatim>\<open>cache.ts\<close>, \<^verbatim>\<open>grpc-admission-envelope-client.ts\<close>, \<^verbatim>\<open>main.ts\<close>): a synchronous
    stretch of code is one function on the state \<open>opa_state\<close>; what runs while an operation awaits is an argument.
  \<^item> \<open>Opa_Correct\<close>: the relation of all interleavings and its invariant. The locale \<open>question_evaluator\<close> is what the cache relies on;
    over it a cached decision is a fresh one, and the shipped evaluator is its interpretation. An approval rests on a verified rule, the
    scopes of a registration in the agent registry bind at the policy layer, failing evaluations unload bundles, and where the
    layer falls short.

  \<^bold>\<open>The whole.\<close> \<open>Platform\<close> puts the front end behind the gateway. Its locale \<open>upstream_service\<close> is what the gateway
  relies on; simulator, front end and both together are interpretations of it. This theory has the properties
  that span components.

  \<^bold>\<open>Bounds.\<close> No definition uses fuel for a loop of the source except the retry loops of the front end's PostgreSQL
  repository and of the ledger's writer and the attempts to connect of the registry, all of which the source itself bounds by
  a number of attempts; that a working server needs no more is proved for the front end in \<open>Bff_Repo\<close>. The budget of
  the matcher is that of the source, and the matcher terminates without it. The polling loop of the outbox is a recursion over the
  events of a run.

  \<^bold>\<open>Not modelled.\<close> Listeners and TLS handshakes; the shutdown of the gateway and of the ledger; metrics collectors; parsing of
  the probe's command line; the sampling rate of traces, which is a computation with floating point numbers;
  generated protocol code; the command line tools. The order by locale in which the policy layer lists its bundles is an argument, and
  its cache lifetimes are whole seconds.
\<close>

section \<open>Properties that span components\<close>

text \<open>
  C5: Only admitted writes reach the platform. When a request to a gateway that started in live mode changes
  anything behind it, the request passed every check of the gateway, it is a \<^verbatim>\<open>POST\<close> that the front end routes
  to registration or to issuance, and the local simulator is as before.
\<close>

theorem live_gateway_guards_platform:
  assumes "gw_run dev h env gwcfg = Inr su" "su_mode su = UpstreamModeLive"
    and "snd (gw_handle e (system_upstream env su api others unrouted se) r (s, t)) \<noteq> (s, t)"
  shows "snd (snd (gw_handle e (system_upstream env su api others unrouted se) r (s, t))) = t \<and>
    (\<exists>identity base client. admitted e r identity \<and> gq_Method r = ''POST'' \<and> su_proxy su = Some (base, client) \<and>
       bff_route (gq_Method r) (TrimSuffix (bu_Path base) ''/'' @ gq_Path r)
         \<in> {Some RegisterAgentEndpoint, Some IssuePassportEndpoint})"
proof -
  obtain base client where proxy: "su_proxy su = Some (base, client)"
    using startup_proxyD [OF gw_runD(2) [OF assms(1)] startup_guardsD(3) [OF gw_runD(1) [OF assms(1)] assms(2)]] by force
  let ?writes = "\<lambda>ep. bff_route (gq_Method r) (TrimSuffix (bu_Path base) ''/'' @ gq_Path r) = Some ep"
  let ?P = "\<lambda>st. snd st = t \<and> (fst st \<noteq> s \<longrightarrow> (\<exists>identity. admitted e r identity) \<and>
      (?writes RegisterAgentEndpoint \<or> ?writes IssuePassportEndpoint))"
  have "?P (snd (gw_handle e (system_upstream env su api others unrouted se) r (s, t)))"
  proof (rule gw_handle_state [where P = ?P])
    fix identity b
    assume ok: "admitted e r identity"
    let ?Q = "\<lambda>u. u \<noteq> s \<longrightarrow> ?writes RegisterAgentEndpoint \<or> ?writes IssuePassportEndpoint"
    have "?Q (snd (platform_upstream api others unrouted base (upstream_request e r identity b) s))"
      by (rule platform_upstream_state [where P = ?Q])
        (simp, metis only_writers_write upstream_request_sel(1,2))
    with ok show "?P (snd (system_upstream env su api others unrouted se (upstream_request e r identity b) (s, t)))"
      unfolding system_upstream_eq [OF proxy] started_upstream_eq
      by (auto simp: proxy assms(2) on_fst_def upstreamUnavailable503_def split_beta)
  qed simp
  moreover have "gq_Method r = ''POST''" if "?writes RegisterAgentEndpoint \<or> ?writes IssuePassportEndpoint"
    using that by (auto simp: bff_route_def Let_def split: if_splits)
  ultimately show ?thesis using assms(3) proxy by (auto simp: prod_eq_iff)
qed

lemma ex_started:
  obtains su base client where "gw_run False ex_host ex_environ (loadConfig ex_environ) = Inr su"
    "su_mode su = UpstreamModeLive" "su_proxy su = Some (base, client)" "TrimSuffix (bu_Path base) ''/'' = []"
proof -
  have "case gw_run False ex_host ex_environ (loadConfig ex_environ) of Inl _ \<Rightarrow> False
    | Inr su \<Rightarrow> su_mode su = UpstreamModeLive \<and>
        (case su_proxy su of None \<Rightarrow> False | Some p \<Rightarrow> TrimSuffix (bu_Path (fst p)) ''/'' = [])"
    by code_simp
  with that show ?thesis by (auto split: sum.splits option.splits)
qed

definition ex_gw_body :: body where
  "ex_gw_body = Doc (AObj [(''agent_type'', AStr ''SYSTEM''), (''owner_id'', AStr ''ann'')])"

lemma ex_gw_request_sel:
  "gq_Method (ex_gw_request t) = ''POST''" "gq_Path (ex_gw_request t) = ''/v1/identity/agents''"
  "gq_RequestID (ex_gw_request t) = ''r1''" "gq_IdempotencyKey (ex_gw_request t) = ''k1''"
  "gq_Body (ex_gw_request t) = Some ex_gw_body"
  by (simp_all add: ex_gw_request_def ex_gw_body_def)

lemma ex_admitted: "admitted ex_gw_env (ex_gw_request ''good'') ''alice''"
  by code_simp

definition ex_registered :: "http_response \<times> bff_db" where
  "ex_registered = bff_handle ex_bff (\<lambda>s. s) RegisterAgentEndpoint
     \<lparr>hq_RequestID = ''r1'', hq_IdempotencyKey = ''k1'', hq_Path = ''/v1/identity/agents'', hq_Body = ex_gw_body\<rparr> empty_bff_db"

lemma ex_registered_values:
  "hs_Status (fst ex_registered) = 201"
  "hs_Body (fst ex_registered) = Marshal (agent_body ''agt-k1'' ''SYSTEM'' ''ann'' ''ACTIVE'')"
  "rp_GetRegisterIdem (cf_Repo ex_bff) (register_key ''k1'') (snd ex_registered) \<noteq>
     rp_GetRegisterIdem (cf_Repo ex_bff) (register_key ''k1'') empty_bff_db"
  by code_simp+

lemma ex_gateway_registers:
  assumes "su_proxy su = Some (base, client)" "TrimSuffix (bu_Path base) ''/'' = []"
  shows "gw_handle ex_gw_env (system_upstream env su ex_bff (\<lambda>s. s) unrouted se) (ex_gw_request ''good'') (empty_bff_db, t) =
    ((\<lparr>gr_Status = hs_Status (fst ex_registered), gr_Body = JsonBody (hs_Body (fst ex_registered))\<rparr>, ''alice'', None),
     (snd ex_registered, t))"
  using gateway_registers [OF assms ex_admitted ex_gw_request_sel(5,1,2), of env ex_bff "\<lambda>s. s" unrouted se "(empty_bff_db, t)"]
  unfolding ex_gw_request_sel by (simp add: ex_registered_def [symmetric] split_beta)

theorem live_gateway_guards_platform_witness:
  "\<exists>su base client identity. gw_run False ex_host ex_environ (loadConfig ex_environ) = Inr su \<and>
     su_proxy su = Some (base, client) \<and> admitted ex_gw_env (ex_gw_request ''good'') identity \<and>
     bff_route ''POST'' (TrimSuffix (bu_Path base) ''/'' @ ''/v1/identity/agents'')
       \<in> {Some RegisterAgentEndpoint, Some IssuePassportEndpoint}"
proof -
  obtain su base client where su: "gw_run False ex_host ex_environ (loadConfig ex_environ) = Inr su"
    "su_mode su = UpstreamModeLive" "su_proxy su = Some (base, client)" "TrimSuffix (bu_Path base) ''/'' = []"
    by (rule ex_started)
  have "snd ex_registered \<noteq> empty_bff_db" using ex_registered_values(3) by metis
  then have "snd (gw_handle ex_gw_env (system_upstream ex_environ su ex_bff (\<lambda>s. s) (\<lambda>out. \<lparr>hs_Status = 404, hs_Body = NotJSON\<rparr>)
      ex_static) (ex_gw_request ''good'') (empty_bff_db, static_init)) \<noteq> (empty_bff_db, static_init)"
    unfolding ex_gateway_registers [OF su(3,4)] by simp
  from live_gateway_guards_platform [OF su(1,2) this] su(1) show ?thesis
    unfolding ex_gw_request_sel by blast
qed



text \<open>
  The gateway and the front end decide alike. With a policy agent they ask it the same question and read the
  answer in the same way; without one their built-in policies have the same effect, though not always the
  same reason; and they match resource patterns alike.
\<close>

theorem gateway_and_bff_decide_alike:
  assumes "\<not> Contains (ToLower resource) ''timeout''"
  shows "(SetOPA base \<noteq> [] \<longrightarrow> evaluatePolicyOPA http (SetOPA base) decisionID agentID actionClass resource =
      OPAClient_Evaluate http base decisionID agentID actionClass resource) \<and>
    (\<exists>reason. Stub_Evaluate decisionID agentID actionClass resource = Inr (fst (demo_policy actionClass), reason)) \<and>
    (Stub_Evaluate decisionID agentID actionClass resource = Inr (demo_policy actionClass) \<longleftrightarrow>
      actionClass \<noteq> ''demo.read'' \<and> actionClass \<noteq> ''demo.forbidden_action'' \<and> \<not> Contains (ToUpper actionClass) ''DENY'') \<and>
    resourceMatches pattern resource = resourcePatternMatches pattern resource"
proof -
  have "\<not> Contains (ToUpper ''demo.read'') ''DENY''" by code_simp
  with assms show ?thesis
    by (auto simp: SetOPA_def evaluatePolicyOPA_def OPAClient_Evaluate_def Let_def Stub_Evaluate_def demo_policy_def
        resourceMatches_def resourcePatternMatches_def)
qed

theorem gateway_and_bff_decide_alike_witness:
  "Stub_Evaluate ''d'' ''a'' ''demo.read'' ''doc/7'' \<noteq> Inr (demo_policy ''demo.read'') \<and>
   (\<exists>reason. Stub_Evaluate ''d'' ''a'' ''demo.read'' ''doc/7'' = Inr (fst (demo_policy ''demo.read''), reason)) \<and>
   resourceMatches ''doc/*'' ''doc/7'' = resourcePatternMatches ''doc/*'' ''doc/7''"
proof -
  have "\<not> Contains (ToLower ''doc/7'') ''timeout''" by code_simp
  from gateway_and_bff_decide_alike [OF this, of "[]" "\<lambda>u b. OpaError []" "''d''" "''a''" "''demo.read''" "''doc/*''"]
  show ?thesis by blast
qed

end
